(* ===== verification/Ota_Prelude.thy ===== *)
theory Ota_Prelude
  imports Complex_Main "HOL-Library.AList" "HOL-Library.Sublist" "HOL-Library.List_Lexorder"
    "HOL-Library.Char_ord"
begin

text \<open>
  The vocabulary every component of the OTA model shares.

  \<^item> A Python \<open>dict\<close> iterates in insertion order: it is an association list with the
    library's \<open>AList.update\<close> (overwrite in place, or append) and \<open>AList.delete\<close>.
  \<^item> A JSON payload (\<open>dict[str, Any]\<close>) is such a list over the \<open>json\<close> tree.
  \<^item> An operation that may raise returns \<open>'e + 'a\<close>, the exception on the left. An operation on
    mutable state returns the state on both sides, because an exception does not undo the writes
    made before it.
  \<^item> Texts are lists of characters; the string methods are those of Python on ASCII text.
  \<^item> The locales \<open>write_store\<close> and \<open>keyed_store\<close> are the contract of every registry of the
    program (a dict the code writes by key); their client lemmas are proved once and reused by each
    component.
\<close>

section \<open>Collections of hints\<close>

named_theorems dict_simps \<open>lookups and key lists of dictionaries\<close>
named_theorems py_simps \<open>string and JSON helpers\<close>

section \<open>Dictionaries\<close>

type_synonym ('k, 'v) dict = "('k \<times> 'v) list"

abbreviation dict_get :: "('k, 'v) dict \<Rightarrow> 'k \<Rightarrow> 'v option" where
  "dict_get d k \<equiv> map_of d k"

abbreviation dict_set :: "'k \<Rightarrow> 'v \<Rightarrow> ('k, 'v) dict \<Rightarrow> ('k, 'v) dict" where
  "dict_set \<equiv> AList.update"

abbreviation dict_pop :: "'k \<Rightarrow> ('k, 'v) dict \<Rightarrow> ('k, 'v) dict" where
  "dict_pop \<equiv> AList.delete"

abbreviation dict_keys :: "('k, 'v) dict \<Rightarrow> 'k list" where
  "dict_keys d \<equiv> map fst d"

abbreviation dict_values :: "('k, 'v) dict \<Rightarrow> 'v list" where
  "dict_values d \<equiv> map snd d"

abbreviation dict_has :: "('k, 'v) dict \<Rightarrow> 'k \<Rightarrow> bool" where
  "dict_has d k \<equiv> map_of d k \<noteq> None"

text \<open>\<open>d.get(k, default)\<close>, \<open>d.update(e)\<close> and the dict comprehension over a list of items.\<close>

definition dict_get_or :: "('k, 'v) dict \<Rightarrow> 'k \<Rightarrow> 'v \<Rightarrow> 'v" where
  "dict_get_or d k v = (case dict_get d k of None \<Rightarrow> v | Some w \<Rightarrow> w)"

primrec dict_merge :: "('k, 'v) dict \<Rightarrow> ('k, 'v) dict \<Rightarrow> ('k, 'v) dict" where
  "dict_merge d [] = d"
| "dict_merge d (p # ps) = dict_merge (dict_set (fst p) (snd p) d) ps"

definition dict_of :: "('k \<times> 'v) list \<Rightarrow> ('k, 'v) dict" where
  "dict_of items = dict_merge [] items"

definition wf_dict :: "('k, 'v) dict \<Rightarrow> bool" where
  "wf_dict d \<longleftrightarrow> distinct (dict_keys d)"

lemma dict_get_set [dict_simps]:
  "dict_get (dict_set k v d) k' = (if k = k' then Some v else dict_get d k')"
  by (simp add: update_conv')

lemma dict_get_pop [dict_simps]:
  "dict_get (dict_pop k d) k' = (if k = k' then None else dict_get d k')"
  by (simp add: delete_conv')

lemma wf_dict_Nil [simp]: "wf_dict []"
  by (simp add: wf_dict_def)

lemma wf_dict_set [simp, intro]: "wf_dict d \<Longrightarrow> wf_dict (dict_set k v d)"
  by (simp add: wf_dict_def distinct_update)

lemma wf_dict_pop [simp, intro]: "wf_dict d \<Longrightarrow> wf_dict (dict_pop k d)"
  by (simp add: wf_dict_def distinct_delete)

lemma wf_dict_merge [simp, intro]: "wf_dict d \<Longrightarrow> wf_dict (dict_merge d e)"
  by (induction e arbitrary: d) auto

lemma wf_dict_of [simp]: "wf_dict (dict_of items)"
  by (simp add: dict_of_def)

lemma dict_get_merge [dict_simps]:
  "dict_get (dict_merge d e) k = (case map_of (rev e) k of None \<Rightarrow> dict_get d k | Some v \<Rightarrow> Some v)"
proof (induction e arbitrary: d)
  case Nil
  then show ?case by simp
next
  case (Cons p e)
  then show ?case
    by (cases p) (auto simp: dict_simps map_add_def split: option.splits)
qed

lemma dict_get_of [dict_simps]: "dict_get (dict_of items) k = map_of (rev items) k"
  by (simp add: dict_of_def dict_simps split: option.splits)

lemma dict_get_of_distinct:
  assumes "distinct (map fst items)" "(k, v) \<in> set items"
  shows "dict_get (dict_of items) k = Some v"
proof -
  have "distinct (map fst (rev items))" using assms(1) by (simp add: rev_map [symmetric])
  then show ?thesis using assms(2) by (simp add: dict_get_of)
qed

lemma dict_get_value: "wf_dict d \<Longrightarrow> dict_get d k = Some v \<longleftrightarrow> (k, v) \<in> set d"
  by (simp add: wf_dict_def)

lemma dict_set_new: "dict_get d k = None \<Longrightarrow> dict_set k v d = d @ [(k, v)]"
  by (induction d) (auto split: if_splits)

section \<open>The contract of a registry\<close>

text \<open>
  What the rest of the program relies on when a component keeps a dict: a write is seen by the
  next read of that key and by no other, a removal hides the key and no other, and the invariant
  survives both.
\<close>

locale write_store =
  fixes look :: "'m \<Rightarrow> 'k \<Rightarrow> 'v option"
    and put :: "'k \<Rightarrow> 'v \<Rightarrow> 'm \<Rightarrow> 'm"
    and ok :: "'m \<Rightarrow> bool"
  assumes look_put: "ok m \<Longrightarrow> look (put k v m) k' = (if k = k' then Some v else look m k')"
    and ok_put: "ok m \<Longrightarrow> ok (put k v m)"
begin

lemma look_put_other: "ok m \<Longrightarrow> k \<noteq> k' \<Longrightarrow> look (put k v m) k' = look m k'"
  by (simp add: look_put)

lemma look_put_same: "ok m \<Longrightarrow> look (put k v m) k = Some v"
  by (simp add: look_put)

lemma look_put_put: "ok m \<Longrightarrow> look (put k v (put k w m)) k' = look (put k v m) k'"
  by (simp add: look_put ok_put)

lemma look_put_swap:
  "ok m \<Longrightarrow> k \<noteq> j \<Longrightarrow> look (put k v (put j w m)) x = look (put j w (put k v m)) x"
  by (auto simp: look_put ok_put)

end

datatype ('k, 'v) store_op = Put 'k 'v | Drop 'k

locale keyed_store = write_store look put ok
  for look :: "'m \<Rightarrow> 'k \<Rightarrow> 'v option"
    and put :: "'k \<Rightarrow> 'v \<Rightarrow> 'm \<Rightarrow> 'm"
    and ok :: "'m \<Rightarrow> bool" +
  fixes drop_key :: "'k \<Rightarrow> 'm \<Rightarrow> 'm"
  assumes look_drop: "ok m \<Longrightarrow> look (drop_key k m) k' = (if k = k' then None else look m k')"
    and ok_drop: "ok m \<Longrightarrow> ok (drop_key k m)"
begin

primrec apply_op :: "('k, 'v) store_op \<Rightarrow> 'm \<Rightarrow> 'm" where
  "apply_op (Put k v) m = put k v m"
| "apply_op (Drop k) m = drop_key k m"

primrec op_key :: "('k, 'v) store_op \<Rightarrow> 'k" where
  "op_key (Put k v) = k"
| "op_key (Drop k) = k"

primrec op_value :: "('k, 'v) store_op \<Rightarrow> 'v option" where
  "op_value (Put k v) = Some v"
| "op_value (Drop k) = None"

definition run_ops :: "('k, 'v) store_op list \<Rightarrow> 'm \<Rightarrow> 'm" where
  "run_ops ops m = fold apply_op ops m"

lemma ok_apply: "ok m \<Longrightarrow> ok (apply_op opn m)"
  by (cases opn) (simp_all add: ok_put ok_drop)

lemma ok_run: "ok m \<Longrightarrow> ok (run_ops ops m)"
  unfolding run_ops_def by (induction ops arbitrary: m) (simp_all add: ok_apply)

lemma look_apply: "ok m \<Longrightarrow> look (apply_op opn m) k = (if op_key opn = k then op_value opn else look m k)"
  by (cases opn) (simp_all add: look_put look_drop)

text \<open>After any history of writes a read returns the last write to its key.\<close>

lemma look_run:
  assumes "ok m"
  shows "look (run_ops ops m) k =
    (case find (\<lambda>opn. op_key opn = k) (rev ops) of None \<Rightarrow> look m k | Some opn \<Rightarrow> op_value opn)"
proof (induction ops rule: rev_induct)
  case Nil
  then show ?case by (simp add: run_ops_def)
next
  case (snoc opn ops)
  have "ok (run_ops ops m)" by (rule ok_run [OF assms])
  moreover have "run_ops (ops @ [opn]) m = apply_op opn (run_ops ops m)"
    by (simp add: run_ops_def)
  ultimately show ?case using snoc.IH by (simp add: look_apply)
qed

lemma look_drop_same: "ok m \<Longrightarrow> look (drop_key k m) k = None"
  by (simp add: look_drop)

end

interpretation py_dict: keyed_store "map_of :: ('k, 'v) dict \<Rightarrow> 'k \<Rightarrow> 'v option" AList.update wf_dict AList.delete
  by unfold_locales (simp_all add: dict_simps wf_dict_set wf_dict_pop)

section \<open>JSON values\<close>

text \<open>\<open>JNum c e\<close> is the float whose shortest decimal is \<open>c\<close> times ten to the \<open>e\<close>.\<close>

datatype json =
    JNull
  | JBool bool
  | JInt int
  | JNum int int
  | JStr string
  | JArr "json list"
  | JObj "(string \<times> json) list"

type_synonym payload = "(string, json) dict"

text \<open>The truth value of a JSON value, negated, and the name of its Python type.\<close>

definition falsy :: "json \<Rightarrow> bool" where
  "falsy j = (case j of JNull \<Rightarrow> True | JBool b \<Rightarrow> \<not> b | JInt i \<Rightarrow> i = 0 | JNum c e \<Rightarrow> c = 0
     | JStr t \<Rightarrow> t = [] | JArr xs \<Rightarrow> xs = [] | JObj d \<Rightarrow> d = [])"

definition json_type_name :: "json \<Rightarrow> string" where
  "json_type_name j = (case j of JNull \<Rightarrow> ''NoneType'' | JBool b \<Rightarrow> ''bool'' | JInt i \<Rightarrow> ''int'' | JNum c e \<Rightarrow> ''float''
     | JStr t \<Rightarrow> ''str'' | JArr xs \<Rightarrow> ''list'' | JObj d \<Rightarrow> ''dict'')"

definition JOpt :: "string option \<Rightarrow> json" where
  "JOpt s = (case s of None \<Rightarrow> JNull | Some t \<Rightarrow> JStr t)"

definition JStrs :: "string list \<Rightarrow> json" where
  "JStrs xs = JArr (map JStr xs)"

lemma JOpt_simps [simp]: "JOpt None = JNull" "JOpt (Some t) = JStr t"
  by (simp_all add: JOpt_def)

section \<open>Exceptions over a mutable state\<close>

text \<open>
  \<open>try_bind m f\<close> runs \<open>m\<close>; an exception skips \<open>f\<close> and keeps the state \<open>m\<close> left behind.
\<close>

type_synonym ('s, 'e, 'a) py = "'s \<Rightarrow> ('e + 'a) \<times> 's"

definition try_bind :: "('s, 'e, 'a) py \<Rightarrow> ('a \<Rightarrow> ('s, 'e, 'b) py) \<Rightarrow> ('s, 'e, 'b) py" where
  "try_bind m f s = (case m s of (Inl e, t) \<Rightarrow> (Inl e, t) | (Inr a, t) \<Rightarrow> f a t)"

definition py_return :: "'a \<Rightarrow> ('s, 'e, 'a) py" where
  "py_return a s = (Inr a, s)"

definition py_raise :: "'e \<Rightarrow> ('s, 'e, 'a) py" where
  "py_raise e s = (Inl e, s)"

lemma try_bind_Inl: "m s = (Inl e, t) \<Longrightarrow> try_bind m f s = (Inl e, t)"
  by (simp add: try_bind_def)

lemma try_bind_Inr: "m s = (Inr a, t) \<Longrightarrow> try_bind m f s = f a t"
  by (simp add: try_bind_def)

lemma try_bind_eq_Inr:
  "try_bind m f s = (Inr b, u) \<longleftrightarrow> (\<exists>a t. m s = (Inr a, t) \<and> f a t = (Inr b, u))"
  by (auto simp: try_bind_def split: prod.splits sum.splits)

section \<open>String methods\<close>

definition startswith :: "string \<Rightarrow> string \<Rightarrow> bool" where
  "startswith s p \<longleftrightarrow> take (length p) s = p"

definition contains_str :: "string \<Rightarrow> string \<Rightarrow> bool" where
  "contains_str hay needle \<longleftrightarrow> (\<exists>i \<in> set [0..<Suc (length hay)]. startswith (drop i hay) needle)"

definition is_ascii_upper :: "char \<Rightarrow> bool" where
  "is_ascii_upper c \<longleftrightarrow> CHR ''A'' \<le> c \<and> c \<le> CHR ''Z''"

definition char_lower :: "char \<Rightarrow> char" where
  "char_lower c = (if is_ascii_upper c then char_of ((of_char c :: nat) + 32) else c)"

definition lower :: "string \<Rightarrow> string" where
  "lower s = map char_lower s"

text \<open>The white space \<open>str.split()\<close> and \<open>str.strip()\<close> use on ASCII: tab to carriage return,
  the separators 28 to 31, and the space.\<close>

definition is_space :: "char \<Rightarrow> bool" where
  "is_space c \<longleftrightarrow> (let n = (of_char c :: nat) in (9 \<le> n \<and> n \<le> 13) \<or> (28 \<le> n \<and> n \<le> 32))"

definition strip :: "string \<Rightarrow> string" where
  "strip s = rev (dropWhile is_space (rev (dropWhile is_space s)))"

fun split_ws_aux :: "string \<Rightarrow> string \<Rightarrow> string list" where
  "split_ws_aux acc [] = (if acc = [] then [] else [rev acc])"
| "split_ws_aux acc (c # cs) =
     (if is_space c then (if acc = [] then split_ws_aux [] cs else rev acc # split_ws_aux [] cs)
      else split_ws_aux (c # acc) cs)"

definition split_ws :: "string \<Rightarrow> string list" where
  "split_ws s = split_ws_aux [] s"

fun join :: "string \<Rightarrow> string list \<Rightarrow> string" where
  "join sep [] = []"
| "join sep [x] = x"
| "join sep (x # y # ys) = x @ sep @ join sep (y # ys)"

text \<open>\<open>s.split(c)\<close> and \<open>s.partition(c)\<close> for a one-character separator.\<close>

fun split_on :: "char \<Rightarrow> string \<Rightarrow> string list" where
  "split_on c [] = [[]]"
| "split_on c (x # xs) =
     (if x = c then [] # split_on c xs
      else (case split_on c xs of [] \<Rightarrow> [[x]] | p # ps \<Rightarrow> (x # p) # ps))"

definition part_before :: "char \<Rightarrow> string \<Rightarrow> string" where
  "part_before c s = takeWhile (\<lambda>x. x \<noteq> c) s"

definition part_after :: "char \<Rightarrow> string \<Rightarrow> string" where
  "part_after c s = drop 1 (dropWhile (\<lambda>x. x \<noteq> c) s)"

lemma startswith_append [py_simps]: "startswith (p @ s) p"
  by (simp add: startswith_def)

lemma startswith_iff: "startswith s p \<longleftrightarrow> (\<exists>t. s = p @ t)"
  unfolding startswith_def by (metis append_eq_conv_conj append_take_drop_id)

lemma split_on_nonempty [simp]: "split_on c s \<noteq> []"
  by (cases s) (auto split: list.splits)

lemma lower_idem [py_simps]: "lower (lower s) = lower s"
proof -
  have "char_lower (char_lower x) = char_lower x" for x
  proof (cases "is_ascii_upper x")
    case True
    then have b: "65 \<le> (of_char x :: nat)" "(of_char x :: nat) \<le> 90"
      by (simp_all add: is_ascii_upper_def less_eq_char_def)
    then have "(of_char (char_of ((of_char x :: nat) + 32) :: char) :: nat) = of_char x + 32"
      by (simp add: take_bit_eq_mod)
    with b have "\<not> is_ascii_upper (char_of ((of_char x :: nat) + 32))"
      by (simp add: is_ascii_upper_def less_eq_char_def)
    with True show ?thesis by (simp add: char_lower_def)
  next
    case False
    then show ?thesis by (simp add: char_lower_def)
  qed
  then show ?thesis by (simp add: lower_def)
qed

lemma length_lower [simp]: "length (lower s) = length s"
  by (simp add: lower_def)

section \<open>Lists\<close>

text \<open>Updating every element that satisfies a predicate: SQL's \<open>UPDATE ... WHERE\<close>.\<close>

definition update_where :: "('a \<Rightarrow> bool) \<Rightarrow> ('a \<Rightarrow> 'a) \<Rightarrow> 'a list \<Rightarrow> 'a list" where
  "update_where p f xs = map (\<lambda>x. if p x then f x else x) xs"

lemma length_update_where [simp]: "length (update_where p f xs) = length xs"
  by (simp add: update_where_def)

lemma find_update_where_other:
  assumes "\<And>x. p x \<Longrightarrow> \<not> q x" and "\<And>x. p x \<Longrightarrow> \<not> q (f x)"
  shows "find q (update_where p f xs) = find q xs"
  using assms by (induction xs) (auto simp: update_where_def)

lemma find_update_where_same:
  assumes "\<And>x. q (f x) = q x" "find q xs = Some y" "p y"
  shows "find q (update_where p f xs) = Some (f y)"
  using assms(2) by (induction xs) (auto simp: update_where_def assms(1,3) split: if_splits)

lemma map_update_where:
  assumes "\<And>x. g (f x) = g x"
  shows "map g (update_where p f xs) = map g xs"
  using assms by (simp add: update_where_def)

lemma find_Some_iff_distinct:
  assumes "distinct (map key xs)"
  shows "find (\<lambda>x. key x = k) xs = Some y \<longleftrightarrow> y \<in> set xs \<and> key y = k"
  using assms by (induction xs) (auto simp: image_iff)

lemma find_SomeD: "find p xs = Some y \<Longrightarrow> y \<in> set xs \<and> p y"
  by (induction xs) (auto split: if_splits)

lemma find_append [simp]:
  "find p (xs @ ys) = (case find p xs of None \<Rightarrow> find p ys | Some x \<Rightarrow> Some x)"
  by (induction xs) auto

lemma update_where_cong:
  "(\<And>x. x \<in> set xs \<Longrightarrow> p x = q x) \<Longrightarrow> update_where p f xs = update_where q f xs"
  by (simp add: update_where_def)

lemma sort_key_filter_eq: "filter p (sort_key k xs) = sort_key k (filter p xs)"
  by (rule filter_sort)

end
