(* ===== verification/Py_Regex.thy ===== *)
theory Py_Regex
  imports Ota_Prelude
begin

text \<open>
  The regular expressions the contracts use, as data, with a matcher.  The source matches with
  \<open>re.compile(r"^...$").match\<close>: anchored on both sides, so a match is membership of the whole
  text in the language of the expression, except that Python's \<open>$\<close> also accepts one final
  newline.  \<open>re_matches\<close> decides membership by derivatives and is proved equal to the language.
\<close>

datatype regex =
    RNone
  | REps
  | RSet "char \<Rightarrow> bool"
  | RSeq regex regex
  | RAlt regex regex
  | RStar regex

inductive in_lang :: "regex \<Rightarrow> string \<Rightarrow> bool" where
  lang_eps: "in_lang REps []"
| lang_set: "P c \<Longrightarrow> in_lang (RSet P) [c]"
| lang_seq: "in_lang r s \<Longrightarrow> in_lang q t \<Longrightarrow> in_lang (RSeq r q) (s @ t)"
| lang_altl: "in_lang r s \<Longrightarrow> in_lang (RAlt r q) s"
| lang_altr: "in_lang q s \<Longrightarrow> in_lang (RAlt r q) s"
| lang_star0: "in_lang (RStar r) []"
| lang_star1: "in_lang r (c # s) \<Longrightarrow> in_lang (RStar r) t \<Longrightarrow> in_lang (RStar r) (c # s @ t)"

inductive_simps in_lang_simps:
  "in_lang RNone s" "in_lang REps s" "in_lang (RSet P) s" "in_lang (RSeq r q) s" "in_lang (RAlt r q) s"

inductive_simps in_lang_star_Cons: "in_lang (RStar r) (c # s)"

primrec nullable :: "regex \<Rightarrow> bool" where
  "nullable RNone \<longleftrightarrow> False"
| "nullable REps \<longleftrightarrow> True"
| "nullable (RSet P) \<longleftrightarrow> False"
| "nullable (RSeq r q) \<longleftrightarrow> nullable r \<and> nullable q"
| "nullable (RAlt r q) \<longleftrightarrow> nullable r \<or> nullable q"
| "nullable (RStar r) \<longleftrightarrow> True"

text \<open>Smart constructors keep the derivatives small.\<close>

fun mk_seq :: "regex \<Rightarrow> regex \<Rightarrow> regex" where
  "mk_seq RNone q = RNone"
| "mk_seq REps q = q"
| "mk_seq r q = RSeq r q"

fun mk_alt :: "regex \<Rightarrow> regex \<Rightarrow> regex" where
  "mk_alt RNone q = q"
| "mk_alt r RNone = r"
| "mk_alt r q = RAlt r q"

primrec deriv :: "char \<Rightarrow> regex \<Rightarrow> regex" where
  "deriv c RNone = RNone"
| "deriv c REps = RNone"
| "deriv c (RSet P) = (if P c then REps else RNone)"
| "deriv c (RSeq r q) =
     (if nullable r then mk_alt (mk_seq (deriv c r) q) (deriv c q) else mk_seq (deriv c r) q)"
| "deriv c (RAlt r q) = mk_alt (deriv c r) (deriv c q)"
| "deriv c (RStar r) = mk_seq (deriv c r) (RStar r)"

primrec re_matches :: "regex \<Rightarrow> string \<Rightarrow> bool" where
  "re_matches r [] \<longleftrightarrow> nullable r"
| "re_matches r (c # s) \<longleftrightarrow> re_matches (deriv c r) s"

lemma nullable_iff: "nullable r \<longleftrightarrow> in_lang r []"
  by (induction r) (auto simp: in_lang_simps intro: in_lang.intros)

lemma in_lang_mk_seq [simp]: "in_lang (mk_seq r q) s \<longleftrightarrow> in_lang (RSeq r q) s"
  by (cases r) (auto simp: in_lang_simps)

lemma in_lang_mk_alt [simp]: "in_lang (mk_alt r q) s \<longleftrightarrow> in_lang (RAlt r q) s"
  by (cases r; cases q) (auto simp: in_lang_simps)

lemma in_lang_deriv: "in_lang (deriv c r) s \<longleftrightarrow> in_lang r (c # s)"
proof (induction r arbitrary: s)
  case (RSeq r q)
  have seq: "in_lang (RSeq r q) (c # s) \<longleftrightarrow>
      (\<exists>u v. s = u @ v \<and> in_lang r (c # u) \<and> in_lang q v) \<or> (in_lang r [] \<and> in_lang q (c # s))"
    by (auto simp: in_lang_simps Cons_eq_append_conv)
  show ?case
    unfolding seq using RSeq.IH by (auto simp: in_lang_simps nullable_iff)
next
  case (RStar r)
  then show ?case by (auto simp: in_lang_simps in_lang_star_Cons)
qed (auto simp: in_lang_simps)

text \<open>The matcher decides the language.\<close>

lemma re_matches_iff: "re_matches r s \<longleftrightarrow> in_lang r s"
  by (induction s arbitrary: r) (simp_all add: nullable_iff in_lang_deriv)

text \<open>\<open>re.compile("^r$").match(s)\<close>\<close>

definition re_full :: "regex \<Rightarrow> string \<Rightarrow> bool" where
  "re_full r s \<longleftrightarrow> re_matches r s \<or> (s \<noteq> [] \<and> last s = CHR 0x0A \<and> re_matches r (butlast s))"

section \<open>Building blocks of the patterns\<close>

definition in_chars :: "string \<Rightarrow> char \<Rightarrow> bool" where
  "in_chars cs c \<longleftrightarrow> c \<in> set cs"

definition char_between :: "char \<Rightarrow> char \<Rightarrow> char \<Rightarrow> bool" where
  "char_between lo hi c \<longleftrightarrow> (of_char lo :: nat) \<le> of_char c \<and> (of_char c :: nat) \<le> of_char hi"

definition is_digit :: "char \<Rightarrow> bool" where
  "is_digit c \<longleftrightarrow> char_between CHR ''0'' CHR ''9'' c"

definition is_lower_alpha :: "char \<Rightarrow> bool" where
  "is_lower_alpha c \<longleftrightarrow> char_between CHR ''a'' CHR ''z'' c"

definition is_upper_alpha :: "char \<Rightarrow> bool" where
  "is_upper_alpha c \<longleftrightarrow> char_between CHR ''A'' CHR ''Z'' c"

definition is_lower_hex :: "char \<Rightarrow> bool" where
  "is_lower_hex c \<longleftrightarrow> is_digit c \<or> char_between CHR ''a'' CHR ''f'' c"

primrec r_lit :: "string \<Rightarrow> regex" where
  "r_lit [] = REps"
| "r_lit (c # cs) = RSeq (RSet (in_chars [c])) (r_lit cs)"

definition r_plus :: "regex \<Rightarrow> regex" where
  "r_plus r = RSeq r (RStar r)"

definition r_opt :: "regex \<Rightarrow> regex" where
  "r_opt r = RAlt r REps"

primrec r_rep :: "nat \<Rightarrow> regex \<Rightarrow> regex" where
  "r_rep 0 r = REps"
| "r_rep (Suc n) r = RSeq r (r_rep n r)"

fun r_cat :: "regex list \<Rightarrow> regex" where
  "r_cat [] = REps"
| "r_cat [r] = r"
| "r_cat (r # q # rs) = RSeq r (r_cat (q # rs))"

lemma in_lang_star_set: "in_lang (RStar (RSet P)) s \<longleftrightarrow> list_all P s"
proof (induction s)
  case Nil
  then show ?case by (auto intro: in_lang.intros)
next
  case (Cons c s)
  then show ?case by (auto simp: in_lang_star_Cons in_lang_simps)
qed

lemma in_lang_set_seq: "in_lang (RSeq (RSet P) r) s \<longleftrightarrow> (\<exists>c t. s = c # t \<and> P c \<and> in_lang r t)"
proof
  assume "in_lang (RSeq (RSet P) r) s"
  then show "\<exists>c t. s = c # t \<and> P c \<and> in_lang r t" by (auto simp: in_lang_simps)
next
  assume "\<exists>c t. s = c # t \<and> P c \<and> in_lang r t"
  then obtain c t where s: "s = c # t" and c: "P c" and t: "in_lang r t" by blast
  show "in_lang (RSeq (RSet P) r) s"
    using lang_seq [OF lang_set [of P c, OF c] t] by (simp add: s)
qed

lemma in_lang_rep_set: "in_lang (r_rep n (RSet P)) s \<longleftrightarrow> length s = n \<and> list_all P s"
proof (induction n arbitrary: s)
  case 0
  then show ?case by (auto simp: in_lang_simps)
next
  case (Suc n)
  then show ?case by (cases s) (auto simp: in_lang_set_seq)
qed

lemma in_lang_plus_set: "in_lang (r_plus (RSet P)) s \<longleftrightarrow> s \<noteq> [] \<and> list_all P s"
  by (cases s) (auto simp: r_plus_def in_lang_set_seq in_lang_star_set)

lemma in_lang_lit: "in_lang (r_lit t) s \<longleftrightarrow> s = t"
proof (induction t arbitrary: s)
  case Nil
  then show ?case by (auto simp: in_lang_simps)
next
  case (Cons c t)
  then show ?case by (auto simp: in_lang_set_seq in_chars_def)
qed

lemmas lang_simps = re_full_def re_matches_iff in_lang_set_seq in_lang_simps in_lang_star_set in_lang_rep_set
  in_lang_plus_set in_lang_lit

end
