(* ===== verification/Contracts_Shared.thy ===== *)
theory Contracts_Shared
  imports Py_Regex
begin

text \<open>
  The vocabulary of \<open>ota_core/contracts/shared.py\<close>: the literal types, the table of valid
  (binding level, emergency action) pairs, the text validators and the signature record.
  A pydantic validator that raises \<open>ValueError\<close> is a boolean check here; \<open>True\<close> means the
  value is accepted.
\<close>

datatype KillStatus = KillActive | SoftKilled | HardKilled | EmergencyKilled

datatype BindingLevel = RoutineExclusive | ClientShared | IdentityBound

datatype OnEmergencyKill = BurnCredential | RevokeRoutineAccess | RevokeRoutineGrant

datatype AuthStyle = OAuth2 | ApiKey | WebhookSecret | MTLS | CustomAuth

datatype Severity = SevDebug | SevInfo | SevWarn | SevError | SevCritical

datatype CostTier = Cheap | Balanced | Premium | LocalTier

datatype Edition = Core | Enterprise

datatype DeploymentMode = LocalMode | Vps | Managed

definition VALID_BINDING_KILL_PAIRS :: "(BindingLevel \<times> OnEmergencyKill) list" where
  "VALID_BINDING_KILL_PAIRS =
     [(RoutineExclusive, BurnCredential),
      (ClientShared, RevokeRoutineAccess),
      (IdentityBound, RevokeRoutineGrant)]"

section \<open>Text validators\<close>

definition is_ident_char :: "char \<Rightarrow> bool" where
  "is_ident_char c \<longleftrightarrow> is_digit c \<or> is_upper_alpha c \<or> is_lower_alpha c \<or> c = CHR ''.'' \<or> c = CHR ''-''"

definition SEMVER_RE :: regex where
  "SEMVER_RE = r_cat
     [r_plus (RSet is_digit), r_lit ''.'', r_plus (RSet is_digit), r_lit ''.'', r_plus (RSet is_digit),
      r_opt (RSeq (r_lit ''-'') (r_plus (RSet is_ident_char))),
      r_opt (RSeq (r_lit ''+'') (r_plus (RSet is_ident_char)))]"

definition is_dns_head :: "char \<Rightarrow> bool" where
  "is_dns_head c \<longleftrightarrow> is_lower_alpha c \<or> is_digit c"

definition is_dns_char :: "char \<Rightarrow> bool" where
  "is_dns_char c \<longleftrightarrow> is_dns_head c \<or> c = CHR ''.'' \<or> c = CHR ''-''"

definition REVERSE_DNS_RE :: regex where
  "REVERSE_DNS_RE = r_cat
     [RSet is_dns_head, RStar (RSet is_dns_char), r_lit ''.'', RSet is_dns_head, RStar (RSet is_dns_char)]"

definition SHA256_RE :: regex where
  "SHA256_RE = RSeq
     (r_opt (RSeq (r_lit ''sha256'') (RSet (in_chars '':-'')))) (r_rep 64 (RSet is_lower_hex))"

definition validate_semver :: "string \<Rightarrow> bool" where
  "validate_semver v = re_full SEMVER_RE v"

definition validate_reverse_dns :: "string \<Rightarrow> bool" where
  "validate_reverse_dns v = re_full REVERSE_DNS_RE v"

definition validate_sha256 :: "string \<Rightarrow> bool" where
  "validate_sha256 v = re_full SHA256_RE v"

record Signature =
  sig_key_id :: string
  sig_value :: string
  sig_signed_fields :: "string list"

definition signature_ok :: "Signature \<Rightarrow> bool" where
  "signature_ok s \<longleftrightarrow> sig_key_id s \<noteq> [] \<and> sig_value s \<noteq> [] \<and> sig_signed_fields s \<noteq> []"

lemma valid_pair_functional:
  "(b, a) \<in> set VALID_BINDING_KILL_PAIRS \<Longrightarrow> (b, a') \<in> set VALID_BINDING_KILL_PAIRS \<Longrightarrow> a = a'"
  by (auto simp: VALID_BINDING_KILL_PAIRS_def)

lemma sha256_plain: "length v = 64 \<Longrightarrow> list_all is_lower_hex v \<Longrightarrow> validate_sha256 v"
proof -
  assume "length v = 64" "list_all is_lower_hex v"
  then have "in_lang (r_rep 64 (RSet is_lower_hex)) v" by (simp add: in_lang_rep_set)
  moreover have "in_lang (r_opt (RSeq (r_lit ''sha256'') (RSet (in_chars '':-'')))) []"
    unfolding r_opt_def by (intro lang_altr lang_eps)
  ultimately have "in_lang SHA256_RE ([] @ v)"
    unfolding SHA256_RE_def by (intro lang_seq)
  then show ?thesis by (simp add: validate_sha256_def re_full_def re_matches_iff)
qed

end
