(* ===== verification/Audit_Event.thy ===== *)
theory Audit_Event
  imports Contracts_Shared
begin

text \<open>
  The audit vocabulary: \<open>ota_core/contracts/audit_event.py\<close> and the arguments of
  \<open>AuditSink.emit\<close> (\<open>ota_core/audit/sink.py\<close>).  A component under audit keeps the list of
  its \<open>emit_call\<close>s, oldest first; the sinks of theory \<open>Audit_Sink\<close> turn such a call
  into a validated \<open>AuditEvent\<close>.  Times are instants: microseconds since 1970-01-01T00:00 UTC.
\<close>

type_synonym instant = int

datatype PrincipalType = POperator | PSystem | PUser | PService

record Principal =
  pr_id :: string
  pr_type :: PrincipalType
  pr_idp_sub :: "string option"
  pr_display_name :: "string option"

record DeploymentInfo =
  dep_id :: string
  dep_mode :: DeploymentMode
  dep_edition :: Edition
  dep_version :: string

record SourceInfo =
  src_component :: string
  src_version :: string

text \<open>The closed list of event types (a \<open>Literal\<close>).\<close>

definition EventType :: "string list" where
  "EventType =
     [''auth.login'', ''auth.logout'', ''auth.failed'', ''auth.mfa_challenge'',
      ''auth.mfa_succeeded'', ''auth.mfa_failed'', ''secret.read'', ''secret.rotated'',
      ''secret.write_attempt'', ''secret.not_found'', ''routine.loaded'',
      ''routine.load_failed'', ''routine.updated'', ''routine.rejected'',
      ''routine.run_started'', ''routine.run_completed'', ''routine.run_failed'',
      ''routine.run_timed_out'', ''routine.run_killed'', ''routine.run_terminated_incomplete'',
      ''gate.proposed'', ''gate.approved'', ''gate.rejected'', ''gate.modified_and_approved'',
      ''gate.auto_approved_by_similarity'', ''gate.expired'', ''tool_call.invoked'',
      ''tool_call.succeeded'', ''tool_call.failed'', ''tool_call.blocked_by_policy'',
      ''tool_call.budget_exceeded'', ''llm.request'', ''llm.response'', ''llm.error'',
      ''llm.rate_limited'', ''llm.budget_exceeded'', ''integration.connected'',
      ''integration.disconnected'', ''integration.auth_refreshed'', ''integration.auth_failed'',
      ''integration.call_failed'', ''integration.load_skipped'',
      ''integration.messaging.action_triggered'', ''integration.email.bounce_received'',
      ''integration.email.reply_received'', ''integration.email.delivery_confirmed'',
      ''integration.email.auto_response_received'', ''integration.gmail.message_received'',
      ''routine_source.fetched'', ''routine_source.signature_verified'',
      ''routine_source.signature_failed'', ''routine_source.update_applied'',
      ''routine_source.update_deferred'', ''routine_source.routine_killed'',
      ''policy.violation'', ''policy.egress_blocked'', ''policy.pii_leak_attempt'',
      ''policy.secret_leak_attempt'', ''policy.kill_override_attempted'',
      ''policy.credential_revoked'', ''policy.credential_revocation_failed'',
      ''policy.shared_credential_emergency_exposure'',
      ''policy.identity_credential_emergency_exposure'', ''policy.scope_escalation_attempt'',
      ''policy.budget_exceeded'', ''policy.webhook_signature_failed'', ''system.startup'',
      ''system.shutdown'', ''system.config_reloaded'', ''system.health_check_failed'',
      ''system.crash_loop_detected'', ''system.kill_lock_cleared'',
      ''system.notification_storm_summary'', ''data_subject.access_requested'',
      ''data_subject.erasure_requested'', ''data_subject.erasure_completed'',
      ''artifact.emitted'', ''artifact.claimed'', ''artifact.completed'', ''artifact.failed'',
      ''artifact.auto_expired'']"

definition TRACE_ID_PATTERN :: regex where
  "TRACE_ID_PATTERN = r_rep 32 (RSet is_lower_hex)"

record AuditEvent =
  ae_schema_version :: string
  ae_event_id :: string
  ae_timestamp :: instant
  ae_event_type :: string
  ae_severity :: Severity
  ae_trace_id :: string
  ae_routine_run_id :: "string option"
  ae_request_id :: "string option"
  ae_principal :: Principal
  ae_tenant_id :: "string option"
  ae_deployment :: DeploymentInfo
  ae_source :: SourceInfo
  ae_payload :: payload
  ae_redactions :: "string list"

definition principal_ok :: "Principal \<Rightarrow> bool" where
  "principal_ok p \<longleftrightarrow> pr_id p \<noteq> []"

definition deployment_ok :: "DeploymentInfo \<Rightarrow> bool" where
  "deployment_ok d \<longleftrightarrow> dep_id d \<noteq> [] \<and> validate_semver (dep_version d)"

definition source_ok :: "SourceInfo \<Rightarrow> bool" where
  "source_ok s \<longleftrightarrow> src_component s \<noteq> [] \<and> validate_semver (src_version s)"

text \<open>
  The checks pydantic runs when an \<open>AuditEvent\<close> is built.  The \<open>trace_id\<close> field's
  \<open>pattern\<close> is matched by pydantic's own engine, whose \<open>$\<close> is the end of the text.
\<close>

definition audit_event_ok :: "AuditEvent \<Rightarrow> bool" where
  "audit_event_ok e \<longleftrightarrow>
     validate_semver (ae_schema_version e) \<and> ae_event_id e \<noteq> [] \<and>
     ae_event_type e \<in> set EventType \<and> re_matches TRACE_ID_PATTERN (ae_trace_id e) \<and>
     principal_ok (ae_principal e) \<and> deployment_ok (ae_deployment e) \<and> source_ok (ae_source e)"

text \<open>
  The typed payload of \<open>routine.run_terminated_incomplete\<close>.  Its \<open>Literal\<close>s are datatypes; the
  checks pydantic runs are the version, and a count that is not negative.
\<close>

datatype TerminationCause =
  HardKillTimeout | EmergencyKill | FrameworkRestart | RoutineCrash | BudgetExceeded |
  GateTimeoutAfterKill

record GatePendingEntry =
  gpe_gate_id :: string
  gpe_auto_rejected :: bool
  gpe_reason :: "string option"

datatype artifact_status =
  ArtPending | ArtClaimed | ArtCompleted | ArtFailed | ArtExpired | ArtAutoExpired

record ArtifactEmittedEntry =
  aee_id :: string
  aee_status :: artifact_status
  aee_stale_artifact_ttl :: string
  aee_expires_at :: instant
  aee_consumers :: "string list"

datatype call_result = CallSucceeded | CallFailed | CallPartial

record IntegrationCallCompletedEntry =
  icc_integration :: string
  icc_operation :: string
  icc_count :: int
  icc_result :: call_result
  icc_note :: "string option"

datatype aborted_state = NeverInvoked | AbortedMidFlight

record IntegrationCallAbortedEntry =
  ica_integration :: string
  ica_operation :: string
  ica_state :: aborted_state

record RoutineRunTerminatedIncompletePayload =
  rti_cause :: TerminationCause
  rti_routine_id :: string
  rti_routine_version :: string
  rti_run_started_at :: instant
  rti_run_terminated_at :: instant
  rti_steps_completed :: "string list"
  rti_steps_in_flight :: "string list"
  rti_steps_never_started :: "string list"
  rti_gates_pending :: "GatePendingEntry list"
  rti_artifacts_emitted :: "ArtifactEmittedEntry list"
  rti_calls_completed :: "IntegrationCallCompletedEntry list"
  rti_calls_aborted :: "IntegrationCallAbortedEntry list"
  rti_cleanup_recommendations :: "string list"

definition call_completed_ok :: "IntegrationCallCompletedEntry \<Rightarrow> bool" where
  "call_completed_ok c \<longleftrightarrow> 0 \<le> icc_count c"

definition terminated_incomplete_ok :: "RoutineRunTerminatedIncompletePayload \<Rightarrow> bool" where
  "terminated_incomplete_ok p \<longleftrightarrow>
     validate_semver (rti_routine_version p) \<and> list_all call_completed_ok (rti_calls_completed p)"

text \<open>The arguments of one call of \<open>AuditSink.emit\<close>, as the components of this model make it.\<close>

record emit_call =
  em_event_type :: string
  em_severity :: Severity
  em_principal :: Principal
  em_payload :: payload
  em_routine_run_id :: "string option"
  em_request_id :: "string option"
  em_tenant_id :: "string option"

text \<open>A call that passes no \<open>request_id\<close> and no \<open>tenant_id\<close>.\<close>

definition emit_for_run ::
  "string \<Rightarrow> Severity \<Rightarrow> Principal \<Rightarrow> payload \<Rightarrow> string option \<Rightarrow> emit_call" where
  "emit_for_run etype sev prin pl run =
     \<lparr>em_event_type = etype, em_severity = sev, em_principal = prin, em_payload = pl,
      em_routine_run_id = run, em_request_id = None, em_tenant_id = None\<rparr>"

lemma emit_for_run_sel [simp]:
  "em_event_type (emit_for_run t s p pl r) = t"
  "em_severity (emit_for_run t s p pl r) = s"
  "em_principal (emit_for_run t s p pl r) = p"
  "em_payload (emit_for_run t s p pl r) = pl"
  "em_routine_run_id (emit_for_run t s p pl r) = r"
  by (simp_all add: emit_for_run_def)

text \<open>Whether an event is about the thing a payload names under a key.\<close>

definition payload_is :: "string \<Rightarrow> string \<Rightarrow> emit_call \<Rightarrow> bool" where
  "payload_is key v e \<longleftrightarrow> dict_get (em_payload e) key = Some (JStr v)"

lemma re_matches_trace: "re_matches TRACE_ID_PATTERN t \<longleftrightarrow> length t = 32 \<and> list_all is_lower_hex t"
  by (simp add: TRACE_ID_PATTERN_def re_matches_iff in_lang_rep_set)

end
