(* ===== verification/Gates.thy ===== *)
theory Gates
  imports Audit_Event
begin

text \<open>
  Human-in-the-loop gates: \<open>ota_core/policy/gates.py\<close>.

  The table \<open>gates\<close> is the list of its rows in insertion order; \<open>GateStore\<close>'s methods are
  functions on that list and \<open>GateManager\<close>'s methods are functions on the record
  \<open>gate_manager\<close> (the rows, the calls made to the audit sink, the registered similarity
  functions).  A fresh \<open>uuid4\<close> and every reading of the clock are arguments.  The columns holding
  JSON text hold the JSON tree here, and the ISO texts of the time columns hold the instant: the
  code writes UTC times only, in one fixed format, whose texts sort as the times do.
\<close>

section \<open>Data\<close>

datatype GateStatus = Pending | Approved | Rejected | ModifiedAndApproved | AutoApproved | Expired

datatype ApprovalMode = Approve | ApproveAndRemember | TuneAndApprove

primrec status_text :: "GateStatus \<Rightarrow> string" where
  "status_text Pending = ''pending''"
| "status_text Approved = ''approved''"
| "status_text Rejected = ''rejected''"
| "status_text ModifiedAndApproved = ''modified_and_approved''"
| "status_text AutoApproved = ''auto_approved''"
| "status_text Expired = ''expired''"

primrec mode_text :: "ApprovalMode \<Rightarrow> string" where
  "mode_text Approve = ''approve''"
| "mode_text ApproveAndRemember = ''approve_and_remember''"
| "mode_text TuneAndApprove = ''tune_and_approve''"

record gate_row =
  row_id :: string
  row_routine_id :: string
  row_routine_run_id :: string
  row_gate_id :: string
  row_status :: GateStatus
  row_proposal_json :: payload
  row_result_json :: "payload option"
  row_similarity_key :: "string option"
  row_approval_mode :: "ApprovalMode option"
  row_expires_at :: "instant option"
  row_created_at :: instant
  row_decided_at :: "instant option"

record GateProposal =
  gp_routine_id :: string
  gp_routine_run_id :: string
  gp_gate_id :: string
  gp_approval_modes :: "ApprovalMode list"
  gp_kind :: "string option"
  gp_summary :: string
  gp_payload :: payload
  gp_similarity_key :: "string option"
  gp_expires_after_seconds :: "int option"

record GateInstance =
  gi_id :: string
  gi_routine_id :: string
  gi_routine_run_id :: string
  gi_gate_id :: string
  gi_status :: GateStatus
  gi_proposal :: payload
  gi_result :: "payload option"
  gi_similarity_key :: "string option"
  gi_approval_mode :: "ApprovalMode option"
  gi_expires_at :: "instant option"
  gi_created_at :: instant
  gi_decided_at :: "instant option"
  gi_summary :: string
  gi_kind :: "string option"

record GateDecision =
  gd_status :: GateStatus
  gd_result_payload :: "payload option"
  gd_reason :: "string option"

datatype gate_error =
    GateNotFoundError string
  | GateAlreadyDecidedError string GateStatus
  | GateError string
  | IntegrityError string

section \<open>GateStore\<close>

definition row_to_instance :: "gate_row \<Rightarrow> GateInstance" where
  "row_to_instance row =
     \<lparr>gi_id = row_id row,
      gi_routine_id = row_routine_id row,
      gi_routine_run_id = row_routine_run_id row,
      gi_gate_id = row_gate_id row,
      gi_status = row_status row,
      gi_proposal = row_proposal_json row,
      gi_result = row_result_json row,
      gi_similarity_key = row_similarity_key row,
      gi_approval_mode = row_approval_mode row,
      gi_expires_at = row_expires_at row,
      gi_created_at = row_created_at row,
      gi_decided_at = row_decided_at row,
      gi_summary = [],
      gi_kind = None\<rparr>"

definition find_gate :: "gate_row list \<Rightarrow> string \<Rightarrow> gate_row option" where
  "find_gate rows pk = find (\<lambda>r. row_id r = pk) rows"

text \<open>\<open>insert\<close>: a duplicate primary key raises and rolls back.\<close>

definition gate_insert :: "GateInstance \<Rightarrow> gate_row list \<Rightarrow> gate_error + gate_row list" where
  "gate_insert i rows =
     (if find_gate rows (gi_id i) \<noteq> None then Inl (IntegrityError (gi_id i))
      else Inr (rows @
        [\<lparr>row_id = gi_id i,
          row_routine_id = gi_routine_id i,
          row_routine_run_id = gi_routine_run_id i,
          row_gate_id = gi_gate_id i,
          row_status = gi_status i,
          row_proposal_json = gi_proposal i,
          row_result_json = gi_result i,
          row_similarity_key = gi_similarity_key i,
          row_approval_mode = gi_approval_mode i,
          row_expires_at = gi_expires_at i,
          row_created_at = gi_created_at i,
          row_decided_at = gi_decided_at i\<rparr>]))"

definition gate_get :: "gate_row list \<Rightarrow> string \<Rightarrow> gate_error + GateInstance" where
  "gate_get rows pk =
     (case find_gate rows pk of
        None \<Rightarrow> Inl (GateNotFoundError pk)
      | Some row \<Rightarrow> Inr (row_to_instance row))"

definition list_pending :: "gate_row list \<Rightarrow> string option \<Rightarrow> GateInstance list" where
  "list_pending rows routine_id =
     (case routine_id of
        None \<Rightarrow> map row_to_instance
          (sort_key row_created_at (filter (\<lambda>r. row_status r = Pending) rows))
      | Some rid \<Rightarrow> map row_to_instance
          (sort_key row_created_at
            (filter (\<lambda>r. row_status r = Pending \<and> row_routine_id r = rid) rows)))"

text \<open>\<open>LIMIT\<close> with a negative bound is no limit in SQLite.\<close>

definition list_recent :: "gate_row list \<Rightarrow> int \<Rightarrow> GateInstance list" where
  "list_recent rows limit =
     (let newest = map row_to_instance (sort_key (\<lambda>r. - row_created_at r) rows)
      in if limit < 0 then newest else take (nat limit) newest)"

definition has_remembered_approval :: "gate_row list \<Rightarrow> string \<Rightarrow> string \<Rightarrow> string \<Rightarrow> bool" where
  "has_remembered_approval rows routine_id gate_id similarity_key \<longleftrightarrow>
     (\<exists>r \<in> set rows. row_routine_id r = routine_id \<and> row_gate_id r = gate_id \<and>
        row_similarity_key r = Some similarity_key \<and>
        row_status r \<in> {Approved, ModifiedAndApproved, AutoApproved})"

definition write_decision ::
  "string \<Rightarrow> GateStatus \<Rightarrow> payload option \<Rightarrow> instant \<Rightarrow> gate_row list \<Rightarrow> gate_row list" where
  "write_decision pk status res decided_at rows =
     update_where (\<lambda>r. row_id r = pk)
       (\<lambda>r. r\<lparr>row_status := status, row_result_json := res, row_decided_at := Some decided_at\<rparr>) rows"

definition update_decision ::
  "string \<Rightarrow> GateStatus \<Rightarrow> payload option \<Rightarrow> instant \<Rightarrow> gate_row list \<Rightarrow>
   (gate_error + GateInstance) \<times> gate_row list" where
  "update_decision pk status res decided_at rows =
     (case gate_get rows pk of
        Inl e \<Rightarrow> (Inl e, rows)
      | Inr existing \<Rightarrow>
          if gi_status existing \<noteq> Pending
          then (Inl (GateAlreadyDecidedError pk (gi_status existing)), rows)
          else (let rows' = write_decision pk status res decided_at rows
                in (gate_get rows' pk, rows')))"

section \<open>GateManager\<close>

type_synonym SimilarityFn = "payload \<Rightarrow> string"

record gate_manager =
  gm_rows :: "gate_row list"
  gm_audit :: "emit_call list"
  gm_principal :: Principal
  gm_similarity_fns :: "(string, SimilarityFn) dict"

definition register_similarity :: "string \<Rightarrow> SimilarityFn \<Rightarrow> gate_manager \<Rightarrow> gate_manager" where
  "register_similarity gate_id fn m =
     m\<lparr>gm_similarity_fns := dict_set gate_id fn (gm_similarity_fns m)\<rparr>"

definition gate_emit :: "string \<Rightarrow> payload \<Rightarrow> string \<Rightarrow> gate_manager \<Rightarrow> gate_manager" where
  "gate_emit event_type pl run m =
     m\<lparr>gm_audit := gm_audit m @ [emit_for_run event_type SevInfo (gm_principal m) pl (Some run)]\<rparr>"

text \<open>\<open>_record_decision\<close>; \<open>result_with_meta or None\<close> stores no result when the dict is empty.\<close>

definition result_with_meta ::
  "payload option \<Rightarrow> ApprovalMode option \<Rightarrow> string option \<Rightarrow> payload option" where
  "result_with_meta result_payload approval_mode reason =
     (let base = (case result_payload of None \<Rightarrow> [] | Some p \<Rightarrow> p);
          moded = (case approval_mode of None \<Rightarrow> base
                   | Some am \<Rightarrow> dict_set ''_approval_mode'' (JStr (mode_text am)) base);
          full = (case reason of None \<Rightarrow> moded | Some t \<Rightarrow> dict_set ''_reason'' (JStr t) moded)
      in if full = [] then None else Some full)"

definition decision_payload ::
  "string \<Rightarrow> string \<Rightarrow> GateStatus \<Rightarrow> ApprovalMode option \<Rightarrow> string option \<Rightarrow> payload" where
  "decision_payload pk gate_id status approval_mode reason =
     [(''gate_pk'', JStr pk), (''gate_id'', JStr gate_id), (''status'', JStr (status_text status)),
      (''approval_mode'', JOpt (map_option mode_text approval_mode)), (''reason'', JOpt reason)]"

definition record_decision ::
  "string \<Rightarrow> GateStatus \<Rightarrow> payload option \<Rightarrow> ApprovalMode option \<Rightarrow> string \<Rightarrow> string option \<Rightarrow>
   instant \<Rightarrow> gate_manager \<Rightarrow> (gate_error + GateInstance) \<times> gate_manager" where
  "record_decision pk status result_payload approval_mode event_type reason decided_at m =
     (case update_decision pk status (result_with_meta result_payload approval_mode reason)
             decided_at (gm_rows m) of
        (Inl e, rows) \<Rightarrow> (Inl e, m\<lparr>gm_rows := rows\<rparr>)
      | (Inr updated, rows) \<Rightarrow>
          (case gate_get rows pk of
             Inl e \<Rightarrow> (Inl e, m\<lparr>gm_rows := rows\<rparr>)
           | Inr existing \<Rightarrow>
               (Inr updated,
                gate_emit event_type
                  (decision_payload pk (gi_gate_id existing) status approval_mode reason)
                  (gi_routine_run_id existing) (m\<lparr>gm_rows := rows\<rparr>))))"

definition proposal_key :: "gate_manager \<Rightarrow> GateProposal \<Rightarrow> string option" where
  "proposal_key m p =
     (case gp_similarity_key p of
        Some k \<Rightarrow> Some k
      | None \<Rightarrow> (case dict_get (gm_similarity_fns m) (gp_gate_id p) of
                  None \<Rightarrow> None
                | Some fn \<Rightarrow> Some (fn (gp_payload p))))"

definition new_instance ::
  "string \<Rightarrow> instant \<Rightarrow> string option \<Rightarrow> GateProposal \<Rightarrow> GateInstance" where
  "new_instance pk now sim_key p =
     \<lparr>gi_id = pk,
      gi_routine_id = gp_routine_id p,
      gi_routine_run_id = gp_routine_run_id p,
      gi_gate_id = gp_gate_id p,
      gi_status = Pending,
      gi_proposal = dict_set ''_kind'' (JOpt (gp_kind p))
                      (dict_set ''_summary'' (JStr (gp_summary p)) (gp_payload p)),
      gi_result = None,
      gi_similarity_key = sim_key,
      gi_approval_mode = None,
      gi_expires_at = map_option (\<lambda>secs. now + secs * 1000000) (gp_expires_after_seconds p),
      gi_created_at = now,
      gi_decided_at = None,
      gi_summary = gp_summary p,
      gi_kind = gp_kind p\<rparr>"

definition proposed_payload :: "string \<Rightarrow> string option \<Rightarrow> GateProposal \<Rightarrow> payload" where
  "proposed_payload pk sim_key p =
     [(''gate_pk'', JStr pk), (''gate_id'', JStr (gp_gate_id p)),
      (''approval_modes'', JStrs (map mode_text (gp_approval_modes p))),
      (''summary'', JStr (gp_summary p)), (''similarity_key'', JOpt sim_key)]"

definition auto_approvable :: "gate_row list \<Rightarrow> GateProposal \<Rightarrow> string option \<Rightarrow> bool" where
  "auto_approvable rows p sim_key \<longleftrightarrow>
     ApproveAndRemember \<in> set (gp_approval_modes p) \<and>
     (case sim_key of None \<Rightarrow> False
      | Some k \<Rightarrow> has_remembered_approval rows (gp_routine_id p) (gp_gate_id p) k)"

text \<open>\<open>now\<close> is the reading that stamps the proposal, \<open>decided\<close> the one an automatic approval takes.\<close>

definition propose_for_review ::
  "string \<Rightarrow> instant \<Rightarrow> instant \<Rightarrow> GateProposal \<Rightarrow> gate_manager \<Rightarrow>
   (gate_error + GateInstance) \<times> gate_manager" where
  "propose_for_review pk now decided p m =
     (let sim_key = proposal_key m p;
          i = new_instance pk now sim_key p
      in case gate_insert i (gm_rows m) of
           Inl e \<Rightarrow> (Inl e, m)
         | Inr rows \<Rightarrow>
             (let m' = gate_emit ''gate.proposed'' (proposed_payload pk sim_key p)
                         (gp_routine_run_id p) (m\<lparr>gm_rows := rows\<rparr>)
              in if auto_approvable rows p sim_key
                 then record_decision pk AutoApproved (Some (gp_payload p)) (Some ApproveAndRemember)
                        ''gate.auto_approved_by_similarity'' None decided m'
                 else (Inr i, m')))"

definition decide_event :: "GateStatus \<Rightarrow> string option" where
  "decide_event status =
     (case status of
        Approved \<Rightarrow> Some ''gate.approved''
      | Rejected \<Rightarrow> Some ''gate.rejected''
      | ModifiedAndApproved \<Rightarrow> Some ''gate.modified_and_approved''
      | _ \<Rightarrow> None)"

definition decide ::
  "string \<Rightarrow> GateDecision \<Rightarrow> ApprovalMode option \<Rightarrow> instant \<Rightarrow> gate_manager \<Rightarrow>
   (gate_error + GateInstance) \<times> gate_manager" where
  "decide pk d approval_mode decided m =
     (case decide_event (gd_status d) of
        None \<Rightarrow> (Inl (GateError (status_text (gd_status d))), m)
      | Some event_type \<Rightarrow>
          record_decision pk (gd_status d) (gd_result_payload d) approval_mode event_type
            (gd_reason d) decided m)"

definition gate_due :: "instant \<Rightarrow> GateInstance \<Rightarrow> bool" where
  "gate_due now i \<longleftrightarrow> (case gi_expires_at i of None \<Rightarrow> False | Some t \<Rightarrow> t \<le> now)"

text \<open>The loop of \<open>expire_due\<close>; \<open>clk\<close> gives the clock reading taken for each gate it decides.\<close>

fun expire_loop ::
  "(string \<Rightarrow> instant) \<Rightarrow> instant \<Rightarrow> GateInstance list \<Rightarrow> gate_manager \<Rightarrow>
   (gate_error + GateInstance list) \<times> gate_manager" where
  "expire_loop clk now [] m = (Inr [], m)"
| "expire_loop clk now (i # rest) m =
     (if gate_due now i then
        (case record_decision (gi_id i) Expired None None ''gate.expired'' None (clk (gi_id i)) m of
           (Inl e, m') \<Rightarrow> (Inl e, m')
         | (Inr updated, m') \<Rightarrow>
             (case expire_loop clk now rest m' of
                (Inl e, m'') \<Rightarrow> (Inl e, m'')
              | (Inr us, m'') \<Rightarrow> (Inr (updated # us), m'')))
      else expire_loop clk now rest m)"

definition expire_due ::
  "(string \<Rightarrow> instant) \<Rightarrow> instant \<Rightarrow> gate_manager \<Rightarrow>
   (gate_error + GateInstance list) \<times> gate_manager" where
  "expire_due clk now m = expire_loop clk now (list_pending (gm_rows m) None) m"

section \<open>GateRegistry\<close>

type_synonym gate_registry = "(string, gate_manager) dict"

definition registry_register :: "string \<Rightarrow> gate_manager \<Rightarrow> gate_registry \<Rightarrow> gate_registry" where
  "registry_register routine_id m reg = dict_set routine_id m reg"

definition registry_contains :: "gate_registry \<Rightarrow> string \<Rightarrow> bool" where
  "registry_contains reg routine_id \<longleftrightarrow> dict_has reg routine_id"

definition registry_get :: "gate_registry \<Rightarrow> string \<Rightarrow> gate_error + gate_manager" where
  "registry_get reg routine_id =
     (case dict_get reg routine_id of
        None \<Rightarrow> Inl (GateError routine_id)
      | Some m \<Rightarrow> Inr m)"

definition registry_look :: "gate_registry \<Rightarrow> string \<Rightarrow> gate_manager option" where
  "registry_look reg rid = (case registry_get reg rid of Inl _ \<Rightarrow> None | Inr m \<Rightarrow> Some m)"

interpretation gate_reg: write_store registry_look registry_register wf_dict
  by unfold_locales
    (auto simp: registry_look_def registry_get_def registry_register_def dict_simps split: option.splits)

end
