(* ===== verification/Gate_Lemmas.thy ===== *)
theory Gate_Lemmas
  imports Gates
begin

text \<open>
  Lemmas about single gate operations: what \<open>_record_decision\<close> does in each of its three cases,
  what an insertion does, and the effect of the expiry sweep.  The reachable-state invariants of
  theory \<open>Gate_Run\<close> and the properties of theory \<open>Gate_Properties\<close> rest on them.
\<close>

section \<open>Rows\<close>

definition decided_row :: "GateStatus \<Rightarrow> payload option \<Rightarrow> instant \<Rightarrow> gate_row \<Rightarrow> gate_row" where
  "decided_row status res t r =
     r\<lparr>row_status := status, row_result_json := res, row_decided_at := Some t\<rparr>"

lemma decided_row_sel [simp]:
  "row_id (decided_row st res t r) = row_id r"
  "row_status (decided_row st res t r) = st"
  "row_gate_id (decided_row st res t r) = row_gate_id r"
  "row_routine_id (decided_row st res t r) = row_routine_id r"
  "row_routine_run_id (decided_row st res t r) = row_routine_run_id r"
  "row_approval_mode (decided_row st res t r) = row_approval_mode r"
  "row_similarity_key (decided_row st res t r) = row_similarity_key r"
  "row_decided_at (decided_row st res t r) = Some t"
  "row_result_json (decided_row st res t r) = res"
  "row_expires_at (decided_row st res t r) = row_expires_at r"
  "row_created_at (decided_row st res t r) = row_created_at r"
  "row_proposal_json (decided_row st res t r) = row_proposal_json r"
  by (simp_all add: decided_row_def)

lemma write_decision_alt:
  "write_decision pk st res t rows = update_where (\<lambda>r. row_id r = pk) (decided_row st res t) rows"
  by (simp add: write_decision_def decided_row_def [abs_def])

lemma find_gate_SomeD: "find_gate rows pk = Some r \<Longrightarrow> r \<in> set rows \<and> row_id r = pk"
  unfolding find_gate_def by (drule find_SomeD) simp

lemma find_gate_None: "find_gate rows pk = None \<longleftrightarrow> pk \<notin> row_id ` set rows"
  unfolding find_gate_def by (induction rows) auto

lemma find_gate_iff:
  "distinct (map row_id rows) \<Longrightarrow> find_gate rows pk = Some r \<longleftrightarrow> r \<in> set rows \<and> row_id r = pk"
  unfolding find_gate_def by (rule find_Some_iff_distinct)

lemma find_gate_write_same:
  "find_gate rows pk = Some r \<Longrightarrow>
   find_gate (write_decision pk st res t rows) pk = Some (decided_row st res t r)"
  unfolding find_gate_def write_decision_alt
  by (rule find_update_where_same) (auto dest: find_SomeD)

lemma find_gate_write_other:
  "pk' \<noteq> pk \<Longrightarrow> find_gate (write_decision pk st res t rows) pk' = find_gate rows pk'"
  unfolding find_gate_def write_decision_alt by (rule find_update_where_other) auto

lemma map_row_id_write [simp]: "map row_id (write_decision pk st res t rows) = map row_id rows"
  unfolding write_decision_alt by (rule map_update_where) simp

lemma set_write_decision:
  "set (write_decision pk st res t rows) =
     (\<lambda>r. if row_id r = pk then decided_row st res t r else r) ` set rows"
  by (simp add: write_decision_alt update_where_def)

lemma gate_emit_sel [simp]:
  "gm_rows (gate_emit ev pl run m) = gm_rows m"
  "gm_audit (gate_emit ev pl run m) =
     gm_audit m @ [emit_for_run ev SevInfo (gm_principal m) pl (Some run)]"
  "gm_principal (gate_emit ev pl run m) = gm_principal m"
  "gm_similarity_fns (gate_emit ev pl run m) = gm_similarity_fns m"
  by (simp_all add: gate_emit_def)

section \<open>The three outcomes of a decision\<close>

definition decision_event ::
  "gate_manager \<Rightarrow> string \<Rightarrow> GateStatus \<Rightarrow> ApprovalMode option \<Rightarrow> string option \<Rightarrow> gate_row \<Rightarrow> emit_call" where
  "decision_event m ev st am rsn r =
     emit_for_run ev SevInfo (gm_principal m)
       (decision_payload (row_id r) (row_gate_id r) st am rsn) (Some (row_routine_run_id r))"

lemma record_decision_pending:
  assumes "find_gate (gm_rows m) pk = Some r" and "row_status r = Pending"
  shows "record_decision pk st rp am ev rsn t m =
    (Inr (row_to_instance (decided_row st (result_with_meta rp am rsn) t r)),
     m\<lparr>gm_rows := write_decision pk st (result_with_meta rp am rsn) t (gm_rows m),
       gm_audit := gm_audit m @ [decision_event m ev st am rsn r]\<rparr>)"
proof -
  have id: "row_id r = pk" using find_gate_SomeD [OF assms(1)] by simp
  show ?thesis
    using assms find_gate_write_same [OF assms(1)] id
    by (simp add: record_decision_def update_decision_def gate_get_def Let_def row_to_instance_def
        gate_emit_def decision_event_def)
qed

lemma record_decision_missing:
  "find_gate (gm_rows m) pk = None \<Longrightarrow>
   record_decision pk st rp am ev rsn t m = (Inl (GateNotFoundError pk), m)"
  by (simp add: record_decision_def update_decision_def gate_get_def)

lemma record_decision_decided:
  "find_gate (gm_rows m) pk = Some r \<Longrightarrow> row_status r \<noteq> Pending \<Longrightarrow>
   record_decision pk st rp am ev rsn t m = (Inl (GateAlreadyDecidedError pk (row_status r)), m)"
  by (simp add: record_decision_def update_decision_def gate_get_def row_to_instance_def)

lemma record_decision_cases:
  obtains (missing) "find_gate (gm_rows m) pk = None"
      "record_decision pk st rp am ev rsn t m = (Inl (GateNotFoundError pk), m)"
  | (already) r where "find_gate (gm_rows m) pk = Some r" "row_status r \<noteq> Pending"
      "record_decision pk st rp am ev rsn t m = (Inl (GateAlreadyDecidedError pk (row_status r)), m)"
  | (decided) r where "find_gate (gm_rows m) pk = Some r" "row_status r = Pending"
      "record_decision pk st rp am ev rsn t m =
        (Inr (row_to_instance (decided_row st (result_with_meta rp am rsn) t r)),
         m\<lparr>gm_rows := write_decision pk st (result_with_meta rp am rsn) t (gm_rows m),
           gm_audit := gm_audit m @ [decision_event m ev st am rsn r]\<rparr>)"
proof (cases "find_gate (gm_rows m) pk")
  case None
  then show ?thesis using missing record_decision_missing by blast
next
  case (Some r)
  then show ?thesis
    using already decided record_decision_pending record_decision_decided by blast
qed

lemma decide_not_decidable:
  "decide_event (gd_status d) = None \<Longrightarrow>
   decide pk d am t m = (Inl (GateError (status_text (gd_status d))), m)"
  by (simp add: decide_def)

lemma decide_is_record:
  "decide_event (gd_status d) = Some ev \<Longrightarrow>
   decide pk d am t m = record_decision pk (gd_status d) (gd_result_payload d) am ev (gd_reason d) t m"
  by (simp add: decide_def)

section \<open>Proposals\<close>

definition pending_row :: "string \<Rightarrow> instant \<Rightarrow> string option \<Rightarrow> GateProposal \<Rightarrow> gate_row" where
  "pending_row pk now sim_key p =
     \<lparr>row_id = pk, row_routine_id = gp_routine_id p, row_routine_run_id = gp_routine_run_id p,
      row_gate_id = gp_gate_id p, row_status = Pending,
      row_proposal_json = gi_proposal (new_instance pk now sim_key p), row_result_json = None,
      row_similarity_key = sim_key, row_approval_mode = None,
      row_expires_at = gi_expires_at (new_instance pk now sim_key p), row_created_at = now,
      row_decided_at = None\<rparr>"

definition proposed_event :: "gate_manager \<Rightarrow> string \<Rightarrow> GateProposal \<Rightarrow> emit_call" where
  "proposed_event m pk p =
     emit_for_run ''gate.proposed'' SevInfo (gm_principal m)
       (proposed_payload pk (proposal_key m p) p) (Some (gp_routine_run_id p))"

definition with_proposal :: "gate_manager \<Rightarrow> string \<Rightarrow> instant \<Rightarrow> GateProposal \<Rightarrow> gate_manager" where
  "with_proposal m pk now p =
     m\<lparr>gm_rows := gm_rows m @ [pending_row pk now (proposal_key m p) p],
       gm_audit := gm_audit m @ [proposed_event m pk p]\<rparr>"

lemma with_proposal_sel [simp]:
  "gm_rows (with_proposal m pk now p) = gm_rows m @ [pending_row pk now (proposal_key m p) p]"
  "gm_audit (with_proposal m pk now p) = gm_audit m @ [proposed_event m pk p]"
  "gm_principal (with_proposal m pk now p) = gm_principal m"
  by (simp_all add: with_proposal_def)

lemma pending_row_sel [simp]:
  "row_id (pending_row pk now k p) = pk"
  "row_status (pending_row pk now k p) = Pending"
  "row_gate_id (pending_row pk now k p) = gp_gate_id p"
  "row_routine_id (pending_row pk now k p) = gp_routine_id p"
  "row_approval_mode (pending_row pk now k p) = None"
  "row_decided_at (pending_row pk now k p) = None"
  "row_result_json (pending_row pk now k p) = None"
  "row_similarity_key (pending_row pk now k p) = k"
  by (simp_all add: pending_row_def)

lemma propose_conflict:
  "pk \<in> row_id ` set (gm_rows m) \<Longrightarrow>
   propose_for_review pk now t p m = (Inl (IntegrityError pk), m)"
  by (simp add: propose_for_review_def gate_insert_def Let_def find_gate_None new_instance_def)

lemma propose_fresh:
  assumes "pk \<notin> row_id ` set (gm_rows m)"
  shows "propose_for_review pk now t p m =
    (if auto_approvable (gm_rows m @ [pending_row pk now (proposal_key m p) p]) p (proposal_key m p)
     then record_decision pk AutoApproved (Some (gp_payload p)) (Some ApproveAndRemember)
            ''gate.auto_approved_by_similarity'' None t (with_proposal m pk now p)
     else (Inr (new_instance pk now (proposal_key m p) p), with_proposal m pk now p))"
  using assms find_gate_None [of "gm_rows m" pk]
  by (simp add: propose_for_review_def gate_insert_def Let_def new_instance_def pending_row_def
      with_proposal_def gate_emit_def proposed_event_def)

lemma find_gate_with_proposal:
  "pk \<notin> row_id ` set (gm_rows m) \<Longrightarrow>
   find_gate (gm_rows (with_proposal m pk now p)) pk = Some (pending_row pk now (proposal_key m p) p)"
  by (simp add: find_gate_def find_gate_None [unfolded find_gate_def, THEN iffD2])

lemma auto_approvable_append [simp]:
  "auto_approvable (rows @ [pending_row pk now k' p']) p k = auto_approvable rows p k"
  by (auto simp: auto_approvable_def has_remembered_approval_def split: option.splits)

lemma gate_insert_row:
  "pk \<notin> row_id ` set rows \<Longrightarrow>
   gate_insert (new_instance pk now k p) rows = Inr (rows @ [pending_row pk now k p])"
  using find_gate_None [of rows pk]
  by (simp add: gate_insert_def new_instance_def pending_row_def)

section \<open>The expiry sweep\<close>

definition expired_row :: "(string \<Rightarrow> instant) \<Rightarrow> gate_row \<Rightarrow> gate_row" where
  "expired_row clk r = decided_row Expired None (clk (row_id r)) r"

definition row_due :: "instant \<Rightarrow> gate_row \<Rightarrow> bool" where
  "row_due now r \<longleftrightarrow> row_status r = Pending \<and> (case row_expires_at r of None \<Rightarrow> False | Some t \<Rightarrow> t \<le> now)"

definition expired_event :: "gate_manager \<Rightarrow> gate_row \<Rightarrow> emit_call" where
  "expired_event m r = decision_event m ''gate.expired'' Expired None None r"

lemma result_with_meta_None [simp]: "result_with_meta None None None = None"
  by (simp add: result_with_meta_def)

lemma gate_due_row: "gate_due now (row_to_instance r) \<longleftrightarrow>
    (case row_expires_at r of None \<Rightarrow> False | Some t \<Rightarrow> t \<le> now)"
  by (simp add: gate_due_def row_to_instance_def)

lemma expired_event_cong [simp]:
  "expired_event (m\<lparr>gm_rows := rows, gm_audit := evs\<rparr>) r = expired_event m r"
  by (simp add: expired_event_def decision_event_def)

lemma update_where_twice:
  assumes "\<And>x. p x \<Longrightarrow> \<not> q (f x)" "\<And>x. p x \<Longrightarrow> \<not> q x"
  shows "update_where q f (update_where p f xs) = update_where (\<lambda>x. p x \<or> q x) f xs"
  using assms by (auto simp: update_where_def)

text \<open>The loop over any list of pending rows with distinct keys decides exactly the due ones.\<close>

lemma expire_loop_effect:
  assumes "distinct (map row_id (gm_rows m))"
    and "distinct (map row_id todo)" and "set todo \<subseteq> set (gm_rows m)"
    and "\<forall>r \<in> set todo. row_status r = Pending"
  shows "expire_loop clk now (map row_to_instance todo) m =
    (Inr (map (\<lambda>r. row_to_instance (expired_row clk r)) (filter (row_due now) todo)),
     m\<lparr>gm_rows := update_where (\<lambda>r. r \<in> set todo \<and> row_due now r) (expired_row clk) (gm_rows m),
       gm_audit := gm_audit m @ map (expired_event m) (filter (row_due now) todo)\<rparr>)"
  using assms
proof (induction todo arbitrary: m)
  case Nil
  then show ?case by (simp add: update_where_def)
next
  case (Cons r todo)
  from Cons.prems have rin: "r \<in> set (gm_rows m)" and pend: "row_status r = Pending" by auto
  have find: "find_gate (gm_rows m) (row_id r) = Some r"
    using rin find_gate_iff [OF Cons.prems(1)] by simp
  show ?case
  proof (cases "gate_due now (row_to_instance r)")
    case False
    with pend have nd: "\<not> row_due now r" by (simp add: row_due_def gate_due_row)
    have "(\<lambda>x. (x = r \<or> x \<in> set todo) \<and> row_due now x) = (\<lambda>x. x \<in> set todo \<and> row_due now x)"
      using nd by auto
    with False nd Cons show ?thesis by simp
  next
    case True
    with pend have due: "row_due now r" by (simp add: row_due_def gate_due_row)
    let ?m = "m\<lparr>gm_rows := write_decision (row_id r) Expired None (clk (row_id r)) (gm_rows m),
        gm_audit := gm_audit m @ [expired_event m r]\<rparr>"
    have step: "record_decision (row_id r) Expired None None ''gate.expired'' None (clk (row_id r)) m =
        (Inr (row_to_instance (expired_row clk r)), ?m)"
      using record_decision_pending [OF find pend]
      by (simp add: expired_row_def expired_event_def)
    have same: "\<And>x. x \<in> set (gm_rows m) \<Longrightarrow> row_id x = row_id r \<longleftrightarrow> x = r"
      using Cons.prems(1) rin by (auto simp: distinct_map dest: inj_onD)
    have rows: "gm_rows ?m = update_where (\<lambda>x. x = r) (expired_row clk) (gm_rows m)"
      using same by (auto simp: write_decision_alt update_where_def expired_row_def)
    have sub: "set todo \<subseteq> set (gm_rows ?m)"
      unfolding rows using Cons.prems(2,3) by (auto simp: update_where_def)
    have "distinct (map row_id (gm_rows ?m))" using Cons.prems(1) by simp
    from Cons.IH [OF this _ sub] Cons.prems(2,4)
    have rest: "expire_loop clk now (map row_to_instance todo) ?m =
      (Inr (map (\<lambda>r. row_to_instance (expired_row clk r)) (filter (row_due now) todo)),
       ?m\<lparr>gm_rows := update_where (\<lambda>x. x \<in> set todo \<and> row_due now x) (expired_row clk) (gm_rows ?m),
         gm_audit := gm_audit ?m @ map (expired_event ?m) (filter (row_due now) todo)\<rparr>)"
      by simp
    have nr: "\<not> row_due now (expired_row clk r)" by (simp add: expired_row_def row_due_def)
    have "update_where (\<lambda>x. x \<in> set todo \<and> row_due now x) (expired_row clk) (gm_rows ?m) =
        update_where (\<lambda>x. (x = r \<or> x \<in> set todo) \<and> row_due now x) (expired_row clk) (gm_rows m)"
      unfolding rows using due nr Cons.prems(2) by (auto simp: update_where_def)
    then show ?thesis
      using True due step rest by (simp add: row_to_instance_def [of r])
  qed
qed

lemma list_pending_all:
  "list_pending rows None =
     map row_to_instance (sort_key row_created_at (filter (\<lambda>r. row_status r = Pending) rows))"
  by (simp add: list_pending_def)

lemma expire_due_effect:
  assumes "distinct (map row_id (gm_rows m))"
  shows "expire_due clk now m =
    (Inr (map (\<lambda>r. row_to_instance (expired_row clk r))
            (sort_key row_created_at (filter (row_due now) (gm_rows m)))),
     m\<lparr>gm_rows := update_where (row_due now) (expired_row clk) (gm_rows m),
       gm_audit := gm_audit m @
         map (expired_event m) (sort_key row_created_at (filter (row_due now) (gm_rows m)))\<rparr>)"
proof -
  let ?todo = "sort_key row_created_at (filter (\<lambda>r. row_status r = Pending) (gm_rows m))"
  have "distinct (map row_id (filter (\<lambda>r. row_status r = Pending) (gm_rows m)))"
    using assms by (rule distinct_map_filter)
  then have d: "distinct (map row_id ?todo)"
    by (simp add: distinct_map)
  have due: "filter (row_due now) ?todo = sort_key row_created_at (filter (row_due now) (gm_rows m))"
  proof -
    have "filter (row_due now) (filter (\<lambda>r. row_status r = Pending) (gm_rows m)) =
        filter (row_due now) (gm_rows m)"
      unfolding filter_filter by (rule filter_cong) (auto simp: row_due_def)
    then show ?thesis by (simp only: sort_key_filter_eq)
  qed
  have rows: "update_where (\<lambda>r. r \<in> set ?todo \<and> row_due now r) (expired_row clk) (gm_rows m) =
      update_where (row_due now) (expired_row clk) (gm_rows m)"
    by (rule update_where_cong) (auto simp: row_due_def)
  have "expire_loop clk now (map row_to_instance ?todo) m =
    (Inr (map (\<lambda>r. row_to_instance (expired_row clk r)) (filter (row_due now) ?todo)),
     m\<lparr>gm_rows := update_where (\<lambda>r. r \<in> set ?todo \<and> row_due now r) (expired_row clk) (gm_rows m),
       gm_audit := gm_audit m @ map (expired_event m) (filter (row_due now) ?todo)\<rparr>)"
    by (rule expire_loop_effect [OF assms d]) auto
  then show ?thesis
    unfolding due rows by (simp add: expire_due_def list_pending_all)
qed

end
