(* ===== verification/Gate_Run.thy ===== *)
theory Gate_Run
  imports Gate_Lemmas
begin

text \<open>
  Gates over time.  \<open>gate_change\<close> lists the only two ways the table and the audit log change; every
  public operation of \<open>GateManager\<close> is a sequence of such changes, so an invariant is proved for
  the changes and holds along every run of operations.  The last section splits \<open>decide\<close> at the
  point where the code leaves the store unprotected (the status check and the update are two
  statements, outside one transaction) and interleaves two calls.
\<close>

section \<open>Runs of operations\<close>

datatype gate_op =
    Propose string instant instant GateProposal
  | Decide string GateDecision "ApprovalMode option" instant
  | ExpireDue "string \<Rightarrow> instant" instant

primrec gate_step :: "gate_op \<Rightarrow> gate_manager \<Rightarrow> gate_manager" where
  "gate_step (Propose pk now t p) m = snd (propose_for_review pk now t p m)"
| "gate_step (Decide pk d am t) m = snd (decide pk d am t m)"
| "gate_step (ExpireDue clk now) m = snd (expire_due clk now m)"

definition gate_run :: "gate_op list \<Rightarrow> gate_manager \<Rightarrow> gate_manager" where
  "gate_run ops m = fold gate_step ops m"

definition gate_init :: "Principal \<Rightarrow> (string, SimilarityFn) dict \<Rightarrow> gate_manager" where
  "gate_init prin fns =
     \<lparr>gm_rows = [], gm_audit = [], gm_principal = prin, gm_similarity_fns = fns\<rparr>"

definition status_event :: "GateStatus \<Rightarrow> string option" where
  "status_event st =
     (case st of
        Pending \<Rightarrow> None
      | Approved \<Rightarrow> Some ''gate.approved''
      | Rejected \<Rightarrow> Some ''gate.rejected''
      | ModifiedAndApproved \<Rightarrow> Some ''gate.modified_and_approved''
      | AutoApproved \<Rightarrow> Some ''gate.auto_approved_by_similarity''
      | Expired \<Rightarrow> Some ''gate.expired'')"

inductive gate_change :: "gate_manager \<Rightarrow> gate_manager \<Rightarrow> bool" where
  proposed: "pk \<notin> row_id ` set (gm_rows m) \<Longrightarrow> gate_change m (with_proposal m pk now p)"
| decided: "find_gate (gm_rows m) pk = Some r \<Longrightarrow> row_status r = Pending \<Longrightarrow>
     status_event st = Some ev \<Longrightarrow>
     gate_change m (m\<lparr>gm_rows := write_decision pk st res t (gm_rows m),
                      gm_audit := gm_audit m @ [decision_event m ev st am rsn r]\<rparr>)"

inductive_cases gate_changeE: "gate_change m m'"

lemma record_decision_changes:
  assumes "status_event st = Some ev"
  shows "gate_change\<^sup>*\<^sup>* m (snd (record_decision pk st rp am ev rsn t m))"
proof (cases rule: record_decision_cases [where m = m and pk = pk and st = st and rp = rp and am = am
      and ev = ev and rsn = rsn and t = t])
  case missing
  then show ?thesis by simp
next
  case (already r)
  then show ?thesis by simp
next
  case (decided r)
  then show ?thesis using gate_change.decided [OF decided(1,2) assms] by (auto intro: r_into_rtranclp)
qed

lemma expire_loop_changes: "gate_change\<^sup>*\<^sup>* m (snd (expire_loop clk now todo m))"
proof (induction clk now todo m rule: expire_loop.induct)
  case (1 clk now m)
  then show ?case by simp
next
  case (2 clk now i rest m)
  let ?r = "record_decision (gi_id i) Expired None None ''gate.expired'' None (clk (gi_id i)) m"
  have first: "gate_change\<^sup>*\<^sup>* m (snd ?r)"
    by (rule record_decision_changes) (simp add: status_event_def)
  show ?case
  proof (cases "gate_due now i")
    case False
    then show ?thesis using "2.IH"(2) by simp
  next
    case True
    show ?thesis
    proof (cases ?r)
      case (Pair res m')
      with first have m': "gate_change\<^sup>*\<^sup>* m m'" by simp
      show ?thesis
      proof (cases res)
        case (Inl e)
        with True Pair m' show ?thesis by simp
      next
        case (Inr u)
        have "gate_change\<^sup>*\<^sup>* m' (snd (expire_loop clk now rest m'))"
          using "2.IH"(1) [OF True] Pair Inr by metis
        with m' have "gate_change\<^sup>*\<^sup>* m (snd (expire_loop clk now rest m'))"
          by (rule rtranclp_trans)
        with True Pair Inr show ?thesis by (auto split: prod.splits sum.splits)
      qed
    qed
  qed
qed

lemma gate_step_changes: "gate_change\<^sup>*\<^sup>* m (gate_step opn m)"
proof (cases opn)
  case (Propose pk now t p)
  show ?thesis
  proof (cases "pk \<in> row_id ` set (gm_rows m)")
    case True
    then show ?thesis by (simp add: Propose propose_conflict)
  next
    case False
    have "gate_change\<^sup>*\<^sup>* m (with_proposal m pk now p)"
      using gate_change.proposed [OF False] by (rule r_into_rtranclp)
    moreover have "gate_change\<^sup>*\<^sup>* (with_proposal m pk now p)
        (snd (record_decision pk AutoApproved (Some (gp_payload p)) (Some ApproveAndRemember)
            ''gate.auto_approved_by_similarity'' None t (with_proposal m pk now p)))"
      by (rule record_decision_changes) (simp add: status_event_def)
    ultimately show ?thesis
      by (simp add: Propose propose_fresh [OF False] rtranclp_trans)
  qed
next
  case (Decide pk d am t)
  show ?thesis
  proof (cases "decide_event (gd_status d)")
    case None
    then show ?thesis by (simp add: Decide decide_not_decidable)
  next
    case (Some ev)
    then have "status_event (gd_status d) = Some ev"
      by (simp add: decide_event_def status_event_def split: GateStatus.splits)
    then show ?thesis by (simp add: Decide decide_is_record [OF Some] record_decision_changes)
  qed
next
  case (ExpireDue clk now)
  then show ?thesis by (simp add: expire_due_def expire_loop_changes)
qed

lemma gate_run_changes: "gate_change\<^sup>*\<^sup>* m (gate_run ops m)"
proof (induction ops arbitrary: m)
  case Nil
  then show ?case by (simp add: gate_run_def)
next
  case (Cons opn ops)
  have "gate_run (opn # ops) m = gate_run ops (gate_step opn m)" by (simp add: gate_run_def)
  then show ?case using gate_step_changes Cons.IH by (metis rtranclp_trans)
qed

text \<open>An invariant of the changes holds after every run.\<close>

lemma gate_run_invariant:
  assumes "P m" and "\<And>m m'. gate_change m m' \<Longrightarrow> P m \<Longrightarrow> P m'"
  shows "P (gate_run ops m)"
  using gate_run_changes [of m ops] assms(1)
  by (induction rule: rtranclp_induct) (use assms(2) in blast)+

section \<open>Decisions are final\<close>

lemma gate_change_final:
  assumes "gate_change m m'" "find_gate (gm_rows m) pk = Some r" "row_status r \<noteq> Pending"
  shows "find_gate (gm_rows m') pk = Some r"
  using assms(1)
proof (cases rule: gate_change.cases)
  case (proposed pk' now p)
  then show ?thesis using assms(2) by (simp add: find_gate_def)
next
  case (decided pk' r' st ev res t am rsn)
  then have "pk' \<noteq> pk" using assms(2,3) by auto
  then show ?thesis using decided assms(2) by (simp add: find_gate_write_other)
qed

section \<open>The table and the audit log agree\<close>

definition decision_events :: "string \<Rightarrow> emit_call list \<Rightarrow> emit_call list" where
  "decision_events pk evs =
     filter (\<lambda>e. payload_is ''gate_pk'' pk e \<and> em_event_type e \<noteq> ''gate.proposed'') evs"

definition status_events :: "GateStatus \<Rightarrow> string list" where
  "status_events st = (case status_event st of None \<Rightarrow> [] | Some ev \<Rightarrow> [ev])"

definition audit_agrees :: "gate_manager \<Rightarrow> bool" where
  "audit_agrees m \<longleftrightarrow>
     distinct (map row_id (gm_rows m)) \<and>
     (\<forall>r \<in> set (gm_rows m).
        map em_event_type (decision_events (row_id r) (gm_audit m)) = status_events (row_status r) \<and>
        (row_decided_at r = None \<longleftrightarrow> row_status r = Pending) \<and> row_approval_mode r = None) \<and>
     (\<forall>e \<in> set (gm_audit m). \<exists>r \<in> set (gm_rows m). payload_is ''gate_pk'' (row_id r) e)"

lemma payload_is_decision [simp]:
  "payload_is ''gate_pk'' pk (decision_event m ev st am rsn r) \<longleftrightarrow> row_id r = pk"
  by (simp add: payload_is_def decision_event_def decision_payload_def)

lemma payload_is_proposed [simp]:
  "payload_is ''gate_pk'' pk (proposed_event m pk' p) \<longleftrightarrow> pk' = pk"
  by (simp add: payload_is_def proposed_event_def proposed_payload_def)

lemma event_type_decision [simp]: "em_event_type (decision_event m ev st am rsn r) = ev"
  by (simp add: decision_event_def)

lemma event_type_proposed [simp]: "em_event_type (proposed_event m pk p) = ''gate.proposed''"
  by (simp add: proposed_event_def)

lemma status_event_not_proposed: "status_event st = Some ev \<Longrightarrow> ev \<noteq> ''gate.proposed'' \<and> st \<noteq> Pending"
  by (auto simp: status_event_def split: GateStatus.splits)

lemma payload_is_unique: "payload_is k a e \<Longrightarrow> payload_is k b e \<Longrightarrow> a = b"
  by (simp add: payload_is_def)

lemma decision_events_none:
  assumes "\<forall>e \<in> set evs. \<exists>r \<in> set rows. payload_is ''gate_pk'' (row_id r) e" "pk \<notin> row_id ` set rows"
  shows "decision_events pk evs = []"
proof -
  have "\<not> payload_is ''gate_pk'' pk e" if e: "e \<in> set evs" for e
  proof
    assume pk: "payload_is ''gate_pk'' pk e"
    from assms(1) e obtain r where "r \<in> set rows" "payload_is ''gate_pk'' (row_id r) e" by blast
    with pk have "pk \<in> row_id ` set rows" by (auto dest: payload_is_unique)
    with assms(2) show False by simp
  qed
  then show ?thesis by (simp add: decision_events_def filter_empty_conv)
qed

lemma audit_agrees_proposed:
  assumes inv: "audit_agrees m" and new: "pk \<notin> row_id ` set (gm_rows m)"
  shows "audit_agrees (with_proposal m pk now p)"
proof -
  have none: "decision_events pk (gm_audit m) = []"
    using inv new unfolding audit_agrees_def by (intro decision_events_none) blast+
  have keep: "decision_events k (gm_audit m @ [proposed_event m pk p]) = decision_events k (gm_audit m)"
    for k by (simp add: decision_events_def)
  show ?thesis
    using inv new none unfolding audit_agrees_def
    by (auto simp: keep status_events_def status_event_def)
qed

lemma audit_agrees_decided:
  assumes inv: "audit_agrees m" and find: "find_gate (gm_rows m) pk = Some r"
    and pend: "row_status r = Pending" and ev: "status_event st = Some ev"
  shows "audit_agrees (m\<lparr>gm_rows := write_decision pk st res t (gm_rows m),
      gm_audit := gm_audit m @ [decision_event m ev st am rsn r]\<rparr>)"
proof -
  let ?e = "decision_event m ev st am rsn r"
  from find have r: "r \<in> set (gm_rows m)" "row_id r = pk" by (auto dest: find_gate_SomeD)
  note evp = status_event_not_proposed [OF ev]
  have same: "decision_events pk (gm_audit m @ [?e]) = decision_events pk (gm_audit m) @ [?e]"
    using r evp by (simp add: decision_events_def)
  have other: "k \<noteq> pk \<Longrightarrow> decision_events k (gm_audit m @ [?e]) = decision_events k (gm_audit m)" for k
    using r by (simp add: decision_events_def)
  have before: "decision_events pk (gm_audit m) = []"
    using inv r pend unfolding audit_agrees_def
    by (auto simp: status_events_def status_event_def)
  have row: "map em_event_type (decision_events (row_id x) (gm_audit m @ [?e])) =
        status_events (row_status x) \<and>
        (row_decided_at x = None \<longleftrightarrow> row_status x = Pending) \<and> row_approval_mode x = None"
    if x: "x \<in> set (write_decision pk st res t (gm_rows m))" for x
  proof -
    from x obtain y where y: "y \<in> set (gm_rows m)"
      and xy: "x = (if row_id y = pk then decided_row st res t y else y)"
      by (auto simp: set_write_decision)
    have iny: "row_approval_mode y = None" using inv y by (simp add: audit_agrees_def)
    show ?thesis
    proof (cases "row_id y = pk")
      case True
      then show ?thesis using xy iny same before ev evp by (simp add: status_events_def)
    next
      case False
      then show ?thesis using xy other inv y by (simp add: audit_agrees_def)
    qed
  qed
  have cover: "\<exists>x \<in> set (write_decision pk st res t (gm_rows m)). payload_is ''gate_pk'' (row_id x) e"
    if e: "e \<in> set (gm_audit m @ [?e])" for e
  proof -
    from e r inv obtain y where y: "y \<in> set (gm_rows m)" "payload_is ''gate_pk'' (row_id y) e"
      unfolding audit_agrees_def by force
    let ?x = "if row_id y = pk then decided_row st res t y else y"
    have "?x \<in> set (write_decision pk st res t (gm_rows m))"
      unfolding set_write_decision using y(1) by (rule imageI)
    moreover have "payload_is ''gate_pk'' (row_id ?x) e" using y(2) by auto
    ultimately show ?thesis by (rule bexI [rotated])
  qed
  show ?thesis
    using inv row cover by (simp add: audit_agrees_def)
qed

lemma audit_agrees_change: "gate_change m m' \<Longrightarrow> audit_agrees m \<Longrightarrow> audit_agrees m'"
  by (auto elim!: gate_changeE intro: audit_agrees_proposed audit_agrees_decided)

lemma audit_agrees_init: "audit_agrees (gate_init prin fns)"
  by (simp add: audit_agrees_def gate_init_def)

lemma audit_agrees_run: "audit_agrees m \<Longrightarrow> audit_agrees (gate_run ops m)"
  by (rule gate_run_invariant) (auto intro: audit_agrees_change)

section \<open>Every event type a gate emits is in the audit vocabulary\<close>

lemma gate_event_types:
  "status_event st = Some ev \<Longrightarrow> ev \<in> set EventType"
  "''gate.proposed'' \<in> set EventType"
  by (auto simp: status_event_def EventType_def split: GateStatus.splits)

section \<open>Two callers at once\<close>

text \<open>
  One in-flight call of \<open>decide\<close>: before its status check, past the check, finished.  The
  dashboard runs its synchronous handlers on a thread pool, so calls interleave at these points.
\<close>

record decide_call =
  dc_pk :: string
  dc_decision :: GateDecision
  dc_mode :: "ApprovalMode option"
  dc_time :: instant

datatype call_state =
    NotStarted decide_call
  | PastCheck decide_call
  | Finished "gate_error + GateInstance"

record gate_threads =
  gt_manager :: gate_manager
  gt_calls :: "nat \<Rightarrow> call_state"

text \<open>The two halves of \<open>update_decision\<close>: the read and check, then the write, the re-read and the
  audit call.\<close>

definition check_half :: "decide_call \<Rightarrow> gate_manager \<Rightarrow> call_state" where
  "check_half c m =
     (case gate_get (gm_rows m) (dc_pk c) of
        Inl e \<Rightarrow> Finished (Inl e)
      | Inr existing \<Rightarrow>
          if gi_status existing \<noteq> Pending
          then Finished (Inl (GateAlreadyDecidedError (dc_pk c) (gi_status existing)))
          else PastCheck c)"

definition write_half :: "decide_call \<Rightarrow> string \<Rightarrow> gate_manager \<Rightarrow> (gate_error + GateInstance) \<times> gate_manager" where
  "write_half c ev m =
     (let d = dc_decision c;
          rows = write_decision (dc_pk c) (gd_status d)
                   (result_with_meta (gd_result_payload d) (dc_mode c) (gd_reason d)) (dc_time c) (gm_rows m)
      in case gate_get rows (dc_pk c) of
           Inl e \<Rightarrow> (Inl e, m\<lparr>gm_rows := rows\<rparr>)
         | Inr updated \<Rightarrow>
             (Inr updated,
              gate_emit ev
                (decision_payload (dc_pk c) (gi_gate_id updated) (gd_status d) (dc_mode c) (gd_reason d))
                (gi_routine_run_id updated) (m\<lparr>gm_rows := rows\<rparr>)))"

inductive thread_step :: "gate_threads \<Rightarrow> gate_threads \<Rightarrow> bool" where
  do_check: "gt_calls s i = NotStarted c \<Longrightarrow> decide_event (gd_status (dc_decision c)) = Some ev \<Longrightarrow>
    thread_step s (s\<lparr>gt_calls := (gt_calls s)(i := check_half c (gt_manager s))\<rparr>)"
| do_write: "gt_calls s i = PastCheck c \<Longrightarrow> decide_event (gd_status (dc_decision c)) = Some ev \<Longrightarrow>
    write_half c ev (gt_manager s) = (res, m') \<Longrightarrow>
    thread_step s (s\<lparr>gt_manager := m', gt_calls := (gt_calls s)(i := Finished res)\<rparr>)"

text \<open>Run without interruption the two halves are \<open>decide\<close>.\<close>

lemma decide_halves:
  assumes "decide_event (gd_status (dc_decision c)) = Some ev"
  shows "decide (dc_pk c) (dc_decision c) (dc_mode c) (dc_time c) m =
    (case check_half c m of
       Finished res \<Rightarrow> (res, m)
     | _ \<Rightarrow> write_half c ev m)"
  using assms
  by (simp add: decide_def record_decision_def update_decision_def check_half_def write_half_def Let_def
      split: sum.splits)

lemma write_half_row:
  assumes "find_gate (gm_rows m) (dc_pk c) = Some r"
  shows "write_half c ev m =
    (Inr (row_to_instance (decided_row (gd_status (dc_decision c))
        (result_with_meta (gd_result_payload (dc_decision c)) (dc_mode c) (gd_reason (dc_decision c)))
        (dc_time c) r)),
     m\<lparr>gm_rows := write_decision (dc_pk c) (gd_status (dc_decision c))
         (result_with_meta (gd_result_payload (dc_decision c)) (dc_mode c) (gd_reason (dc_decision c)))
         (dc_time c) (gm_rows m),
       gm_audit := gm_audit m @
         [decision_event m ev (gd_status (dc_decision c)) (dc_mode c) (gd_reason (dc_decision c)) r]\<rparr>)"
proof -
  have "row_id r = dc_pk c" using find_gate_SomeD [OF assms] by simp
  then show ?thesis
    using find_gate_write_same [OF assms]
    by (simp add: write_half_def gate_get_def Let_def row_to_instance_def gate_emit_def
        decision_event_def)
qed

text \<open>The interleaving in which both checks run before either write.\<close>

lemma interleaved_decides:
  assumes ev: "decide_event (gd_status (dc_decision c0)) = Some ev0"
      "decide_event (gd_status (dc_decision c1)) = Some ev1"
    and past: "check_half c0 m = PastCheck c0" "check_half c1 m = PastCheck c1"
    and w: "write_half c0 ev0 m = (r0, m0)" "write_half c1 ev1 m0 = (r1, m1)"
    and f: "f 0 = NotStarted c0" "f 1 = NotStarted c1"
  shows "thread_step\<^sup>*\<^sup>* \<lparr>gt_manager = m, gt_calls = f\<rparr>
    \<lparr>gt_manager = m1, gt_calls = f(0 := Finished r0, 1 := Finished r1)\<rparr>"
proof -
  let ?s0 = "\<lparr>gt_manager = m, gt_calls = f\<rparr>"
  let ?s1 = "\<lparr>gt_manager = m, gt_calls = f(0 := PastCheck c0)\<rparr>"
  let ?s2 = "\<lparr>gt_manager = m, gt_calls = f(0 := PastCheck c0, 1 := PastCheck c1)\<rparr>"
  let ?s3 = "\<lparr>gt_manager = m0, gt_calls = f(1 := PastCheck c1, 0 := Finished r0)\<rparr>"
  let ?s4 = "\<lparr>gt_manager = m1, gt_calls = f(0 := Finished r0, 1 := Finished r1)\<rparr>"
  have "thread_step ?s0 ?s1" using do_check [of ?s0 0 c0 ev0] ev(1) past(1) f by simp
  moreover have "thread_step ?s1 ?s2" using do_check [of ?s1 1 c1 ev1] ev(2) past(2) f by simp
  moreover have "thread_step ?s2 ?s3"
    using do_write [of ?s2 0 c0 ev0 r0 m0] ev(1) w(1) by (simp add: fun_upd_twist)
  moreover have "thread_step ?s3 ?s4"
    using do_write [of ?s3 1 c1 ev1 r1 m1] ev(2) w(2) by (simp add: fun_upd_twist)
  ultimately show ?thesis by (meson converse_rtranclp_into_rtranclp rtranclp.rtrancl_refl)
qed

end
