(* ===== verification/Gate_Properties.thy ===== *)
theory Gate_Properties
  imports Gate_Run
begin

text \<open>
  The properties of the gates and, with each, a witness on a small concrete table.
\<close>

section \<open>Concrete data for the witnesses\<close>

definition ex_principal :: Principal where
  "ex_principal = \<lparr>pr_id = ''op'', pr_type = POperator, pr_idp_sub = None, pr_display_name = None\<rparr>"

definition ex_proposal :: GateProposal where
  "ex_proposal =
     \<lparr>gp_routine_id = ''triage'', gp_routine_run_id = ''r1'', gp_gate_id = ''draft'',
      gp_approval_modes = [Approve, ApproveAndRemember], gp_kind = Some ''preview'',
      gp_summary = ''Reply'', gp_payload = [(''to'', JStr ''a'')], gp_similarity_key = Some ''k'',
      gp_expires_after_seconds = Some 60\<rparr>"

definition ex_approve :: GateDecision where
  "ex_approve = \<lparr>gd_status = Approved, gd_result_payload = None, gd_reason = None\<rparr>"

definition ex_reject :: GateDecision where
  "ex_reject = \<lparr>gd_status = Rejected, gd_result_payload = None, gd_reason = None\<rparr>"

definition ex_gates :: gate_manager where
  "ex_gates = gate_init ex_principal []"

lemmas ex_gate_defs = ex_gates_def ex_proposal_def ex_approve_def ex_reject_def ex_principal_def
  gate_init_def

lemmas gate_eval = propose_for_review_def gate_insert_def new_instance_def proposal_key_def
  gate_emit_def auto_approvable_def has_remembered_approval_def record_decision_def
  update_decision_def gate_get_def find_gate_def row_to_instance_def write_decision_def
  update_where_def decide_def decide_event_def gate_run_def Let_def

section \<open>Finality\<close>

text \<open>C1: Once a gate has left \<open>pending\<close>, no sequence of proposals, decisions and expiry sweeps
  changes its row: neither its status, its result, its decision time nor any other column.\<close>

theorem gate_decision_final:
  assumes "find_gate (gm_rows m) pk = Some r" and "row_status r \<noteq> Pending"
  shows "find_gate (gm_rows (gate_run ops m)) pk = Some r"
  by (rule gate_run_invariant [of "\<lambda>m. find_gate (gm_rows m) pk = Some r"])
    (use assms gate_change_final in blast)+

lemma gate_decision_final_witness:
  "row_status (the (find_gate (gm_rows (gate_run
     [Decide ''g'' ex_reject None 9, ExpireDue (\<lambda>_. 0) 1000000000]
     (gate_run [Propose ''g'' 1 2 ex_proposal, Decide ''g'' ex_approve None 5] ex_gates))) ''g'')) = Approved"
proof -
  let ?m = "gate_run [Propose ''g'' 1 2 ex_proposal, Decide ''g'' ex_approve None 5] ex_gates"
  obtain r where r: "find_gate (gm_rows ?m) ''g'' = Some r" and st: "row_status r = Approved"
    by (simp add: gate_eval ex_gate_defs result_with_meta_def)
  have "find_gate (gm_rows (gate_run
     [Decide ''g'' ex_reject None 9, ExpireDue (\<lambda>_. 0) 1000000000] ?m)) ''g'' = Some r"
    by (intro gate_decision_final [OF r]) (simp add: st)
  with st show ?thesis by simp
qed

section \<open>The audit trail\<close>

text \<open>C2: After any run from an empty store, the audit log holds, for every gate, exactly the one
  decision event its status stands for (none while it is pending), a gate has a decision time
  exactly when it is decided, and keys are unique.\<close>

theorem gate_audit_exact:
  assumes "r \<in> set (gm_rows (gate_run ops (gate_init prin fns)))"
  shows "map em_event_type (decision_events (row_id r) (gm_audit (gate_run ops (gate_init prin fns))))
       = status_events (row_status r)
     \<and> (row_decided_at r = None \<longleftrightarrow> row_status r = Pending)
     \<and> distinct (map row_id (gm_rows (gate_run ops (gate_init prin fns))))"
  using audit_agrees_run [OF audit_agrees_init, of ops prin fns] assms
  unfolding audit_agrees_def by blast

lemma gate_audit_exact_witness:
  "map em_event_type (decision_events ''g'' (gm_audit (gate_run
     [Propose ''g'' 1 2 ex_proposal, Decide ''g'' ex_approve None 5] (gate_init ex_principal [])))) =
   [''gate.approved'']"
proof -
  let ?m = "gate_run [Propose ''g'' 1 2 ex_proposal, Decide ''g'' ex_approve None 5]
              (gate_init ex_principal [])"
  obtain r where "gm_rows ?m = [r]" and r: "row_id r = ''g''" "row_status r = Approved"
    by (simp add: gate_eval ex_gate_defs result_with_meta_def)
  then have "r \<in> set (gm_rows ?m)" by simp
  from gate_audit_exact [OF this] r show ?thesis
    by (simp add: status_events_def status_event_def)
qed

section \<open>Automatic approval\<close>

lemma propose_result:
  assumes "pk \<notin> row_id ` set (gm_rows m)"
  shows "\<exists>i. fst (propose_for_review pk now t p m) = Inr i \<and> gi_id i = pk \<and>
    gi_status i = (if auto_approvable (gm_rows m) p (proposal_key m p) then AutoApproved else Pending) \<and>
    find_gate (gm_rows (snd (propose_for_review pk now t p m))) pk =
      Some (if auto_approvable (gm_rows m) p (proposal_key m p)
            then decided_row AutoApproved
                   (result_with_meta (Some (gp_payload p)) (Some ApproveAndRemember) None) t
                   (pending_row pk now (proposal_key m p) p)
            else pending_row pk now (proposal_key m p) p)"
proof (cases "auto_approvable (gm_rows m) p (proposal_key m p)")
  case True
  note find = find_gate_with_proposal [OF assms, of now p]
  from True show ?thesis
    using record_decision_pending [OF find] find_gate_write_same [OF find]
    by (simp add: propose_fresh [OF assms] row_to_instance_def)
next
  case False
  then show ?thesis
    using find_gate_with_proposal [OF assms, of now p]
    by (simp add: propose_fresh [OF assms]) (simp add: new_instance_def)
qed

text \<open>C3: A proposal is approved without the operator exactly when it offers \<open>approve_and_remember\<close>,
  has a similarity key (its own, or the one the function registered for the gate computes from its payload),
  and the same routine already has an approved gate with the same gate id and key; in every other case it is
  stored pending and nothing is decided.  The row is appended, every other row stays, and the audit log
  gets the proposal's event, followed by the one of the automatic approval when there is one.\<close>

theorem propose_outcome:
  assumes "pk \<notin> row_id ` set (gm_rows m)"
    and "key = (if gp_similarity_key p = None
        then map_option (\<lambda>fn. fn (gp_payload p)) (dict_get (gm_similarity_fns m) (gp_gate_id p)) else gp_similarity_key p)"
    and "auto \<longleftrightarrow> ApproveAndRemember \<in> set (gp_approval_modes p) \<and>
      (\<exists>k r. key = Some k \<and> r \<in> set (gm_rows m) \<and> row_routine_id r = gp_routine_id p \<and> row_gate_id r = gp_gate_id p \<and>
         row_similarity_key r = Some k \<and> (row_status r = Approved \<or> row_status r = ModifiedAndApproved \<or> row_status r = AutoApproved))"
  shows "\<exists>i m' row. propose_for_review pk now t p m = (Inr i, m') \<and> gi_id i = pk \<and>
    gi_status i = (if auto then AutoApproved else Pending) \<and>
    gm_rows m' = gm_rows m @ [row] \<and>
    row_id row = pk \<and> row_routine_id row = gp_routine_id p \<and> row_gate_id row = gp_gate_id p \<and>
    row_similarity_key row = key \<and> row_created_at row = now \<and>
    row_expires_at row = map_option (\<lambda>secs. now + secs * 1000000) (gp_expires_after_seconds p) \<and>
    row_result_json row = (if auto then Some (dict_set ''_approval_mode'' (JStr ''approve_and_remember'') (gp_payload p)) else None) \<and>
    row_status row = (if auto then AutoApproved else Pending) \<and> row_decided_at row = (if auto then Some t else None) \<and>
    map em_event_type (gm_audit m') = map em_event_type (gm_audit m) @
      (if auto then [''gate.proposed'', ''gate.auto_approved_by_similarity''] else [''gate.proposed''])"
proof -
  have key: "key = proposal_key m p" using assms(2) by (auto simp: proposal_key_def split: option.splits)
  have auto: "auto \<longleftrightarrow> auto_approvable (gm_rows m) p key"
    unfolding assms(3) by (auto simp: auto_approvable_def has_remembered_approval_def split: option.splits)
  note find = find_gate_with_proposal [OF assms(1), of now p]
  have with_result: "result_with_meta (Some pl) (Some ApproveAndRemember) None =
      Some (dict_set ''_approval_mode'' (JStr ''approve_and_remember'') pl)" for pl
    by (cases pl) (auto simp: result_with_meta_def Let_def)
  show ?thesis
  proof (cases auto)
    case True
    have others: "update_where (\<lambda>r. row_id r = pk) f (gm_rows m) = gm_rows m" for f
      using assms(1) by (auto simp: update_where_def intro!: map_idI)
    then have "write_decision pk st res t (gm_rows (with_proposal m pk now p)) =
        gm_rows m @ [decided_row st res t (pending_row pk now key p)]" for st res
      by (simp add: write_decision_alt update_where_def key with_proposal_def)
    note written = this
    have "propose_for_review pk now t p m = record_decision pk AutoApproved (Some (gp_payload p))
        (Some ApproveAndRemember) ''gate.auto_approved_by_similarity'' None t (with_proposal m pk now p)"
      using True by (simp add: propose_fresh [OF assms(1)] auto [unfolded key])
    note run = this [unfolded record_decision_pending [OF find pending_row_sel(2)] written]
    show ?thesis
      unfolding run using True
      by (simp add: row_to_instance_def decided_row_def pending_row_def key with_result proposed_event_def
          decision_event_def emit_for_run_def new_instance_def)
  next
    case False
    then have "propose_for_review pk now t p m = (Inr (new_instance pk now key p), with_proposal m pk now p)"
      by (simp add: propose_fresh [OF assms(1)] auto [unfolded key] key)
    then show ?thesis
      using False by (simp add: new_instance_def pending_row_def key proposed_event_def emit_for_run_def)
  qed
qed

text \<open>A remembered approval of another gate does not count, one of the same gate does.\<close>

lemma propose_outcome_witness:
  "(\<exists>i m'. propose_for_review ''h'' 1 2 ex_proposal
      (ex_gates\<lparr>gm_rows := [(pending_row ''g'' 0 (Some ''k'') ex_proposal)\<lparr>row_status := Approved, row_gate_id := ''other''\<rparr>]\<rparr>) =
      (Inr i, m') \<and> gi_status i = Pending) \<and>
   (\<exists>i m'. propose_for_review ''h'' 1 2 ex_proposal
      (ex_gates\<lparr>gm_rows := [(pending_row ''g'' 0 (Some ''k'') ex_proposal)\<lparr>row_status := Approved\<rparr>]\<rparr>) =
      (Inr i, m') \<and> gi_status i = AutoApproved)"
proof -
  let ?other = "ex_gates\<lparr>gm_rows := [(pending_row ''g'' 0 (Some ''k'') ex_proposal)\<lparr>row_status := Approved, row_gate_id := ''other''\<rparr>]\<rparr>"
  let ?same = "ex_gates\<lparr>gm_rows := [(pending_row ''g'' 0 (Some ''k'') ex_proposal)\<lparr>row_status := Approved\<rparr>]\<rparr>"
  have fresh: "''h'' \<notin> row_id ` set (gm_rows ?other)" "''h'' \<notin> row_id ` set (gm_rows ?same)" by simp_all
  from propose_outcome [OF fresh(1) refl refl, where p = ex_proposal and now = 1 and t = 2]
    propose_outcome [OF fresh(2) refl refl, where p = ex_proposal and now = 1 and t = 2]
  show ?thesis by (auto simp: ex_proposal_def)
qed

text \<open>A single plain approval (mode \<open>approve\<close>, "yes to this specific proposal") is remembered: the
  next similar proposal that offers \<open>approve_and_remember\<close> is approved with no operator.\<close>

theorem plain_approval_is_remembered:
  assumes "pk \<noteq> pk2" and "pk2 \<notin> row_id ` set (gm_rows m)"
    and "find_gate (gm_rows m) pk = Some r" and "row_status r = Pending"
    and "row_routine_id r = gp_routine_id p" and "row_gate_id r = gp_gate_id p"
    and "row_similarity_key r = Some k" and "gp_similarity_key p = Some k"
    and "ApproveAndRemember \<in> set (gp_approval_modes p)"
  shows "\<exists>i. fst (propose_for_review pk2 now t2 p
      (snd (decide pk \<lparr>gd_status = Approved, gd_result_payload = res, gd_reason = rsn\<rparr>
              (Some Approve) t m))) = Inr i \<and> gi_status i = AutoApproved"
proof -
  let ?d = "\<lparr>gd_status = Approved, gd_result_payload = res, gd_reason = rsn\<rparr>"
  let ?res = "result_with_meta res (Some Approve) rsn"
  let ?m = "snd (decide pk ?d (Some Approve) t m)"
  have rows: "gm_rows ?m = write_decision pk Approved ?res t (gm_rows m)"
    using record_decision_pending [OF assms(3,4)] by (simp add: decide_def decide_event_def)
  have fresh: "pk2 \<notin> row_id ` set (gm_rows ?m)"
    using assms(2) by (metis rows map_row_id_write set_map)
  have "decided_row Approved ?res t r \<in> set (gm_rows ?m)"
    using find_gate_write_same [OF assms(3)] unfolding rows by (blast dest: find_gate_SomeD)
  then have "has_remembered_approval (gm_rows ?m) (gp_routine_id p) (gp_gate_id p) k"
    unfolding has_remembered_approval_def by (rule bexI [rotated]) (simp add: assms(5-7))
  then have "auto_approvable (gm_rows ?m) p (proposal_key ?m p)"
    using assms(8,9) by (simp add: auto_approvable_def proposal_key_def)
  with propose_result [OF fresh, of now t2 p] show ?thesis by auto
qed

lemma plain_approval_is_remembered_witness:
  "\<exists>i. fst (propose_for_review ''h'' 7 8 ex_proposal
      (snd (decide ''g'' \<lparr>gd_status = Approved, gd_result_payload = None, gd_reason = None\<rparr>
              (Some Approve) 5 (with_proposal ex_gates ''g'' 1 ex_proposal)))) = Inr i
     \<and> gi_status i = AutoApproved"
proof -
  let ?r = "pending_row ''g'' 1 (Some ''k'') ex_proposal"
  have find: "find_gate (gm_rows (with_proposal ex_gates ''g'' 1 ex_proposal)) ''g'' = Some ?r"
    by (simp add: find_gate_def ex_gate_defs proposal_key_def)
  show ?thesis
    by (rule plain_approval_is_remembered [OF _ _ find, where k = "''k''"])
      (simp_all add: ex_gate_defs)
qed

section \<open>The expiry sweep\<close>

text \<open>C4: \<open>expire_due\<close> never fails; it returns, oldest first, exactly the pending gates whose
  deadline has been reached, marks exactly those rows expired with one \<open>gate.expired\<close> event each
  in the same order, and leaves every other row as it was.\<close>

theorem expire_due_exact:
  assumes "distinct (map row_id (gm_rows m))"
  shows "expire_due clk now m =
    (Inr (map (\<lambda>r. row_to_instance (expired_row clk r))
            (sort_key row_created_at (filter (row_due now) (gm_rows m)))),
     m\<lparr>gm_rows := update_where (row_due now) (expired_row clk) (gm_rows m),
       gm_audit := gm_audit m @
         map (expired_event m) (sort_key row_created_at (filter (row_due now) (gm_rows m)))\<rparr>)"
  using assms by (rule expire_due_effect)

lemma expire_due_exact_witness:
  "map gi_status (case fst (expire_due (\<lambda>_. 99) 70000000 (with_proposal ex_gates ''g'' 1 ex_proposal))
     of Inr is \<Rightarrow> is | Inl e \<Rightarrow> []) = [Expired]"
proof -
  have d: "distinct (map row_id (gm_rows (with_proposal ex_gates ''g'' 1 ex_proposal)))"
    by (simp add: ex_gate_defs)
  show ?thesis
    unfolding expire_due_exact [OF d, of "\<lambda>_. 99" 70000000]
    by (simp add: ex_gate_defs proposal_key_def pending_row_def row_due_def new_instance_def
        row_to_instance_def expired_row_def)
qed

section \<open>Two concurrent decisions\<close>

text \<open>Two concurrent \<open>decide\<close> calls on one pending gate can both succeed: the status check and
  the update are separate statements, so an approval and a rejection both return normally, the
  row keeps the later one, and the audit log carries both decisions.\<close>

theorem concurrent_decisions_both_succeed:
  "\<exists>s. thread_step\<^sup>*\<^sup>*
     \<lparr>gt_manager = with_proposal ex_gates ''g'' 1 ex_proposal,
      gt_calls = (\<lambda>i. if i = 0 then NotStarted \<lparr>dc_pk = ''g'', dc_decision = ex_approve, dc_mode = None, dc_time = 5\<rparr>
                      else NotStarted \<lparr>dc_pk = ''g'', dc_decision = ex_reject, dc_mode = None, dc_time = 6\<rparr>)\<rparr> s
   \<and> (\<exists>i0 i1. gt_calls s 0 = Finished (Inr i0) \<and> gi_status i0 = Approved
            \<and> gt_calls s 1 = Finished (Inr i1) \<and> gi_status i1 = Rejected)
   \<and> map row_status (gm_rows (gt_manager s)) = [Rejected]
   \<and> map em_event_type (decision_events ''g'' (gm_audit (gt_manager s))) = [''gate.approved'', ''gate.rejected'']"
proof -
  let ?c0 = "\<lparr>dc_pk = ''g'', dc_decision = ex_approve, dc_mode = None, dc_time = 5\<rparr>"
  let ?c1 = "\<lparr>dc_pk = ''g'', dc_decision = ex_reject, dc_mode = None, dc_time = 6\<rparr>"
  let ?m0 = "with_proposal ex_gates ''g'' 1 ex_proposal"
  let ?f = "\<lambda>i::nat. if i = 0 then NotStarted ?c0 else NotStarted ?c1"
  let ?w0 = "write_half ?c0 ''gate.approved'' ?m0"
  let ?w1 = "write_half ?c1 ''gate.rejected'' (snd ?w0)"
  let ?r = "pending_row ''g'' 1 (Some ''k'') ex_proposal"
  have rows0: "gm_rows ?m0 = [?r]" by (simp add: ex_gate_defs proposal_key_def)
  then have find0: "find_gate (gm_rows ?m0) (dc_pk ?c0) = Some ?r" by (simp add: find_gate_def)
  note w0 = write_half_row [OF find0, of "''gate.approved''"]
  have "find_gate (gm_rows (snd ?w0)) (dc_pk ?c1) = Some (decided_row Approved None 5 ?r)"
    unfolding w0 using find_gate_write_same [OF find0] by (simp add: ex_approve_def)
  note w1 = write_half_row [OF this, of "''gate.rejected''"]
  have past: "check_half ?c0 ?m0 = PastCheck ?c0" "check_half ?c1 ?m0 = PastCheck ?c1"
    by (simp_all add: check_half_def gate_get_def find_gate_def row_to_instance_def ex_gate_defs)
  have st: "gd_status ex_approve = Approved" "gd_status ex_reject = Rejected"
    by (simp_all add: ex_approve_def ex_reject_def)
  have out0: "\<exists>i. fst ?w0 = Inr i \<and> gi_status i = Approved"
    unfolding w0 by (simp add: row_to_instance_def st)
  have out1: "\<exists>i. fst ?w1 = Inr i \<and> gi_status i = Rejected"
    unfolding w1 by (simp add: row_to_instance_def st)
  have rows1: "map row_status (gm_rows (snd ?w1)) = [Rejected]"
    unfolding w1 unfolding w0 by (simp add: rows0 ex_gates_def gate_init_def write_decision_alt update_where_def st)
  have aud1: "map em_event_type (decision_events ''g'' (gm_audit (snd ?w1))) =
      [''gate.approved'', ''gate.rejected'']"
    unfolding w1 unfolding w0 by (simp add: decision_events_def ex_gates_def gate_init_def)
  have ev: "decide_event (gd_status (dc_decision ?c0)) = Some ''gate.approved''"
    "decide_event (gd_status (dc_decision ?c1)) = Some ''gate.rejected''"
    by (simp_all add: decide_event_def ex_gate_defs)
  obtain r0 m0 where e0: "?w0 = (r0, m0)" by fastforce
  obtain r1 m1 where e1: "write_half ?c1 ''gate.rejected'' m0 = (r1, m1)" by fastforce
  have w1_eq: "?w1 = (r1, m1)" using e0 e1 by simp
  have run: "thread_step\<^sup>*\<^sup>* \<lparr>gt_manager = ?m0, gt_calls = ?f\<rparr>
      \<lparr>gt_manager = m1, gt_calls = ?f(0 := Finished r0, 1 := Finished r1)\<rparr>"
    by (rule interleaved_decides [OF ev past e0 e1]) simp_all
  have "\<exists>i. r0 = Inr i \<and> gi_status i = Approved" using out0 unfolding e0 by simp
  moreover have "\<exists>i. r1 = Inr i \<and> gi_status i = Rejected" using out1 unfolding w1_eq by simp
  moreover have "map row_status (gm_rows m1) = [Rejected]" using rows1 unfolding w1_eq by simp
  moreover have "map em_event_type (decision_events ''g'' (gm_audit m1)) = [''gate.approved'', ''gate.rejected'']"
    using aud1 unfolding w1_eq by simp
  ultimately show ?thesis
    by - (rule exI, rule conjI, rule run, auto)
qed

section \<open>What the approval queue can show\<close>

text \<open>Every gate read back from the store (\<open>get\<close>, \<open>list_pending\<close>, \<open>list_recent\<close>) has an empty
  summary and no kind, whatever its proposal carried: the row has no such column.  A pending
  queue built from it cannot show the proposal's one-line description.\<close>

theorem stored_gate_has_no_summary:
  "(\<forall>i \<in> set (list_pending rows rid) \<union> set (list_recent rows limit). gi_summary i = [] \<and> gi_kind i = None)
   \<and> (\<forall>i. gate_get rows pk = Inr i \<longrightarrow> gi_summary i = [] \<and> gi_kind i = None)"
proof -
  have row: "gi_summary (row_to_instance r) = [] \<and> gi_kind (row_to_instance r) = None" for r
    by (simp add: row_to_instance_def)
  then show ?thesis
    by (auto simp: list_pending_def list_recent_def gate_get_def Let_def
        split: option.splits if_splits dest!: in_set_takeD)
qed

lemma stored_gate_has_no_summary_witness:
  "gp_summary ex_proposal = ''Reply'' \<and>
   map gi_summary (list_pending (gm_rows (with_proposal ex_gates ''g'' 1 ex_proposal)) None) = [[]]"
proof -
  let ?rows = "gm_rows (with_proposal ex_gates ''g'' 1 ex_proposal)"
  have one: "list_pending ?rows None = [row_to_instance (pending_row ''g'' 1 (Some ''k'') ex_proposal)]"
    by (simp add: list_pending_def ex_gate_defs proposal_key_def)
  then have "gi_summary (row_to_instance (pending_row ''g'' 1 (Some ''k'') ex_proposal)) = []"
    using stored_gate_has_no_summary [of ?rows None 0 "''g''"] by simp
  with one show ?thesis by (simp add: ex_proposal_def)
qed

end
