(* ===== verification/Py_Values.thy ===== *)
theory Py_Values
  imports Ota_Prelude
begin

text \<open>
  The values of Python the program prints or compares: the text of an \<open>int\<close>, the \<open>repr\<close> of an
  ASCII \<open>str\<close> and of a list of them, \<open>decimal.Decimal\<close> and \<open>float\<close>.

  A \<open>Decimal\<close> is its coefficient and exponent, because \<open>str\<close> shows the exponent (\<open>0.10\<close> is not
  printed as \<open>0.1\<close>). A \<open>float\<close> is given by the shortest decimal that denotes it, which is what
  \<open>repr\<close> prints. Sums are exact: the context precision of 28 digits is not reached by amounts of money.
\<close>

section \<open>Integers\<close>

fun digits_of :: "nat \<Rightarrow> string" where
  "digits_of n = (if n < 10 then [char_of (48 + n)] else digits_of (n div 10) @ [char_of (48 + n mod 10)])"

declare digits_of.simps [simp del]

definition int_str :: "int \<Rightarrow> string" where
  "int_str i = (if i < 0 then CHR ''-'' # digits_of (nat (- i)) else digits_of (nat i))"

definition digit_val :: "char \<Rightarrow> nat" where
  "digit_val c = of_char c - 48"

definition nat_of_digits :: "string \<Rightarrow> nat" where
  "nat_of_digits s = foldl (\<lambda>n c. 10 * n + digit_val c) 0 s"

text \<open>The format specification \<open>0wd\<close>.\<close>

definition pad_left :: "nat \<Rightarrow> string \<Rightarrow> string" where
  "pad_left w s = replicate (w - length s) (CHR ''0'') @ s"

definition zero_pad :: "nat \<Rightarrow> int \<Rightarrow> string" where
  "zero_pad w i = pad_left w (int_str i)"

lemma digits_of_nonempty [simp]: "digits_of n \<noteq> []"
  by (subst digits_of.simps) simp

lemma digit_val_char_of [simp]: "n < 10 \<Longrightarrow> digit_val (char_of (48 + n)) = n"
  by (simp add: digit_val_def take_bit_eq_mod)

lemma nat_of_digits_snoc: "nat_of_digits (s @ [c]) = 10 * nat_of_digits s + digit_val c"
  by (simp add: nat_of_digits_def)

lemma nat_of_digits_of [simp]: "nat_of_digits (digits_of n) = n"
proof (induction n rule: digits_of.induct)
  case (1 n)
  show ?case
  proof (cases "n < 10")
    case True
    then show ?thesis by (simp add: digits_of.simps nat_of_digits_def)
  next
    case False
    then have "nat_of_digits (digits_of (n div 10)) = n div 10" using "1.IH" by blast
    then show ?thesis using False by (subst digits_of.simps) (simp add: nat_of_digits_snoc)
  qed
qed

lemma digits_of_inject: "digits_of m = digits_of n \<longleftrightarrow> m = n"
  by (metis nat_of_digits_of)

lemma nat_of_digits_zeros: "nat_of_digits (replicate k (CHR ''0'') @ s) = nat_of_digits s"
  by (induction k) (simp_all add: nat_of_digits_def digit_val_def)

section \<open>The repr of a text\<close>

text \<open>Python quotes with a double quote only when the text holds a single quote and no double one.\<close>

definition quote_of :: "string \<Rightarrow> char" where
  "quote_of s = (if CHR 0x27 \<in> set s \<and> CHR 0x22 \<notin> set s then CHR 0x22 else CHR 0x27)"

definition hex_digit :: "nat \<Rightarrow> char" where
  "hex_digit n = (if n < 10 then char_of (48 + n) else char_of (87 + n))"

definition repr_char :: "char \<Rightarrow> char \<Rightarrow> string" where
  "repr_char q c =
     (let n = (of_char c :: nat)
      in if c = q \<or> c = CHR 0x5C then [CHR 0x5C, c]
         else if n = 10 then [CHR 0x5C, CHR ''n'']
         else if n = 13 then [CHR 0x5C, CHR ''r'']
         else if n = 9 then [CHR 0x5C, CHR ''t'']
         else if n < 32 \<or> n = 127 then [CHR 0x5C, CHR ''x'', hex_digit (n div 16), hex_digit (n mod 16)]
         else [c])"

definition repr_str :: "string \<Rightarrow> string" where
  "repr_str s = (let q = quote_of s in [q] @ concat (map (repr_char q) s) @ [q])"

definition repr_strs :: "string list \<Rightarrow> string" where
  "repr_strs xs = ''['' @ join '', '' (map repr_str xs) @ '']''"

section \<open>Decimals and floats\<close>

record decimal =
  dec_coef :: int
  dec_exp :: int

definition ten_pow :: "int \<Rightarrow> rat" where
  "ten_pow e = (if e < 0 then 1 / 10 ^ nat (- e) else 10 ^ nat e)"

definition dec_value :: "decimal \<Rightarrow> rat" where
  "dec_value d = of_int (dec_coef d) * ten_pow (dec_exp d)"

definition dec_zero :: decimal where
  "dec_zero = \<lparr>dec_coef = 0, dec_exp = 0\<rparr>"

definition dec_add :: "decimal \<Rightarrow> decimal \<Rightarrow> decimal" where
  "dec_add a b =
     (let e = min (dec_exp a) (dec_exp b)
      in \<lparr>dec_coef = dec_coef a * 10 ^ nat (dec_exp a - e) + dec_coef b * 10 ^ nat (dec_exp b - e),
          dec_exp = e\<rparr>)"

definition dec_less :: "decimal \<Rightarrow> decimal \<Rightarrow> bool" where
  "dec_less a b \<longleftrightarrow> dec_value a < dec_value b"

text \<open>\<open>Decimal.__str__\<close>: plain notation when the exponent is not positive and the number is not tiny.\<close>

definition place_dot :: "string \<Rightarrow> int \<Rightarrow> string" where
  "place_dot ds dot =
     (if dot \<le> 0 then ''0.'' @ replicate (nat (- dot)) (CHR ''0'') @ ds
      else if int (length ds) \<le> dot then ds @ replicate (nat (dot - int (length ds))) (CHR ''0'')
      else take (nat dot) ds @ ''.'' @ drop (nat dot) ds)"

definition signed_int_str :: "int \<Rightarrow> string" where
  "signed_int_str i = (if i < 0 then int_str i else CHR ''+'' # int_str i)"

definition dec_str :: "decimal \<Rightarrow> string" where
  "dec_str d =
     (let ds = digits_of (nat \<bar>dec_coef d\<bar>);
          left = dec_exp d + int (length ds);
          dot = (if dec_exp d \<le> 0 \<and> - 6 < left then left else 1);
          sign = (if dec_coef d < 0 then ''-'' else [])
      in sign @ place_dot ds dot @ (if left = dot then [] else ''E'' @ signed_int_str (left - dot)))"

text \<open>The float nearest to a decimal, as the shortest decimal that denotes it: trailing zeros go.
  (Amounts of at most 15 significant digits.)\<close>

function strip_zeros :: "int \<Rightarrow> int \<Rightarrow> decimal" where
  "strip_zeros c e =
     (if c = 0 then \<lparr>dec_coef = 0, dec_exp = 0\<rparr>
      else if c mod 10 = 0 then strip_zeros (c div 10) (e + 1)
      else \<lparr>dec_coef = c, dec_exp = e\<rparr>)"
  by pat_completeness auto
termination
proof (relation "measure (\<lambda>(c, e). nat \<bar>c\<bar>)")
  show "((c div 10, e + 1), (c, e)) \<in> measure (\<lambda>(c, e). nat \<bar>c\<bar>)"
    if "c \<noteq> 0" "c mod 10 = 0" for c e :: int
    using that by auto
qed simp

declare strip_zeros.simps [simp del]

definition to_float :: "decimal \<Rightarrow> decimal" where
  "to_float d = strip_zeros (dec_coef d) (dec_exp d)"

text \<open>\<open>float.__repr__\<close>: plain notation from 1e-4 up to 1e16, with at least one digit after the dot.\<close>

definition exp_str :: "int \<Rightarrow> string" where
  "exp_str x = (if x < 0 then ''e-'' else ''e+'') @ zero_pad 2 \<bar>x\<bar>"

definition float_str :: "decimal \<Rightarrow> string" where
  "float_str f =
     (let ds = digits_of (nat \<bar>dec_coef f\<bar>);
          left = dec_exp f + int (length ds);
          sign = (if dec_coef f < 0 then ''-'' else []);
          plain = place_dot ds left
      in sign @
         (if dec_coef f = 0 then ''0.0''
          else if - 4 < left \<and> left \<le> 16 then plain @ (if int (length ds) \<le> left then ''.0'' else [])
          else (if length ds = 1 then ds else place_dot ds 1) @ exp_str (left - 1)))"

lemma ten_pow_add: "ten_pow (a + int n) = ten_pow a * 10 ^ n"
proof (cases "a < 0")
  case True
  show ?thesis
  proof (cases "a + int n < 0")
    case less: True
    have "nat (- a) = nat (- (a + int n)) + n" using less by simp
    then show ?thesis using True less by (simp add: ten_pow_def power_add)
  next
    case ge: False
    have "n = nat (- a) + nat (a + int n)" using True ge by simp
    then have "(10 :: rat) ^ n = 10 ^ nat (- a) * 10 ^ nat (a + int n)"
      by (metis power_add)
    then show ?thesis using True ge by (simp add: ten_pow_def)
  qed
next
  case False
  then show ?thesis by (simp add: ten_pow_def nat_add_distrib power_add)
qed

lemma dec_value_scale: "e \<le> dec_exp d \<Longrightarrow>
  of_int (dec_coef d * 10 ^ nat (dec_exp d - e)) * ten_pow e = dec_value d"
  using ten_pow_add [of e "nat (dec_exp d - e)"] by (simp add: dec_value_def mult.commute)

lemma dec_value_add [simp]: "dec_value (dec_add a b) = dec_value a + dec_value b"
proof -
  let ?e = "min (dec_exp a) (dec_exp b)"
  have "dec_value (dec_add a b) =
      of_int (dec_coef a * 10 ^ nat (dec_exp a - ?e)) * ten_pow ?e +
      of_int (dec_coef b * 10 ^ nat (dec_exp b - ?e)) * ten_pow ?e"
    by (simp add: dec_add_def dec_value_def Let_def algebra_simps)
  then show ?thesis using dec_value_scale [of ?e a] dec_value_scale [of ?e b] by simp
qed

lemma dec_value_zero [simp]: "dec_value dec_zero = 0"
  by (simp add: dec_value_def dec_zero_def)

lemma dec_value_strip: "dec_value (strip_zeros c e) = of_int c * ten_pow e"
proof (induction c e rule: strip_zeros.induct)
  case (1 c e)
  show ?case
  proof (cases "c \<noteq> 0 \<and> c mod 10 = 0")
    case True
    then have c: "c = (c div 10) * 10" by presburger
    have "dec_value (strip_zeros (c div 10) (e + 1)) = of_int (c div 10) * ten_pow (e + 1)"
      using "1.IH" True by simp
    also have "\<dots> = of_int ((c div 10) * 10) * ten_pow e"
      using ten_pow_add [of e 1] by simp
    finally show ?thesis using True c by (subst strip_zeros.simps) simp
  next
    case False
    then show ?thesis by (subst strip_zeros.simps) (auto simp: dec_value_def)
  qed
qed

lemma dec_value_float [simp]: "dec_value (to_float d) = dec_value d"
  by (simp add: to_float_def dec_value_strip) (simp add: dec_value_def)

section \<open>The repr of a value\<close>

fun py_repr :: "json \<Rightarrow> string" where
  "py_repr JNull = ''None''"
| "py_repr (JBool b) = (if b then ''True'' else ''False'')"
| "py_repr (JInt i) = int_str i"
| "py_repr (JNum c e) = float_str \<lparr>dec_coef = c, dec_exp = e\<rparr>"
| "py_repr (JStr s) = repr_str s"
| "py_repr (JArr xs) = ''['' @ join '', '' (map py_repr xs) @ '']''"
| "py_repr (JObj d) = ''{'' @ join '', '' (map (\<lambda>(k, v). repr_str k @ '': '' @ py_repr v) d) @ ''}''"

end
