(* ===== verification/Ota_Errors.thy ===== *)
theory Ota_Errors
  imports Py_Values
begin

text \<open>
  The exceptions the model raises, with what handlers look at: the class (\<open>type(e).__name__\<close>), the
  family (\<open>PolicyError\<close>, \<open>BindingError\<close>, \<open>OTAConnectError\<close>) and \<open>str(e)\<close>.  They are those of
  \<open>ota_core/policy/errors.py\<close>, \<open>ota_connect/binding/errors.py\<close>, \<open>ota_connect/_types/errors.py\<close> and
  \<open>ota_connect/binding/error_norm.py\<close>; any other Python exception is a \<open>PyError\<close> with its class name
  and its text.
\<close>

section \<open>Classes\<close>

datatype py_num = PInt int | PFloat decimal

primrec num_str :: "py_num \<Rightarrow> string" where
  "num_str (PInt i) = int_str i"
| "num_str (PFloat f) = float_str f"

primrec json_num :: "py_num \<Rightarrow> json" where
  "json_num (PInt i) = JInt i"
| "json_num (PFloat f) = JNum (dec_coef f) (dec_exp f)"

datatype connect_class =
    OTAConnectError
  | IdentityResolveError
  | AdapterMismatchError
  | RecipientUnreachable
  | RateLimited
  | MessageRejected
  | AdapterUnavailable
  | CapabilityDegraded

primrec connect_name :: "connect_class \<Rightarrow> string" where
  "connect_name OTAConnectError = ''OTAConnectError''"
| "connect_name IdentityResolveError = ''IdentityResolveError''"
| "connect_name AdapterMismatchError = ''AdapterMismatchError''"
| "connect_name RecipientUnreachable = ''RecipientUnreachable''"
| "connect_name RateLimited = ''RateLimited''"
| "connect_name MessageRejected = ''MessageRejected''"
| "connect_name AdapterUnavailable = ''AdapterUnavailable''"
| "connect_name CapabilityDegraded = ''CapabilityDegraded''"

text \<open>\<open>bool(getattr(cls, "retryable", False))\<close>: two classes set it in their body.\<close>

definition class_retryable :: "connect_class \<Rightarrow> bool" where
  "class_retryable c \<longleftrightarrow> c = RateLimited \<or> c = AdapterUnavailable"

text \<open>Values of the fields of an \<open>OTAConnectError\<close>; \<open>FDelta\<close> is a \<open>timedelta\<close> in microseconds.\<close>

datatype field_value =
    FNone
  | FBool bool
  | FStr string
  | FStrs "string list"
  | FDelta int

type_synonym error_fields = "(string, field_value) dict"

datatype exn =
    NotInRoutineRunError
  | IntegrationNotAllowedError string "string list"
  | ScopeEscalationError string "string list" "string list"
  | BudgetExceededError string py_num py_num py_num
  | NoBindingError string string
  | AdapterNotFoundError string string string
  | CapabilityNotSatisfiedError string string "string option"
  | AdapterLoadError string string exn
  | VerbNotImplementedError string string string
  | InstallValidationError string "string list"
  | NotConfiguredError string string
  | ConnectError connect_class error_fields
  | PyError string string

fun exc_class :: "exn \<Rightarrow> string" where
  "exc_class NotInRoutineRunError = ''NotInRoutineRunError''"
| "exc_class (IntegrationNotAllowedError _ _) = ''IntegrationNotAllowedError''"
| "exc_class (ScopeEscalationError _ _ _) = ''ScopeEscalationError''"
| "exc_class (BudgetExceededError _ _ _ _) = ''BudgetExceededError''"
| "exc_class (NoBindingError _ _) = ''NoBindingError''"
| "exc_class (AdapterNotFoundError _ _ _) = ''AdapterNotFoundError''"
| "exc_class (CapabilityNotSatisfiedError _ _ _) = ''CapabilityNotSatisfiedError''"
| "exc_class (AdapterLoadError _ _ _) = ''AdapterLoadError''"
| "exc_class (VerbNotImplementedError _ _ _) = ''VerbNotImplementedError''"
| "exc_class (InstallValidationError _ _) = ''InstallValidationError''"
| "exc_class (NotConfiguredError _ _) = ''NotConfiguredError''"
| "exc_class (ConnectError c _) = connect_name c"
| "exc_class (PyError c _) = c"

fun is_binding_error :: "exn \<Rightarrow> bool" where
  "is_binding_error (NoBindingError _ _) = True"
| "is_binding_error (AdapterNotFoundError _ _ _) = True"
| "is_binding_error (CapabilityNotSatisfiedError _ _ _) = True"
| "is_binding_error (AdapterLoadError _ _ _) = True"
| "is_binding_error (VerbNotImplementedError _ _ _) = True"
| "is_binding_error (InstallValidationError _ _) = True"
| "is_binding_error _ = False"

fun is_policy_error :: "exn \<Rightarrow> bool" where
  "is_policy_error NotInRoutineRunError = True"
| "is_policy_error (IntegrationNotAllowedError _ _) = True"
| "is_policy_error (ScopeEscalationError _ _ _) = True"
| "is_policy_error (BudgetExceededError _ _ _ _) = True"
| "is_policy_error _ = False"

definition is_connect_error :: "exn \<Rightarrow> bool" where
  "is_connect_error e \<longleftrightarrow> (case e of ConnectError _ _ \<Rightarrow> True | _ \<Rightarrow> False)"

section \<open>Texts\<close>

definition nl :: string where
  "nl = [CHR 0x0A]"

definition repr_opt :: "string option \<Rightarrow> string" where
  "repr_opt s = (case s of None \<Rightarrow> ''None'' | Some t \<Rightarrow> repr_str t)"

text \<open>\<open>repr\<close> of a \<open>timedelta\<close>: its non-zero parts, days, seconds and microseconds.\<close>

definition repr_delta :: "int \<Rightarrow> string" where
  "repr_delta us =
     (let days = us div 86400000000; secs = us mod 86400000000 div 1000000; micros = us mod 1000000;
          parts = (if days \<noteq> 0 then [''days='' @ int_str days] else []) @
                  (if secs \<noteq> 0 then [''seconds='' @ int_str secs] else []) @
                  (if micros \<noteq> 0 then [''microseconds='' @ int_str micros] else [])
      in ''datetime.timedelta('' @ (if parts = [] then ''0'' else join '', '' parts) @ '')'')"

primrec repr_field :: "field_value \<Rightarrow> string" where
  "repr_field FNone = ''None''"
| "repr_field (FBool b) = (if b then ''True'' else ''False'')"
| "repr_field (FStr s) = repr_str s"
| "repr_field (FStrs xs) = repr_strs xs"
| "repr_field (FDelta d) = repr_delta d"

primrec field_str :: "field_value \<Rightarrow> string" where
  "field_str FNone = ''None''"
| "field_str (FBool b) = (if b then ''True'' else ''False'')"
| "field_str (FStr s) = s"
| "field_str (FStrs xs) = repr_strs xs"
| "field_str (FDelta d) = repr_delta d"

definition BASE_FIELDS :: "string list" where
  "BASE_FIELDS = [''adapter'', ''capability'', ''verb'', ''retryable'']"

text \<open>The message \<open>make_error\<close> gives the instance.\<close>

definition connect_message :: "connect_class \<Rightarrow> error_fields \<Rightarrow> string" where
  "connect_message c flds =
     (let txt = (\<lambda>k. field_str (dict_get_or flds k FNone));
          extras = filter (\<lambda>kv. fst kv \<notin> set BASE_FIELDS) flds;
          suffix = (if extras = [] then []
                    else '' '' @ join '' '' (map (\<lambda>kv. fst kv @ ''='' @ repr_field (snd kv)) extras))
      in ''['' @ txt ''adapter'' @ ''] '' @ txt ''capability'' @ ''.'' @ txt ''verb'' @ '': '' @
         connect_name c @ suffix)"

fun exc_str :: "exn \<Rightarrow> string" where
  "exc_str NotInRoutineRunError = ''L0b enforcement called outside of an active routine_run context''"
| "exc_str (IntegrationNotAllowedError i allowed) =
     ''routine has no declared dependency on integration='' @ repr_str i @ ''; declared: '' @ repr_strs allowed"
| "exc_str (ScopeEscalationError i missing declared) =
     ''verb requires scopes outside routine declaration for integration='' @ i @ '': missing='' @
     repr_strs missing @ '', declared='' @ repr_strs declared"
| "exc_str (BudgetExceededError kind limit used requested) =
     ''budget '' @ kind @ '' exceeded: limit='' @ num_str limit @ '', used='' @ num_str used @
     '', would-use='' @ num_str requested"
| "exc_str (NoBindingError c v) =
     ''no binding for capability='' @ repr_str c @ '' verb='' @ repr_str v @
     ''; add an entry under bindings.capabilities''"
| "exc_str (AdapterNotFoundError a c v) =
     ''binding for '' @ c @ ''.'' @ v @ '' -> '' @ repr_str a @
     '', but no adapter with that id is discoverable from the configured IntegrationSource roots''"
| "exc_str (CapabilityNotSatisfiedError a c r) =
     ''adapter '' @ repr_str a @ '' does not satisfy capability='' @ repr_str c @
     '' (required_version='' @ repr_opt r @ '')''"
| "exc_str (AdapterLoadError a ep cause) =
     ''failed to load adapter '' @ repr_str a @ '' from entrypoint '' @ repr_str ep @ '': '' @
     exc_class cause @ '': '' @ exc_str cause"
| "exc_str (VerbNotImplementedError a c v) =
     ''adapter '' @ repr_str a @ '' does not implement '' @ c @ ''.'' @ repr_str v"
| "exc_str (InstallValidationError r issues) =
     ''install validation failed for routine '' @ repr_str r @ '':'' @ nl @ ''  - '' @
     join (nl @ ''  - '') issues"
| "exc_str (NotConfiguredError c v) =
     ''ota_connect.'' @ c @ ''.'' @ v @ '' called but no DispatchContext is installed; framework boot '' @
     ''must call ota_connect.binding.dispatch.set_dispatch_context(...) before the first verb call''"
| "exc_str (ConnectError c flds) = connect_message c flds"
| "exc_str (PyError _ msg) = msg"

section \<open>\<open>make_error\<close>\<close>

definition missing_fields :: "error_fields \<Rightarrow> string list" where
  "missing_fields flds =
     filter (\<lambda>f. \<not> dict_has flds f) [''adapter'', ''capability'', ''verb'']"

text \<open>\<open>Inl\<close> is the exception \<open>make_error\<close> itself raises, \<open>Inr\<close> the instance it returns.\<close>

definition make_error :: "connect_class \<Rightarrow> error_fields \<Rightarrow> exn + exn" where
  "make_error c flds =
     (let missing = missing_fields flds
      in if missing \<noteq> []
         then Inl (PyError ''TypeError''
           (''make_error('' @ connect_name c @ ''): missing required fields: '' @ repr_strs missing))
         else Inr (ConnectError c
           (if dict_has flds ''retryable'' then flds
            else dict_set ''retryable'' (FBool (class_retryable c)) flds)))"

definition error_field :: "exn \<Rightarrow> string \<Rightarrow> field_value option" where
  "error_field e f = (case e of ConnectError c flds \<Rightarrow> dict_get flds f | _ \<Rightarrow> None)"

definition is_retryable :: "exn \<Rightarrow> bool" where
  "is_retryable e \<longleftrightarrow> error_field e ''retryable'' = Some (FBool True)"

section \<open>\<open>normalize_adapter_errors\<close>\<close>

definition unavailable_error :: "string \<Rightarrow> string \<Rightarrow> string \<Rightarrow> exn" where
  "unavailable_error adapter capability verb =
     ConnectError AdapterUnavailable
       [(''adapter'', FStr adapter), (''capability'', FStr capability), (''verb'', FStr verb),
        (''retryable'', FBool True)]"

definition normalize_error :: "string \<Rightarrow> string \<Rightarrow> string \<Rightarrow> exn \<Rightarrow> exn" where
  "normalize_error adapter capability verb e =
     (if is_connect_error e then e else unavailable_error adapter capability verb)"

definition normalize_adapter_errors ::
  "string \<Rightarrow> string \<Rightarrow> string \<Rightarrow> ('s, exn, 'a) py \<Rightarrow> ('s, exn, 'a) py" where
  "normalize_adapter_errors adapter capability verb body s =
     (case body s of
        (Inl e, t) \<Rightarrow> (Inl (normalize_error adapter capability verb e), t)
      | (Inr a, t) \<Rightarrow> (Inr a, t))"

lemma unavailable_is_made:
  "make_error AdapterUnavailable
     [(''adapter'', FStr a), (''capability'', FStr c), (''verb'', FStr v), (''retryable'', FBool True)] =
   Inr (unavailable_error a c v)"
  by (simp add: make_error_def missing_fields_def unavailable_error_def)

lemma normalize_error_connect [simp]: "is_connect_error (normalize_error a c v e)"
  by (simp add: normalize_error_def unavailable_error_def is_connect_error_def split: exn.splits)

lemma make_error_connect: "make_error c flds = Inr e \<Longrightarrow> is_connect_error e"
  by (auto simp: make_error_def Let_def is_connect_error_def split: if_splits)

lemma make_error_retryable:
  "make_error c flds = Inr e \<Longrightarrow> \<not> dict_has flds ''retryable'' \<Longrightarrow> is_retryable e \<longleftrightarrow> class_retryable c"
  by (auto simp: make_error_def Let_def is_retryable_def error_field_def dict_simps split: if_splits)

end
