(* ===== verification/Trace_Context.thy ===== *)
theory Trace_Context
  imports Ota_Errors Audit_Event
begin

text \<open>
  \<open>ota_core/trace/context.py\<close>: the context variables for the trace and span identifiers and the
  context manager \<open>bind_trace\<close>.  A context variable is a field of the state; a context manager is
  a function of the body it surrounds.  A token from \<open>secrets.token_hex\<close> is an argument.
\<close>

record trace_vars =
  tv_trace :: "string option"
  tv_span :: "string option"

definition SPAN_ID_PATTERN :: regex where
  "SPAN_ID_PATTERN = r_rep 16 (RSet is_lower_hex)"

definition current_trace_id :: "'w trace_vars_scheme \<Rightarrow> string option" where
  "current_trace_id w = tv_trace w"

definition current_span_id :: "'w trace_vars_scheme \<Rightarrow> string option" where
  "current_span_id w = tv_span w"

definition ensure_trace_id :: "string \<Rightarrow> 'w trace_vars_scheme \<Rightarrow> string" where
  "ensure_trace_id fresh w = (case tv_trace w of Some t \<Rightarrow> t | None \<Rightarrow> fresh)"

text \<open>\<open>current_trace_id() or new_trace_id()\<close>: an empty identifier counts as absent.\<close>

definition resolve_trace :: "string option \<Rightarrow> string \<Rightarrow> 'w trace_vars_scheme \<Rightarrow> string" where
  "resolve_trace trace_id fresh w =
     (case trace_id of
        Some t \<Rightarrow> t
      | None \<Rightarrow> (case current_trace_id w of
                   Some t \<Rightarrow> if t = [] then fresh else t
                 | None \<Rightarrow> fresh))"

definition resolve_span :: "string option \<Rightarrow> string \<Rightarrow> string" where
  "resolve_span span_id fresh = (case span_id of Some s \<Rightarrow> s | None \<Rightarrow> fresh)"

definition trace_value_error :: "string \<Rightarrow> string \<Rightarrow> string \<Rightarrow> exn" where
  "trace_value_error what pat v =
     PyError ''ValueError'' (what @ '' must match '' @ pat @ '': '' @ repr_str v)"

definition bind_trace ::
  "string option \<Rightarrow> string option \<Rightarrow> string \<Rightarrow> string \<Rightarrow>
   (string \<times> string \<Rightarrow> ('w trace_vars_scheme, exn, 'a) py) \<Rightarrow> ('w trace_vars_scheme, exn, 'a) py" where
  "bind_trace trace_id span_id fresh_trace fresh_span body w =
     (let t = resolve_trace trace_id fresh_trace w; s = resolve_span span_id fresh_span
      in if \<not> re_full TRACE_ID_PATTERN t
         then (Inl (trace_value_error ''trace_id'' ''^[a-f0-9]{32}$'' t), w)
         else if \<not> re_full SPAN_ID_PATTERN s
         then (Inl (trace_value_error ''span_id'' ''^[a-f0-9]{16}$'' s), w)
         else (case body (t, s) (w\<lparr>tv_trace := Some t, tv_span := Some s\<rparr>) of
                 (res, w') \<Rightarrow> (res, w'\<lparr>tv_span := tv_span w, tv_trace := tv_trace w\<rparr>)))"

lemma bind_trace_restores:
  "tv_trace (snd (bind_trace ti si ft fs body w)) = tv_trace w"
  "tv_span (snd (bind_trace ti si ft fs body w)) = tv_span w"
  by (simp_all add: bind_trace_def Let_def split: prod.splits)

lemma bind_trace_run:
  assumes "resolve_trace ti ft w = t" "re_full TRACE_ID_PATTERN t"
    and "resolve_span si fs = s" "re_full SPAN_ID_PATTERN s"
    and "body (t, s) (w\<lparr>tv_trace := Some t, tv_span := Some s\<rparr>) = (res, w')"
  shows "bind_trace ti si ft fs body w = (res, w'\<lparr>tv_span := tv_span w, tv_trace := tv_trace w\<rparr>)"
  using assms by (simp add: bind_trace_def Let_def)

end
