(* ===== verification/Contracts_LLM.thy ===== *)
theory Contracts_LLM
  imports Contracts_Shared Py_Values
begin

text \<open>
  \<open>ota_core/contracts/llm_requirements.py\<close>: the budget and the requirements a routine declares.
  A pydantic field constraint or validator is a conjunct of the boolean check of its record.
\<close>

definition STANDARD_FEATURE_FLAGS :: "string list" where
  "STANDARD_FEATURE_FLAGS =
     [''tool_use'', ''parallel_tool_calls'', ''streaming'', ''prompt_caching'', ''extended_thinking'',
      ''computer_use'', ''citations'', ''vision'', ''pdf_input'', ''json_mode'',
      ''function_strict_schema'', ''local_inference'']"

definition STANDARD_PII_CATEGORIES :: "string list" where
  "STANDARD_PII_CATEGORIES =
     [''none'', ''contact_info'', ''identifiers'', ''financial'', ''health'', ''biometric'',
      ''employment'', ''behavioral'', ''communications'', ''location'']"

datatype CacheTTL = Ttl5m | Ttl1h

definition is_custom :: "string \<Rightarrow> bool" where
  "is_custom v \<longleftrightarrow> startswith v ''custom:'' \<and> length v > length ''custom:''"

definition validate_feature_flag :: "string \<Rightarrow> bool" where
  "validate_feature_flag v \<longleftrightarrow> v \<in> set STANDARD_FEATURE_FLAGS \<or> is_custom v"

definition validate_pii_category :: "string \<Rightarrow> bool" where
  "validate_pii_category v \<longleftrightarrow> v \<in> set STANDARD_PII_CATEGORIES \<or> is_custom v"

text \<open>\<open>max_usd_per_run\<close> is a float, given by its shortest decimal.\<close>

record LLMBudget =
  lb_max_input_tokens_per_run :: "int option"
  lb_max_output_tokens_per_run :: "int option"
  lb_max_usd_per_run :: "decimal option"

definition opt_pos :: "int option \<Rightarrow> bool" where
  "opt_pos x \<longleftrightarrow> (case x of None \<Rightarrow> True | Some n \<Rightarrow> n > 0)"

definition llm_budget_ok :: "LLMBudget \<Rightarrow> bool" where
  "llm_budget_ok b \<longleftrightarrow>
     opt_pos (lb_max_input_tokens_per_run b) \<and> opt_pos (lb_max_output_tokens_per_run b) \<and>
     (case lb_max_usd_per_run b of None \<Rightarrow> True | Some d \<Rightarrow> dec_value d > 0)"

record LLMRequirements =
  lr_schema_version :: string
  lr_required :: "string list"
  lr_preferred :: "string list"
  lr_forbidden_without :: "string list"
  lr_min_context_tokens :: int
  lr_max_output_tokens :: "int option"
  lr_cost_tier :: CostTier
  lr_model_preference :: "string list"
  lr_pii_categories :: "string list"
  lr_data_residency :: "string list"
  lr_cache_pool :: "string option"
  lr_cache_ttl :: CacheTTL
  lr_budget :: "LLMBudget option"

definition llm_requirements_ok :: "LLMRequirements \<Rightarrow> bool" where
  "llm_requirements_ok r \<longleftrightarrow>
     validate_semver (lr_schema_version r) \<and>
     list_all validate_feature_flag (lr_required r) \<and>
     list_all validate_feature_flag (lr_preferred r) \<and>
     list_all validate_feature_flag (lr_forbidden_without r) \<and>
     lr_min_context_tokens r > 0 \<and> opt_pos (lr_max_output_tokens r) \<and>
     list_all validate_pii_category (lr_pii_categories r) \<and>
     (case lr_budget r of None \<Rightarrow> True | Some b \<Rightarrow> llm_budget_ok b)"

end
