(* ===== verification/L0b.thy ===== *)
theory L0b
  imports Trace_Context Contracts_LLM
begin

text \<open>
  The hard-rule enforcer: \<open>ota_core/policy/l0b.py\<close> and the \<open>verb\<close> decorator of
  \<open>ota_core/policy/__init__.py\<close>.

  The state \<open>policy_world\<close> holds what the operations share: the context variable naming the active
  run (an enforcer's identity and a reference to a run context), the heap of mutable
  \<open>RoutineRunContext\<close> objects, the trace variables and the calls made to the enforcers' audit sinks
  (enforcer, trace identifier current at the call, arguments), oldest first.  A \<open>frozenset\<close> is a
  list whose order and duplicates do not matter: the code reads it by membership, emptiness and
  \<open>sorted\<close> only.
\<close>

section \<open>State\<close>

record RoutineRunContext =
  rc_routine_id :: string
  rc_routine_run_id :: string
  rc_trace_id :: string
  rc_principal :: Principal
  rc_allowed_integrations :: "string list"
  rc_declared_scopes :: "(string, string list) dict"
  rc_budget :: "LLMBudget option"
  rc_request_id :: "string option"
  rc_tenant_id :: "string option"
  rc_input_tokens_used :: int
  rc_output_tokens_used :: int
  rc_usd_spent :: decimal
  rc_tool_calls_made :: int

type_synonym enforcer = nat
type_synonym ctx_ref = nat

record policy_world = trace_vars +
  pw_active :: "(enforcer \<times> ctx_ref) option"
  pw_ctxs :: "ctx_ref \<Rightarrow> RoutineRunContext"
  pw_audit :: "(enforcer \<times> string option \<times> emit_call) list"

definition sorted_set :: "string list \<Rightarrow> string list" where
  "sorted_set xs = sort (remdups xs)"

section \<open>What is left of a budget\<close>

definition remaining_tokens :: "int option \<Rightarrow> int \<Rightarrow> int option" where
  "remaining_tokens limit used = (case limit of None \<Rightarrow> None | Some n \<Rightarrow> Some (max 0 (n - used)))"

definition remaining_input_tokens :: "RoutineRunContext \<Rightarrow> int option" where
  "remaining_input_tokens c =
     (case rc_budget c of None \<Rightarrow> None
      | Some b \<Rightarrow> remaining_tokens (lb_max_input_tokens_per_run b) (rc_input_tokens_used c))"

definition remaining_output_tokens :: "RoutineRunContext \<Rightarrow> int option" where
  "remaining_output_tokens c =
     (case rc_budget c of None \<Rightarrow> None
      | Some b \<Rightarrow> remaining_tokens (lb_max_output_tokens_per_run b) (rc_output_tokens_used c))"

definition dec_neg :: "decimal \<Rightarrow> decimal" where
  "dec_neg d = d\<lparr>dec_coef := - dec_coef d\<rparr>"

definition remaining_usd :: "RoutineRunContext \<Rightarrow> decimal option" where
  "remaining_usd c =
     (case rc_budget c of None \<Rightarrow> None
      | Some b \<Rightarrow> (case lb_max_usd_per_run b of None \<Rightarrow> None
          | Some limit \<Rightarrow>
              (let d = dec_add limit (dec_neg (rc_usd_spent c))
               in Some (if dec_less dec_zero d then d else dec_zero))))"

section \<open>Audit calls\<close>

definition emit_full ::
  "string \<Rightarrow> Severity \<Rightarrow> RoutineRunContext \<Rightarrow> payload \<Rightarrow> emit_call" where
  "emit_full etype sev c pl =
     \<lparr>em_event_type = etype, em_severity = sev, em_principal = rc_principal c, em_payload = pl,
      em_routine_run_id = Some (rc_routine_run_id c), em_request_id = rc_request_id c,
      em_tenant_id = rc_tenant_id c\<rparr>"

definition emit_ctx ::
  "string \<Rightarrow> Severity \<Rightarrow> RoutineRunContext \<Rightarrow> payload \<Rightarrow> emit_call" where
  "emit_ctx etype sev c pl = emit_for_run etype sev (rc_principal c) pl (Some (rc_routine_run_id c))"

definition audit_emit :: "enforcer \<Rightarrow> emit_call \<Rightarrow> 'w policy_world_scheme \<Rightarrow> 'w policy_world_scheme" where
  "audit_emit e call w = w\<lparr>pw_audit := pw_audit w @ [(e, current_trace_id w, call)]\<rparr>"

section \<open>\<open>routine_run\<close>\<close>

definition started_call :: "RoutineRunContext \<Rightarrow> emit_call" where
  "started_call c = emit_full ''routine.run_started'' SevInfo c
     [(''routine_id'', JStr (rc_routine_id c)), (''routine_run_id'', JStr (rc_routine_run_id c))]"

definition failed_call :: "RoutineRunContext \<Rightarrow> exn \<Rightarrow> emit_call" where
  "failed_call c ex = emit_full ''routine.run_failed'' SevError c
     [(''routine_id'', JStr (rc_routine_id c)), (''routine_run_id'', JStr (rc_routine_run_id c)),
      (''error_class'', JStr (exc_class ex)), (''error_message'', JStr (exc_str ex))]"

definition completed_call :: "RoutineRunContext \<Rightarrow> emit_call" where
  "completed_call c = emit_full ''routine.run_completed'' SevInfo c
     [(''routine_id'', JStr (rc_routine_id c)), (''routine_run_id'', JStr (rc_routine_run_id c)),
      (''tool_calls_made'', JInt (rc_tool_calls_made c)),
      (''input_tokens_used'', JInt (rc_input_tokens_used c)),
      (''output_tokens_used'', JInt (rc_output_tokens_used c)),
      (''usd_spent'', JStr (dec_str (rc_usd_spent c)))]"

definition run_body ::
  "enforcer \<Rightarrow> ctx_ref \<Rightarrow> ('w policy_world_scheme, exn, 'a) py \<Rightarrow> ('w policy_world_scheme, exn, 'a) py" where
  "run_body e r body w =
     (case body (audit_emit e (started_call (pw_ctxs w r)) w) of
        (Inl ex, w') \<Rightarrow> (Inl ex, audit_emit e (failed_call (pw_ctxs w' r) ex) w')
      | (Inr a, w') \<Rightarrow> (Inr a, audit_emit e (completed_call (pw_ctxs w' r)) w'))"

text \<open>\<open>sid\<close> is the identifier \<open>bind_trace\<close> draws; the trace identifier is the context's own.\<close>

definition routine_run ::
  "enforcer \<Rightarrow> ctx_ref \<Rightarrow> string \<Rightarrow> ('w policy_world_scheme, exn, 'a) py \<Rightarrow>
   ('w policy_world_scheme, exn, 'a) py" where
  "routine_run e r sid body w =
     (case bind_trace (Some (rc_trace_id (pw_ctxs w r))) None [] sid (\<lambda>_. run_body e r body)
             (w\<lparr>pw_active := Some (e, r)\<rparr>) of
        (res, w') \<Rightarrow> (res, w'\<lparr>pw_active := pw_active w\<rparr>))"

section \<open>Enforcement\<close>

definition require_ctx :: "enforcer \<Rightarrow> 'w policy_world_scheme \<Rightarrow> ctx_ref option" where
  "require_ctx e w =
     (case pw_active w of
        None \<Rightarrow> None
      | Some (e', r) \<Rightarrow> if e' = e then Some r else None)"

definition enforce_integration ::
  "enforcer \<Rightarrow> string \<Rightarrow> ('w policy_world_scheme, exn, unit) py" where
  "enforce_integration e iid w =
     (case require_ctx e w of
        None \<Rightarrow> (Inl NotInRoutineRunError, w)
      | Some r \<Rightarrow>
          (let c = pw_ctxs w r; allowed = sorted_set (rc_allowed_integrations c)
           in if rc_allowed_integrations c \<noteq> [] \<and> iid \<notin> set (rc_allowed_integrations c)
              then (Inl (IntegrationNotAllowedError iid allowed),
                audit_emit e
                  (emit_ctx ''tool_call.blocked_by_policy'' SevWarn c
                    [(''reason'', JStr ''integration_not_allowed''), (''integration_id'', JStr iid),
                     (''allowed'', JStrs allowed)]) w)
              else (Inr (), w)))"

definition missing_scopes :: "RoutineRunContext \<Rightarrow> string \<Rightarrow> string list \<Rightarrow> string list" where
  "missing_scopes c iid required =
     filter (\<lambda>s. s \<notin> set (dict_get_or (rc_declared_scopes c) iid [])) required"

definition enforce_scopes ::
  "enforcer \<Rightarrow> string \<Rightarrow> string list \<Rightarrow> ('w policy_world_scheme, exn, unit) py" where
  "enforce_scopes e iid required w =
     (case require_ctx e w of
        None \<Rightarrow> (Inl NotInRoutineRunError, w)
      | Some r \<Rightarrow>
          (let c = pw_ctxs w r;
               declared = sorted_set (dict_get_or (rc_declared_scopes c) iid []);
               missing = missing_scopes c iid required
           in if missing \<noteq> []
              then (Inl (ScopeEscalationError iid missing declared),
                audit_emit e
                  (emit_ctx ''policy.scope_escalation_attempt'' SevWarn c
                    [(''integration_id'', JStr iid), (''missing_scopes'', JStrs missing),
                     (''declared_scopes'', JStrs declared)]) w)
              else (Inr (), w)))"

section \<open>Budgets\<close>

definition budget_call :: "RoutineRunContext \<Rightarrow> string \<Rightarrow> py_num \<Rightarrow> py_num \<Rightarrow> py_num \<Rightarrow> emit_call" where
  "budget_call c kind limit used requested = emit_ctx ''policy.budget_exceeded'' SevError c
     [(''kind'', JStr kind), (''limit'', json_num limit), (''used'', json_num used),
      (''requested'', json_num requested)]"

text \<open>The checks of \<open>reserve_llm_budget\<close> in order: the first limit a reservation would pass, with
  the numbers it reports.\<close>

definition tokens_exceeded :: "string \<Rightarrow> int option \<Rightarrow> int \<Rightarrow> int \<Rightarrow> (string \<times> py_num \<times> py_num \<times> py_num) option" where
  "tokens_exceeded kind limit used extra =
     (case limit of
        None \<Rightarrow> None
      | Some n \<Rightarrow> if used + extra > n then Some (kind, PInt n, PInt used, PInt (used + extra)) else None)"

definition usd_exceeded :: "decimal option \<Rightarrow> decimal \<Rightarrow> decimal \<Rightarrow> (string \<times> py_num \<times> py_num \<times> py_num) option" where
  "usd_exceeded limit used extra =
     (case limit of
        None \<Rightarrow> None
      | Some d \<Rightarrow>
          if dec_less d (dec_add used extra)
          then Some (''usd'', PFloat (to_float d), PFloat (to_float used), PFloat (to_float (dec_add used extra)))
          else None)"

definition budget_violation ::
  "RoutineRunContext \<Rightarrow> int \<Rightarrow> int \<Rightarrow> decimal \<Rightarrow> (string \<times> py_num \<times> py_num \<times> py_num) option" where
  "budget_violation c input output usd =
     (case rc_budget c of
        None \<Rightarrow> None
      | Some b \<Rightarrow>
          (case tokens_exceeded ''input_tokens'' (lb_max_input_tokens_per_run b) (rc_input_tokens_used c) input of
             Some v \<Rightarrow> Some v
           | None \<Rightarrow>
               (case tokens_exceeded ''output_tokens'' (lb_max_output_tokens_per_run b)
                       (rc_output_tokens_used c) output of
                  Some v \<Rightarrow> Some v
                | None \<Rightarrow> usd_exceeded (lb_max_usd_per_run b) (rc_usd_spent c) usd)))"

definition reserve_llm_budget ::
  "enforcer \<Rightarrow> int \<Rightarrow> int \<Rightarrow> decimal \<Rightarrow> ('w policy_world_scheme, exn, unit) py" where
  "reserve_llm_budget e input output usd w =
     (case require_ctx e w of
        None \<Rightarrow> (Inl NotInRoutineRunError, w)
      | Some r \<Rightarrow>
          (case budget_violation (pw_ctxs w r) input output usd of
             None \<Rightarrow> (Inr (), w)
           | Some (kind, limit, used, requested) \<Rightarrow>
               (Inl (BudgetExceededError kind limit used requested),
                audit_emit e (budget_call (pw_ctxs w r) kind limit used requested) w)))"

definition update_ctx ::
  "ctx_ref \<Rightarrow> (RoutineRunContext \<Rightarrow> RoutineRunContext) \<Rightarrow> 'w policy_world_scheme \<Rightarrow> 'w policy_world_scheme" where
  "update_ctx r f w = w\<lparr>pw_ctxs := (pw_ctxs w)(r := f (pw_ctxs w r))\<rparr>"

definition record_llm_usage ::
  "enforcer \<Rightarrow> int \<Rightarrow> int \<Rightarrow> decimal \<Rightarrow> string option \<Rightarrow> ('w policy_world_scheme, exn, unit) py" where
  "record_llm_usage e input output usd model w =
     (case require_ctx e w of
        None \<Rightarrow> (Inl NotInRoutineRunError, w)
      | Some r \<Rightarrow>
          (let w1 = update_ctx r (\<lambda>c. c\<lparr>
                 rc_input_tokens_used := rc_input_tokens_used c + input,
                 rc_output_tokens_used := rc_output_tokens_used c + output,
                 rc_usd_spent := dec_add (rc_usd_spent c) usd\<rparr>) w
           in (Inr (),
               audit_emit e
                 (emit_ctx ''llm.response'' SevInfo (pw_ctxs w1 r)
                   [(''input_tokens'', JInt input), (''output_tokens'', JInt output),
                    (''usd'', JStr (dec_str usd)), (''model'', JOpt model)]) w1)))"

section \<open>Verb invocations\<close>

type_synonym verb_meta = payload

definition invoked_call :: "RoutineRunContext \<Rightarrow> string \<Rightarrow> string \<Rightarrow> verb_meta \<Rightarrow> string list \<Rightarrow> emit_call" where
  "invoked_call c verb_name invid meta keys = emit_ctx ''tool_call.invoked'' SevInfo c
     [(''verb'', JStr verb_name), (''invocation_id'', JStr invid),
      (''destructive'', dict_get_or meta ''destructive'' (JBool False)),
      (''idempotency'', dict_get_or meta ''idempotency'' JNull),
      (''required_scopes'', dict_get_or meta ''required_scopes'' (JArr [])),
      (''kwarg_keys'', JStrs (sorted_set keys))]"

text \<open>\<open>invid\<close> is the fresh \<open>uuid4().hex\<close>. The result is the closure \<open>complete\<close>, given by the context it
  captured.\<close>

definition record_verb_invocation ::
  "enforcer \<Rightarrow> string \<Rightarrow> string \<Rightarrow> verb_meta \<Rightarrow> string list \<Rightarrow> ('w policy_world_scheme, exn, ctx_ref) py" where
  "record_verb_invocation e invid verb_name meta keys w =
     (case require_ctx e w of
        None \<Rightarrow> (Inl NotInRoutineRunError, w)
      | Some r \<Rightarrow>
          (let w1 = update_ctx r (\<lambda>c. c\<lparr>rc_tool_calls_made := rc_tool_calls_made c + 1\<rparr>) w
           in (Inr r, audit_emit e (invoked_call (pw_ctxs w1 r) verb_name invid meta keys) w1)))"

definition complete_payload :: "string \<Rightarrow> string \<Rightarrow> exn option \<Rightarrow> payload" where
  "complete_payload verb_name invid err =
     [(''verb'', JStr verb_name), (''invocation_id'', JStr invid)] @
     (case err of None \<Rightarrow> []
      | Some ex \<Rightarrow> [(''error_class'', JStr (exc_class ex)), (''error_message'', JStr (exc_str ex))])"

definition complete ::
  "enforcer \<Rightarrow> ctx_ref \<Rightarrow> string \<Rightarrow> string \<Rightarrow> bool \<Rightarrow> exn option \<Rightarrow>
   'w policy_world_scheme \<Rightarrow> 'w policy_world_scheme" where
  "complete e r verb_name invid succeeded err w =
     audit_emit e
       (emit_ctx (if succeeded then ''tool_call.succeeded'' else ''tool_call.failed'')
         (if succeeded then SevInfo else SevError) (pw_ctxs w r)
         (complete_payload verb_name invid err)) w"

definition verb_meta_of :: "string \<Rightarrow> string list \<Rightarrow> bool \<Rightarrow> verb_meta" where
  "verb_meta_of idempotency required_scopes destructive =
     [(''idempotency'', JStr idempotency), (''required_scopes'', JStrs required_scopes),
      (''destructive'', JBool destructive)]"

text \<open>The wrapper the \<open>verb\<close> decorator puts around a function.\<close>

definition verb_wrapper ::
  "string \<Rightarrow> string \<Rightarrow> verb_meta \<Rightarrow> string list \<Rightarrow> ('w policy_world_scheme, exn, 'a) py \<Rightarrow>
   ('w policy_world_scheme, exn, 'a) py" where
  "verb_wrapper invid verb_name meta keys fn w =
     (case pw_active w of
        None \<Rightarrow> fn w
      | Some (e, _) \<Rightarrow>
          (case record_verb_invocation e invid verb_name meta keys w of
             (Inl ex, w1) \<Rightarrow> (Inl ex, w1)
           | (Inr r, w1) \<Rightarrow>
               (case fn w1 of
                  (Inl ex, w2) \<Rightarrow> (Inl ex, complete e r verb_name invid False (Some ex) w2)
                | (Inr a, w2) \<Rightarrow> (Inr a, complete e r verb_name invid True None w2))))"

end
