(* ===== verification/L0b_Lemmas.thy ===== *)
theory L0b_Lemmas
  imports L0b
begin

text \<open>
  What a routine does under the enforcer, as programs over the operations of theory \<open>L0b\<close>: verbs
  with nested bodies, enforcement, budgets, exceptions, handlers and nested runs.  The audit trail
  is checked with a stack, \<open>brackets\<close>: an event that opens a verb call or a run pushes a key, the
  event that closes it must find that key on top.  Every operation extends the trail by a balanced
  piece and restores the context variables (\<open>bracketed\<close>).
\<close>

section \<open>Selectors\<close>

lemma audit_emit_sel [simp]:
  "pw_audit (audit_emit e call w) = pw_audit w @ [(e, tv_trace w, call)]"
  "pw_active (audit_emit e call w) = pw_active w"
  "pw_ctxs (audit_emit e call w) = pw_ctxs w"
  "tv_trace (audit_emit e call w) = tv_trace w"
  "tv_span (audit_emit e call w) = tv_span w"
  by (simp_all add: audit_emit_def current_trace_id_def)

lemma update_ctx_sel [simp]:
  "pw_audit (update_ctx r f w) = pw_audit w"
  "pw_active (update_ctx r f w) = pw_active w"
  "pw_ctxs (update_ctx r f w) = (pw_ctxs w)(r := f (pw_ctxs w r))"
  "tv_trace (update_ctx r f w) = tv_trace w"
  "tv_span (update_ctx r f w) = tv_span w"
  by (simp_all add: update_ctx_def)

section \<open>The bracket checker\<close>

type_synonym audit_entry = "enforcer \<times> string option \<times> emit_call"

datatype bracket_key = BVerb enforcer "json option" | BRun enforcer "string option"

definition opens :: "audit_entry \<Rightarrow> bracket_key option" where
  "opens x = (case x of (e, t, c) \<Rightarrow>
     if em_event_type c = ''tool_call.invoked'' then Some (BVerb e (dict_get (em_payload c) ''invocation_id''))
     else if em_event_type c = ''routine.run_started'' then Some (BRun e (em_routine_run_id c))
     else None)"

definition closes :: "audit_entry \<Rightarrow> bracket_key option" where
  "closes x = (case x of (e, t, c) \<Rightarrow>
     if em_event_type c \<in> {''tool_call.succeeded'', ''tool_call.failed''}
     then Some (BVerb e (dict_get (em_payload c) ''invocation_id''))
     else if em_event_type c \<in> {''routine.run_completed'', ''routine.run_failed''}
     then Some (BRun e (em_routine_run_id c))
     else None)"

fun brackets :: "bracket_key list \<Rightarrow> audit_entry list \<Rightarrow> bracket_key list option" where
  "brackets st [] = Some st"
| "brackets st (x # xs) =
     (case opens x of
        Some k \<Rightarrow> brackets (k # st) xs
      | None \<Rightarrow>
          (case closes x of
             None \<Rightarrow> brackets st xs
           | Some k \<Rightarrow>
               (case st of
                  [] \<Rightarrow> None
                | k' # st' \<Rightarrow> if k = k' then brackets st' xs else None)))"

definition balanced :: "audit_entry list \<Rightarrow> bool" where
  "balanced es \<longleftrightarrow> (\<forall>st. brackets st es = Some st)"

lemma brackets_append:
  "brackets st (xs @ ys) = (case brackets st xs of None \<Rightarrow> None | Some st' \<Rightarrow> brackets st' ys)"
  by (induction st xs rule: brackets.induct) (simp_all split: option.splits list.splits)

lemma balanced_Nil [simp]: "balanced []"
  by (simp add: balanced_def)

lemma balanced_append: "balanced xs \<Longrightarrow> balanced ys \<Longrightarrow> balanced (xs @ ys)"
  by (simp add: balanced_def brackets_append)

lemma balanced_other: "opens x = None \<Longrightarrow> closes x = None \<Longrightarrow> balanced [x]"
  by (simp add: balanced_def)

lemma balanced_pair:
  assumes "balanced es" "opens x = Some k" "opens y = None" "closes y = Some k"
  shows "balanced (x # es @ [y])"
  using assms by (simp add: balanced_def brackets_append)

section \<open>What every operation keeps\<close>

text \<open>The part of a run context that names the run and its rights; only the counters change.\<close>

definition same_run :: "RoutineRunContext \<Rightarrow> RoutineRunContext \<Rightarrow> bool" where
  "same_run c d \<longleftrightarrow> d = c\<lparr>rc_input_tokens_used := rc_input_tokens_used d,
     rc_output_tokens_used := rc_output_tokens_used d, rc_usd_spent := rc_usd_spent d,
     rc_tool_calls_made := rc_tool_calls_made d\<rparr>"

lemma same_run_refl [simp]: "same_run c c"
  by (simp add: same_run_def)

lemma same_run_sel:
  assumes "same_run c d"
  shows "rc_routine_run_id d = rc_routine_run_id c" "rc_principal d = rc_principal c"
    "rc_routine_id d = rc_routine_id c" "rc_budget d = rc_budget c"
proof -
  obtain i out u n where "d = c\<lparr>rc_input_tokens_used := i, rc_output_tokens_used := out,
      rc_usd_spent := u, rc_tool_calls_made := n\<rparr>"
    using assms unfolding same_run_def by blast
  then show "rc_routine_run_id d = rc_routine_run_id c" "rc_principal d = rc_principal c"
    "rc_routine_id d = rc_routine_id c" "rc_budget d = rc_budget c" by simp_all
qed

lemma same_run_trans: "same_run a b \<Longrightarrow> same_run b c \<Longrightarrow> same_run a c"
  by (cases a, cases b, cases c) (simp add: same_run_def)

definition bracketed :: "'w policy_world_scheme \<Rightarrow> 'w policy_world_scheme \<Rightarrow> bool" where
  "bracketed w w' \<longleftrightarrow>
     (\<exists>es. pw_audit w' = pw_audit w @ es \<and> balanced es) \<and>
     pw_active w' = pw_active w \<and> tv_trace w' = tv_trace w \<and> tv_span w' = tv_span w \<and>
     (\<forall>r. same_run (pw_ctxs w r) (pw_ctxs w' r))"

lemma bracketed_refl [simp]: "bracketed w w"
  by (simp add: bracketed_def)

lemma bracketed_trans:
  assumes "bracketed u v" "bracketed v w"
  shows "bracketed u w"
  using assms unfolding bracketed_def
  by (metis append.assoc balanced_append same_run_trans)

lemma bracketed_emit:
  "opens (e, tv_trace w, call) = None \<Longrightarrow> closes (e, tv_trace w, call) = None \<Longrightarrow>
   bracketed w (audit_emit e call w)"
  by (auto simp: bracketed_def intro: balanced_other)

lemma bracketed_update: "(\<And>c. same_run c (f c)) \<Longrightarrow> bracketed w (update_ctx r f w)"
  by (simp add: bracketed_def)

lemma neutral_event [simp]:
  assumes "etype \<notin> {''tool_call.invoked'', ''routine.run_started'', ''tool_call.succeeded'',
      ''tool_call.failed'', ''routine.run_completed'', ''routine.run_failed''}"
  shows "opens (e, t, emit_ctx etype sev c pl) = None" "closes (e, t, emit_ctx etype sev c pl) = None"
  using assms by (simp_all add: opens_def closes_def emit_ctx_def)

lemma bracketed_enforce_integration: "bracketed w (snd (enforce_integration e iid w))"
  by (simp add: enforce_integration_def Let_def bracketed_emit split: option.splits)

lemma bracketed_enforce_scopes: "bracketed w (snd (enforce_scopes e iid req w))"
  by (simp add: enforce_scopes_def Let_def bracketed_emit split: option.splits)

lemma bracketed_reserve: "bracketed w (snd (reserve_llm_budget e i out u w))"
  by (simp add: reserve_llm_budget_def budget_call_def bracketed_emit split: option.splits prod.splits)

lemma bracketed_record: "bracketed w (snd (record_llm_usage e i out u model w))"
proof (cases "require_ctx e w")
  case None
  then show ?thesis by (simp add: record_llm_usage_def)
next
  case (Some r)
  let ?w1 = "update_ctx r (\<lambda>c. c\<lparr>rc_input_tokens_used := rc_input_tokens_used c + i,
      rc_output_tokens_used := rc_output_tokens_used c + out, rc_usd_spent := dec_add (rc_usd_spent c) u\<rparr>) w"
  have "bracketed w ?w1" by (rule bracketed_update) (simp add: same_run_def)
  moreover have "bracketed ?w1 (snd (record_llm_usage e i out u model w))"
    using Some by (simp add: record_llm_usage_def Let_def bracketed_emit del: update_ctx_sel)
  ultimately show ?thesis by (rule bracketed_trans)
qed

section \<open>Verbs and runs around a body\<close>

lemma opens_invoked [simp]:
  "opens (e, t, invoked_call c name vid meta keys) = Some (BVerb e (Some (JStr vid)))"
  by (simp add: opens_def invoked_call_def emit_ctx_def)

lemma bracketed_verb:
  assumes body: "\<And>v. bracketed v (snd (fn v))"
  shows "bracketed w (snd (verb_wrapper vid name meta keys fn w))"
proof (cases "pw_active w")
  case None
  then show ?thesis using body by (simp add: verb_wrapper_def)
next
  case (Some er)
  obtain e r where er: "er = (e, r)" by force
  let ?f = "\<lambda>c. c\<lparr>rc_tool_calls_made := rc_tool_calls_made c + 1\<rparr>"
  let ?u = "update_ctx r ?f w"
  let ?w1 = "audit_emit e (invoked_call (pw_ctxs ?u r) name vid meta keys) ?u"
  obtain res w2 where fn: "fn ?w1 = (res, w2)" by force
  have b2: "bracketed ?w1 w2" using body [of ?w1] fn by simp
  define y where "y = (e, tv_trace w2,
    emit_ctx (if isl res then ''tool_call.failed'' else ''tool_call.succeeded'')
      (if isl res then SevError else SevInfo) (pw_ctxs w2 r)
      (complete_payload name vid (case res of Inl ex \<Rightarrow> Some ex | Inr _ \<Rightarrow> None)))"
  let ?w3 = "snd (verb_wrapper vid name meta keys fn w)"
  have w3: "pw_audit ?w3 = pw_audit w2 @ [y]" "pw_active ?w3 = pw_active w2"
    "tv_trace ?w3 = tv_trace w2" "tv_span ?w3 = tv_span w2" "pw_ctxs ?w3 = pw_ctxs w2"
    using Some er fn
    by (simp_all add: verb_wrapper_def record_verb_invocation_def require_ctx_def Let_def complete_def
        y_def split: sum.splits)
  obtain es where es: "pw_audit w2 = pw_audit ?w1 @ es" "balanced es"
    using b2 unfolding bracketed_def by blast
  have y: "opens y = None" "closes y = Some (BVerb e (Some (JStr vid)))"
    by (simp_all add: y_def opens_def closes_def emit_ctx_def complete_payload_def)
  let ?x = "(e, tv_trace w, invoked_call (pw_ctxs ?u r) name vid meta keys)"
  have "balanced (?x # es @ [y])"
    by (rule balanced_pair [OF es(2) opens_invoked y])
  moreover have "pw_audit ?w3 = pw_audit w @ (?x # es @ [y])"
    using w3(1) es(1) by simp
  moreover have "same_run (pw_ctxs w q) (pw_ctxs ?w3 q)" for q
  proof -
    have "same_run (pw_ctxs w q) (pw_ctxs ?w1 q)" by (simp add: same_run_def)
    moreover have "same_run (pw_ctxs ?w1 q) (pw_ctxs w2 q)" using b2 by (simp add: bracketed_def)
    ultimately show ?thesis unfolding w3(5) by (rule same_run_trans)
  qed
  ultimately show ?thesis
    using b2 w3 unfolding bracketed_def by auto
qed

definition end_call :: "RoutineRunContext \<Rightarrow> exn + 'a \<Rightarrow> emit_call" where
  "end_call c res = (case res of Inl ex \<Rightarrow> failed_call c ex | Inr _ \<Rightarrow> completed_call c)"

lemma run_body_eq:
  "body (audit_emit e (started_call (pw_ctxs w r)) w) = (res, w') \<Longrightarrow>
   run_body e r body w = (res, audit_emit e (end_call (pw_ctxs w' r) res) w')"
  by (simp add: run_body_def end_call_def split: sum.splits)

lemma end_call_keys:
  "opens (e, t, end_call c res) = None"
  "closes (e, t, end_call c res) = Some (BRun e (Some (rc_routine_run_id c)))"
  by (simp_all add: opens_def closes_def end_call_def failed_call_def completed_call_def emit_full_def
      split: sum.splits)

lemma opens_started: "opens (e, t, started_call c) = Some (BRun e (Some (rc_routine_run_id c)))"
  by (simp add: opens_def started_call_def emit_full_def)

lemma bracketed_run_body:
  assumes body: "\<And>v. bracketed v (snd (body v))"
  shows "bracketed w (snd (run_body e r body w))"
proof -
  let ?x = "(e, tv_trace w, started_call (pw_ctxs w r))"
  let ?w1 = "audit_emit e (started_call (pw_ctxs w r)) w"
  obtain res w2 where run: "body ?w1 = (res, w2)" by force
  have b2: "bracketed ?w1 w2" using body [of ?w1] run by simp
  obtain es where es: "pw_audit w2 = pw_audit ?w1 @ es" "balanced es"
    using b2 unfolding bracketed_def by blast
  have same: "same_run (pw_ctxs w q) (pw_ctxs w2 q)" for q
    using b2 by (simp add: bracketed_def)
  let ?y = "(e, tv_trace w2, end_call (pw_ctxs w2 r) res)"
  have "balanced (?x # es @ [?y])"
    by (rule balanced_pair [OF es(2) opens_started])
      (simp_all add: end_call_keys same_run_sel [OF same])
  then show ?thesis
    using b2 es(1) same unfolding run_body_eq [where body = body, OF run] bracketed_def by auto
qed

lemma bracketed_bind_trace:
  assumes "\<And>p v. bracketed v (snd (body p v))"
  shows "bracketed w (snd (bind_trace ti si ft fs body w))"
proof -
  have "bracketed w (snd (body (t, s) (w\<lparr>tv_trace := Some t, tv_span := Some s\<rparr>))\<lparr>tv_span := tv_span w, tv_trace := tv_trace w\<rparr>)"
    for t s
    using assms [of "w\<lparr>tv_trace := Some t, tv_span := Some s\<rparr>" "(t, s)"]
    by (auto simp: bracketed_def)
  then show ?thesis by (simp add: bind_trace_def Let_def split: prod.splits) (metis snd_conv)
qed

lemma bracketed_routine_run:
  assumes "\<And>v. bracketed v (snd (body v))"
  shows "bracketed w (snd (routine_run e r sid body w))"
proof -
  let ?v = "w\<lparr>pw_active := Some (e, r)\<rparr>"
  let ?m = "bind_trace (Some (rc_trace_id (pw_ctxs w r))) None [] sid (\<lambda>_. run_body e r body) ?v"
  have "bracketed ?v (snd ?m)"
    by (rule bracketed_bind_trace) (rule bracketed_run_body [OF assms])
  then show ?thesis
    by (auto simp: routine_run_def bracketed_def split: prod.splits)
qed

end
