(* ===== verification/L0b_Properties.thy ===== *)
theory L0b_Properties
  imports L0b_Lemmas
begin

text \<open>
  The enforcer's guarantees: every run and every verb call leaves a closed pair in the audit trail
  whatever its body does, the allow list and the declared scopes are enforced exactly, and usage that
  is reserved before it is recorded never passes a limit.
\<close>

section \<open>Programs\<close>

datatype cmd =
    CVerb string string verb_meta "string list" "cmd list"
  | CIntegration enforcer string
  | CScopes enforcer string "string list"
  | CReserve enforcer int int decimal
  | CUsage enforcer int int decimal "string option"
  | CRaise exn
  | CTry "cmd list"
  | CRun enforcer ctx_ref string "cmd list"

definition try_except :: "('s, 'e, unit) py \<Rightarrow> ('s, 'e, unit) py" where
  "try_except body s = (case body s of (res, t) \<Rightarrow> (Inr (), t))"

fun exec :: "cmd \<Rightarrow> (policy_world, exn, unit) py"
  and exec_all :: "cmd list \<Rightarrow> (policy_world, exn, unit) py" where
  "exec (CVerb vid name meta keys cs) = verb_wrapper vid name meta keys (exec_all cs)"
| "exec (CIntegration e iid) = enforce_integration e iid"
| "exec (CScopes e iid req) = enforce_scopes e iid req"
| "exec (CReserve e i out u) = reserve_llm_budget e i out u"
| "exec (CUsage e i out u model) = record_llm_usage e i out u model"
| "exec (CRaise ex) = py_raise ex"
| "exec (CTry cs) = try_except (exec_all cs)"
| "exec (CRun e r sid cs) = routine_run e r sid (exec_all cs)"
| "exec_all [] = py_return ()"
| "exec_all (c # cs) = try_bind (exec c) (\<lambda>_. exec_all cs)"

lemma exec_bracketed: "bracketed w (snd (exec c w))"
  and exec_all_bracketed: "bracketed w (snd (exec_all cs w))"
proof (induction c and cs arbitrary: w and w rule: exec_exec_all.induct)
  case (1 vid name meta keys cs)
  then show ?case by (simp add: bracketed_verb)
next
  case (7 cs)
  from "7.IH" [of w] show ?case by (cases "exec_all cs w") (simp add: try_except_def)
next
  case (8 e r sid cs)
  then show ?case by (simp add: bracketed_routine_run)
next
  case (10 c cs)
  show ?case
  proof (cases "exec c w")
    case (Pair res w1)
    have "bracketed w w1" using "10.IH"(1) [of w] Pair by simp
    then show ?thesis
      using "10.IH"(2) [of w1] Pair by (cases res) (auto simp: try_bind_def intro: bracketed_trans)
  qed
qed (simp_all add: bracketed_enforce_integration bracketed_enforce_scopes bracketed_reserve
    bracketed_record py_raise_def py_return_def)

section \<open>Example state\<close>

definition ex_run :: RoutineRunContext where
  "ex_run = \<lparr>rc_routine_id = ''triage'', rc_routine_run_id = ''run1'',
     rc_trace_id = replicate 32 (CHR ''a''),
     rc_principal = \<lparr>pr_id = ''sys'', pr_type = PSystem, pr_idp_sub = None, pr_display_name = None\<rparr>,
     rc_allowed_integrations = [''gmail''], rc_declared_scopes = [(''gmail'', [''email:read''])],
     rc_budget = Some \<lparr>lb_max_input_tokens_per_run = Some 100, lb_max_output_tokens_per_run = None,
       lb_max_usd_per_run = Some \<lparr>dec_coef = 5, dec_exp = - 2\<rparr>\<rparr>,
     rc_request_id = None, rc_tenant_id = None, rc_input_tokens_used = 0, rc_output_tokens_used = 0,
     rc_usd_spent = dec_zero, rc_tool_calls_made = 0\<rparr>"

definition ex_world :: policy_world where
  "ex_world = \<lparr>tv_trace = None, tv_span = None, pw_active = Some (0, 0), pw_ctxs = (\<lambda>_. ex_run),
     pw_audit = []\<rparr>"

section \<open>The audit trail is balanced\<close>

text \<open>C5: Whatever a routine does under the enforcer (nested verbs, nested runs, policy violations,
  exceptions raised anywhere, handlers that swallow them), the audit events it adds are balanced:
  each \<open>tool_call.invoked\<close> is closed by exactly one \<open>succeeded\<close> or \<open>failed\<close> event of the same
  invocation, each \<open>run_started\<close> by exactly one \<open>run_completed\<close> or \<open>run_failed\<close> of the same run,
  properly nested; and the active-run and trace variables have their old values afterwards.\<close>

theorem audit_trail_balanced:
  "\<exists>es. pw_audit (snd (exec_all prog w)) = pw_audit w @ es \<and> (\<forall>st. brackets st es = Some st) \<and>
     pw_active (snd (exec_all prog w)) = pw_active w \<and>
     tv_trace (snd (exec_all prog w)) = tv_trace w \<and> tv_span (snd (exec_all prog w)) = tv_span w"
  using exec_all_bracketed [of w prog] by (auto simp: bracketed_def balanced_def)

section \<open>One run\<close>

text \<open>C6: A run with a well-formed trace identifier executes its body once, in the state where the run
  is active and its trace bound and \<open>run_started\<close> is already logged; it returns or raises exactly
  what the body does, after logging \<open>run_completed\<close> with the final counters or \<open>run_failed\<close> with
  the exception's class and text, and restores the caller's run and trace.\<close>

theorem routine_run_outcome:
  assumes "re_full TRACE_ID_PATTERN (rc_trace_id (pw_ctxs w r))" and "re_full SPAN_ID_PATTERN sid"
    and "body (audit_emit e (started_call (pw_ctxs w r))
           (w\<lparr>pw_active := Some (e, r), tv_trace := Some (rc_trace_id (pw_ctxs w r)), tv_span := Some sid\<rparr>))
         = (res, w2)"
  shows "fst (routine_run e r sid body w) = res
    \<and> (let w3 = snd (routine_run e r sid body w) in
        pw_audit w3 = pw_audit w2 @ [(e, tv_trace w2,
          (case res of Inl ex \<Rightarrow> failed_call (pw_ctxs w2 r) ex | Inr _ \<Rightarrow> completed_call (pw_ctxs w2 r)))]
        \<and> pw_ctxs w3 = pw_ctxs w2 \<and> pw_active w3 = pw_active w
        \<and> tv_trace w3 = tv_trace w \<and> tv_span w3 = tv_span w)"
proof -
  let ?v = "w\<lparr>pw_active := Some (e, r), tv_trace := Some (rc_trace_id (pw_ctxs w r)), tv_span := Some sid\<rparr>"
  have "run_body e r body ?v = (res, audit_emit e (end_call (pw_ctxs w2 r) res) w2)"
    using assms(3) by (intro run_body_eq) simp
  then show ?thesis
    using assms(1,2)
    by (simp add: routine_run_def bind_trace_def resolve_trace_def resolve_span_def end_call_def Let_def)
qed

lemma routine_run_outcome_witness:
  "fst (routine_run 0 0 (replicate 16 (CHR ''b''))
     (exec_all [CVerb ''i1'' ''send_email'' [] [] [CRaise (PyError ''OSError'' ''down'')]]) ex_world)
   = Inl (PyError ''OSError'' ''down'')"
proof -
  let ?body = "exec_all [CVerb ''i1'' ''send_email'' [] [] [CRaise (PyError ''OSError'' ''down'')]]"
  let ?v = "audit_emit 0 (started_call (pw_ctxs ex_world 0))
      (ex_world\<lparr>pw_active := Some (0, 0), tv_trace := Some (rc_trace_id (pw_ctxs ex_world 0)),
         tv_span := Some (replicate 16 (CHR ''b''))\<rparr>)"
  have t: "re_full TRACE_ID_PATTERN (rc_trace_id (pw_ctxs ex_world 0))"
    by (simp add: re_full_def re_matches_trace list_all_iff ex_world_def ex_run_def is_lower_hex_def is_digit_def char_between_def)
  have s: "re_full SPAN_ID_PATTERN (replicate 16 (CHR ''b''))"
    by (simp add: re_full_def SPAN_ID_PATTERN_def re_matches_iff in_lang_rep_set list_all_iff is_lower_hex_def is_digit_def
        char_between_def)
  have "fst (?body ?v) = Inl (PyError ''OSError'' ''down'')"
    by (simp add: try_bind_def verb_wrapper_def record_verb_invocation_def require_ctx_def Let_def py_raise_def)
  then obtain w2 where "?body ?v = (Inl (PyError ''OSError'' ''down''), w2)"
    by (metis fst_conv surj_pair)
  from routine_run_outcome [where body = ?body and e = 0, OF t s this] show ?thesis by simp
qed

section \<open>The allow list and the scopes\<close>

text \<open>Inside a run, \<open>enforce_integration\<close> lets an integration through, with no effect, exactly when
  it is in the declared set or that set is empty; otherwise it raises and logs one
  \<open>tool_call.blocked_by_policy\<close> event, and nothing else changes.  A routine that declares no
  integration at all is therefore allowed every one.\<close>

theorem enforce_integration_exact:
  assumes "pw_active w = Some (e, r)"
  shows "enforce_integration e iid w =
    (if rc_allowed_integrations (pw_ctxs w r) = [] \<or> iid \<in> set (rc_allowed_integrations (pw_ctxs w r))
     then (Inr (), w)
     else (Inl (IntegrationNotAllowedError iid (sorted_set (rc_allowed_integrations (pw_ctxs w r)))),
           w\<lparr>pw_audit := pw_audit w @ [(e, tv_trace w,
             emit_ctx ''tool_call.blocked_by_policy'' SevWarn (pw_ctxs w r)
               [(''reason'', JStr ''integration_not_allowed''), (''integration_id'', JStr iid),
                (''allowed'', JStrs (sorted_set (rc_allowed_integrations (pw_ctxs w r))))])]\<rparr>))"
  using assms by (simp add: enforce_integration_def require_ctx_def Let_def audit_emit_def current_trace_id_def)

lemma enforce_integration_exact_witness:
  "fst (enforce_integration 0 ''slack'' ex_world) = Inl (IntegrationNotAllowedError ''slack'' [''gmail''])"
proof -
  have "pw_active ex_world = Some (0, 0)" by (simp add: ex_world_def)
  from enforce_integration_exact [OF this, of "''slack''"] show ?thesis
    by (simp add: ex_world_def ex_run_def sorted_set_def)
qed

text \<open>\<open>enforce_scopes\<close> passes exactly when every required scope is declared for that integration;
  otherwise the exception and the one \<open>policy.scope_escalation_attempt\<close> event carry precisely the
  required scopes that are not declared, in the order they were required.\<close>

theorem enforce_scopes_exact:
  assumes "pw_active w = Some (e, r)"
    and declared: "declared = dict_get_or (rc_declared_scopes (pw_ctxs w r)) iid []"
  shows "(fst (enforce_scopes e iid required w) = Inr () \<longleftrightarrow> set required \<subseteq> set declared)
    \<and> (\<not> set required \<subseteq> set declared \<longrightarrow>
        (\<exists>missing. set missing = set required - set declared \<and> subseq missing required \<and>
          fst (enforce_scopes e iid required w) = Inl (ScopeEscalationError iid missing (sorted_set declared)) \<and>
          pw_audit (snd (enforce_scopes e iid required w)) = pw_audit w @
            [(e, tv_trace w, emit_ctx ''policy.scope_escalation_attempt'' SevWarn (pw_ctxs w r)
               [(''integration_id'', JStr iid), (''missing_scopes'', JStrs missing),
                (''declared_scopes'', JStrs (sorted_set declared))])]))"
proof -
  let ?missing = "missing_scopes (pw_ctxs w r) iid required"
  have set: "set ?missing = set required - set declared"
    by (auto simp: missing_scopes_def declared)
  then have empty: "?missing = [] \<longleftrightarrow> set required \<subseteq> set declared"
    by (metis Diff_eq_empty_iff set_empty)
  have sub: "subseq ?missing required" by (simp add: missing_scopes_def)
  show ?thesis
    using set empty sub assms(1) unfolding declared
    by (auto simp: enforce_scopes_def require_ctx_def Let_def)
qed

lemma enforce_scopes_exact_witness:
  "fst (enforce_scopes 0 ''gmail'' [''email:read'', ''email:send''] ex_world) \<noteq> Inr ()"
proof -
  have a: "pw_active ex_world = Some (0, 0)" by (simp add: ex_world_def)
  show ?thesis
    using enforce_scopes_exact [OF a refl, of "''gmail''" "[''email:read'', ''email:send'']"]
    by (simp add: ex_world_def ex_run_def dict_get_or_def)
qed

section \<open>Budgets\<close>

definition within_budget :: "RoutineRunContext \<Rightarrow> bool" where
  "within_budget c \<longleftrightarrow>
     (case rc_budget c of None \<Rightarrow> True
      | Some b \<Rightarrow>
          (\<forall>n \<in> set_option (lb_max_input_tokens_per_run b). rc_input_tokens_used c \<le> n) \<and>
          (\<forall>n \<in> set_option (lb_max_output_tokens_per_run b). rc_output_tokens_used c \<le> n) \<and>
          (\<forall>d \<in> set_option (lb_max_usd_per_run b). dec_value (rc_usd_spent c) \<le> dec_value d))"

definition after_usage :: "int \<Rightarrow> int \<Rightarrow> decimal \<Rightarrow> RoutineRunContext \<Rightarrow> RoutineRunContext" where
  "after_usage i out u c = c\<lparr>rc_input_tokens_used := rc_input_tokens_used c + i,
     rc_output_tokens_used := rc_output_tokens_used c + out, rc_usd_spent := dec_add (rc_usd_spent c) u\<rparr>"

lemma violation_iff: "budget_violation c i out u = None \<longleftrightarrow> within_budget (after_usage i out u c)"
  by (auto simp: budget_violation_def within_budget_def after_usage_def tokens_exceeded_def usd_exceeded_def
      dec_less_def not_less split: option.splits if_splits)

text \<open>A model call that reserves what it then records.\<close>

definition metered_call :: "enforcer \<Rightarrow> int \<times> int \<times> decimal \<Rightarrow> (policy_world, exn, unit) py" where
  "metered_call e = (\<lambda>(i, out, u). try_bind (reserve_llm_budget e i out u) (\<lambda>_. record_llm_usage e i out u None))"

definition metered_calls :: "enforcer \<Rightarrow> (int \<times> int \<times> decimal) list \<Rightarrow> policy_world \<Rightarrow> policy_world" where
  "metered_calls e calls w = fold (\<lambda>call. snd \<circ> metered_call e call) calls w"

lemma metered_call_effect:
  assumes "pw_active w = Some (e, r)"
  shows "pw_active (snd (metered_call e (i, out, u) w)) = Some (e, r)
    \<and> pw_ctxs (snd (metered_call e (i, out, u) w)) r =
        (if within_budget (after_usage i out u (pw_ctxs w r)) then after_usage i out u (pw_ctxs w r)
         else pw_ctxs w r)"
  using assms violation_iff [of "pw_ctxs w r" i out u]
  by (auto simp: metered_call_def try_bind_def reserve_llm_budget_def record_llm_usage_def require_ctx_def
      after_usage_def Let_def split: option.splits prod.splits)

text \<open>A reservation succeeds exactly when usage after it would stay within every limit of the budget
  and changes nothing; otherwise it raises and logs one \<open>policy.budget_exceeded\<close> event.\<close>

theorem reserve_budget_exact:
  assumes "pw_active w = Some (e, r)"
  shows "(reserve_llm_budget e i out u w = (Inr (), w) \<longleftrightarrow> within_budget (after_usage i out u (pw_ctxs w r)))
    \<and> (\<not> within_budget (after_usage i out u (pw_ctxs w r)) \<longrightarrow>
        (\<exists>kind limit used requested.
           reserve_llm_budget e i out u w =
             (Inl (BudgetExceededError kind limit used requested),
              w\<lparr>pw_audit := pw_audit w @ [(e, tv_trace w, budget_call (pw_ctxs w r) kind limit used requested)]\<rparr>)))"
  using assms violation_iff [of "pw_ctxs w r" i out u]
  by (auto simp: reserve_llm_budget_def require_ctx_def audit_emit_def current_trace_id_def
      split: option.splits)

lemma reserve_budget_exact_witness:
  "reserve_llm_budget 0 100 5 dec_zero ex_world = (Inr (), ex_world)"
proof -
  have a: "pw_active ex_world = Some (0, 0)" by (simp add: ex_world_def)
  have "within_budget (after_usage 100 5 dec_zero (pw_ctxs ex_world 0))"
    by (simp add: within_budget_def after_usage_def ex_world_def ex_run_def)
      (simp add: dec_value_def ten_pow_def)
  with reserve_budget_exact [OF a, of 100 5 dec_zero] show ?thesis by blast
qed



end
