(* ===== verification/L0a_Prompt.thy ===== *)
theory L0a_Prompt
  imports Ota_Errors
begin

text \<open>\<open>ota_core/policy/l0a.py\<close>: the builder of the soft-rule prompt.  The base text is a field, as in
  the code; its default value is prose and is left out.\<close>

record L0aPromptBuilder =
  pb_base :: string
  pb_sections :: "(string \<times> string) list"

definition l0a_add :: "string \<Rightarrow> string \<Rightarrow> L0aPromptBuilder \<Rightarrow> exn + L0aPromptBuilder" where
  "l0a_add name content b =
     (if name = [] then Inl (PyError ''ValueError'' ''section name cannot be empty'')
      else Inr (b\<lparr>pb_sections := pb_sections b @ [(name, content)]\<rparr>))"

definition render_section :: "string \<times> string \<Rightarrow> string" where
  "render_section s = ''<'' @ fst s @ ''>'' @ nl @ strip (snd s) @ nl @ ''</'' @ fst s @ ''>''"

definition l0a_render :: "L0aPromptBuilder \<Rightarrow> string" where
  "l0a_render b = join (nl @ nl) (strip (pb_base b) # map render_section (pb_sections b))"

definition l0a_reset :: "L0aPromptBuilder \<Rightarrow> L0aPromptBuilder" where
  "l0a_reset b = b\<lparr>pb_sections := []\<rparr>"

lemma join_snoc: "xs \<noteq> [] \<Longrightarrow> join sep (xs @ [x]) = join sep xs @ sep @ x"
  by (induction sep xs rule: join.induct) simp_all

text \<open>A section added last is rendered last, after everything that was there.\<close>

lemma l0a_add_render:
  "l0a_add name content b = Inr b' \<Longrightarrow>
   l0a_render b' = l0a_render b @ nl @ nl @ render_section (name, content)"
  using join_snoc [of "strip (pb_base b) # map render_section (pb_sections b)" "nl @ nl"]
  by (auto simp: l0a_add_def l0a_render_def split: if_splits)

end
