(* ===== verification/Contracts_Integration.thy ===== *)
theory Contracts_Integration
  imports Contracts_LLM
begin

text \<open>
  The integration registry contract (\<open>ota_core/contracts/integration_registry.py\<close>) and the adapter
  manifest (\<open>ota_core/integration_source/manifest.py\<close>).  Each pydantic model is a record; its field
  constraints are a boolean check and each \<open>model_validator\<close> is a function that returns the
  \<open>ValueError\<close> it raises.  Times are instants; a parsed value is timezone-aware by construction.
\<close>

section \<open>Records\<close>

record IntegrationRegistryHeader =
  irh_id :: string
  irh_schema_version :: string
  irh_generated_at :: int
  irh_signing_key_id :: string
  irh_next_signing_key_id :: "string option"
  irh_signature :: Signature

record IntegrationMetadata =
  imd_name :: string
  imd_vendor :: string
  imd_vendor_url :: string
  imd_category :: string
  imd_description :: string

record OAuth2Endpoints =
  oae_authorize_url :: string
  oae_token_url :: string
  oae_userinfo_url :: "string option"

record IntegrationEndpoints =
  ie_base_url :: string
  ie_oauth2 :: "OAuth2Endpoints option"

record ScopeEntry =
  se_id :: string
  se_oauth_value :: string
  se_description :: string
  se_warns_on_grant :: "string option"

datatype BackoffStrategy = ExponentialWithJitter | LinearBackoff | ConstantBackoff

record PerOperationRateOverride =
  po_operation_id :: string
  po_requests_per_second :: "int option"
  po_requests_per_minute :: "int option"

record RateLimits =
  rl_requests_per_second :: int
  rl_requests_per_minute :: int
  rl_burst_capacity :: "int option"
  rl_backoff_strategy :: BackoffStrategy
  rl_retry_after_header :: string
  rl_max_retries :: int
  rl_per_operation_overrides :: "PerOperationRateOverride list"

text \<open>The discriminated union of the two revocation models.\<close>

datatype RevocationAction =
    RemoteRevocationAction string string "string option" "(string, string) dict" "int list"
  | LocalOnlyRevocationAction string

datatype SideEffectClass = ReadOnly | StatefulSafe | StatefulDestructive

record Operation =
  op_id :: string
  op_endpoint :: string
  op_side_effect :: SideEffectClass
  op_required_scopes :: "string list"
  op_idempotent :: bool
  op_rate_limit_weight :: int
  op_pii_classes :: "string list"
  op_auth_style :: "AuthStyle option"
  op_arguments_schema_ref :: "string option"

datatype WebhookVerificationMethod = HmacSha256 | SharedSecret | Jwt | GooglePubsubSignature

record WebhookVerification =
  wv_method :: WebhookVerificationMethod
  wv_algorithm :: "string option"
  wv_header :: "string option"

record Webhook =
  wh_id :: string
  wh_receiver_path :: string
  wh_auth_style :: string
  wh_secret_ref :: string
  wh_verification :: WebhookVerification
  wh_routes_to_event :: string

record PIIHandling =
  ph_payload_contains_pii_default :: bool
  ph_pii_classes_possible :: "string list"
  ph_response_body_in_audit :: bool

record IntegrationDataResidency =
  idr_provider_regions :: "string list"
  idr_operator_can_pin_region :: bool

record IntegrationDeclaration =
  id_id :: string
  id_version :: string
  id_framework_compat :: string
  id_kill_status :: KillStatus
  id_metadata :: IntegrationMetadata
  id_auth_styles :: "AuthStyle list"
  id_supported_binding_levels :: "BindingLevel list"
  id_default_binding_level :: BindingLevel
  id_endpoints :: IntegrationEndpoints
  id_egress_patterns :: "string list"
  id_scope_vocabulary :: "ScopeEntry list"
  id_rate_limits :: RateLimits
  id_revocation :: "(BindingLevel, (OnEmergencyKill, RevocationAction) dict) dict"
  id_operations :: "Operation list"
  id_webhooks :: "Webhook list"
  id_pii_handling :: PIIHandling
  id_data_residency :: IntegrationDataResidency
  id_signature :: Signature

record IntegrationRegistryManifest =
  irm_registry :: IntegrationRegistryHeader
  irm_integrations :: "IntegrationDeclaration list"

section \<open>Field constraints\<close>

definition registry_header_ok :: "IntegrationRegistryHeader \<Rightarrow> bool" where
  "registry_header_ok h \<longleftrightarrow>
     irh_id h \<noteq> [] \<and> validate_semver (irh_schema_version h) \<and> irh_signing_key_id h \<noteq> [] \<and>
     signature_ok (irh_signature h)"

definition endpoints_ok :: "IntegrationEndpoints \<Rightarrow> bool" where
  "endpoints_ok e \<longleftrightarrow>
     ie_base_url e \<noteq> [] \<and>
     (case ie_oauth2 e of None \<Rightarrow> True
      | Some o2 \<Rightarrow> oae_authorize_url o2 \<noteq> [] \<and> oae_token_url o2 \<noteq> [])"

definition rate_override_ok :: "PerOperationRateOverride \<Rightarrow> bool" where
  "rate_override_ok p \<longleftrightarrow>
     po_operation_id p \<noteq> [] \<and> opt_pos (po_requests_per_second p) \<and> opt_pos (po_requests_per_minute p)"

definition rate_limits_ok :: "RateLimits \<Rightarrow> bool" where
  "rate_limits_ok r \<longleftrightarrow>
     rl_requests_per_second r > 0 \<and> rl_requests_per_minute r > 0 \<and> opt_pos (rl_burst_capacity r) \<and>
     rl_max_retries r \<ge> 0 \<and> list_all rate_override_ok (rl_per_operation_overrides r)"

fun revocation_action_ok :: "RevocationAction \<Rightarrow> bool" where
  "revocation_action_ok (RemoteRevocationAction meth url body headers success) \<longleftrightarrow>
     meth \<in> {''GET'', ''POST'', ''PUT'', ''PATCH'', ''DELETE'', ''HEAD'', ''OPTIONS''} \<and>
     url \<noteq> [] \<and> success \<noteq> []"
| "revocation_action_ok (LocalOnlyRevocationAction msg) \<longleftrightarrow> msg \<noteq> []"

definition not_newline :: "char \<Rightarrow> bool" where
  "not_newline c \<longleftrightarrow> c \<noteq> CHR 0x0A"

definition ENDPOINT_RE :: regex where
  "ENDPOINT_RE = r_cat [r_plus (RSet is_upper_alpha), r_lit '' /'', r_plus (RSet not_newline)]"

definition operation_ok :: "Operation \<Rightarrow> bool" where
  "operation_ok o1 \<longleftrightarrow>
     op_id o1 \<noteq> [] \<and> re_matches ENDPOINT_RE (op_endpoint o1) \<and> op_rate_limit_weight o1 \<ge> 1 \<and>
     list_all validate_pii_category (op_pii_classes o1)"

text \<open>The pattern of \<open>receiver_path\<close> has no end anchor: it accepts any text with a slash first and one
  more character that is not a newline.\<close>

definition webhook_ok :: "Webhook \<Rightarrow> bool" where
  "webhook_ok w \<longleftrightarrow>
     wh_id w \<noteq> [] \<and>
     (case wh_receiver_path w of c # d # _ \<Rightarrow> c = CHR ''/'' \<and> not_newline d | _ \<Rightarrow> False) \<and>
     wh_auth_style w \<noteq> [] \<and> wh_secret_ref w \<noteq> [] \<and> wh_routes_to_event w \<noteq> []"

definition declaration_fields_ok :: "IntegrationDeclaration \<Rightarrow> bool" where
  "declaration_fields_ok d \<longleftrightarrow>
     validate_reverse_dns (id_id d) \<and> validate_semver (id_version d) \<and> id_framework_compat d \<noteq> [] \<and>
     imd_name (id_metadata d) \<noteq> [] \<and> id_auth_styles d \<noteq> [] \<and> id_supported_binding_levels d \<noteq> [] \<and>
     endpoints_ok (id_endpoints d) \<and> id_egress_patterns d \<noteq> [] \<and>
     list_all (\<lambda>s. se_id s \<noteq> []) (id_scope_vocabulary d) \<and> rate_limits_ok (id_rate_limits d) \<and>
     list_all (\<lambda>(b, m). list_all (\<lambda>(a, r). revocation_action_ok r) m) (id_revocation d) \<and>
     id_operations d \<noteq> [] \<and> list_all operation_ok (id_operations d) \<and>
     list_all webhook_ok (id_webhooks d) \<and>
     list_all validate_pii_category (ph_pii_classes_possible (id_pii_handling d)) \<and> signature_ok (id_signature d)"

section \<open>Model validators\<close>

datatype contract_error =
    DefaultBindingUnsupported BindingLevel "BindingLevel list"
  | RevocationMissing BindingLevel
  | RevocationActionInvalid BindingLevel OnEmergencyKill
  | ScopeNotDeclared string string
  | DuplicateOperation string

definition default_binding_in_supported :: "IntegrationDeclaration \<Rightarrow> contract_error option" where
  "default_binding_in_supported d =
     (if id_default_binding_level d \<notin> set (id_supported_binding_levels d)
      then Some (DefaultBindingUnsupported (id_default_binding_level d) (id_supported_binding_levels d))
      else None)"

definition valid_actions :: "BindingLevel \<Rightarrow> OnEmergencyKill list" where
  "valid_actions level = map snd (filter (\<lambda>p. fst p = level) VALID_BINDING_KILL_PAIRS)"

fun check_actions :: "BindingLevel \<Rightarrow> OnEmergencyKill list \<Rightarrow> contract_error option" where
  "check_actions level [] = None"
| "check_actions level (a # as) =
     (if a \<notin> set (valid_actions level) then Some (RevocationActionInvalid level a)
      else check_actions level as)"

fun check_levels ::
  "(BindingLevel, (OnEmergencyKill, RevocationAction) dict) dict \<Rightarrow> BindingLevel list \<Rightarrow> contract_error option" where
  "check_levels rev_map [] = None"
| "check_levels rev_map (level # levels) =
     (case dict_get rev_map level of
        None \<Rightarrow> Some (RevocationMissing level)
      | Some acts \<Rightarrow>
          (case check_actions level (dict_keys acts) of
             Some err \<Rightarrow> Some err
           | None \<Rightarrow> check_levels rev_map levels))"

definition revocation_covers_supported :: "IntegrationDeclaration \<Rightarrow> contract_error option" where
  "revocation_covers_supported d = check_levels (id_revocation d) (id_supported_binding_levels d)"

definition vocab_ids :: "IntegrationDeclaration \<Rightarrow> string list" where
  "vocab_ids d = map se_id (id_scope_vocabulary d)"

definition undeclared_scope :: "string list \<Rightarrow> Operation \<Rightarrow> contract_error option" where
  "undeclared_scope vocab o1 =
     (case find (\<lambda>s. s \<notin> set vocab) (op_required_scopes o1) of
        None \<Rightarrow> None
      | Some s \<Rightarrow> Some (ScopeNotDeclared (op_id o1) s))"

fun check_operation_scopes :: "string list \<Rightarrow> Operation list \<Rightarrow> contract_error option" where
  "check_operation_scopes vocab [] = None"
| "check_operation_scopes vocab (o1 # os) =
     (case undeclared_scope vocab o1 of
        Some err \<Rightarrow> Some err
      | None \<Rightarrow> check_operation_scopes vocab os)"

fun first_duplicate :: "string list \<Rightarrow> string list \<Rightarrow> string option" where
  "first_duplicate seen [] = None"
| "first_duplicate seen (x # xs) = (if x \<in> set seen then Some x else first_duplicate (x # seen) xs)"

definition operation_ids_unique :: "IntegrationDeclaration \<Rightarrow> contract_error option" where
  "operation_ids_unique d = map_option DuplicateOperation (first_duplicate [] (map op_id (id_operations d)))"

text \<open>Validators run in the order of their definition; the first error is reported.\<close>

definition declaration_error :: "IntegrationDeclaration \<Rightarrow> contract_error option" where
  "declaration_error d =
     (case default_binding_in_supported d of Some e \<Rightarrow> Some e | None \<Rightarrow>
     (case revocation_covers_supported d of Some e \<Rightarrow> Some e | None \<Rightarrow>
     (case check_operation_scopes (vocab_ids d) (id_operations d) of Some e \<Rightarrow> Some e | None \<Rightarrow>
      operation_ids_unique d)))"

definition declaration_ok :: "IntegrationDeclaration \<Rightarrow> bool" where
  "declaration_ok d \<longleftrightarrow> declaration_fields_ok d \<and> declaration_error d = None"

definition registry_manifest_ok :: "IntegrationRegistryManifest \<Rightarrow> bool" where
  "registry_manifest_ok m \<longleftrightarrow>
     registry_header_ok (irm_registry m) \<and> list_all declaration_ok (irm_integrations m)"

section \<open>Adapter manifests\<close>

record AdapterCapabilityClaim =
  acc_capability :: string
  acc_version :: string

record AdapterManifest =
  am_schema_version :: string
  am_adapter_id :: string
  am_integration_id :: string
  am_version :: string
  am_framework_compat :: string
  am_capabilities :: "AdapterCapabilityClaim list"
  am_auth_styles :: "AuthStyle list"
  am_entrypoint :: "string option"
  am_description :: "string option"
  am_tags :: "string list"

definition adapter_manifest_ok :: "AdapterManifest \<Rightarrow> bool" where
  "adapter_manifest_ok m \<longleftrightarrow>
     validate_semver (am_schema_version m) \<and> am_adapter_id m \<noteq> [] \<and> am_integration_id m \<noteq> [] \<and>
     validate_semver (am_version m) \<and> am_framework_compat m \<noteq> [] \<and> am_capabilities m \<noteq> [] \<and>
     list_all (\<lambda>c. acc_capability c \<noteq> [] \<and> validate_semver (acc_version c)) (am_capabilities m)"

section \<open>Lemmas\<close>

lemma valid_actions_eq:
  "valid_actions RoutineExclusive = [BurnCredential]"
  "valid_actions ClientShared = [RevokeRoutineAccess]"
  "valid_actions IdentityBound = [RevokeRoutineGrant]"
  by (simp_all add: valid_actions_def VALID_BINDING_KILL_PAIRS_def)

lemma valid_actions_pairs: "a \<in> set (valid_actions b) \<longleftrightarrow> (b, a) \<in> set VALID_BINDING_KILL_PAIRS"
  by (force simp: valid_actions_def)

lemma check_actions_None: "check_actions b as = None \<longleftrightarrow> set as \<subseteq> set (valid_actions b)"
  by (induction as) auto

lemma check_levels_None:
  "check_levels m ls = None \<longleftrightarrow>
   (\<forall>b \<in> set ls. \<exists>acts. dict_get m b = Some acts \<and> fst ` set acts \<subseteq> set (valid_actions b))"
proof (induction ls)
  case (Cons b ls)
  then show ?case
    by (cases "dict_get m b"; cases "check_actions b (dict_keys (the (dict_get m b)))")
      (use check_actions_None [of b "dict_keys (the (dict_get m b))"] in \<open>auto simp: image_image\<close>)
qed simp

lemma find_None_iff_ball: "find p xs = None \<longleftrightarrow> (\<forall>x \<in> set xs. \<not> p x)"
  by (auto simp: find_None_iff)

lemma check_operation_scopes_None:
  "check_operation_scopes vocab os = None \<longleftrightarrow> (\<forall>o1 \<in> set os. set (op_required_scopes o1) \<subseteq> set vocab)"
  by (induction os) (auto simp: undeclared_scope_def find_None_iff_ball split: option.splits dest: find_SomeD)

lemma first_duplicate_None: "first_duplicate seen xs = None \<longleftrightarrow> distinct xs \<and> set xs \<inter> set seen = {}"
  by (induction seen xs rule: first_duplicate.induct) auto

lemma declaration_error_None:
  "declaration_error d = None \<longleftrightarrow>
     default_binding_in_supported d = None \<and> revocation_covers_supported d = None \<and>
     check_operation_scopes (vocab_ids d) (id_operations d) = None \<and> operation_ids_unique d = None"
  by (simp add: declaration_error_def split: option.splits)

end
