(* ===== verification/Integration_Source.thy ===== *)
theory Integration_Source
  imports Contracts_Integration Ota_Errors
begin

text \<open>
  Adapter discovery: \<open>ota_core/integration_source/source.py\<close>.  The file system below the roots is a
  value (\<open>source_root\<close>); reading YAML and turning a mapping into an \<open>AdapterManifest\<close> is third-party
  code and is the parameter \<open>parse\<close>, whose result the model's own constraints are then applied to.
  The exceptions of this component are \<open>PyError\<close>s with their class name and text.
\<close>

section \<open>The file system it reads\<close>

record dir_entry =
  de_name :: string
  de_is_dir :: bool
  de_files :: "(string, string) dict"

record source_root =
  sr_path :: string
  sr_children :: "dir_entry list option"

datatype manifest_parse =
    YamlError string
  | NotMapping string
  | InvalidManifest string
  | ParsedManifest AdapterManifest

type_synonym manifest_parser = "string \<Rightarrow> manifest_parse"

record AdapterBundle =
  ab_manifest :: AdapterManifest
  ab_directory :: string

definition bundle_id :: "AdapterBundle \<Rightarrow> string" where
  "bundle_id b = am_adapter_id (ab_manifest b)"

definition bundle_integration :: "AdapterBundle \<Rightarrow> string" where
  "bundle_integration b = am_integration_id (ab_manifest b)"

definition satisfies :: "AdapterBundle \<Rightarrow> string \<Rightarrow> string option \<Rightarrow> bool" where
  "satisfies b capability version \<longleftrightarrow>
     (\<exists>claim \<in> set (am_capabilities (ab_manifest b)).
        acc_capability claim = capability \<and> (version = None \<or> version = Some (acc_version claim)))"

section \<open>Reading manifests\<close>

definition MANIFEST_NAMES :: "string list" where
  "MANIFEST_NAMES = [''manifest.yaml'', ''manifest.yml'']"

definition path_join :: "string \<Rightarrow> string \<Rightarrow> string" where
  "path_join dir name = dir @ ''/'' @ name"

definition parse_manifest_text :: "manifest_parser \<Rightarrow> string \<Rightarrow> string \<Rightarrow> exn + AdapterManifest" where
  "parse_manifest_text parse path txt =
     (case parse txt of
        YamlError msg \<Rightarrow> Inl (PyError ''YAMLError'' msg)
      | NotMapping t \<Rightarrow> Inl (PyError ''AdapterDiscoveryError''
          (''adapter manifest at '' @ path @ '' must be a YAML mapping, got '' @ t))
      | InvalidManifest msg \<Rightarrow> Inl (PyError ''AdapterDiscoveryError''
          (''invalid adapter manifest at '' @ path @ '': '' @ msg))
      | ParsedManifest m \<Rightarrow>
          if adapter_manifest_ok m then Inr m
          else Inl (PyError ''AdapterDiscoveryError'' (''invalid adapter manifest at '' @ path @ '': '')))"

fun read_first :: "manifest_parser \<Rightarrow> string \<Rightarrow> (string, string) dict \<Rightarrow> string list \<Rightarrow> exn + AdapterManifest" where
  "read_first parse dir files [] =
     Inl (PyError ''AdapterManifestNotFoundError''
       (''no manifest ('' @ join '' | '' MANIFEST_NAMES @ '') under '' @ dir))"
| "read_first parse dir files (name # names) =
     (case dict_get files name of
        None \<Rightarrow> read_first parse dir files names
      | Some txt \<Rightarrow> parse_manifest_text parse (path_join dir name) txt)"

definition read_manifest :: "manifest_parser \<Rightarrow> string \<times> dir_entry \<Rightarrow> exn + AdapterManifest" where
  "read_manifest parse d = read_first parse (fst d) (de_files (snd d)) MANIFEST_NAMES"

section \<open>\<open>FilesystemIntegrationSource\<close>\<close>

definition candidate_dirs :: "source_root list \<Rightarrow> (string \<times> dir_entry) list" where
  "candidate_dirs roots =
     concat (map (\<lambda>root.
       (case sr_children root of
          None \<Rightarrow> []
        | Some children \<Rightarrow>
            map (\<lambda>c. (path_join (sr_path root) (de_name c), c))
              (filter (\<lambda>c. de_is_dir c \<and> \<not> startswith (de_name c) ''_'') (sort_key de_name children)))) roots)"

definition is_class :: "string \<Rightarrow> exn \<Rightarrow> bool" where
  "is_class c e \<longleftrightarrow> exc_class e = c"

fun list_ids_loop :: "manifest_parser \<Rightarrow> (string \<times> dir_entry) list \<Rightarrow> exn + string list" where
  "list_ids_loop parse [] = Inr []"
| "list_ids_loop parse (d # ds) =
     (case read_manifest parse d of
        Inl e \<Rightarrow>
          if is_class ''AdapterManifestNotFoundError'' e \<or> is_class ''AdapterDiscoveryError'' e
          then list_ids_loop parse ds else Inl e
      | Inr m \<Rightarrow> (case list_ids_loop parse ds of Inl e \<Rightarrow> Inl e | Inr ids \<Rightarrow> Inr (am_adapter_id m # ids)))"

definition list_ids :: "manifest_parser \<Rightarrow> source_root list \<Rightarrow> exn + string list" where
  "list_ids parse roots = list_ids_loop parse (candidate_dirs roots)"

text \<open>The loop the discovery and the lookup share: only a directory with no manifest is skipped.\<close>

fun read_bundles :: "manifest_parser \<Rightarrow> (string \<times> dir_entry) list \<Rightarrow> exn + AdapterBundle list" where
  "read_bundles parse [] = Inr []"
| "read_bundles parse (d # ds) =
     (case read_manifest parse d of
        Inl e \<Rightarrow> if is_class ''AdapterManifestNotFoundError'' e then read_bundles parse ds else Inl e
      | Inr m \<Rightarrow>
          (case read_bundles parse ds of
             Inl e \<Rightarrow> Inl e
           | Inr bs \<Rightarrow> Inr (\<lparr>ab_manifest = m, ab_directory = fst d\<rparr> # bs)))"

definition note_path :: "AdapterBundle \<Rightarrow> (string, string list) dict \<Rightarrow> (string, string list) dict" where
  "note_path b seen = dict_set (bundle_id b) (dict_get_or seen (bundle_id b) [] @ [ab_directory b]) seen"

definition duplicate_error :: "string \<Rightarrow> string list \<Rightarrow> exn" where
  "duplicate_error aid paths =
     PyError ''DuplicateAdapterError'' (''duplicate adapter_id '' @ aid @ '' in: '' @ repr_strs paths)"

definition discover_all :: "manifest_parser \<Rightarrow> source_root list \<Rightarrow> exn + AdapterBundle list" where
  "discover_all parse roots =
     (case read_bundles parse (candidate_dirs roots) of
        Inl e \<Rightarrow> Inl e
      | Inr bundles \<Rightarrow>
          (case find (\<lambda>kv. length (snd kv) > 1) (fold note_path bundles []) of
             Some (aid, paths) \<Rightarrow> Inl (duplicate_error aid paths)
           | None \<Rightarrow> Inr bundles))"

definition source_load :: "manifest_parser \<Rightarrow> source_root list \<Rightarrow> string \<Rightarrow> exn + AdapterBundle" where
  "source_load parse roots aid =
     (case read_bundles parse (candidate_dirs roots) of
        Inl e \<Rightarrow> Inl e
      | Inr bundles \<Rightarrow>
          (case filter (\<lambda>b. bundle_id b = aid) bundles of
             [] \<Rightarrow> Inl (PyError ''AdapterManifestNotFoundError''
               (''adapter '' @ repr_str aid @ '' not found under '' @ repr_strs (map sr_path roots)))
           | [b] \<Rightarrow> Inr b
           | bs \<Rightarrow> Inl (duplicate_error aid (map ab_directory bs))))"

definition by_capability ::
  "manifest_parser \<Rightarrow> source_root list \<Rightarrow> string \<Rightarrow> string option \<Rightarrow> exn + AdapterBundle list" where
  "by_capability parse roots capability version =
     (case discover_all parse roots of
        Inl e \<Rightarrow> Inl e
      | Inr bs \<Rightarrow> Inr (filter (\<lambda>b. satisfies b capability version) bs))"

section \<open>Lemmas\<close>

lemma note_path_get:
  "wf_dict seen \<Longrightarrow> dict_get_or (fold note_path bs seen) k [] =
     dict_get_or seen k [] @ map ab_directory (filter (\<lambda>b. bundle_id b = k) bs)"
  by (induction bs arbitrary: seen) (auto simp: note_path_def dict_get_or_def dict_simps)

lemma note_path_wf: "wf_dict seen \<Longrightarrow> wf_dict (fold note_path bs seen)"
  by (induction bs arbitrary: seen) (auto simp: note_path_def)

lemma seen_entry:
  assumes "(k, ps) \<in> set (fold note_path bs [])"
  shows "ps = map ab_directory (filter (\<lambda>b. bundle_id b = k) bs)"
proof -
  have "dict_get (fold note_path bs []) k = Some ps"
    using assms note_path_wf [of "[]" bs] by (simp add: dict_get_value)
  then show ?thesis using note_path_get [of "[]" bs k] by (simp add: dict_get_or_def)
qed

lemma seen_has_key: "b \<in> set bs \<Longrightarrow> dict_has (fold note_path bs []) (bundle_id b)"
proof -
  have mono: "dict_has seen k \<Longrightarrow> dict_has (fold note_path bs seen) k" for bs seen k
    by (induction bs arbitrary: seen) (auto simp: note_path_def dict_simps)
  assume "b \<in> set bs"
  then obtain xs ys where "bs = xs @ b # ys" by (meson split_list)
  then have "fold note_path bs [] = fold note_path ys (note_path b (fold note_path xs []))" by simp
  moreover have "dict_has (note_path b (fold note_path xs [])) (bundle_id b)"
    by (simp add: note_path_def dict_simps)
  ultimately show ?thesis using mono by metis
qed

text \<open>The duplicates found by counting paths are the identifiers that occur twice.\<close>

lemma length_filter_le_one: "distinct (map f xs) \<longleftrightarrow> (\<forall>x \<in> set xs. length (filter (\<lambda>y. f y = f x) xs) \<le> 1)"
proof (induction xs)
  case (Cons a xs)
  have a: "length (filter (\<lambda>y. f y = f a) (a # xs)) \<le> 1 \<longleftrightarrow> f a \<notin> f ` set xs"
    by (simp add: filter_empty_conv image_iff) (metis)
  show ?case
  proof
    assume d: "distinct (map f (a # xs))"
    show "\<forall>x \<in> set (a # xs). length (filter (\<lambda>y. f y = f x) (a # xs)) \<le> 1"
    proof
      fix x assume "x \<in> set (a # xs)"
      then show "length (filter (\<lambda>y. f y = f x) (a # xs)) \<le> 1"
        using d a Cons.IH by (cases "x = a") (auto simp: image_iff)
    qed
  next
    assume r: "\<forall>x \<in> set (a # xs). length (filter (\<lambda>y. f y = f x) (a # xs)) \<le> 1"
    have "length (filter (\<lambda>y. f y = f x) xs) \<le> 1" if "x \<in> set xs" for x
    proof -
      have "length (filter (\<lambda>y. f y = f x) (a # xs)) \<le> 1" using r that by (meson list.set_intros(2))
      then show ?thesis by (simp split: if_splits)
    qed
    moreover have "f a \<notin> f ` set xs" using r a by (metis list.set_intros(1))
    ultimately show "distinct (map f (a # xs))" using Cons.IH by simp
  qed
qed simp

lemma no_duplicate_iff:
  "find (\<lambda>kv. length (snd kv) > 1) (fold note_path bs []) = None \<longleftrightarrow> distinct (map bundle_id bs)"
proof
  assume "find (\<lambda>kv. length (snd kv) > 1) (fold note_path bs []) = None"
  then have small: "length ps \<le> 1" if "(k, ps) \<in> set (fold note_path bs [])" for k ps
    using that unfolding find_None_iff by (metis not_less snd_conv)
  have "length (filter (\<lambda>c. bundle_id c = bundle_id b) bs) \<le> 1" if b: "b \<in> set bs" for b
  proof -
    obtain ps where "(bundle_id b, ps) \<in> set (fold note_path bs [])"
      using seen_has_key [OF b] by (auto dest: map_of_SomeD)
    then show ?thesis using small seen_entry by (metis length_map)
  qed
  then show "distinct (map bundle_id bs)" using length_filter_le_one by blast
next
  assume d: "distinct (map bundle_id bs)"
  have "length ps \<le> 1" if "(k, ps) \<in> set (fold note_path bs [])" for k ps
  proof (cases "filter (\<lambda>b. bundle_id b = k) bs")
    case Nil
    then show ?thesis using seen_entry [OF that] by simp
  next
    case (Cons b xs)
    then have "b \<in> set bs" "bundle_id b = k"
      by (simp_all add: filter_eq_Cons_iff) auto
    then show ?thesis using seen_entry [OF that] d length_filter_le_one [of bundle_id bs] by auto
  qed
  then show "find (\<lambda>kv. length (snd kv) > 1) (fold note_path bs []) = None"
    unfolding find_None_iff by (metis not_less prod.collapse)
qed

lemma discover_all_Inr:
  "discover_all parse roots = Inr bs \<longleftrightarrow>
   read_bundles parse (candidate_dirs roots) = Inr bs \<and> distinct (map bundle_id bs)"
  unfolding discover_all_def no_duplicate_iff [symmetric]
  by (auto split: sum.splits option.splits)

end
