(* ===== verification/Binding.thy ===== *)
theory Binding
  imports Integration_Source "HOL-Library.Product_Lexorder"
begin

text \<open>
  Which adapter serves a verb: the bindings map, the longest-prefix resolver and the adapter registry
  (\<open>ota_connect/binding/bindings.py\<close>, \<open>resolver.py\<close>, \<open>registry.py\<close>).  An adapter instance is a value of
  the type parameter; importing a module and calling what it names is the parameter \<open>import_entry\<close>.
\<close>

section \<open>Bindings\<close>

record Bindings =
  bi_capabilities :: "(string, string) dict"

definition is_key_head :: "char \<Rightarrow> bool" where
  "is_key_head c \<longleftrightarrow> is_lower_alpha c"

definition is_key_char :: "char \<Rightarrow> bool" where
  "is_key_char c \<longleftrightarrow> is_lower_alpha c \<or> is_digit c \<or> c = CHR ''_''"

definition KEY_WORD :: regex where
  "KEY_WORD = RSeq (RSet is_key_head) (RStar (RSet is_key_char))"

definition KEY_PATTERN :: regex where
  "KEY_PATTERN = RSeq KEY_WORD (RStar (RSeq (r_lit ''.'') KEY_WORD))"

text \<open>\<open>model_post_init\<close> raises \<open>ValueError\<close> on the first key that does not match.\<close>

definition bindings_ok :: "Bindings \<Rightarrow> bool" where
  "bindings_ok b \<longleftrightarrow> list_all (re_full KEY_PATTERN) (dict_keys (bi_capabilities b))"

section \<open>Resolution\<close>

record ResolvedBinding =
  rs_capability :: string
  rs_verb :: string
  rs_adapter_id :: string
  rs_matched_key :: string

definition keys_by_length :: "Bindings \<Rightarrow> string list" where
  "keys_by_length b = sort_key (\<lambda>k. (- int (length k), k)) (dict_keys (bi_capabilities b))"

definition target_of :: "string \<Rightarrow> string \<Rightarrow> string" where
  "target_of capability verb = capability @ ''.'' @ verb"

definition binding_result :: "Bindings \<Rightarrow> string \<Rightarrow> string \<Rightarrow> string \<Rightarrow> ResolvedBinding" where
  "binding_result b capability verb key =
     \<lparr>rs_capability = capability, rs_verb = verb,
      rs_adapter_id = dict_get_or (bi_capabilities b) key [], rs_matched_key = key\<rparr>"

fun resolve_loop :: "Bindings \<Rightarrow> string \<Rightarrow> string \<Rightarrow> string list \<Rightarrow> exn + ResolvedBinding" where
  "resolve_loop b capability verb [] = Inl (NoBindingError capability verb)"
| "resolve_loop b capability verb (key # keys) =
     (if key = target_of capability verb \<or> startswith (target_of capability verb) (key @ ''.'')
      then Inr (binding_result b capability verb key)
      else if key = capability then Inr (binding_result b capability verb key)
      else resolve_loop b capability verb keys)"

definition resolve :: "Bindings \<Rightarrow> string \<Rightarrow> string \<Rightarrow> exn + ResolvedBinding" where
  "resolve b capability verb = resolve_loop b capability verb (keys_by_length b)"

definition try_resolve :: "Bindings \<Rightarrow> string \<Rightarrow> string \<Rightarrow> ResolvedBinding option" where
  "try_resolve b capability verb =
     (case resolve b capability verb of Inl _ \<Rightarrow> None | Inr r \<Rightarrow> Some r)"

section \<open>The adapter registry\<close>

text \<open>A factory is kept with its \<open>repr\<close>, which the load error shows.\<close>

type_synonym 'i factory = "string \<times> (AdapterBundle \<Rightarrow> exn + 'i)"

record 'i LoadedAdapter =
  la_bundle :: AdapterBundle
  la_impl :: 'i

record 'i AdapterRegistry =
  ar_parse :: manifest_parser
  ar_roots :: "source_root list"
  ar_factories :: "(string, 'i factory) dict"
  ar_cache :: "(string, 'i LoadedAdapter) dict"

type_synonym 'i importer = "string \<Rightarrow> string \<Rightarrow> AdapterBundle \<Rightarrow> exn + 'i"

definition register_factory :: "string \<Rightarrow> 'i factory \<Rightarrow> 'i AdapterRegistry \<Rightarrow> 'i AdapterRegistry" where
  "register_factory aid f g =
     g\<lparr>ar_factories := dict_set aid f (ar_factories g), ar_cache := dict_pop aid (ar_cache g)\<rparr>"

definition known_adapter_ids :: "'i AdapterRegistry \<Rightarrow> exn + string list" where
  "known_adapter_ids g = list_ids (ar_parse g) (ar_roots g)"

definition get_bundle :: "'i AdapterRegistry \<Rightarrow> string \<Rightarrow> string \<Rightarrow> string \<Rightarrow> exn + AdapterBundle" where
  "get_bundle g aid capability verb =
     (case source_load (ar_parse g) (ar_roots g) aid of
        Inr b \<Rightarrow> Inr b
      | Inl e \<Rightarrow>
          if is_class ''AdapterManifestNotFoundError'' e then Inl (AdapterNotFoundError aid capability verb)
          else Inl e)"

definition load_error :: "AdapterBundle \<Rightarrow> string \<Rightarrow> exn + 'i \<Rightarrow> exn + 'i" where
  "load_error b ep r = (case r of Inr i \<Rightarrow> Inr i | Inl e \<Rightarrow> Inl (AdapterLoadError (bundle_id b) ep e))"

definition instantiate :: "'i importer \<Rightarrow> 'i AdapterRegistry \<Rightarrow> AdapterBundle \<Rightarrow> exn + 'i" where
  "instantiate import_entry g b =
     (case dict_get (ar_factories g) (bundle_id b) of
        Some (name, f) \<Rightarrow> load_error b (''<factory:'' @ name @ ''>'') (f b)
      | None \<Rightarrow>
          (case am_entrypoint (ab_manifest b) of
             None \<Rightarrow> Inl (AdapterLoadError (bundle_id b) ''<missing>''
               (PyError ''ValueError'' ''manifest has no `entrypoint` and no factory was registered''))
           | Some ep \<Rightarrow>
               if ep = []
               then Inl (AdapterLoadError (bundle_id b) ''<missing>''
                 (PyError ''ValueError'' ''manifest has no `entrypoint` and no factory was registered''))
               else load_error b ep
                 (let module_path = part_before (CHR '':'') ep; attr = part_after (CHR '':'') ep
                  in if module_path = [] \<or> attr = []
                     then Inl (PyError ''ValueError''
                       (''entrypoint '' @ repr_str ep @ '' must be '' @ repr_str ''module.path:attribute''))
                     else import_entry module_path attr b)))"

text \<open>\<open>load\<close> holds the lock for the lookup and for the store, not in between.\<close>

definition cache_lookup :: "string \<Rightarrow> 'i AdapterRegistry \<Rightarrow> 'i LoadedAdapter option" where
  "cache_lookup aid g = dict_get (ar_cache g) aid"

definition cache_store :: "string \<Rightarrow> 'i LoadedAdapter \<Rightarrow> 'i AdapterRegistry \<Rightarrow> 'i AdapterRegistry" where
  "cache_store aid la g = g\<lparr>ar_cache := dict_set aid la (ar_cache g)\<rparr>"

definition build_adapter ::
  "'i importer \<Rightarrow> string \<Rightarrow> string \<Rightarrow> string \<Rightarrow> 'i AdapterRegistry \<Rightarrow> exn + 'i LoadedAdapter" where
  "build_adapter import_entry aid capability verb g =
     (case get_bundle g aid capability verb of
        Inl e \<Rightarrow> Inl e
      | Inr b \<Rightarrow>
          (case instantiate import_entry g b of
             Inl e \<Rightarrow> Inl e
           | Inr i \<Rightarrow> Inr \<lparr>la_bundle = b, la_impl = i\<rparr>))"

definition registry_load ::
  "'i importer \<Rightarrow> string \<Rightarrow> string \<Rightarrow> string \<Rightarrow> ('i AdapterRegistry, exn, 'i LoadedAdapter) py" where
  "registry_load import_entry aid capability verb g =
     (case cache_lookup aid g of
        Some la \<Rightarrow> (Inr la, g)
      | None \<Rightarrow>
          (case build_adapter import_entry aid capability verb g of
             Inl e \<Rightarrow> (Inl e, g)
           | Inr la \<Rightarrow> (Inr la, cache_store aid la g)))"

definition adapters_satisfying :: "'i AdapterRegistry \<Rightarrow> string \<Rightarrow> exn + AdapterBundle list" where
  "adapters_satisfying g capability = by_capability (ar_parse g) (ar_roots g) capability None"

definition registry_reset :: "'i AdapterRegistry \<Rightarrow> 'i AdapterRegistry" where
  "registry_reset g = g\<lparr>ar_cache := []\<rparr>"

definition find_adapter_for_capability :: "'i AdapterRegistry \<Rightarrow> string \<Rightarrow> exn + AdapterBundle option" where
  "find_adapter_for_capability g capability =
     (case adapters_satisfying g capability of
        Inl e \<Rightarrow> Inl e
      | Inr [b] \<Rightarrow> Inr (Some b)
      | Inr _ \<Rightarrow> Inr None)"

definition loaded_integration :: "'i LoadedAdapter \<Rightarrow> string" where
  "loaded_integration la = bundle_integration (la_bundle la)"

definition cache_ok :: "'i AdapterRegistry \<Rightarrow> bool" where
  "cache_ok g \<longleftrightarrow> wf_dict (ar_cache g)"

definition cache_drop :: "string \<Rightarrow> 'i AdapterRegistry \<Rightarrow> 'i AdapterRegistry" where
  "cache_drop aid g = g\<lparr>ar_cache := dict_pop aid (ar_cache g)\<rparr>"

definition cached :: "'i AdapterRegistry \<Rightarrow> string \<Rightarrow> 'i LoadedAdapter option" where
  "cached g aid = cache_lookup aid g"

interpretation adapter_cache: keyed_store cached cache_store cache_ok cache_drop
  by unfold_locales
    (auto simp: cached_def cache_lookup_def cache_store_def cache_ok_def cache_drop_def dict_simps)

section \<open>Lemmas on resolution\<close>

definition key_matches :: "string \<Rightarrow> string \<Rightarrow> string \<Rightarrow> bool" where
  "key_matches capability verb key \<longleftrightarrow>
     key = target_of capability verb \<or> startswith (target_of capability verb) (key @ ''.'') \<or> key = capability"

lemma resolve_loop_find:
  "resolve_loop b c v keys =
     (case find (key_matches c v) keys of
        None \<Rightarrow> Inl (NoBindingError c v)
      | Some k \<Rightarrow> Inr (binding_result b c v k))"
  by (induction b c v keys rule: resolve_loop.induct) (auto simp: key_matches_def)

lemma resolve_find:
  "resolve b c v =
     (case find (key_matches c v) (keys_by_length b) of
        None \<Rightarrow> Inl (NoBindingError c v)
      | Some k \<Rightarrow> Inr (binding_result b c v k))"
  by (simp add: resolve_def resolve_loop_find)

lemma set_keys_by_length [simp]: "set (keys_by_length b) = set (dict_keys (bi_capabilities b))"
  by (simp add: keys_by_length_def)

text \<open>The first element of a sorted list that satisfies a predicate is a least one.\<close>

lemma find_sort_key_least:
  assumes "find p (sort_key f xs) = Some k" "j \<in> set xs" "p j"
  shows "f k \<le> f j"
proof -
  obtain i where i: "i < length (sort_key f xs)" "p (sort_key f xs ! i)" "k = sort_key f xs ! i"
    "\<And>m. m < i \<Longrightarrow> \<not> p (sort_key f xs ! m)"
    using assms(1) by (auto simp: find_Some_iff)
  obtain m where m: "m < length (sort_key f xs)" "j = sort_key f xs ! m"
    using assms(2) by (metis in_set_conv_nth set_sort)
  have "i \<le> m" using i(4) m assms(3) by (meson not_le_imp_less)
  moreover have "sorted (map f (sort_key f xs))" by simp
  ultimately have "map f (sort_key f xs) ! i \<le> map f (sort_key f xs) ! m"
    using m(1) by (intro sorted_nth_mono) simp_all
  then show ?thesis using i(1,3) m by simp
qed

lemma resolve_Inr:
  assumes "resolve b c v = Inr r"
  shows "rs_matched_key r \<in> set (dict_keys (bi_capabilities b)) \<and> key_matches c v (rs_matched_key r)
    \<and> r = binding_result b c v (rs_matched_key r)
    \<and> (\<forall>j \<in> set (dict_keys (bi_capabilities b)). key_matches c v j \<longrightarrow> length j \<le> length (rs_matched_key r))"
proof -
  obtain k where k: "find (key_matches c v) (keys_by_length b) = Some k" "r = binding_result b c v k"
    using assms by (auto simp: resolve_find split: option.splits)
  have "length j \<le> length k" if "j \<in> set (dict_keys (bi_capabilities b))" "key_matches c v j" for j
    using find_sort_key_least [OF k(1) [unfolded keys_by_length_def] that] by (auto simp: less_eq_prod_def)
  then show ?thesis using find_SomeD [OF k(1)] k(2) by (auto simp: binding_result_def)
qed

lemma resolve_Inl: "resolve b c v = Inl e \<longleftrightarrow>
  e = NoBindingError c v \<and> (\<forall>j \<in> set (dict_keys (bi_capabilities b)). \<not> key_matches c v j)"
proof (cases "find (key_matches c v) (keys_by_length b)")
  case None
  then have "\<forall>j \<in> set (keys_by_length b). \<not> key_matches c v j" by (auto simp: find_None_iff)
  with None show ?thesis by (auto simp: resolve_find)
next
  case (Some k)
  then show ?thesis using find_SomeD [OF Some] by (auto simp: resolve_find)
qed

text \<open>For names without dots only two keys can match.\<close>

lemma key_matches_dot_free:
  assumes "CHR ''.'' \<notin> set c" "CHR ''.'' \<notin> set v"
  shows "key_matches c v k \<longleftrightarrow> k = target_of c v \<or> k = c"
proof -
  have "k = c" if s: "startswith (target_of c v) (k @ ''.'')"
  proof -
    obtain t where t: "c @ ''.'' @ v = (k @ ''.'') @ t"
      using s by (auto simp: startswith_iff target_of_def)
    have nd: "CHR ''.'' \<notin> set k"
    proof
      assume "CHR ''.'' \<in> set k"
      then have "count_list (c @ ''.'' @ v) (CHR ''.'') \<ge> 2"
        unfolding t by (simp add: count_list_0_iff Suc_le_eq) (metis count_list_0_iff gr0I)
      then show False using assms by (simp add: count_list_0_iff)
    qed
    have "takeWhile (\<lambda>x. x \<noteq> CHR ''.'') (k @ CHR ''.'' # t) = k"
      using nd by (induction k) auto
    moreover have "takeWhile (\<lambda>x. x \<noteq> CHR ''.'') (c @ CHR ''.'' # v) = c"
      using assms(1) by (induction c) auto
    ultimately show "k = c" using t by simp
  qed
  then show ?thesis by (auto simp: key_matches_def)
qed

end
