(* ===== verification/Contracts_Routine.thy ===== *)
theory Contracts_Routine
  imports Contracts_LLM Gates
begin

text \<open>
  The routine source contract (\<open>ota_core/contracts/routine_source.py\<close>): catalog, kill list and bundle
  manifest.  Each pydantic model is a record with a boolean check of its field constraints and
  validators.  \<open>ApprovalMode\<close> is declared in theory \<open>Gates\<close>.
\<close>

section \<open>Channel and kill list\<close>

datatype ReasonCode =
    Sunset | Deprecated | LicenseExpired | CompromisedSigningKey | MaliciousUpdateDetected
  | DataLeakInProgress | VulnerabilityDisclosed | ContractTerminated

datatype GateKind = PreviewGate | ConfidenceGate | DiffGate | PermissionGate | BudgetGate | NoveltyGate

datatype FileRole = SystemPrompt | StepFile | GateTemplate | StateSchema | AssetFile

datatype OnMissedStrategy = Coalesce | SkipMissed | RunAll | RunIfWithin

record RoutineVersion =
  rv_version :: string
  rv_framework_compat :: string
  rv_released_at :: instant
  rv_expires_at :: instant
  rv_bundle_url :: string
  rv_bundle_sha256 :: string
  rv_bundle_size_bytes :: int
  rv_signature :: Signature
  rv_changelog_url :: "string option"
  rv_kill_status :: KillStatus
  rv_kill_grace_period :: "string option"

definition grace_ok :: "KillStatus \<Rightarrow> string option \<Rightarrow> bool" where
  "grace_ok status grace \<longleftrightarrow> grace = None \<or> status = HardKilled"

definition routine_version_ok :: "RoutineVersion \<Rightarrow> bool" where
  "routine_version_ok v \<longleftrightarrow>
     validate_semver (rv_version v) \<and> rv_framework_compat v \<noteq> [] \<and> rv_bundle_url v \<noteq> [] \<and>
     validate_sha256 (rv_bundle_sha256 v) \<and> rv_bundle_size_bytes v > 0 \<and>
     signature_ok (rv_signature v) \<and> grace_ok (rv_kill_status v) (rv_kill_grace_period v)"

record RoutineCatalogEntry =
  ce_id :: string
  ce_name :: string
  ce_description :: string
  ce_category :: string
  ce_deprecated :: bool
  ce_license :: string
  ce_versions :: "RoutineVersion list"

definition catalog_entry_ok :: "RoutineCatalogEntry \<Rightarrow> bool" where
  "catalog_entry_ok e \<longleftrightarrow>
     validate_reverse_dns (ce_id e) \<and> ce_name e \<noteq> [] \<and> ce_versions e \<noteq> [] \<and>
     list_all routine_version_ok (ce_versions e)"

record ChannelHeader =
  ch_id :: string
  ch_schema_version :: string
  ch_generated_at :: instant
  ch_signing_key_id :: string
  ch_next_signing_key_id :: "string option"
  ch_signature :: Signature

record ChannelManifest =
  cm_channel :: ChannelHeader
  cm_routines :: "RoutineCatalogEntry list"

definition channel_manifest_ok :: "ChannelManifest \<Rightarrow> bool" where
  "channel_manifest_ok m \<longleftrightarrow>
     ch_id (cm_channel m) \<noteq> [] \<and> validate_semver (ch_schema_version (cm_channel m)) \<and>
     ch_signing_key_id (cm_channel m) \<noteq> [] \<and> signature_ok (ch_signature (cm_channel m)) \<and>
     list_all catalog_entry_ok (cm_routines m)"

record KillListEntry =
  kl_routine_id :: string
  kl_version :: string
  kl_kill_status :: KillStatus
  kl_effective_at :: instant
  kl_reason_code :: ReasonCode
  kl_reason_summary :: string
  kl_kill_grace_period :: "string option"

definition kill_entry_ok :: "KillListEntry \<Rightarrow> bool" where
  "kill_entry_ok e \<longleftrightarrow>
     validate_reverse_dns (kl_routine_id e) \<and> validate_semver (kl_version e) \<and>
     kl_reason_summary e \<noteq> [] \<and> grace_ok (kl_kill_status e) (kl_kill_grace_period e)"

record KillListManifest =
  km_schema_version :: string
  km_channel_id :: string
  km_generated_at :: instant
  km_signing_key_id :: string
  km_signature :: Signature
  km_entries :: "KillListEntry list"

definition kill_list_ok :: "KillListManifest \<Rightarrow> bool" where
  "kill_list_ok m \<longleftrightarrow>
     validate_semver (km_schema_version m) \<and> km_channel_id m \<noteq> [] \<and> km_signing_key_id m \<noteq> [] \<and>
     signature_ok (km_signature m) \<and> list_all kill_entry_ok (km_entries m)"

section \<open>Dependencies\<close>

record RoutineDependency =
  rd_id :: string
  rd_version_range :: string
  rd_optional :: bool

record IntegrationDependency =
  dp_id :: string
  dp_scopes :: "string list"
  dp_optional :: bool
  dp_binding_level :: BindingLevel
  dp_on_emergency_kill :: OnEmergencyKill

definition integration_dependency_ok :: "IntegrationDependency \<Rightarrow> bool" where
  "integration_dependency_ok d \<longleftrightarrow>
     dp_id d \<noteq> [] \<and> (dp_binding_level d, dp_on_emergency_kill d) \<in> set VALID_BINDING_KILL_PAIRS"

record Capabilities =
  cap_provides :: "string list"
  cap_consumes :: "string list"

record Dependencies =
  deps_routines :: "RoutineDependency list"
  deps_integrations :: "IntegrationDependency list"

definition dependencies_ok :: "Dependencies \<Rightarrow> bool" where
  "dependencies_ok d \<longleftrightarrow>
     list_all (\<lambda>r. validate_reverse_dns (rd_id r) \<and> rd_version_range r \<noteq> []) (deps_routines d) \<and>
     list_all integration_dependency_ok (deps_integrations d)"

section \<open>Knobs\<close>

text \<open>The discriminated union of the knob models: its \<open>type\<close> with the fields of that model.\<close>

datatype KnobType =
    KnobBool bool
  | KnobInt int "int option" "int option"
  | KnobFloat decimal "decimal option" "decimal option"
  | KnobString string "int option" "string option"
  | KnobEnum "string list" string
  | KnobTime string string
  | KnobDuration string
  | KnobCron string string
  | KnobSecretRef
  | KnobIntegrationRef
  | KnobList string "json list"

record Knob =
  kn_name :: string
  kn_description :: string
  kn_type :: KnobType

definition TIME_RE :: regex where
  "TIME_RE = r_cat [r_rep 2 (RSet is_digit), r_lit '':'', r_rep 2 (RSet is_digit)]"

fun knob_type_ok :: "KnobType \<Rightarrow> bool" where
  "knob_type_ok (KnobString d ml p) = opt_pos ml"
| "knob_type_ok (KnobEnum vs d) \<longleftrightarrow> vs \<noteq> []"
| "knob_type_ok (KnobTime d tz) = re_matches TIME_RE d"
| "knob_type_ok (KnobDuration d) \<longleftrightarrow> d \<noteq> []"
| "knob_type_ok (KnobCron d tz) \<longleftrightarrow> d \<noteq> []"
| "knob_type_ok (KnobList inner d) \<longleftrightarrow>
     inner \<in> {''bool'', ''int'', ''float'', ''string'', ''enum'', ''time'', ''duration'', ''cron''}"
| "knob_type_ok _ = True"

definition knob_ok :: "Knob \<Rightarrow> bool" where
  "knob_ok k \<longleftrightarrow> kn_name k \<noteq> [] \<and> knob_type_ok (kn_type k)"

section \<open>Automation, gates and files\<close>

record OnMissedPolicy =
  om_strategy :: OnMissedStrategy
  om_tolerance :: "string option"

record AutomationCadence =
  ac_id :: string
  ac_cron :: string
  ac_timezone :: string
  ac_action :: string
  ac_on_missed :: "OnMissedPolicy option"

record AutomationEvent =
  av_id :: string
  av_on :: string
  av_action :: string
  av_debounce :: "string option"

record Automation =
  au_cadence :: "AutomationCadence list"
  au_events :: "AutomationEvent list"

definition automation_ok :: "Automation \<Rightarrow> bool" where
  "automation_ok a \<longleftrightarrow>
     list_all (\<lambda>c. ac_id c \<noteq> [] \<and> ac_cron c \<noteq> [] \<and> ac_action c \<noteq> []) (au_cadence a) \<and>
     list_all (\<lambda>e. av_id e \<noteq> [] \<and> av_on e \<noteq> [] \<and> av_action e \<noteq> []) (au_events a)"

record Gate =
  gt_id :: string
  gt_description :: string
  gt_kind :: "GateKind option"
  gt_approver_default :: string
  gt_approval_modes :: "ApprovalMode list"
  gt_similarity_function :: "string option"
  gt_expires_after :: "string option"

definition gate_decl_ok :: "Gate \<Rightarrow> bool" where
  "gate_decl_ok g \<longleftrightarrow> gt_id g \<noteq> [] \<and> gt_approval_modes g \<noteq> []"

record StateShard =
  ss_name :: string
  ss_schema_url :: string

record FileEntry =
  fe_path :: string
  fe_role :: FileRole
  fe_sha256 :: string

definition file_entry_ok :: "FileEntry \<Rightarrow> bool" where
  "file_entry_ok f \<longleftrightarrow> fe_path f \<noteq> [] \<and> validate_sha256 (fe_sha256 f)"

record RoutineMetadata =
  rmd_name :: string
  rmd_description :: string
  rmd_author :: string
  rmd_author_url :: string
  rmd_category :: string
  rmd_tags :: "string list"

record RoutineBundleManifest =
  rb_schema_version :: string
  rb_id :: string
  rb_version :: string
  rb_framework_compat :: string
  rb_metadata :: RoutineMetadata
  rb_dependencies :: Dependencies
  rb_capabilities :: Capabilities
  rb_llm_requirements :: LLMRequirements
  rb_knobs :: "Knob list"
  rb_automation :: Automation
  rb_gates :: "Gate list"
  rb_state_shards :: "StateShard list"
  rb_stale_artifact_ttl :: string
  rb_files :: "FileEntry list"
  rb_signature :: Signature

definition bundle_manifest_ok :: "RoutineBundleManifest \<Rightarrow> bool" where
  "bundle_manifest_ok m \<longleftrightarrow>
     validate_semver (rb_schema_version m) \<and> validate_reverse_dns (rb_id m) \<and>
     validate_semver (rb_version m) \<and> rb_framework_compat m \<noteq> [] \<and> rmd_name (rb_metadata m) \<noteq> [] \<and>
     dependencies_ok (rb_dependencies m) \<and> llm_requirements_ok (rb_llm_requirements m) \<and>
     list_all knob_ok (rb_knobs m) \<and> automation_ok (rb_automation m) \<and>
     list_all gate_decl_ok (rb_gates m) \<and>
     list_all (\<lambda>s. ss_name s \<noteq> [] \<and> ss_schema_url s \<noteq> []) (rb_state_shards m) \<and>
     rb_files m \<noteq> [] \<and> list_all file_entry_ok (rb_files m) \<and> signature_ok (rb_signature m)"

end
