(* ===== verification/Storage.thy ===== *)
theory Storage
  imports Ota_Errors
begin

text \<open>
  The storage layer: \<open>ota_core/storage/markdown.py\<close>, \<open>database.py\<close> and \<open>schema.py\<close>.

  YAML is third-party code: \<open>load\<close> and \<open>dump\<close> are parameters.  A directory is a dict from file name
  to text.  A database is its contents with the copy \<open>BEGIN\<close> took, if a transaction is open; what an SQL
  statement does is the parameter \<open>exec\<close>.  Opening connections and pragmas are not modelled.
\<close>

section \<open>Markdown documents\<close>

definition FRONTMATTER_FENCE :: string where
  "FRONTMATTER_FENCE = ''---'' @ nl"

record MarkdownDocument =
  md_frontmatter :: payload
  md_body :: string

text \<open>Reading a text file translates line ends.\<close>

fun universal_newlines :: "string \<Rightarrow> string" where
  "universal_newlines [] = []"
| "universal_newlines (c # cs) =
     (if c = CHR 0x0D
      then CHR 0x0A # (case cs of d # ds \<Rightarrow> if d = CHR 0x0A then universal_newlines ds else universal_newlines cs
                        | [] \<Rightarrow> [])
      else c # universal_newlines cs)"

text \<open>\<open>text.find(needle, start)\<close>.\<close>

definition find_from :: "string \<Rightarrow> string \<Rightarrow> nat \<Rightarrow> nat option" where
  "find_from txt needle start = List.find (\<lambda>i. startswith (drop i txt) needle) [start..<Suc (length txt)]"

text \<open>\<open>parsed or {}\<close> has to be a mapping.\<close>

definition frontmatter_of :: "string \<Rightarrow> json \<Rightarrow> exn + payload" where
  "frontmatter_of path j =
     (if falsy j then Inr []
      else (case j of
              JObj d \<Rightarrow> Inr d
            | _ \<Rightarrow> Inl (PyError ''ValueError''
                (''frontmatter in '' @ path @ '' must be a YAML mapping; got '' @ json_type_name j))))"

definition parse_markdown :: "(string \<Rightarrow> exn + json) \<Rightarrow> string \<Rightarrow> string \<Rightarrow> exn + MarkdownDocument" where
  "parse_markdown load path txt =
     (let plain = Inr \<lparr>md_frontmatter = [], md_body = txt\<rparr>; k = length FRONTMATTER_FENCE
      in if \<not> startswith txt FRONTMATTER_FENCE then plain
         else (case find_from txt (nl @ FRONTMATTER_FENCE) k of
                 None \<Rightarrow> plain
               | Some fin \<Rightarrow>
                   (case load (drop k (take fin txt)) of
                      Inl e \<Rightarrow> Inl e
                    | Inr j \<Rightarrow>
                        (case frontmatter_of path j of
                           Inl e \<Rightarrow> Inl e
                         | Inr fm \<Rightarrow> Inr \<lparr>md_frontmatter = fm, md_body = drop (fin + k + 1) txt\<rparr>))))"

definition read_markdown :: "(string \<Rightarrow> exn + json) \<Rightarrow> string \<Rightarrow> string \<Rightarrow> exn + MarkdownDocument" where
  "read_markdown load path content = parse_markdown load path (universal_newlines content)"

definition markdown_text :: "(payload \<Rightarrow> string) \<Rightarrow> MarkdownDocument \<Rightarrow> string" where
  "markdown_text dump doc =
     (if md_frontmatter doc \<noteq> [] then FRONTMATTER_FENCE @ dump (md_frontmatter doc) @ FRONTMATTER_FENCE else []) @
     md_body doc"

text \<open>The temporary file, and where the writing may fail: before all of the text is in it (\<open>part\<close> is), or
  when it replaces the target.\<close>

datatype write_fault = WriteOk | FailsWriting string exn | FailsReplacing exn

definition write_markdown ::
  "(payload \<Rightarrow> string) \<Rightarrow> string \<Rightarrow> write_fault \<Rightarrow> string \<Rightarrow> MarkdownDocument \<Rightarrow> ((string, string) dict, exn, unit) py" where
  "write_markdown dump tmp fault name doc files =
     (let txt = markdown_text dump doc; files1 = dict_set tmp [] files
      in case fault of
           FailsWriting part e \<Rightarrow> (Inl e, dict_pop tmp (dict_set tmp part files1))
         | FailsReplacing e \<Rightarrow> (Inl e, dict_pop tmp (dict_set tmp txt files1))
         | WriteOk \<Rightarrow> (Inr (), dict_set name txt (dict_pop tmp (dict_set tmp txt files1))))"

section \<open>Transactions\<close>

record 'd database =
  db_data :: 'd
  db_saved :: "'d option"

definition nested_error :: exn where
  "nested_error = PyError ''OperationalError'' ''cannot start a transaction within a transaction''"

text \<open>\<open>BEGIN IMMEDIATE\<close> fails inside a transaction, before the \<open>try\<close> block.  A \<open>ROLLBACK\<close> restores what
  \<open>BEGIN\<close> saw.\<close>

definition db_transaction :: "('d database, exn, 'a) py \<Rightarrow> ('d database, exn, 'a) py" where
  "db_transaction body s =
     (if db_saved s \<noteq> None then (Inl nested_error, s)
      else (case body (s\<lparr>db_saved := Some (db_data s)\<rparr>) of
              (Inl e, s') \<Rightarrow> (Inl e, s'\<lparr>db_data := db_data s, db_saved := None\<rparr>)
            | (Inr a, s') \<Rightarrow> (Inr a, s'\<lparr>db_saved := None\<rparr>)))"

section \<open>Migrations\<close>

record Migration =
  mg_name :: string
  mg_statements :: "string list"

text \<open>The contents: the rows of the tracking table, once it exists, and everything else.\<close>

record 'w schema_data =
  sd_tracking :: "string list option"
  sd_world :: 'w

definition applied_names :: "'w schema_data \<Rightarrow> string list" where
  "applied_names d = (case sd_tracking d of None \<Rightarrow> [] | Some ns \<Rightarrow> ns)"

definition ensure_tracking_table :: "('w schema_data database, exn, unit) py" where
  "ensure_tracking_table = db_transaction (\<lambda>s.
     (Inr (), s\<lparr>db_data := (db_data s)\<lparr>sd_tracking := Some (applied_names (db_data s))\<rparr>\<rparr>))"

definition applied_migrations :: "('w schema_data database, exn, string list) py" where
  "applied_migrations = try_bind ensure_tracking_table (\<lambda>_ s. (Inr (applied_names (db_data s)), s))"

fun run_statements ::
  "(string \<Rightarrow> 'w \<Rightarrow> exn + 'w) \<Rightarrow> string list \<Rightarrow> ('w schema_data database, exn, unit) py" where
  "run_statements exec [] s = (Inr (), s)"
| "run_statements exec (q # qs) s =
     (case exec q (sd_world (db_data s)) of
        Inl e \<Rightarrow> (Inl e, s)
      | Inr w \<Rightarrow> run_statements exec qs (s\<lparr>db_data := (db_data s)\<lparr>sd_world := w\<rparr>\<rparr>))"

text \<open>The tracking table's primary key rejects a name twice.\<close>

definition insert_name :: "string \<Rightarrow> ('w schema_data database, exn, unit) py" where
  "insert_name n s =
     (if n \<in> set (applied_names (db_data s))
      then (Inl (PyError ''IntegrityError'' ''UNIQUE constraint failed: _schema_migrations.name''), s)
      else (Inr (), s\<lparr>db_data := (db_data s)\<lparr>sd_tracking := Some (applied_names (db_data s) @ [n])\<rparr>\<rparr>))"

definition apply_migration ::
  "(string \<Rightarrow> 'w \<Rightarrow> exn + 'w) \<Rightarrow> Migration \<Rightarrow> ('w schema_data database, exn, unit) py" where
  "apply_migration exec m =
     db_transaction (try_bind (run_statements exec (mg_statements m)) (\<lambda>_. insert_name (mg_name m)))"

fun apply_loop ::
  "(string \<Rightarrow> 'w \<Rightarrow> exn + 'w) \<Rightarrow> string list \<Rightarrow> Migration list \<Rightarrow> ('w schema_data database, exn, string list) py" where
  "apply_loop exec already [] = py_return []"
| "apply_loop exec already (m # ms) =
     (if mg_name m \<in> set already then apply_loop exec already ms
      else try_bind (apply_migration exec m) (\<lambda>_.
           try_bind (apply_loop exec already ms) (\<lambda>applied. py_return (mg_name m # applied))))"

definition apply_pending ::
  "(string \<Rightarrow> 'w \<Rightarrow> exn + 'w) \<Rightarrow> Migration list \<Rightarrow> ('w schema_data database, exn, string list) py" where
  "apply_pending exec ms =
     try_bind ensure_tracking_table (\<lambda>_. try_bind applied_migrations (\<lambda>already. apply_loop exec already ms))"

end
