(* ===== verification/Routine_Bundles.thy ===== *)
theory Routine_Bundles
  imports Contracts_Routine Integration_Source Storage
begin

text \<open>
  Routine discovery: \<open>ota_core/routine_source/source.py\<close>.  The directories below the root are a
  \<open>source_root\<close> whose files are the manifests; a listed file is read by its whole path, the parameter
  \<open>read_bytes\<close>, because the path in a manifest may lead out of its directory.  YAML, pydantic's building
  of the manifest (whose own constraints are then applied) and SHA-256 are parameters.
\<close>

record bundle_env =
  be_yaml :: "string \<Rightarrow> exn + json"
  be_validate :: "payload \<Rightarrow> string + RoutineBundleManifest"
  be_read_bytes :: "string \<Rightarrow> string option"
  be_sha256 :: "string \<Rightarrow> string"

record RoutineBundle =
  rbd_manifest :: RoutineBundleManifest
  rbd_directory :: string
  rbd_body :: string

definition routine_bundle_id :: "RoutineBundle \<Rightarrow> string" where
  "routine_bundle_id b = rb_id (rbd_manifest b)"

text \<open>\<open>directory / relative\<close>: an absolute path replaces the directory.\<close>

definition bundle_file_path :: "string \<Rightarrow> string \<Rightarrow> string" where
  "bundle_file_path dir rel = (if startswith rel ''/'' then rel else path_join dir rel)"

section \<open>Errors\<close>

definition bundle_error :: "string \<Rightarrow> exn" where
  "bundle_error msg = PyError ''RoutineBundleError'' msg"

definition manifest_not_found :: "string \<Rightarrow> exn" where
  "manifest_not_found msg = PyError ''ManifestNotFoundError'' msg"

definition file_integrity_error :: "string \<Rightarrow> string \<Rightarrow> string \<Rightarrow> exn" where
  "file_integrity_error path expected actual = PyError ''FileIntegrityError''
     (''sha256 mismatch for '' @ path @ '': declared '' @ take 12 expected @ ''..., actual '' @ take 12 actual @ ''...'')"

definition duplicate_routine :: "string \<Rightarrow> string list \<Rightarrow> exn" where
  "duplicate_routine rid paths = PyError ''DuplicateRoutineError''
     (''duplicate routine id '' @ rid @ '' in: '' @ repr_strs paths)"

text \<open>A \<open>FileIntegrityError\<close> is a \<open>RoutineBundleError\<close>.\<close>

definition is_bundle_error :: "exn \<Rightarrow> bool" where
  "is_bundle_error e \<longleftrightarrow> is_class ''RoutineBundleError'' e \<or> is_class ''FileIntegrityError'' e"

section \<open>Reading one directory\<close>

definition ROUTINE_MANIFEST_NAMES :: "string list" where
  "ROUTINE_MANIFEST_NAMES = [''routine.md'', ''routine.yaml'', ''routine.yml'']"

definition read_candidate :: "bundle_env \<Rightarrow> string \<Rightarrow> string \<Rightarrow> string \<Rightarrow> exn + payload \<times> string" where
  "read_candidate env path name content =
     (if name = ''routine.md''
      then (case read_markdown (be_yaml env) path content of
              Inl e \<Rightarrow> Inl e
            | Inr doc \<Rightarrow>
                if md_frontmatter doc = []
                then Inl (bundle_error (''routine.md at '' @ path @ '' has no YAML frontmatter''))
                else Inr (md_frontmatter doc, md_body doc))
      else (case be_yaml env (universal_newlines content) of
              Inl e \<Rightarrow> Inl e
            | Inr (JObj d) \<Rightarrow> Inr (d, [])
            | Inr j \<Rightarrow> Inl (bundle_error (''manifest at '' @ path @ '' must be a YAML mapping, got <class '' @
                repr_str (json_type_name j) @ ''>''))))"

fun locate_manifest ::
  "bundle_env \<Rightarrow> string \<Rightarrow> (string, string) dict \<Rightarrow> string list \<Rightarrow> exn + string \<times> payload \<times> string" where
  "locate_manifest env dir files [] =
     Inl (manifest_not_found (''no routine manifest ('' @ join '' | '' ROUTINE_MANIFEST_NAMES @ '') under '' @ dir))"
| "locate_manifest env dir files (name # names) =
     (case dict_get files name of
        None \<Rightarrow> locate_manifest env dir files names
      | Some content \<Rightarrow>
          (let path = path_join dir name
           in case read_candidate env path name content of Inl e \<Rightarrow> Inl e | Inr r \<Rightarrow> Inr (path, r)))"

definition routine_read_manifest ::
  "bundle_env \<Rightarrow> string \<times> dir_entry \<Rightarrow> exn + RoutineBundleManifest \<times> string" where
  "routine_read_manifest env d =
     (case locate_manifest env (fst d) (de_files (snd d)) ROUTINE_MANIFEST_NAMES of
        Inl e \<Rightarrow> Inl e
      | Inr (path, raw, body) \<Rightarrow>
          (case be_validate env raw of
             Inl msg \<Rightarrow> Inl (bundle_error (''invalid routine manifest at '' @ path @ '': '' @ msg))
           | Inr m \<Rightarrow>
               if bundle_manifest_ok m then Inr (m, body)
               else Inl (bundle_error (''invalid routine manifest at '' @ path @ '': ''))))"

definition remove_prefix :: "string \<Rightarrow> string \<Rightarrow> string" where
  "remove_prefix p s = (if startswith s p then drop (length p) s else s)"

definition normalized_digest :: "string \<Rightarrow> string" where
  "normalized_digest expected = remove_prefix ''sha256-'' (remove_prefix ''sha256:'' expected)"

fun verify_file_hashes :: "bundle_env \<Rightarrow> string \<Rightarrow> FileEntry list \<Rightarrow> exn option" where
  "verify_file_hashes env dir [] = None"
| "verify_file_hashes env dir (f # fs) =
     (case be_read_bytes env (bundle_file_path dir (fe_path f)) of
        None \<Rightarrow> Some (file_integrity_error (fe_path f) (fe_sha256 f) ''<missing>'')
      | Some content \<Rightarrow>
          if be_sha256 env content \<noteq> normalized_digest (fe_sha256 f)
          then Some (file_integrity_error (fe_path f) (fe_sha256 f) (be_sha256 env content))
          else verify_file_hashes env dir fs)"

definition load_dir :: "bundle_env \<Rightarrow> bool \<Rightarrow> string \<times> dir_entry \<Rightarrow> exn + RoutineBundle" where
  "load_dir env verify d =
     (case routine_read_manifest env d of
        Inl e \<Rightarrow> Inl e
      | Inr (m, body) \<Rightarrow>
          (case (if verify then verify_file_hashes env (fst d) (rb_files m) else None) of
             Some e \<Rightarrow> Inl e
           | None \<Rightarrow> Inr \<lparr>rbd_manifest = m, rbd_directory = fst d, rbd_body = body\<rparr>))"

section \<open>\<open>FilesystemRoutineSource\<close>\<close>

definition routine_dirs :: "source_root \<Rightarrow> (string \<times> dir_entry) list" where
  "routine_dirs src_root =
     (case sr_children src_root of
        None \<Rightarrow> []
      | Some children \<Rightarrow> map (\<lambda>c. (path_join (sr_path src_root) (de_name c), c)) (filter de_is_dir (sort_key de_name children)))"

fun routine_ids_loop :: "bundle_env \<Rightarrow> (string \<times> dir_entry) list \<Rightarrow> exn + string list" where
  "routine_ids_loop env [] = Inr []"
| "routine_ids_loop env (d # ds) =
     (case routine_read_manifest env d of
        Inl e \<Rightarrow>
          if is_class ''ManifestNotFoundError'' e \<or> is_bundle_error e then routine_ids_loop env ds else Inl e
      | Inr (m, body) \<Rightarrow>
          (case routine_ids_loop env ds of Inl e \<Rightarrow> Inl e | Inr ids \<Rightarrow> Inr (rb_id m # ids)))"

definition routine_list_ids :: "bundle_env \<Rightarrow> source_root \<Rightarrow> exn + string list" where
  "routine_list_ids env src_root = routine_ids_loop env (routine_dirs src_root)"

text \<open>The loop the discovery and the lookup share.\<close>

fun load_dirs :: "bundle_env \<Rightarrow> bool \<Rightarrow> (string \<times> dir_entry) list \<Rightarrow> exn + RoutineBundle list" where
  "load_dirs env verify [] = Inr []"
| "load_dirs env verify (d # ds) =
     (case load_dir env verify d of
        Inl e \<Rightarrow> if is_class ''ManifestNotFoundError'' e then load_dirs env verify ds else Inl e
      | Inr b \<Rightarrow> (case load_dirs env verify ds of Inl e \<Rightarrow> Inl e | Inr bs \<Rightarrow> Inr (b # bs)))"

definition note_routine_path :: "RoutineBundle \<Rightarrow> (string, string list) dict \<Rightarrow> (string, string list) dict" where
  "note_routine_path b seen =
     dict_set (routine_bundle_id b) (dict_get_or seen (routine_bundle_id b) [] @ [rbd_directory b]) seen"

definition routine_discover_all :: "bundle_env \<Rightarrow> bool \<Rightarrow> source_root \<Rightarrow> exn + RoutineBundle list" where
  "routine_discover_all env verify src_root =
     (case load_dirs env verify (routine_dirs src_root) of
        Inl e \<Rightarrow> Inl e
      | Inr bundles \<Rightarrow>
          (case find (\<lambda>kv. length (snd kv) > 1) (fold note_routine_path bundles []) of
             Some (rid, paths) \<Rightarrow> Inl (duplicate_routine rid paths)
           | None \<Rightarrow> Inr bundles))"

definition routine_load :: "bundle_env \<Rightarrow> bool \<Rightarrow> source_root \<Rightarrow> string \<Rightarrow> exn + RoutineBundle" where
  "routine_load env verify src_root rid =
     (case load_dirs env verify (routine_dirs src_root) of
        Inl e \<Rightarrow> Inl e
      | Inr bundles \<Rightarrow>
          (case filter (\<lambda>b. routine_bundle_id b = rid) bundles of
             [] \<Rightarrow> Inl (manifest_not_found (''routine '' @ repr_str rid @ '' not found under '' @ sr_path src_root))
           | [b] \<Rightarrow> Inr b
           | bs \<Rightarrow> Inl (duplicate_routine rid (map rbd_directory bs))))"

section \<open>Lemmas\<close>

definition digests_match :: "bundle_env \<Rightarrow> RoutineBundle \<Rightarrow> bool" where
  "digests_match env b \<longleftrightarrow> (\<forall>f \<in> set (rb_files (rbd_manifest b)).
     \<exists>content. be_read_bytes env (bundle_file_path (rbd_directory b) (fe_path f)) = Some content \<and>
       be_sha256 env content = normalized_digest (fe_sha256 f))"

lemma verify_None:
  "verify_file_hashes env dir fs = None \<longleftrightarrow> (\<forall>f \<in> set fs.
     \<exists>content. be_read_bytes env (bundle_file_path dir (fe_path f)) = Some content \<and>
       be_sha256 env content = normalized_digest (fe_sha256 f))"
  by (induction fs) (auto split: option.splits)

lemma routine_read_manifest_ok: "routine_read_manifest env d = Inr (m, body) \<Longrightarrow> bundle_manifest_ok m"
  by (auto simp: routine_read_manifest_def split: sum.splits prod.splits if_splits)

lemma load_dir_ok:
  "load_dir env verify d = Inr b \<Longrightarrow>
     rbd_directory b = fst d \<and> bundle_manifest_ok (rbd_manifest b) \<and> (verify \<longrightarrow> digests_match env b)"
  by (auto simp: load_dir_def digests_match_def verify_None dest: routine_read_manifest_ok
      split: sum.splits prod.splits option.splits if_splits)

lemma load_dirs_ok:
  "load_dirs env verify ds = Inr bs \<Longrightarrow> b \<in> set bs \<Longrightarrow> \<exists>d \<in> set ds. load_dir env verify d = Inr b"
  by (induction ds arbitrary: bs) (force split: sum.splits if_splits)+

lemma load_dirs_error:
  "(\<exists>e. load_dirs env verify ds = Inl e) \<longleftrightarrow>
     (\<exists>d \<in> set ds. \<exists>e. load_dir env verify d = Inl e \<and> \<not> is_class ''ManifestNotFoundError'' e)"
  by (induction ds) (auto split: sum.splits)

end
