(* ===== verification/Knobs.thy ===== *)
theory Knobs
  imports Contracts_Routine Ota_Errors
begin

text \<open>
  \<open>ota_core/systems/knobs.py\<close>: the values of a routine's knobs from its manifest and the overrides
  of the operator.  A value is a \<open>json\<close>; the values pydantic accepts for the default of a list knob
  are among them.  \<open>float(value)\<close> of an \<open>int\<close> is exact here (integers of at most 15 digits).
\<close>

definition knob_error :: "string \<Rightarrow> exn" where
  "knob_error msg = PyError ''KnobResolutionError'' msg"

definition knob_error_for :: "Knob \<Rightarrow> string \<Rightarrow> exn" where
  "knob_error_for k msg = knob_error (''knob '' @ repr_str (kn_name k) @ msg)"

section \<open>Defaults\<close>

primrec knob_type_name :: "KnobType \<Rightarrow> string" where
  "knob_type_name (KnobBool d) = ''bool''"
| "knob_type_name (KnobInt d lo hi) = ''int''"
| "knob_type_name (KnobFloat d lo hi) = ''float''"
| "knob_type_name (KnobString d ml p) = ''string''"
| "knob_type_name (KnobEnum vs d) = ''enum''"
| "knob_type_name (KnobTime d tz) = ''time''"
| "knob_type_name (KnobDuration d) = ''duration''"
| "knob_type_name (KnobCron d tz) = ''cron''"
| "knob_type_name KnobSecretRef = ''secret_ref''"
| "knob_type_name KnobIntegrationRef = ''integration_ref''"
| "knob_type_name (KnobList inner d) = ''list''"

primrec default_for :: "KnobType \<Rightarrow> json option" where
  "default_for (KnobBool d) = Some (JBool d)"
| "default_for (KnobInt d lo hi) = Some (JInt d)"
| "default_for (KnobFloat d lo hi) = Some (JNum (dec_coef d) (dec_exp d))"
| "default_for (KnobString d ml p) = Some (JStr d)"
| "default_for (KnobEnum vs d) = Some (JStr d)"
| "default_for (KnobTime d tz) = Some (JStr d)"
| "default_for (KnobDuration d) = Some (JStr d)"
| "default_for (KnobCron d tz) = Some (JStr d)"
| "default_for KnobSecretRef = None"
| "default_for KnobIntegrationRef = None"
| "default_for (KnobList inner d) = Some (JArr d)"

section \<open>Overrides\<close>

definition coerce_int :: "Knob \<Rightarrow> int option \<Rightarrow> int option \<Rightarrow> int \<Rightarrow> exn + json" where
  "coerce_int k lo hi i =
     (case lo of
        Some m \<Rightarrow>
          if i < m then Inl (knob_error_for k ('': '' @ int_str i @ '' < min '' @ int_str m))
          else (case hi of
              Some n \<Rightarrow> if i > n then Inl (knob_error_for k ('': '' @ int_str i @ '' > max '' @ int_str n)) else Inr (JInt i)
            | None \<Rightarrow> Inr (JInt i))
      | None \<Rightarrow>
          (case hi of
             Some n \<Rightarrow> if i > n then Inl (knob_error_for k ('': '' @ int_str i @ '' > max '' @ int_str n)) else Inr (JInt i)
           | None \<Rightarrow> Inr (JInt i)))"

definition below :: "decimal option \<Rightarrow> decimal \<Rightarrow> bool" where
  "below lo f = (case lo of None \<Rightarrow> False | Some m \<Rightarrow> dec_less f m)"

definition above :: "decimal option \<Rightarrow> decimal \<Rightarrow> bool" where
  "above hi f = (case hi of None \<Rightarrow> False | Some m \<Rightarrow> dec_less m f)"

definition coerce_float :: "Knob \<Rightarrow> decimal option \<Rightarrow> decimal option \<Rightarrow> decimal \<Rightarrow> exn + json" where
  "coerce_float k lo hi f =
     (if below lo f then Inl (knob_error_for k ('': '' @ float_str f @ '' < min '' @ float_str (the lo)))
      else if above hi f then Inl (knob_error_for k ('': '' @ float_str f @ '' > max '' @ float_str (the hi)))
      else Inr (JNum (dec_coef f) (dec_exp f)))"

definition coerce_text :: "Knob \<Rightarrow> json \<Rightarrow> exn + json" where
  "coerce_text k v = (case v of JStr s \<Rightarrow> Inr (JStr s) | _ \<Rightarrow> Inl (knob_error_for k '': expected str''))"

definition coerce_string :: "Knob \<Rightarrow> int option \<Rightarrow> json \<Rightarrow> exn + json" where
  "coerce_string k max_length v =
     (case v of
        JStr s \<Rightarrow>
          (case max_length of
             Some n \<Rightarrow>
               if int (length s) > n
               then Inl (knob_error_for k ('': length '' @ int_str (int (length s)) @ '' > max '' @ int_str n))
               else Inr (JStr s)
           | None \<Rightarrow> Inr (JStr s))
      | _ \<Rightarrow> Inl (knob_error_for k '': expected str''))"

definition coerce :: "Knob \<Rightarrow> json \<Rightarrow> exn + json" where
  "coerce k v =
     (case kn_type k of
        KnobBool d \<Rightarrow>
          (case v of JBool b \<Rightarrow> Inr (JBool b)
           | _ \<Rightarrow> Inl (knob_error_for k ('': expected bool, got '' @ json_type_name v)))
      | KnobInt d lo hi \<Rightarrow>
          (case v of JInt i \<Rightarrow> coerce_int k lo hi i | _ \<Rightarrow> Inl (knob_error_for k '': expected int''))
      | KnobFloat d lo hi \<Rightarrow>
          (case v of
             JInt i \<Rightarrow> coerce_float k lo hi (strip_zeros i 0)
           | JNum c e \<Rightarrow> coerce_float k lo hi \<lparr>dec_coef = c, dec_exp = e\<rparr>
           | _ \<Rightarrow> Inl (knob_error_for k '': expected float''))
      | KnobString d ml p \<Rightarrow> coerce_string k ml v
      | KnobEnum vs d \<Rightarrow>
          if v \<in> set (map JStr vs) then Inr v
          else Inl (knob_error_for k ('': value '' @ py_repr v @ '' not in '' @ repr_strs vs))
      | KnobTime d tz \<Rightarrow> coerce_text k v
      | KnobDuration d \<Rightarrow> coerce_text k v
      | KnobCron d tz \<Rightarrow> coerce_text k v
      | KnobList inner d \<Rightarrow>
          (case v of JArr xs \<Rightarrow> Inr (JArr xs) | _ \<Rightarrow> Inl (knob_error_for k '': expected list''))
      | KnobSecretRef \<Rightarrow> Inr v
      | KnobIntegrationRef \<Rightarrow> Inr v)"

section \<open>Resolution\<close>

definition knob_value :: "payload \<Rightarrow> Knob \<Rightarrow> exn + json" where
  "knob_value overrides k =
     (case dict_get overrides (kn_name k) of
        Some v \<Rightarrow> coerce k v
      | None \<Rightarrow>
          (case default_for (kn_type k) of
             Some d \<Rightarrow> Inr d
           | None \<Rightarrow> Inl (knob_error (''knob '' @ repr_str (kn_name k) @ '' of type '' @
               repr_str (knob_type_name (kn_type k)) @ '' has no default; supply an override''))))"

fun knob_loop :: "payload \<Rightarrow> Knob list \<Rightarrow> payload \<Rightarrow> exn + payload" where
  "knob_loop overrides [] resolved = Inr resolved"
| "knob_loop overrides (k # ks) resolved =
     (case knob_value overrides k of
        Inl e \<Rightarrow> Inl e
      | Inr v \<Rightarrow> knob_loop overrides ks (dict_set (kn_name k) v resolved))"

definition unknown_overrides :: "payload \<Rightarrow> Knob list \<Rightarrow> string list" where
  "unknown_overrides overrides ks = sort (filter (\<lambda>n. n \<notin> set (map kn_name ks)) (dict_keys overrides))"

definition resolve_knobs :: "RoutineBundleManifest \<Rightarrow> payload \<Rightarrow> exn + payload" where
  "resolve_knobs m overrides =
     (case knob_loop overrides (rb_knobs m) [] of
        Inl e \<Rightarrow> Inl e
      | Inr resolved \<Rightarrow>
          if unknown_overrides overrides (rb_knobs m) \<noteq> []
          then Inl (knob_error (''override(s) for unknown knob(s): '' @ repr_strs (unknown_overrides overrides (rb_knobs m))))
          else Inr resolved)"

end
