(* ===== verification/Observability.thy ===== *)
theory Observability
  imports L0b
begin

text \<open>
  The observability sinks: \<open>ota_core/observability/sink.py\<close>.  The state \<open>obs_world\<close> adds to the
  policy's the records written so far (sink, record), oldest first, and which sinks still have a
  writer.  A record keeps the values the code puts into its mapping; their JSON text, the lock and the
  errors of the stream are not modelled.  Readings of the clock and drawn span identifiers are arguments.
\<close>

section \<open>Spans and records\<close>

datatype SpanStatus = SpanOk | SpanError

record span_event =
  se_name :: string
  se_timestamp :: instant
  se_attributes :: payload

record Span =
  sp_name :: string
  sp_trace_id :: string
  sp_span_id :: string
  sp_parent_span_id :: "string option"
  sp_started_at :: instant
  sp_attributes :: payload
  sp_events :: "span_event list"
  sp_ended_at :: "instant option"
  sp_status :: SpanStatus

definition set_attribute :: "string \<Rightarrow> json \<Rightarrow> Span \<Rightarrow> Span" where
  "set_attribute key v s = s\<lparr>sp_attributes := dict_set key v (sp_attributes s)\<rparr>"

definition add_event :: "string \<Rightarrow> payload \<Rightarrow> instant \<Rightarrow> Span \<Rightarrow> Span" where
  "add_event name attrs now s =
     s\<lparr>sp_events := sp_events s @ [\<lparr>se_name = name, se_timestamp = now, se_attributes = attrs\<rparr>]\<rparr>"

datatype MetricKind = Counter | Gauge | Histogram

record metric_record =
  mr_type :: MetricKind
  mr_name :: string
  mr_value :: decimal
  mr_trace_id :: "string option"
  mr_span_id :: "string option"
  mr_timestamp :: instant
  mr_attributes :: "(string, string) dict"

datatype obs_record = MetricRecord metric_record | SpanRecord Span

type_synonym obs_sink = nat

record obs_world = policy_world +
  ow_records :: "(obs_sink \<times> obs_record) list"
  ow_writers :: "obs_sink list"

section \<open>Operations\<close>

definition obs_emit :: "obs_sink \<Rightarrow> obs_record \<Rightarrow> 'w obs_world_scheme \<Rightarrow> 'w obs_world_scheme" where
  "obs_emit o_ref rec w = (if o_ref \<in> set (ow_writers w) then w\<lparr>ow_records := ow_records w @ [(o_ref, rec)]\<rparr> else w)"

definition obs_metric ::
  "obs_sink \<Rightarrow> string \<Rightarrow> decimal \<Rightarrow> MetricKind \<Rightarrow> (string, string) dict \<Rightarrow> instant \<Rightarrow>
   'w obs_world_scheme \<Rightarrow> 'w obs_world_scheme" where
  "obs_metric o_ref name v kind attrs now w =
     obs_emit o_ref
       (MetricRecord \<lparr>mr_type = kind, mr_name = name, mr_value = v, mr_trace_id = current_trace_id w,
          mr_span_id = current_span_id w, mr_timestamp = now, mr_attributes = attrs\<rparr>) w"

definition obs_close :: "obs_sink \<Rightarrow> 'w obs_world_scheme \<Rightarrow> 'w obs_world_scheme" where
  "obs_close o_ref w = w\<lparr>ow_writers := filter (\<lambda>x. x \<noteq> o_ref) (ow_writers w)\<rparr>"

text \<open>The three span identifiers (two for a missing trace identifier) and the two clock readings of a span.\<close>

record span_draws =
  sd_trace_high :: string
  sd_trace_low :: string
  sd_span :: string
  sd_start :: instant
  sd_end :: instant

definition open_span :: "string \<Rightarrow> payload \<Rightarrow> span_draws \<Rightarrow> 'w obs_world_scheme \<Rightarrow> Span" where
  "open_span name attrs d w =
     \<lparr>sp_name = name, sp_trace_id = resolve_trace None (sd_trace_high d @ sd_trace_low d) w,
      sp_span_id = sd_span d, sp_parent_span_id = current_span_id w, sp_started_at = sd_start d,
      sp_attributes = attrs, sp_events = [], sp_ended_at = None, sp_status = SpanOk\<rparr>"

definition close_span :: "span_draws \<Rightarrow> (exn + 'a) \<Rightarrow> Span \<Rightarrow> Span" where
  "close_span d res s =
     s\<lparr>sp_status := (case res of Inl _ \<Rightarrow> SpanError | Inr _ \<Rightarrow> sp_status s), sp_ended_at := Some (sd_end d)\<rparr>"

text \<open>The body receives the span and leaves it as its calls of \<open>set_attribute\<close> and \<open>add_event\<close> made it.\<close>

definition obs_span ::
  "obs_sink \<Rightarrow> string \<Rightarrow> payload \<Rightarrow> span_draws \<Rightarrow>
   (Span \<Rightarrow> 'w obs_world_scheme \<Rightarrow> ((exn + 'a) \<times> Span) \<times> 'w obs_world_scheme) \<Rightarrow>
   ('w obs_world_scheme, exn, 'a) py" where
  "obs_span o_ref name attrs d body w =
     (case body (open_span name attrs d w) w of
        ((res, s), w1) \<Rightarrow> (res, obs_emit o_ref (SpanRecord (close_span d res s)) w1))"

text \<open>A body that does not touch its span.\<close>

definition plain_body ::
  "('w obs_world_scheme, exn, 'a) py \<Rightarrow> Span \<Rightarrow> 'w obs_world_scheme \<Rightarrow> ((exn + 'a) \<times> Span) \<times> 'w obs_world_scheme" where
  "plain_body m s w = (case m w of (res, w1) \<Rightarrow> ((res, s), w1))"

lemma obs_emit_sel [simp]:
  "tv_trace (obs_emit o_ref rec w) = tv_trace w" "tv_span (obs_emit o_ref rec w) = tv_span w"
  "pw_active (obs_emit o_ref rec w) = pw_active w" "pw_ctxs (obs_emit o_ref rec w) = pw_ctxs w"
  "pw_audit (obs_emit o_ref rec w) = pw_audit w" "ow_writers (obs_emit o_ref rec w) = ow_writers w"
  "ow_records (obs_emit o_ref rec w) = ow_records w @ (if o_ref \<in> set (ow_writers w) then [(o_ref, rec)] else [])"
  by (simp_all add: obs_emit_def)

lemma obs_span_plain:
  "obs_span o_ref name attrs d (plain_body m) w =
     (case m w of (res, w1) \<Rightarrow> (res, obs_emit o_ref (SpanRecord (close_span d res (open_span name attrs d w))) w1))"
  by (simp add: obs_span_def plain_body_def split: prod.splits)

text \<open>A span does not bind its identifier: a span opened inside another has the same parent as the
  outer one, not the outer one itself.\<close>

lemma nested_span_misses_its_parent:
  assumes "o_ref \<in> set (ow_writers w)"
  shows "ow_records (snd (obs_span o_ref n1 a1 d1 (plain_body (obs_span o_ref n2 a2 d2 (plain_body (py_return x)))) w)) =
    ow_records w @ [(o_ref, SpanRecord (close_span d2 (Inr x) (open_span n2 a2 d2 w))),
                    (o_ref, SpanRecord (close_span d1 (Inr x) (open_span n1 a1 d1 w)))]
    \<and> sp_parent_span_id (open_span n2 a2 d2 w) = current_span_id w
    \<and> sp_parent_span_id (open_span n1 a1 d1 w) = current_span_id w"
  using assms by (simp add: obs_span_plain py_return_def open_span_def)

end
