(* ===== verification/Routine_Engine.thy ===== *)
theory Routine_Engine
  imports Routine_Bundles Knobs Observability
begin

text \<open>
  The routine engine: \<open>ota_core/systems/engine.py\<close>, with \<open>load_manifest.py\<close>.  A routine's code is
  third-party: a \<open>helpers.py\<close> is what executing it leaves behind, its \<open>run\<close> attribute being a
  function of the runtime over the state (a coroutine is run to its end).  The state \<open>engine_world\<close>
  adds the names in \<open>sys.modules\<close>.  The identity and secrets providers and the audit sink are passed
  to the routine by reference, a natural number.  Fresh identifiers and clock readings are arguments.
\<close>

section \<open>State and data\<close>

record engine_world = obs_world +
  gw_modules :: "string list"

record 's Capability =
  cp_name :: string
  cp_callable :: "json list \<Rightarrow> payload \<Rightarrow> ('s, exn, json) py"
  cp_integration_id :: "string option"

record 's RoutineRuntime =
  rt_bundle :: RoutineBundle
  rt_context :: ctx_ref
  rt_knobs :: payload
  rt_identity :: nat
  rt_secrets :: nat
  rt_audit :: nat
  rt_observability :: obs_sink
  rt_capabilities :: "(string, 's Capability) dict"

definition runtime_call ::
  "'s RoutineRuntime \<Rightarrow> string \<Rightarrow> json list \<Rightarrow> payload \<Rightarrow> ('s, exn, json) py" where
  "runtime_call rt name args kwargs =
     (case dict_get (rt_capabilities rt) name of
        None \<Rightarrow> py_raise (PyError ''KeyError'' (repr_str (''capability '' @ repr_str name @ '' not bound; available: '' @
          repr_strs (sort (dict_keys (rt_capabilities rt))))))
      | Some cap \<Rightarrow> cp_callable cap args kwargs)"

text \<open>The attribute \<open>run\<close> of a module: absent or \<open>None\<close>, a value that is not callable, or a function.\<close>

datatype 's run_attr =
    NoRun
  | NotCallable
  | RunFunction "'s RoutineRuntime \<Rightarrow> ('s, exn, json) py"

record 's RoutineHandle =
  rh_bundle :: RoutineBundle
  rh_helpers :: "'s run_attr option"
  rh_knobs :: payload

definition helpers_error :: "string \<Rightarrow> exn" where
  "helpers_error msg = PyError ''RoutineHelpersError'' msg"

definition main_callable ::
  "'s RoutineHandle \<Rightarrow> exn + ('s RoutineRuntime \<Rightarrow> ('s, exn, json) py) option" where
  "main_callable h =
     (case rh_helpers h of
        None \<Rightarrow> Inr None
      | Some NoRun \<Rightarrow> Inr None
      | Some NotCallable \<Rightarrow> Inl (helpers_error (''helpers.run for '' @ routine_bundle_id (rh_bundle h) @ '' is not callable''))
      | Some (RunFunction f) \<Rightarrow> Inr (Some f))"

record RoutineRunResult =
  rrr_routine_id :: string
  rrr_routine_run_id :: string
  rrr_trace_id :: string
  rrr_started_at :: string
  rrr_return_value :: json
  rrr_tool_calls_made :: int

record 's RoutineEngine =
  en_source :: bundle_env
  en_verify_files :: bool
  en_root :: source_root
  en_identity :: nat
  en_secrets :: nat
  en_audit :: nat
  en_observability :: obs_sink
  en_l0b :: enforcer
  en_spec :: "string \<Rightarrow> bool"
  en_exec_module :: "string \<Rightarrow> ('s, exn, 's run_attr) py"

section \<open>Loading\<close>

definition replace_char :: "char \<Rightarrow> char \<Rightarrow> string \<Rightarrow> string" where
  "replace_char a b s = map (\<lambda>c. if c = a then b else c) s"

definition dynamic_module_name :: "string \<Rightarrow> string \<Rightarrow> string" where
  "dynamic_module_name rid hex =
     ''ota_routines_dynamic.'' @ replace_char (CHR ''.'') (CHR ''_'') rid @ ''_'' @ take 8 hex"

text \<open>\<open>_load_helpers\<close>: \<open>hex\<close> is the drawn \<open>uuid4().hex\<close>.\<close>

definition load_helpers ::
  "'w engine_world_scheme RoutineEngine \<Rightarrow> string \<Rightarrow> RoutineBundle \<Rightarrow>
   ('w engine_world_scheme, exn, 'w engine_world_scheme run_attr option) py" where
  "load_helpers eng hex b w =
     (let path = bundle_file_path (rbd_directory b) ''helpers.py''; name = dynamic_module_name (routine_bundle_id b) hex
      in if be_read_bytes (en_source eng) path = None then (Inr None, w)
         else if \<not> en_spec eng path then (Inl (helpers_error (''cannot build spec for '' @ path)), w)
         else (case en_exec_module eng path (w\<lparr>gw_modules := List.insert name (gw_modules w)\<rparr>) of
                 (Inl e, w1) \<Rightarrow>
                   (Inl (helpers_error (''failed to import helpers.py for '' @ routine_bundle_id b @ '': '' @ exc_str e)),
                    w1\<lparr>gw_modules := removeAll name (gw_modules w1)\<rparr>)
               | (Inr attr, w1) \<Rightarrow> (Inr (Some attr), w1)))"

definition engine_load ::
  "'w engine_world_scheme RoutineEngine \<Rightarrow> string \<Rightarrow> payload \<Rightarrow> string \<Rightarrow>
   ('w engine_world_scheme, exn, 'w engine_world_scheme RoutineHandle) py" where
  "engine_load eng rid overrides hex w =
     (case routine_load (en_source eng) (en_verify_files eng) (en_root eng) rid of
        Inl e \<Rightarrow> (Inl e, w)
      | Inr b \<Rightarrow>
          (case resolve_knobs (rbd_manifest b) overrides of
             Inl e \<Rightarrow> (Inl e, w)
           | Inr knobs \<Rightarrow>
               (case load_helpers eng hex b w of
                  (Inl e, w1) \<Rightarrow> (Inl e, w1)
                | (Inr helpers, w1) \<Rightarrow>
                    (Inr \<lparr>rh_bundle = b, rh_helpers = helpers, rh_knobs = knobs\<rparr>, w1))))"

section \<open>Running\<close>

text \<open>What a run draws: its identifiers, the reference of its new context, and the span's draws.\<close>

record run_draws =
  rd_ctx :: ctx_ref
  rd_run_id :: string
  rd_trace :: string
  rd_bind_span :: string
  rd_span :: span_draws

definition manifest_integrations :: "RoutineBundle \<Rightarrow> IntegrationDependency list" where
  "manifest_integrations b = deps_integrations (rb_dependencies (rbd_manifest b))"

definition run_context ::
  "RoutineBundle \<Rightarrow> Principal \<Rightarrow> string option \<Rightarrow> string option \<Rightarrow> string option \<Rightarrow> run_draws \<Rightarrow> RoutineRunContext" where
  "run_context b who request_id tenant_id trace_id d =
     \<lparr>rc_routine_id = routine_bundle_id b, rc_routine_run_id = rd_run_id d,
      rc_trace_id = (case trace_id of Some t \<Rightarrow> t | None \<Rightarrow> rd_trace d), rc_principal = who,
      rc_allowed_integrations = map dp_id (manifest_integrations b),
      rc_declared_scopes = dict_of (map (\<lambda>p. (dp_id p, dp_scopes p)) (manifest_integrations b)),
      rc_budget = lr_budget (rb_llm_requirements (rbd_manifest b)), rc_request_id = request_id,
      rc_tenant_id = tenant_id, rc_input_tokens_used = 0, rc_output_tokens_used = 0,
      rc_usd_spent = dec_zero, rc_tool_calls_made = 0\<rparr>"

definition run_runtime ::
  "'s RoutineEngine \<Rightarrow> 's RoutineHandle \<Rightarrow> (string, 's Capability) dict \<Rightarrow> run_draws \<Rightarrow> 's RoutineRuntime" where
  "run_runtime eng h caps d =
     \<lparr>rt_bundle = rh_bundle h, rt_context = rd_ctx d, rt_knobs = rh_knobs h, rt_identity = en_identity eng,
      rt_secrets = en_secrets eng, rt_audit = en_audit eng, rt_observability = en_observability eng,
      rt_capabilities = caps\<rparr>"

definition run_result :: "RoutineBundle \<Rightarrow> json \<Rightarrow> RoutineRunContext \<Rightarrow> RoutineRunResult" where
  "run_result b v c =
     \<lparr>rrr_routine_id = routine_bundle_id b, rrr_routine_run_id = rc_routine_run_id c, rrr_trace_id = rc_trace_id c,
      rrr_started_at = rc_trace_id c, rrr_return_value = v, rrr_tool_calls_made = rc_tool_calls_made c\<rparr>"

definition span_attributes :: "RoutineBundle \<Rightarrow> run_draws \<Rightarrow> payload" where
  "span_attributes b d =
     [(''routine_id'', JStr (routine_bundle_id b)), (''routine_run_id'', JStr (rd_run_id d))]"

definition engine_run ::
  "'w engine_world_scheme RoutineEngine \<Rightarrow> 'w engine_world_scheme RoutineHandle \<Rightarrow> Principal \<Rightarrow>
   (string, 'w engine_world_scheme Capability) dict \<Rightarrow> string option \<Rightarrow> string option \<Rightarrow> string option \<Rightarrow>
   run_draws \<Rightarrow> ('w engine_world_scheme, exn, RoutineRunResult) py" where
  "engine_run eng h who caps request_id tenant_id trace_id d w =
     (case main_callable h of
        Inl e \<Rightarrow> (Inl e, w)
      | Inr None \<Rightarrow> (Inl (PyError ''RoutineRunError'' (''routine '' @ routine_bundle_id (rh_bundle h) @
          '' has no helpers.py with `run(runtime)` entry point'')), w)
      | Inr (Some main) \<Rightarrow>
          (let b = rh_bundle h; r = rd_ctx d; ctx = run_context b who request_id tenant_id trace_id d
           in case routine_run (en_l0b eng) r (rd_bind_span d)
                     (obs_span (en_observability eng) ''routine.run'' (span_attributes b d) (rd_span d)
                       (plain_body (main (run_runtime eng h caps d))))
                     (w\<lparr>pw_ctxs := (pw_ctxs w)(r := ctx)\<rparr>) of
                (Inl e, w1) \<Rightarrow> (Inl e, w1)
              | (Inr v, w1) \<Rightarrow> (Inr (run_result b v (pw_ctxs w1 r)), w1)))"

section \<open>Load manifests\<close>

record LoadManifest =
  lm_routine_id :: string
  lm_integration_ids :: "string list"
  lm_state_shards :: "string list"
  lm_identity_files :: "string list"
  lm_startup_context :: "string list"

definition resolve_load_manifest :: "bundle_env \<Rightarrow> bool \<Rightarrow> source_root \<Rightarrow> string \<Rightarrow> exn + LoadManifest" where
  "resolve_load_manifest env verify src_root rid =
     (case routine_load env verify src_root rid of
        Inl e \<Rightarrow> Inl e
      | Inr b \<Rightarrow> Inr \<lparr>lm_routine_id = rid, lm_integration_ids = map dp_id (manifest_integrations b),
          lm_state_shards = map ss_name (rb_state_shards (rbd_manifest b)), lm_identity_files = [],
          lm_startup_context = []\<rparr>)"

end
