(* ===== verification/Dispatch.thy ===== *)
theory Dispatch
  imports Binding L0b_Properties Routine_Engine
begin

text \<open>
  Capability dispatch: \<open>ota_connect/binding/dispatch.py\<close>, with the verbs of
  \<open>ota_connect/email/verbs.py\<close> and \<open>ota_connect/messaging/verbs.py\<close> around it.  The state extends
  \<open>engine_world\<close>, so that a routine run by the engine can dispatch, with the context variable naming
  the installed \<open>DispatchContext\<close> (its resolver's bindings and a reference to its registry).  What an adapter does is the parameter \<open>invoke\<close>: it may
  change the whole state and raise anything.
\<close>

section \<open>State and context\<close>

record 'i dispatch_world = engine_world +
  dw_active :: "(Bindings \<times> nat) option"
  dw_registries :: "nat \<Rightarrow> 'i AdapterRegistry"

definition set_dispatch_context :: "(Bindings \<times> nat) option \<Rightarrow> ('i, 'z) dispatch_world_scheme \<Rightarrow> ('i, 'z) dispatch_world_scheme" where
  "set_dispatch_context ctx w = w\<lparr>dw_active := ctx\<rparr>"

definition dispatch_context ::
  "Bindings \<times> nat \<Rightarrow> (('i, 'z) dispatch_world_scheme, exn, 'a) py \<Rightarrow> (('i, 'z) dispatch_world_scheme, exn, 'a) py" where
  "dispatch_context ctx body w =
     (case body (w\<lparr>dw_active := Some ctx\<rparr>) of (res, w') \<Rightarrow> (res, w'\<lparr>dw_active := dw_active w\<rparr>))"

section \<open>Verb metadata\<close>

record verb_decl =
  vd_idempotency :: string
  vd_required_scopes :: "string list"
  vd_destructive :: bool

definition verb_entry :: "string \<Rightarrow> string \<Rightarrow> string \<Rightarrow> bool \<Rightarrow> string \<times> verb_decl" where
  "verb_entry name idem scope destructive =
     (name, \<lparr>vd_idempotency = idem, vd_required_scopes = [scope], vd_destructive = destructive\<rparr>)"

definition EMAIL_VERBS :: "(string, verb_decl) dict" where
  "EMAIL_VERBS =
     [verb_entry ''send_email'' ''best_effort'' ''email:send'' False,
      verb_entry ''create_draft'' ''best_effort'' ''email:modify'' False,
      verb_entry ''send_draft'' ''best_effort'' ''email:send'' False,
      verb_entry ''delete_email'' ''best_effort'' ''email:delete'' True,
      verb_entry ''list_mailbox'' ''guaranteed'' ''email:read'' False,
      verb_entry ''read_email_thread'' ''guaranteed'' ''email:read'' False,
      verb_entry ''modify_email_labels'' ''best_effort'' ''email:modify'' False,
      verb_entry ''mark_read'' ''guaranteed'' ''email:modify'' False,
      verb_entry ''mark_unread'' ''guaranteed'' ''email:modify'' False]"

definition MESSAGING_VERBS :: "(string, verb_decl) dict" where
  "MESSAGING_VERBS =
     [verb_entry ''send_message'' ''best_effort'' ''messaging:send'' False,
      verb_entry ''edit_message'' ''best_effort'' ''messaging:modify'' False,
      verb_entry ''delete_message'' ''best_effort'' ''messaging:delete'' True,
      verb_entry ''read_thread'' ''guaranteed'' ''messaging:read'' False,
      verb_entry ''list_recent_messages'' ''guaranteed'' ''messaging:read'' False]"

definition verb_decl_of :: "string \<Rightarrow> string \<Rightarrow> verb_decl option" where
  "verb_decl_of capability verb =
     (if capability = ''email'' then dict_get EMAIL_VERBS verb
      else if capability = ''messaging'' then dict_get MESSAGING_VERBS verb
      else None)"

text \<open>A module that does not exist, or has no such verb, requires no scope.\<close>

definition verb_required_scopes :: "string \<Rightarrow> string \<Rightarrow> string list" where
  "verb_required_scopes capability verb =
     (case verb_decl_of capability verb of None \<Rightarrow> [] | Some d \<Rightarrow> vd_required_scopes d)"

section \<open>\<open>dispatch_capability\<close>\<close>

type_synonym ('i, 'z, 'k, 'r) invoker = "'i \<Rightarrow> string \<Rightarrow> string \<Rightarrow> 'k \<Rightarrow> (('i, 'z) dispatch_world_scheme, exn, 'r) py"

definition load_adapter ::
  "'i importer \<Rightarrow> nat \<Rightarrow> string \<Rightarrow> string \<Rightarrow> string \<Rightarrow> (('i, 'z) dispatch_world_scheme, exn, 'i LoadedAdapter) py" where
  "load_adapter import_entry g aid capability verb w =
     (case registry_load import_entry aid capability verb (dw_registries w g) of
        (res, reg) \<Rightarrow> (res, w\<lparr>dw_registries := (dw_registries w)(g := reg)\<rparr>))"

definition enforce_policy ::
  "string \<Rightarrow> string \<Rightarrow> string \<Rightarrow> (('i, 'z) dispatch_world_scheme, exn, unit) py" where
  "enforce_policy integration capability verb w =
     (case pw_active w of
        None \<Rightarrow> (Inr (), w)
      | Some (e, _) \<Rightarrow>
          try_bind (enforce_integration e integration)
            (\<lambda>_. let required = verb_required_scopes capability verb
                 in if required \<noteq> [] then enforce_scopes e integration required else py_return ()) w)"

text \<open>The \<open>except\<close> clauses around the call; \<open>FrozenInstanceError\<close> is the one standard subclass of
  \<open>AttributeError\<close>.\<close>

definition is_attribute_error :: "exn \<Rightarrow> bool" where
  "is_attribute_error e \<longleftrightarrow>
     (case e of PyError c _ \<Rightarrow> c \<in> {''AttributeError'', ''FrozenInstanceError''} | _ \<Rightarrow> False)"

definition is_not_implemented :: "exn \<Rightarrow> bool" where
  "is_not_implemented e \<longleftrightarrow> (case e of PyError c _ \<Rightarrow> c = ''NotImplementedError'' | _ \<Rightarrow> False)"

definition map_invoke_error :: "string \<Rightarrow> string \<Rightarrow> string \<Rightarrow> exn \<Rightarrow> exn" where
  "map_invoke_error aid capability verb e =
     (if is_binding_error e then e
      else if is_attribute_error e
        then (if contains_str (exc_str e) ''invoke'' then VerbNotImplementedError aid capability verb else e)
      else if is_not_implemented e then VerbNotImplementedError aid capability verb
      else e)"

definition invoke_adapter ::
  "('i, 'z, 'k, 'r) invoker \<Rightarrow> string \<Rightarrow> 'i \<Rightarrow> string \<Rightarrow> string \<Rightarrow> 'k \<Rightarrow> (('i, 'z) dispatch_world_scheme, exn, 'r) py" where
  "invoke_adapter invoke aid impl capability verb kwargs =
     normalize_adapter_errors aid capability verb
       (\<lambda>w. case invoke impl capability verb kwargs w of
          (Inl e, w') \<Rightarrow> (Inl (map_invoke_error aid capability verb e), w')
        | (Inr r, w') \<Rightarrow> (Inr r, w'))"

definition dispatch_capability ::
  "'i importer \<Rightarrow> ('i, 'z, 'k, 'r) invoker \<Rightarrow> string \<Rightarrow> string \<Rightarrow> 'k \<Rightarrow> (('i, 'z) dispatch_world_scheme, exn, 'r) py" where
  "dispatch_capability import_entry invoke capability verb kwargs w =
     (case dw_active w of
        None \<Rightarrow> (Inl (NotConfiguredError capability verb), w)
      | Some (b, g) \<Rightarrow>
          (case resolve b capability verb of
             Inl e \<Rightarrow> (Inl e, w)
           | Inr resolved \<Rightarrow>
               try_bind (load_adapter import_entry g (rs_adapter_id resolved) capability verb)
                 (\<lambda>la. try_bind (enforce_policy (loaded_integration la) capability verb)
                   (\<lambda>_. invoke_adapter invoke (rs_adapter_id resolved) (la_impl la) capability verb kwargs)) w))"

text \<open>A generated verb: the decorator around the dispatch of its own name. \<open>keys\<close> are the names the
  caller passed by keyword.\<close>

definition call_verb ::
  "'i importer \<Rightarrow> ('i, 'z, 'k, 'r) invoker \<Rightarrow> string \<Rightarrow> verb_decl \<Rightarrow> string \<Rightarrow> string \<Rightarrow> string list \<Rightarrow> 'k \<Rightarrow>
   (('i, 'z) dispatch_world_scheme, exn, 'r) py" where
  "call_verb import_entry invoke invid decl capability verb keys kwargs =
     verb_wrapper invid verb
       (verb_meta_of (vd_idempotency decl) (vd_required_scopes decl) (vd_destructive decl)) keys
       (dispatch_capability import_entry invoke capability verb kwargs)"

section \<open>Lemmas\<close>

lemma invoke_adapter_connect:
  "fst (invoke_adapter invoke aid impl c v kwargs w) = Inl e \<Longrightarrow> is_connect_error e"
  by (auto simp: invoke_adapter_def normalize_adapter_errors_def split: prod.splits sum.splits)

lemma registry_load_errors:
  assumes "fst (registry_load im aid c v g) = Inl e"
  shows "(\<exists>a. e = AdapterNotFoundError a c v) \<or> (\<exists>a p x. e = AdapterLoadError a p x) \<or>
    source_load (ar_parse g) (ar_roots g) aid = Inl e"
  using assms
  by (auto simp: registry_load_def build_adapter_def get_bundle_def instantiate_def load_error_def Let_def
      split: option.splits sum.splits if_splits)

fun is_py_error :: "exn \<Rightarrow> bool" where
  "is_py_error (PyError _ _) = True"
| "is_py_error _ = False"

lemma parse_manifest_py: "parse_manifest_text parse path txt = Inl e \<Longrightarrow> is_py_error e"
  by (auto simp: parse_manifest_text_def split: manifest_parse.splits if_splits)

lemma read_manifest_py: "read_manifest parse d = Inl e \<Longrightarrow> is_py_error e"
proof -
  have "read_first parse dir files names = Inl e \<Longrightarrow> is_py_error e" for dir files names
    by (induction names) (auto dest: parse_manifest_py split: option.splits)
  then show "read_manifest parse d = Inl e \<Longrightarrow> is_py_error e" by (simp add: read_manifest_def)
qed

lemma read_bundles_py: "read_bundles parse ds = Inl e \<Longrightarrow> is_py_error e"
  by (induction ds) (auto dest: read_manifest_py split: sum.splits if_splits)

lemma source_load_py: "source_load parse roots aid = Inl e \<Longrightarrow> is_py_error e"
  by (auto simp: source_load_def duplicate_error_def dest: read_bundles_py split: sum.splits list.splits)

lemma enforce_policy_errors: "fst (enforce_policy i c v w) = Inl e \<Longrightarrow> is_policy_error e"
  by (auto simp: enforce_policy_def try_bind_def enforce_integration_def enforce_scopes_def py_return_def
      Let_def split: option.splits prod.splits if_splits sum.splits)

end
