(* ===== verification/Dispatch_Properties.thy ===== *)
theory Dispatch_Properties
  imports Dispatch
begin

text \<open>
  What a routine can rely on when it calls a verb: which adapter is bound, that policy is checked before
  the adapter runs, which exceptions can reach it, and that a loaded adapter stays the same instance.
\<close>

section \<open>Resolution\<close>

lemma resolve_lookups:
  assumes "CHR ''.'' \<notin> set c" "CHR ''.'' \<notin> set v"
  shows "resolve b c v =
    (case dict_get (bi_capabilities b) (c @ ''.'' @ v) of
       Some a \<Rightarrow> Inr \<lparr>rs_capability = c, rs_verb = v, rs_adapter_id = a, rs_matched_key = c @ ''.'' @ v\<rparr>
     | None \<Rightarrow>
         (case dict_get (bi_capabilities b) c of
            Some a \<Rightarrow> Inr \<lparr>rs_capability = c, rs_verb = v, rs_adapter_id = a, rs_matched_key = c\<rparr>
          | None \<Rightarrow> Inl (NoBindingError c v)))"
proof -
  note two = key_matches_dot_free [OF assms]
  have has: "dict_get (bi_capabilities b) k = None \<longleftrightarrow> k \<notin> set (dict_keys (bi_capabilities b))" for k
    by (simp add: map_of_eq_None_iff)
  show ?thesis
  proof (cases "resolve b c v")
    case (Inl e)
    then show ?thesis
      using resolve_Inl [of b c v e] has unfolding two target_of_def by (auto split: option.splits)
  next
    case (Inr r)
    let ?k = "rs_matched_key r"
    have r: "?k \<in> set (dict_keys (bi_capabilities b))" "?k = c @ ''.'' @ v \<or> ?k = c"
      "r = binding_result b c v ?k"
      "c @ ''.'' @ v \<in> set (dict_keys (bi_capabilities b)) \<Longrightarrow> length (c @ ''.'' @ v) \<le> length ?k"
      using resolve_Inr [OF Inr] unfolding two target_of_def by blast+
    obtain a where a: "dict_get (bi_capabilities b) ?k = Some a"
      using r(1) has by blast
    have "?k = c \<Longrightarrow> dict_get (bi_capabilities b) (c @ ''.'' @ v) = None"
      using r(4) has by fastforce
    then show ?thesis
      using Inr r(2,3) a by (auto simp: binding_result_def dict_get_or_def split: option.splits)
  qed
qed

text \<open>C8: For a capability and a verb without dots, longest-prefix resolution is two lookups: the binding
  of \<open>capability.verb\<close> if there is one, else the binding of \<open>capability\<close>, else \<open>NoBindingError\<close>;
  no other key of the bindings map can be chosen.\<close>

theorem resolve_is_two_lookups:
  assumes "CHR ''.'' \<notin> set c" "CHR ''.'' \<notin> set v"
  shows "resolve b c v =
    (case dict_get (bi_capabilities b) (c @ ''.'' @ v) of
       Some a \<Rightarrow> Inr \<lparr>rs_capability = c, rs_verb = v, rs_adapter_id = a, rs_matched_key = c @ ''.'' @ v\<rparr>
     | None \<Rightarrow>
         (case dict_get (bi_capabilities b) c of
            Some a \<Rightarrow> Inr \<lparr>rs_capability = c, rs_verb = v, rs_adapter_id = a, rs_matched_key = c\<rparr>
          | None \<Rightarrow> Inl (NoBindingError c v)))"
  by (rule resolve_lookups [OF assms])

definition ex_bindings :: Bindings where
  "ex_bindings = \<lparr>bi_capabilities = [(''messaging'', ''slack''), (''messaging.send_email'', ''gmail'')]\<rparr>"

lemma resolve_is_two_lookups_witness:
  "map_option rs_adapter_id (try_resolve ex_bindings ''messaging'' ''send_email'') = Some ''gmail''
   \<and> map_option rs_adapter_id (try_resolve ex_bindings ''messaging'' ''send_message'') = Some ''slack''
   \<and> try_resolve ex_bindings ''email'' ''send_email'' = None"
  by (simp add: try_resolve_def resolve_is_two_lookups ex_bindings_def)

section \<open>Policy before side effects\<close>

definition permitted :: "RoutineRunContext \<Rightarrow> string \<Rightarrow> string list \<Rightarrow> bool" where
  "permitted c iid required \<longleftrightarrow>
     (rc_allowed_integrations c = [] \<or> iid \<in> set (rc_allowed_integrations c)) \<and>
     set required \<subseteq> set (dict_get_or (rc_declared_scopes c) iid [])"

lemma missing_scopes_empty:
  "missing_scopes c iid required = [] \<longleftrightarrow> set required \<subseteq> set (dict_get_or (rc_declared_scopes c) iid [])"
  by (auto simp: missing_scopes_def filter_empty_conv)

lemma enforce_policy_permitted:
  assumes "pw_active w = Some (e, r)"
  shows "permitted (pw_ctxs w r) iid (verb_required_scopes c v) \<Longrightarrow> enforce_policy iid c v w = (Inr (), w)"
    and "\<not> permitted (pw_ctxs w r) iid (verb_required_scopes c v) \<Longrightarrow>
      \<exists>err entry. is_policy_error err \<and> enforce_policy iid c v w = (Inl err, w\<lparr>pw_audit := pw_audit w @ [entry]\<rparr>)"
  using assms
  by (auto simp: enforce_policy_def try_bind_def enforce_integration_def enforce_scopes_def require_ctx_def
      permitted_def missing_scopes_empty Let_def py_return_def audit_emit_def split: option.splits)

lemma load_adapter_frame:
  "load_adapter im g aid c v w = (res, w1) \<Longrightarrow>
   pw_active w1 = pw_active w \<and> pw_ctxs w1 = pw_ctxs w \<and> pw_audit w1 = pw_audit w"
  by (auto simp: load_adapter_def split: prod.splits)

lemma refused_before_adapter:
  assumes "dw_active w = Some (b, g)" and "resolve b c v = Inr rs"
    and "load_adapter im g (rs_adapter_id rs) c v w = (Inr la, w1)"
    and "pw_active w = Some (e, r)"
    and "\<not> permitted (pw_ctxs w r) (loaded_integration la) (verb_required_scopes c v)"
  shows "\<exists>err entry. is_policy_error err \<and>
    (\<forall>invoke kwargs. dispatch_capability im invoke c v kwargs w = (Inl err, w1\<lparr>pw_audit := pw_audit w @ [entry]\<rparr>))"
proof -
  have frame: "pw_active w1 = Some (e, r)" "pw_ctxs w1 = pw_ctxs w" "pw_audit w1 = pw_audit w"
    using load_adapter_frame [OF assms(3)] assms(4) by simp_all
  then obtain err entry where "is_policy_error err"
    "enforce_policy (loaded_integration la) c v w1 = (Inl err, w1\<lparr>pw_audit := pw_audit w @ [entry]\<rparr>)"
    using enforce_policy_permitted(2) [OF frame(1), of "loaded_integration la" c v] assms(5) by auto
  then show ?thesis using assms(1-3)
    by (intro exI [of _ err] exI [of _ entry]) (simp add: dispatch_capability_def try_bind_def)
qed

text \<open>C9: When the active run may not use the adapter's integration, or has not declared a scope the verb
  requires, dispatch raises a policy error and logs exactly one event, whatever the adapter would do:
  the adapter is not called.\<close>

theorem policy_checked_before_adapter:
  assumes "dw_active w = Some (b, g)" and "resolve b c v = Inr rs"
    and "load_adapter im g (rs_adapter_id rs) c v w = (Inr la, w1)"
    and "pw_active w = Some (e, r)"
    and "\<not> permitted (pw_ctxs w r) (loaded_integration la) (verb_required_scopes c v)"
  shows "\<exists>err entry. is_policy_error err \<and>
    (\<forall>invoke kwargs. dispatch_capability im invoke c v kwargs w = (Inl err, w1\<lparr>pw_audit := pw_audit w @ [entry]\<rparr>))"
  by (rule refused_before_adapter [OF assms])

definition ex_manifest :: AdapterManifest where
  "ex_manifest = \<lparr>am_schema_version = ''1.0.0'', am_adapter_id = ''slack'', am_integration_id = ''slack'',
     am_version = ''1.0.0'', am_framework_compat = ''*'', am_capabilities = [], am_auth_styles = [],
     am_entrypoint = None, am_description = None, am_tags = []\<rparr>"

definition ex_adapter :: "unit LoadedAdapter" where
  "ex_adapter = \<lparr>la_bundle = \<lparr>ab_manifest = ex_manifest, ab_directory = ''a''\<rparr>, la_impl = ()\<rparr>"

definition ex_registry :: "unit AdapterRegistry" where
  "ex_registry = \<lparr>ar_parse = (\<lambda>_. NotMapping ''list''), ar_roots = [], ar_factories = [],
     ar_cache = [(''slack'', ex_adapter)]\<rparr>"

definition ex_dispatch :: "unit dispatch_world" where
  "ex_dispatch = \<lparr>tv_trace = None, tv_span = None, pw_active = Some (0, 0), pw_ctxs = (\<lambda>_. ex_run),
     pw_audit = [], ow_records = [], ow_writers = [], gw_modules = [], dw_active = Some (ex_bindings, 0), dw_registries = (\<lambda>_. ex_registry)\<rparr>"

definition no_import :: "unit importer" where
  "no_import m a b = Inl (PyError ''ImportError'' m)"

lemmas ex_dispatch_defs = ex_dispatch_def ex_registry_def ex_adapter_def ex_manifest_def ex_bindings_def ex_run_def

lemma ex_resolve: "resolve ex_bindings ''messaging'' ''send_message'' =
  Inr \<lparr>rs_capability = ''messaging'', rs_verb = ''send_message'', rs_adapter_id = ''slack'',
       rs_matched_key = ''messaging''\<rparr>"
  by (simp add: resolve_find keys_by_length_def ex_bindings_def key_matches_def target_of_def startswith_def
      binding_result_def dict_get_or_def less_eq_prod_def)

lemma ex_load: "load_adapter no_import 0 ''slack'' ''messaging'' ''send_message'' ex_dispatch = (Inr ex_adapter, ex_dispatch)"
  by (simp add: load_adapter_def registry_load_def cache_lookup_def ex_dispatch_def ex_registry_def fun_upd_idem)

lemma policy_checked_before_adapter_witness:
  "\<exists>err. is_policy_error err \<and>
    fst (dispatch_capability no_import (\<lambda>_ _ _ _ w. (Inr ''sent'', w)) ''messaging'' ''send_message'' () ex_dispatch) = Inl err"
proof -
  let ?rs = "\<lparr>rs_capability = ''messaging'', rs_verb = ''send_message'', rs_adapter_id = ''slack'',
     rs_matched_key = ''messaging''\<rparr>"
  have a: "dw_active ex_dispatch = Some (ex_bindings, 0)" "pw_active ex_dispatch = Some (0, 0)"
    by (simp_all add: ex_dispatch_def)
  have l: "load_adapter no_import 0 (rs_adapter_id ?rs) ''messaging'' ''send_message'' ex_dispatch = (Inr ex_adapter, ex_dispatch)"
    by (simp add: ex_load)
  have n: "\<not> permitted (pw_ctxs ex_dispatch 0) (loaded_integration ex_adapter)
      (verb_required_scopes ''messaging'' ''send_message'')"
    by (simp add: permitted_def ex_dispatch_defs loaded_integration_def bundle_integration_def)
  have "\<exists>err entry. is_policy_error err \<and> (\<forall>(invoke :: (unit, unit, unit, string) invoker) kwargs.
      dispatch_capability no_import invoke ''messaging'' ''send_message'' kwargs ex_dispatch =
        (Inl err, ex_dispatch\<lparr>pw_audit := pw_audit ex_dispatch @ [entry]\<rparr>))"
    by (rule policy_checked_before_adapter [OF a(1) ex_resolve l a(2) n])
  then show ?thesis by (metis fst_conv)
qed

text \<open>C10: When policy permits the call (or no run is active), the bound adapter is called once, in the
  state after loading it, with the caller's arguments; its result is returned as it is and only its
  exceptions are translated.\<close>

theorem permitted_call_reaches_adapter:
  assumes "dw_active w = Some (b, g)" and "resolve b c v = Inr rs"
    and "load_adapter im g (rs_adapter_id rs) c v w = (Inr la, w1)"
    and "pw_active w = None \<or> (\<exists>e r. pw_active w = Some (e, r) \<and>
           permitted (pw_ctxs w r) (loaded_integration la) (verb_required_scopes c v))"
    and "invoke (la_impl la) c v kwargs w1 = (res, w2)"
  shows "dispatch_capability im invoke c v kwargs w =
    ((case res of
        Inr a \<Rightarrow> Inr a
      | Inl ex \<Rightarrow> Inl (normalize_error (rs_adapter_id rs) c v (map_invoke_error (rs_adapter_id rs) c v ex))), w2)"
proof -
  have frame: "pw_active w1 = pw_active w" "pw_ctxs w1 = pw_ctxs w"
    using load_adapter_frame [OF assms(3)] by simp_all
  have "enforce_policy (loaded_integration la) c v w1 = (Inr (), w1)"
    using assms(4) enforce_policy_permitted(1) [of w1] frame by (auto simp: enforce_policy_def)
  then show ?thesis
    using assms(1-3,5)
    by (simp add: dispatch_capability_def try_bind_def invoke_adapter_def normalize_adapter_errors_def
        split: sum.splits)
qed

lemma permitted_call_reaches_adapter_witness:
  "fst (dispatch_capability no_import (\<lambda>_ _ _ k w. (Inr k, w)) ''messaging'' ''send_message'' ''hi''
      (ex_dispatch\<lparr>pw_active := None\<rparr>)) = Inr ''hi''"
proof -
  let ?w = "ex_dispatch\<lparr>pw_active := None\<rparr>"
  let ?rs = "\<lparr>rs_capability = ''messaging'', rs_verb = ''send_message'', rs_adapter_id = ''slack'',
     rs_matched_key = ''messaging''\<rparr>"
  have a: "dw_active ?w = Some (ex_bindings, 0)" by (simp add: ex_dispatch_def)
  have l: "load_adapter no_import 0 (rs_adapter_id ?rs) ''messaging'' ''send_message'' ?w = (Inr ex_adapter, ?w)"
    by (simp add: load_adapter_def registry_load_def cache_lookup_def ex_dispatch_def ex_registry_def fun_upd_idem)
  show ?thesis
    using permitted_call_reaches_adapter [OF a ex_resolve l, of "\<lambda>_ _ _ k w. (Inr k, w)" "''hi''"] by simp
qed

section \<open>The exceptions a routine can see\<close>

text \<open>The errors of a call whose binding is found: of the load, of the policy, or of the adapter.\<close>

lemma bound_call_errors:
  assumes "dw_active w = Some (b, g)" "resolve b c v = Inr rs"
    and "fst (dispatch_capability im invoke c v kwargs w) = Inl ex"
  shows "fst (registry_load im (rs_adapter_id rs) c v (dw_registries w g)) = Inl ex \<or> is_policy_error ex \<or> is_connect_error ex"
proof -
  obtain lr w1 where load: "load_adapter im g (rs_adapter_id rs) c v w = (lr, w1)" by force
  show ?thesis
  proof (cases lr)
    case (Inl e)
    then have "fst (registry_load im (rs_adapter_id rs) c v (dw_registries w g)) = Inl e" "ex = e"
      using load assms by (auto simp: load_adapter_def dispatch_capability_def try_bind_def split: prod.splits)
    then show ?thesis by simp
  next
    case (Inr la)
    obtain pr w2 where pol: "enforce_policy (loaded_integration la) c v w1 = (pr, w2)" by force
    then show ?thesis
      using load assms Inr enforce_policy_errors [of "loaded_integration la" c v w1 ex]
      by (cases pr) (auto simp: dispatch_capability_def try_bind_def intro: invoke_adapter_connect)
  qed
qed

text \<open>C11: Every exception of a dispatch is a missing dispatch context, a missing binding, a discovery or
  load failure, a policy error, or an \<open>OTAConnectError\<close>: nothing an adapter raises leaks out
  untranslated.  In particular \<open>VerbNotImplementedError\<close> never reaches the caller, although the code
  raises it for that purpose: the surrounding normalization turns it into \<open>AdapterUnavailable\<close>.\<close>

theorem dispatch_error_classes:
  "fst (dispatch_capability im invoke c v kwargs w) = Inl ex \<Longrightarrow>
    (ex = NotConfiguredError c v \<or> ex = NoBindingError c v \<or> (\<exists>a. ex = AdapterNotFoundError a c v) \<or>
     (\<exists>a p x. ex = AdapterLoadError a p x) \<or>
     (\<exists>b g rs. dw_active w = Some (b, g) \<and> resolve b c v = Inr rs \<and>
        source_load (ar_parse (dw_registries w g)) (ar_roots (dw_registries w g)) (rs_adapter_id rs) = Inl ex) \<or>
     is_policy_error ex \<or> is_connect_error ex)
    \<and> (\<forall>a. ex \<noteq> VerbNotImplementedError a c v)"
proof -
  assume err: "fst (dispatch_capability im invoke c v kwargs w) = Inl ex"
  show ?thesis
  proof (cases "dw_active w")
    case None
    then show ?thesis using err by (auto simp: dispatch_capability_def)
  next
    case (Some bg)
    obtain b g where bg: "bg = (b, g)" by force
    show ?thesis
    proof (cases "resolve b c v")
      case (Inl e)
      then show ?thesis using err Some bg resolve_Inl [of b c v e] by (auto simp: dispatch_capability_def)
    next
      case (Inr rs)
      from bound_call_errors [OF Some [unfolded bg] Inr err] show ?thesis
      proof (elim disjE)
        assume "fst (registry_load im (rs_adapter_id rs) c v (dw_registries w g)) = Inl ex"
        then show ?thesis
          using registry_load_errors [of im "rs_adapter_id rs" c v "dw_registries w g" ex]
            Some bg Inr source_load_py by fastforce
      qed (auto simp: is_connect_error_def)
    qed
  qed
qed

lemma dispatch_error_classes_witness:
  "\<exists>ex. fst (dispatch_capability no_import (\<lambda>_ _ _ _ w. (Inl (PyError ''NotImplementedError'' []), w))
          ''messaging'' ''send_message'' () (ex_dispatch\<lparr>pw_active := None\<rparr>)) = Inl ex
     \<and> ex \<noteq> VerbNotImplementedError ''slack'' ''messaging'' ''send_message'' \<and> is_retryable ex"
proof -
  let ?inv = "\<lambda>_ _ _ _ w. (Inl (PyError ''NotImplementedError'' []), w)"
  let ?ex = "unavailable_error ''slack'' ''messaging'' ''send_message''"
  have e: "fst (dispatch_capability no_import ?inv ''messaging'' ''send_message'' () (ex_dispatch\<lparr>pw_active := None\<rparr>)) = Inl ?ex"
    by (simp add: dispatch_capability_def ex_resolve ex_dispatch_defs(1) try_bind_def load_adapter_def
        registry_load_def cache_lookup_def ex_registry_def enforce_policy_def invoke_adapter_def
        normalize_adapter_errors_def map_invoke_error_def is_attribute_error_def is_not_implemented_def
        normalize_error_def is_connect_error_def)
  have "is_retryable ?ex" by (simp add: is_retryable_def error_field_def unavailable_error_def)
  with e dispatch_error_classes [OF e] show ?thesis by blast
qed

section \<open>One instance per adapter\<close>

datatype 'i registry_op = RLoad string string string | RRegister string "'i factory" | RReset

primrec registry_step :: "'i importer \<Rightarrow> 'i registry_op \<Rightarrow> 'i AdapterRegistry \<Rightarrow> 'i AdapterRegistry" where
  "registry_step im (RLoad aid c v) g = snd (registry_load im aid c v g)"
| "registry_step im (RRegister aid f) g = register_factory aid f g"
| "registry_step im RReset g = registry_reset g"

fun keeps_adapter :: "string \<Rightarrow> 'i registry_op \<Rightarrow> bool" where
  "keeps_adapter aid (RLoad _ _ _) = True"
| "keeps_adapter aid (RRegister a _) \<longleftrightarrow> a \<noteq> aid"
| "keeps_adapter aid RReset = False"

lemma registry_load_cached: "cache_lookup aid g = Some la \<Longrightarrow> registry_load im aid c v g = (Inr la, g)"
  by (simp add: registry_load_def)

lemma registry_load_caches:
  "registry_load im aid c v g = (Inr la, g') \<Longrightarrow> cache_lookup aid g' = Some la"
  by (auto simp: registry_load_def cache_store_def cache_lookup_def dict_simps split: option.splits sum.splits)

lemma registry_step_keeps:
  assumes "cache_lookup aid g = Some la" "keeps_adapter aid opn"
  shows "cache_lookup aid (registry_step im opn g) = Some la"
  using assms
  by (cases opn)
    (auto simp: registry_load_def cache_lookup_def cache_store_def register_factory_def dict_simps
      split: option.splits sum.splits)

text \<open>An adapter that was loaded is handed out as the same instance by every later \<open>load\<close>, for any
  capability and verb and however modules would import now, across loads of any adapters and factory
  registrations of other adapters; only registering a factory for it or a reset ends this.\<close>

theorem loaded_adapter_is_stable:
  assumes "registry_load im aid c v g = (Inr la, g1)" and "list_all (keeps_adapter aid) ops"
  shows "registry_load im' aid c' v' (fold (registry_step im) ops g1) =
    (Inr la, fold (registry_step im) ops g1)"
proof -
  have "cache_lookup aid (fold (registry_step im) ops g1) = Some la"
    using assms(2) registry_load_caches [OF assms(1)]
    by (induction ops arbitrary: g1) (auto simp: registry_step_keeps)
  then show ?thesis by (rule registry_load_cached)
qed

lemma loaded_adapter_is_stable_witness:
  "fst (registry_load no_import ''slack'' ''a'' ''b''
      (fold (registry_step no_import) [RLoad ''gmail'' ''email'' ''send_email''] ex_registry)) = Inr ex_adapter"
proof -
  have "registry_load no_import ''slack'' ''messaging'' ''send_message'' ex_registry = (Inr ex_adapter, ex_registry)"
    by (simp add: registry_load_def cache_lookup_def ex_registry_def)
  from loaded_adapter_is_stable [OF this, of "[RLoad ''gmail'' ''email'' ''send_email'']"]
  show ?thesis by simp
qed

text \<open>\<open>load\<close> drops its lock while it builds the adapter. If another thread registers a factory in
  between, the old instance is stored afterwards and every later load returns it: the registered
  factory, which is meant to take effect at the next load, is never called.\<close>

theorem factory_registration_can_be_lost:
  assumes "build_adapter im aid c v g = Inr old"
  shows "registry_load im aid c' v' (cache_store aid old (register_factory aid (name, f) g)) =
      (Inr old, cache_store aid old (register_factory aid (name, f) g))
    \<and> (\<forall>b i. get_bundle g aid c' v' = Inr b \<and> bundle_id b = aid \<and> f b = Inr i \<longrightarrow>
        fst (registry_load im aid c' v' (register_factory aid (name, f) (cache_store aid old g))) =
          Inr \<lparr>la_bundle = b, la_impl = i\<rparr>)"
proof -
  have "cache_lookup aid (cache_store aid old h) = Some old" for h
    by (simp add: cache_lookup_def cache_store_def dict_simps)
  moreover have "cache_lookup aid (register_factory aid (name, f) h) = None" for h
    by (simp add: cache_lookup_def register_factory_def dict_simps)
  moreover have "get_bundle (register_factory aid (name, f) (cache_store aid old g)) aid c' v' = get_bundle g aid c' v'"
    by (simp add: get_bundle_def register_factory_def cache_store_def)
  moreover have "dict_get (ar_factories (register_factory aid (name, f) h)) aid = Some (name, f)" for h
    by (simp add: register_factory_def dict_simps)
  ultimately show ?thesis
    by (auto simp: registry_load_def build_adapter_def instantiate_def load_error_def)
qed

definition ex_yaml :: manifest_parser where
  "ex_yaml txt = ParsedManifest (ex_manifest\<lparr>am_capabilities := [\<lparr>acc_capability = ''messaging'', acc_version = ''1.0.0''\<rparr>]\<rparr>)"

definition ex_source :: "source_root list" where
  "ex_source = [\<lparr>sr_path = ''adapters'', sr_children = Some
     [\<lparr>de_name = ''slack'', de_is_dir = True, de_files = [(''manifest.yaml'', ''x'')]\<rparr>]\<rparr>]"

definition ex_fs_registry :: "nat AdapterRegistry" where
  "ex_fs_registry = \<lparr>ar_parse = ex_yaml, ar_roots = ex_source,
     ar_factories = [(''slack'', (''f'', \<lambda>_. Inr 1))], ar_cache = []\<rparr>"

lemma ex_yaml_ok: "adapter_manifest_ok (ex_manifest\<lparr>am_capabilities := [\<lparr>acc_capability = ''messaging'', acc_version = ''1.0.0''\<rparr>]\<rparr>)"
  by code_simp

lemma ex_source_load: "\<exists>b. source_load ex_yaml ex_source ''slack'' = Inr b \<and> bundle_id b = ''slack''"
  using ex_yaml_ok
  by (simp add: source_load_def candidate_dirs_def ex_source_def startswith_def read_manifest_def MANIFEST_NAMES_def
      parse_manifest_text_def ex_yaml_def bundle_id_def)
    (simp add: ex_manifest_def)

lemma factory_registration_can_be_lost_witness:
  "\<exists>old. la_impl old = 1 \<and>
     fst (registry_load (\<lambda>_ _ _. Inr 7) ''slack'' ''messaging'' ''send_message''
       (cache_store ''slack'' old (register_factory ''slack'' (''g'', \<lambda>_. Inr 2) ex_fs_registry))) = Inr old"
proof -
  obtain b where b: "source_load ex_yaml ex_source ''slack'' = Inr b" "bundle_id b = ''slack''"
    using ex_source_load by blast
  let ?old = "\<lparr>la_bundle = b, la_impl = 1 :: nat\<rparr>"
  have "build_adapter (\<lambda>_ _ _. Inr 7) ''slack'' ''messaging'' ''send_message'' ex_fs_registry = Inr ?old"
    using b by (simp add: build_adapter_def get_bundle_def ex_fs_registry_def instantiate_def load_error_def)
  from factory_registration_can_be_lost [OF this, of "''messaging''" "''send_message''" "''g''" "\<lambda>_. Inr 2"]
  show ?thesis by (intro exI [of _ ?old]) simp
qed

section \<open>Discovery\<close>

text \<open>When discovery succeeds, \<open>list_ids\<close> lists the discovered identifiers, \<open>load\<close> of one of them
  returns exactly the discovered bundle, and \<open>load\<close> of any other identifier raises the not-found
  error.\<close>

theorem discovery_load_agree:
  assumes "discover_all parse roots = Inr bundles"
  shows "list_ids parse roots = Inr (map bundle_id bundles)
    \<and> (\<forall>b \<in> set bundles. source_load parse roots (bundle_id b) = Inr b)
    \<and> (\<forall>aid. aid \<notin> bundle_id ` set bundles \<longrightarrow>
        (\<exists>msg. source_load parse roots aid = Inl (PyError ''AdapterManifestNotFoundError'' msg)))"
proof (intro conjI)
  have rb: "read_bundles parse (candidate_dirs roots) = Inr bundles" "distinct (map bundle_id bundles)"
    using assms by (simp_all add: discover_all_Inr)
  have "read_bundles parse ds = Inr bs \<Longrightarrow> list_ids_loop parse ds = Inr (map bundle_id bs)" for ds bs
    by (induction ds arbitrary: bs) (auto simp: bundle_id_def split: sum.splits if_splits)
  then show "list_ids parse roots = Inr (map bundle_id bundles)" using rb(1) by (simp add: list_ids_def)
  have one: "filter (\<lambda>c. bundle_id c = bundle_id b) bs = [b]" if "b \<in> set bs" "distinct (map bundle_id bs)" for b bs
    using that by (induction bs) (auto simp: filter_empty_conv rev_image_eqI)
  show "\<forall>b \<in> set bundles. source_load parse roots (bundle_id b) = Inr b"
    using one rb by (simp add: source_load_def)
  show "\<forall>aid. aid \<notin> bundle_id ` set bundles \<longrightarrow>
      (\<exists>msg. source_load parse roots aid = Inl (PyError ''AdapterManifestNotFoundError'' msg))"
  proof (intro allI impI)
    fix aid assume "aid \<notin> bundle_id ` set bundles"
    then have "filter (\<lambda>b. bundle_id b = aid) bundles = []" by (auto simp: filter_empty_conv)
    then show "\<exists>msg. source_load parse roots aid = Inl (PyError ''AdapterManifestNotFoundError'' msg)"
      using rb(1) by (simp add: source_load_def)
  qed
qed

lemma discovery_load_agree_witness:
  "\<exists>b. discover_all ex_yaml ex_source = Inr [b] \<and> source_load ex_yaml ex_source ''slack'' = Inr b"
proof -
  have "\<exists>b. discover_all ex_yaml ex_source = Inr [b] \<and> bundle_id b = ''slack''"
    using ex_yaml_ok
    by (simp add: discover_all_def candidate_dirs_def ex_source_def startswith_def read_manifest_def MANIFEST_NAMES_def
        parse_manifest_text_def ex_yaml_def bundle_id_def note_path_def dict_get_or_def)
      (simp add: ex_manifest_def)
  then obtain b where b: "discover_all ex_yaml ex_source = Inr [b]" "bundle_id b = ''slack''" by blast
  with discovery_load_agree [OF b(1)] show ?thesis by auto
qed

text \<open>One directory with an invalid manifest makes discovery and the \<open>load\<close> of every adapter fail,
  also of adapters whose own manifest is fine, while \<open>list_ids\<close> skips it and lists all the others.\<close>

theorem invalid_manifest_blocks_every_load:
  assumes "d \<in> set (candidate_dirs roots)" and "read_manifest parse d = Inl e"
    and "exc_class e = ''AdapterDiscoveryError''"
    and "\<forall>d \<in> set (candidate_dirs roots). \<forall>e. read_manifest parse d = Inl e \<longrightarrow>
           exc_class e \<in> {''AdapterDiscoveryError'', ''AdapterManifestNotFoundError''}"
  shows "(\<forall>aid. \<exists>e'. source_load parse roots aid = Inl e') \<and> (\<exists>e'. discover_all parse roots = Inl e')
    \<and> list_ids parse roots = Inr (concat (map (\<lambda>d. case read_manifest parse d of
          Inl _ \<Rightarrow> [] | Inr m \<Rightarrow> [am_adapter_id m]) (candidate_dirs roots)))"
proof -
  have "\<exists>e'. read_bundles parse ds = Inl e'" if "d \<in> set ds" for ds
    using that assms(2,3) by (induction ds) (auto simp: is_class_def split: sum.splits)
  then obtain e' where e': "read_bundles parse (candidate_dirs roots) = Inl e'" using assms(1) by blast
  have "list_ids_loop parse ds = Inr (concat (map (\<lambda>d. case read_manifest parse d of
          Inl _ \<Rightarrow> [] | Inr m \<Rightarrow> [am_adapter_id m]) ds))"
    if "\<forall>d \<in> set ds. \<forall>e. read_manifest parse d = Inl e \<longrightarrow>
           exc_class e \<in> {''AdapterDiscoveryError'', ''AdapterManifestNotFoundError''}" for ds
    using that by (induction ds) (auto simp: is_class_def split: sum.splits)
  then show ?thesis using e' assms(4) by (simp add: source_load_def discover_all_def list_ids_def)
qed

definition ex_broken_source :: "source_root list" where
  "ex_broken_source = [\<lparr>sr_path = ''adapters'', sr_children = Some
     [\<lparr>de_name = ''bad'', de_is_dir = True, de_files = [(''manifest.yaml'', ''-'')]\<rparr>,
      \<lparr>de_name = ''slack'', de_is_dir = True, de_files = [(''manifest.yaml'', ''x'')]\<rparr>]\<rparr>]"

definition ex_strict_yaml :: manifest_parser where
  "ex_strict_yaml txt = (if txt = ''-'' then NotMapping ''list'' else ex_yaml txt)"

lemma invalid_manifest_blocks_every_load_witness:
  "(\<exists>e. source_load ex_strict_yaml ex_broken_source ''slack'' = Inl e)
   \<and> list_ids ex_strict_yaml ex_broken_source = Inr [''slack'']"
proof -
  let ?bad = "(''adapters/bad'', \<lparr>de_name = ''bad'', de_is_dir = True, de_files = [(''manifest.yaml'', ''-'')]\<rparr>)"
  let ?good = "(''adapters/slack'', \<lparr>de_name = ''slack'', de_is_dir = True, de_files = [(''manifest.yaml'', ''x'')]\<rparr>)"
  have le: "''bad'' \<le> ''slack''" by code_simp
  have cands: "candidate_dirs ex_broken_source = [?bad, ?good]"
    using le by (simp add: candidate_dirs_def ex_broken_source_def startswith_def path_join_def)
  have bad: "\<exists>msg. read_manifest ex_strict_yaml ?bad = Inl (PyError ''AdapterDiscoveryError'' msg)"
    by (simp add: read_manifest_def MANIFEST_NAMES_def parse_manifest_text_def ex_strict_yaml_def)
  then obtain msg where bad: "read_manifest ex_strict_yaml ?bad = Inl (PyError ''AdapterDiscoveryError'' msg)" by blast
  have good: "read_manifest ex_strict_yaml ?good =
      Inr (ex_manifest\<lparr>am_capabilities := [\<lparr>acc_capability = ''messaging'', acc_version = ''1.0.0''\<rparr>]\<rparr>)"
    using ex_yaml_ok by (simp add: read_manifest_def MANIFEST_NAMES_def parse_manifest_text_def ex_strict_yaml_def ex_yaml_def)
  show ?thesis
    using invalid_manifest_blocks_every_load [of ?bad ex_broken_source ex_strict_yaml] bad good
    by (simp add: cands ex_manifest_def)
qed

end
