(* ===== verification/Install_Validation.thy ===== *)
theory Install_Validation
  imports Binding Contracts_Routine
begin

text \<open>
  The install-time checks of \<open>ota_connect/binding/validator.py\<close>: capability bindings against the
  adapter registry, and integration dependencies against the integration registry.
\<close>

record ValidationReport =
  vr_routine_id :: string
  vr_issues :: "string list"

definition report_ok :: "ValidationReport \<Rightarrow> bool" where
  "report_ok r \<longleftrightarrow> vr_issues r = []"

section \<open>Capability bindings\<close>

definition no_binding_issue :: "string \<Rightarrow> string" where
  "no_binding_issue capability =
     ''capability '' @ repr_str capability @ '' required by routine but no binding declared under bindings.capabilities''"

definition unknown_adapter_issue :: "string \<Rightarrow> string \<Rightarrow> string" where
  "unknown_adapter_issue key aid =
     ''binding '' @ repr_str key @ '' -> '' @ repr_str aid @
     '' but adapter is not discoverable from configured IntegrationSource roots''"

definition unsatisfied_issue :: "string \<Rightarrow> string \<Rightarrow> string \<Rightarrow> string" where
  "unsatisfied_issue aid key capability =
     ''adapter '' @ repr_str aid @ '' bound to '' @ repr_str key @
     '' but its manifest does not claim capability '' @ repr_str capability"

definition relevant_keys :: "Bindings \<Rightarrow> string \<Rightarrow> string list" where
  "relevant_keys b capability =
     filter (\<lambda>k. k = capability \<or> startswith k (capability @ ''.'')) (dict_keys (bi_capabilities b))"

text \<open>\<open>bundles_by_id\<close>: a later bun of the same identifier replaces an earlier one.\<close>

definition bundles_by_id :: "AdapterBundle list \<Rightarrow> (string, AdapterBundle) dict" where
  "bundles_by_id bundles = dict_of (map (\<lambda>b. (bundle_id b, b)) bundles)"

definition key_issues ::
  "Bindings \<Rightarrow> string list \<Rightarrow> (string, AdapterBundle) dict \<Rightarrow> string \<Rightarrow> string \<Rightarrow> string list" where
  "key_issues b known by_id capability key =
     (let aid = dict_get_or (bi_capabilities b) key []
      in if aid \<notin> set known then [unknown_adapter_issue key aid]
         else (case dict_get by_id aid of
                 None \<Rightarrow> []
               | Some bun \<Rightarrow>
                   if satisfies bun capability None then [] else [unsatisfied_issue aid key capability]))"

definition capability_issues ::
  "Bindings \<Rightarrow> string list \<Rightarrow> (string, AdapterBundle) dict \<Rightarrow> string \<Rightarrow> string list" where
  "capability_issues b known by_id capability =
     (let keys = relevant_keys b capability
      in if keys = [] then [no_binding_issue capability]
         else concat (map (key_issues b known by_id capability) keys))"

definition check_capability_bindings ::
  "string list \<Rightarrow> Bindings \<Rightarrow> 'i AdapterRegistry \<Rightarrow> exn + string list" where
  "check_capability_bindings required b g =
     (case known_adapter_ids g of
        Inl e \<Rightarrow> Inl e
      | Inr known \<Rightarrow>
          (case discover_all (ar_parse g) (ar_roots g) of
             Inl e \<Rightarrow> Inl e
           | Inr bundles \<Rightarrow>
               Inr (concat (map (capability_issues b known (bundles_by_id bundles)) required))))"

section \<open>Integration dependencies\<close>

primrec level_text :: "BindingLevel \<Rightarrow> string" where
  "level_text RoutineExclusive = ''routine_exclusive''"
| "level_text ClientShared = ''client_shared''"
| "level_text IdentityBound = ''identity_bound''"

definition absent_issue :: "string \<Rightarrow> string" where
  "absent_issue iid =
     ''integration '' @ repr_str iid @ '' declared by routine but not present in active IntegrationRegistryManifest''"

definition level_issue :: "IntegrationDependency \<Rightarrow> IntegrationDeclaration \<Rightarrow> string" where
  "level_issue dep d =
     ''integration '' @ repr_str (dp_id dep) @ '': routine requested binding_level='' @
     repr_str (level_text (dp_binding_level dep)) @ '' but integration supports only '' @
     repr_strs (map level_text (id_supported_binding_levels d))"

definition scope_issue :: "string \<Rightarrow> string \<Rightarrow> string" where
  "scope_issue iid scope =
     ''integration '' @ repr_str iid @ '': requested scope '' @ repr_str scope @
     '' not in integration scope_vocabulary''"

definition integrations_by_id :: "IntegrationRegistryManifest \<Rightarrow> (string, IntegrationDeclaration) dict" where
  "integrations_by_id m = dict_of (map (\<lambda>d. (id_id d, d)) (irm_integrations m))"

definition dependency_issues ::
  "(string, IntegrationDeclaration) dict \<Rightarrow> IntegrationDependency \<Rightarrow> string list" where
  "dependency_issues by_id dep =
     (case dict_get by_id (dp_id dep) of
        None \<Rightarrow> [absent_issue (dp_id dep)]
      | Some d \<Rightarrow>
          (if dp_binding_level dep \<notin> set (id_supported_binding_levels d) then [level_issue dep d] else []) @
          map (scope_issue (dp_id dep)) (filter (\<lambda>s. s \<notin> set (vocab_ids d)) (dp_scopes dep)))"

definition check_integration_dependencies ::
  "RoutineBundleManifest \<Rightarrow> IntegrationRegistryManifest \<Rightarrow> string list" where
  "check_integration_dependencies m reg =
     concat (map (dependency_issues (integrations_by_id reg)) (deps_integrations (rb_dependencies m)))"

section \<open>The report\<close>

text \<open>\<open>sorted\<close> of the union of two sets.\<close>

definition required_of :: "RoutineBundleManifest \<Rightarrow> string list option \<Rightarrow> string list" where
  "required_of m extra =
     sort (remdups (cap_consumes (rb_capabilities m) @ (case extra of None \<Rightarrow> [] | Some xs \<Rightarrow> xs)))"

definition validate_routine_install ::
  "RoutineBundleManifest \<Rightarrow> Bindings \<Rightarrow> 'i AdapterRegistry \<Rightarrow> IntegrationRegistryManifest \<Rightarrow>
   string list option \<Rightarrow> exn + ValidationReport" where
  "validate_routine_install m b g reg extra =
     (case check_capability_bindings (required_of m extra) b g of
        Inl e \<Rightarrow> Inl e
      | Inr issues \<Rightarrow>
          Inr \<lparr>vr_routine_id = rb_id m, vr_issues = issues @ check_integration_dependencies m reg\<rparr>)"

definition assert_routine_install ::
  "RoutineBundleManifest \<Rightarrow> Bindings \<Rightarrow> 'i AdapterRegistry \<Rightarrow> IntegrationRegistryManifest \<Rightarrow>
   string list option \<Rightarrow> exn + unit" where
  "assert_routine_install m b g reg extra =
     (case validate_routine_install m b g reg extra of
        Inl e \<Rightarrow> Inl e
      | Inr r \<Rightarrow> if report_ok r then Inr () else Inl (InstallValidationError (vr_routine_id r) (vr_issues r)))"

section \<open>Lemmas\<close>

lemma check_capability_bindings_Inr:
  assumes "check_capability_bindings required b g = Inr []" "c \<in> set required"
  shows "relevant_keys b c \<noteq> []"
    and "\<And>k. k \<in> set (relevant_keys b c) \<Longrightarrow>
      \<exists>bun. source_load (ar_parse g) (ar_roots g) (dict_get_or (bi_capabilities b) k []) = Inr bun
        \<and> satisfies bun c None"
proof -
  obtain known bundles where k: "known_adapter_ids g = Inr known"
    and d: "discover_all (ar_parse g) (ar_roots g) = Inr bundles"
    and none: "capability_issues b known (bundles_by_id bundles) c = []"
    using assms by (auto simp: check_capability_bindings_def split: sum.splits)
  show "relevant_keys b c \<noteq> []"
    using none by (auto simp: capability_issues_def Let_def no_binding_issue_def split: if_splits)
  fix key assume key: "key \<in> set (relevant_keys b c)"
  let ?aid = "dict_get_or (bi_capabilities b) key []"
  have issues: "key_issues b known (bundles_by_id bundles) c key = []"
    using none key by (auto simp: capability_issues_def Let_def split: if_splits)
  have rb: "read_bundles (ar_parse g) (candidate_dirs (ar_roots g)) = Inr bundles" "distinct (map bundle_id bundles)"
    using d by (simp_all add: discover_all_Inr)
  have "read_bundles parse ds = Inr bs \<Longrightarrow> list_ids_loop parse ds = Inr (map bundle_id bs)" for parse ds bs
    by (induction ds arbitrary: bs) (auto simp: bundle_id_def split: sum.splits if_splits)
  then have "known = map bundle_id bundles"
    using k rb(1) by (simp add: known_adapter_ids_def list_ids_def)
  moreover have "?aid \<in> set known"
    using issues by (auto simp: key_issues_def Let_def split: if_splits)
  ultimately obtain bun where bun: "bun \<in> set bundles" "bundle_id bun = ?aid" by auto
  have "distinct (map fst (map (\<lambda>b. (bundle_id b, b)) bundles))"
    using rb(2) by (simp add: comp_def)
  then have "dict_get (bundles_by_id bundles) ?aid = Some bun"
    unfolding bundles_by_id_def by (rule dict_get_of_distinct) (use bun in force)
  then have "satisfies bun c None"
    using issues \<open>?aid \<in> set known\<close> by (auto simp: key_issues_def Let_def split: if_splits)
  moreover have "filter (\<lambda>c. bundle_id c = bundle_id bun) bs = [bun]"
    if "bun \<in> set bs" "distinct (map bundle_id bs)" for bs
    using that by (induction bs) (auto simp: filter_empty_conv rev_image_eqI)
  then have "source_load (ar_parse g) (ar_roots g) ?aid = Inr bun"
    using rb bun by (simp add: source_load_def)
  ultimately show "\<exists>bun. source_load (ar_parse g) (ar_roots g) ?aid = Inr bun \<and> satisfies bun c None"
    by blast
qed

lemma dependency_issues_Nil:
  "dependency_issues by_id dep = [] \<longleftrightarrow>
   (\<exists>d. dict_get by_id (dp_id dep) = Some d \<and>
      dp_binding_level dep \<in> set (id_supported_binding_levels d) \<and>
      set (dp_scopes dep) \<subseteq> set (vocab_ids d))"
  by (cases "dict_get by_id (dp_id dep)") (auto simp: dependency_issues_def filter_empty_conv)

lemma check_integration_dependencies_Nil:
  "check_integration_dependencies m reg = [] \<longleftrightarrow>
   (\<forall>dep \<in> set (deps_integrations (rb_dependencies m)). \<exists>d.
      dict_get (integrations_by_id reg) (dp_id dep) = Some d \<and>
      dp_binding_level dep \<in> set (id_supported_binding_levels d) \<and>
      set (dp_scopes dep) \<subseteq> set (vocab_ids d))"
  by (simp add: check_integration_dependencies_def dependency_issues_Nil)

end
