(* ===== verification/Install_Properties.thy ===== *)
theory Install_Properties
  imports Install_Validation Dispatch_Properties
begin

text \<open>
  What a passed install validation guarantees at run time, and what it does not: verb-level bindings
  alone pass it, and the revocation table of an integration may hold no action at all.
\<close>

section \<open>Dispatch after a passed validation\<close>

text \<open>C12: If \<open>assert_routine_install\<close> passes, every integration the routine depends on is in the
  registry, supports the binding level and knows every scope; and for every required capability that
  has a binding of its own, each of its verbs resolves to an adapter that is discoverable and claims
  that capability.\<close>

theorem validated_install_dispatches:
  assumes "assert_routine_install m b g reg extra = Inr ()"
  shows "(\<forall>dep \<in> set (deps_integrations (rb_dependencies m)). \<exists>d.
      dict_get (integrations_by_id reg) (dp_id dep) = Some d \<and>
      dp_binding_level dep \<in> set (id_supported_binding_levels d) \<and> set (dp_scopes dep) \<subseteq> set (vocab_ids d))
    \<and> (\<forall>c v. c \<in> set (required_of m extra) \<longrightarrow> CHR ''.'' \<notin> set c \<longrightarrow> CHR ''.'' \<notin> set v \<longrightarrow>
        dict_has (bi_capabilities b) c \<longrightarrow>
        (\<exists>r bun. resolve b c v = Inr r \<and>
           source_load (ar_parse g) (ar_roots g) (rs_adapter_id r) = Inr bun \<and> satisfies bun c None))"
proof (intro conjI allI impI)
  obtain issues where issues: "check_capability_bindings (required_of m extra) b g = Inr issues"
    and none: "issues @ check_integration_dependencies m reg = []"
    using assms
    by (auto simp: assert_routine_install_def validate_routine_install_def report_ok_def split: sum.splits if_splits)
  then show "\<forall>dep \<in> set (deps_integrations (rb_dependencies m)). \<exists>d.
      dict_get (integrations_by_id reg) (dp_id dep) = Some d \<and>
      dp_binding_level dep \<in> set (id_supported_binding_levels d) \<and> set (dp_scopes dep) \<subseteq> set (vocab_ids d)"
    using check_integration_dependencies_Nil by simp
  fix c v
  assume c: "c \<in> set (required_of m extra)" "CHR ''.'' \<notin> set c" "CHR ''.'' \<notin> set v" "dict_has (bi_capabilities b) c"
  have "resolve b c v \<noteq> Inl e" for e
    using c(4) unfolding resolve_lookups [OF c(2,3)] by (auto split: option.splits)
  then obtain r where r: "resolve b c v = Inr r" by (cases "resolve b c v") auto
  from resolve_Inr [OF r] have k: "rs_matched_key r \<in> set (dict_keys (bi_capabilities b))"
    "rs_matched_key r = target_of c v \<or> rs_matched_key r = c"
    "rs_adapter_id r = dict_get_or (bi_capabilities b) (rs_matched_key r) []"
    using key_matches_dot_free [OF c(2,3)] by (auto simp: binding_result_def)
  then have rel: "rs_matched_key r \<in> set (relevant_keys b c)"
    by (auto simp: relevant_keys_def target_of_def startswith_iff)
  show "\<exists>r bun. resolve b c v = Inr r \<and>
      source_load (ar_parse g) (ar_roots g) (rs_adapter_id r) = Inr bun \<and> satisfies bun c None"
    using check_capability_bindings_Inr(2) [OF _ c(1) rel] issues none r k(3) by auto
qed

definition ex_signature :: Signature where
  "ex_signature = \<lparr>sig_key_id = ''k'', sig_value = ''v'', sig_signed_fields = [''id'']\<rparr>"

definition ex_requirements :: LLMRequirements where
  "ex_requirements = \<lparr>lr_schema_version = ''1.0.0'', lr_required = [], lr_preferred = [],
     lr_forbidden_without = [], lr_min_context_tokens = 32000, lr_max_output_tokens = None,
     lr_cost_tier = Balanced, lr_model_preference = [], lr_pii_categories = [], lr_data_residency = [],
     lr_cache_pool = None, lr_cache_ttl = Ttl5m, lr_budget = None\<rparr>"

definition ex_routine :: "IntegrationDependency list \<Rightarrow> RoutineBundleManifest" where
  "ex_routine deps = \<lparr>rb_schema_version = ''1.0.0'', rb_id = ''com.ota.triage'', rb_version = ''1.0.0'',
     rb_framework_compat = ''*'',
     rb_metadata = \<lparr>rmd_name = ''t'', rmd_description = [], rmd_author = [], rmd_author_url = [],
       rmd_category = [], rmd_tags = []\<rparr>,
     rb_dependencies = \<lparr>deps_routines = [], deps_integrations = deps\<rparr>,
     rb_capabilities = \<lparr>cap_provides = [], cap_consumes = [''messaging'']\<rparr>,
     rb_llm_requirements = ex_requirements, rb_knobs = [],
     rb_automation = \<lparr>au_cadence = [], au_events = []\<rparr>, rb_gates = [], rb_state_shards = [],
     rb_stale_artifact_ttl = ''4h'',
     rb_files = [\<lparr>fe_path = ''p'', fe_role = SystemPrompt, fe_sha256 = replicate 64 (CHR ''a'')\<rparr>],
     rb_signature = ex_signature\<rparr>"

definition ex_registry_manifest :: "IntegrationDeclaration list \<Rightarrow> IntegrationRegistryManifest" where
  "ex_registry_manifest ds = \<lparr>irm_registry = \<lparr>irh_id = ''r'', irh_schema_version = ''1.0.0'',
     irh_generated_at = 0, irh_signing_key_id = ''k'', irh_next_signing_key_id = None,
     irh_signature = ex_signature\<rparr>, irm_integrations = ds\<rparr>"

lemma ex_discover: "\<exists>bun. discover_all ex_yaml ex_source = Inr [bun] \<and> bundle_id bun = ''slack'' \<and> satisfies bun ''messaging'' None"
  using ex_yaml_ok
  by (simp add: discover_all_def candidate_dirs_def ex_source_def startswith_def read_manifest_def MANIFEST_NAMES_def
      parse_manifest_text_def ex_yaml_def bundle_id_def note_path_def dict_get_or_def satisfies_def)
    (simp add: ex_manifest_def)

lemma ex_install:
  assumes "bi_capabilities b = [(key, ''slack'')]" "key = ''messaging'' \<or> startswith key ''messaging.''"
    and "check_integration_dependencies (ex_routine deps) reg = []"
  shows "assert_routine_install (ex_routine deps) b ex_fs_registry reg None = Inr ()"
proof -
  obtain bun where bun: "discover_all ex_yaml ex_source = Inr [bun]" "bundle_id bun = ''slack''"
    "satisfies bun ''messaging'' None" using ex_discover by blast
  then have "known_adapter_ids ex_fs_registry = Inr [''slack'']"
    using discovery_load_agree [OF bun(1)] by (simp add: known_adapter_ids_def ex_fs_registry_def)
  moreover have "required_of (ex_routine deps) None = [''messaging'']"
    by (simp add: required_of_def ex_routine_def)
  ultimately show ?thesis
    using assms bun
    by (simp add: assert_routine_install_def validate_routine_install_def check_capability_bindings_def
        capability_issues_def relevant_keys_def key_issues_def bundles_by_id_def dict_simps dict_get_or_def
        ex_fs_registry_def report_ok_def)
qed

lemma validated_install_dispatches_witness:
  "\<exists>r bun. resolve \<lparr>bi_capabilities = [(''messaging'', ''slack'')]\<rparr> ''messaging'' ''edit_message'' = Inr r
     \<and> source_load ex_yaml ex_source (rs_adapter_id r) = Inr bun"
proof -
  let ?b = "\<lparr>bi_capabilities = [(''messaging'', ''slack'')]\<rparr>"
  have "assert_routine_install (ex_routine []) ?b ex_fs_registry (ex_registry_manifest []) None = Inr ()"
    by (rule ex_install [where key = "''messaging''"]) (simp_all add: check_integration_dependencies_def ex_routine_def)
  note run = validated_install_dispatches [OF this]
  have "''messaging'' \<in> set (required_of (ex_routine []) None)" by (simp add: required_of_def ex_routine_def)
  moreover have "CHR ''.'' \<notin> set ''messaging''" "CHR ''.'' \<notin> set ''edit_message''" by simp_all
  ultimately have "\<exists>r bun. resolve ?b ''messaging'' ''edit_message'' = Inr r \<and>
      source_load (ar_parse ex_fs_registry) (ar_roots ex_fs_registry) (rs_adapter_id r) = Inr bun
      \<and> satisfies bun ''messaging'' None"
    using run by simp
  then show ?thesis by (auto simp: ex_fs_registry_def)
qed

text \<open>A passed validation does not imply that a required capability can be called: bindings that name
  one verb of it only are accepted, and every other verb then fails at run time with
  \<open>NoBindingError\<close>.\<close>

theorem verb_binding_passes_validation:
  "\<exists>m b (g :: nat AdapterRegistry) reg. assert_routine_install m b g reg None = Inr ()
     \<and> ''messaging'' \<in> set (required_of m None)
     \<and> resolve b ''messaging'' ''send_message'' = Inl (NoBindingError ''messaging'' ''send_message'')"
proof -
  let ?b = "\<lparr>bi_capabilities = [(''messaging.edit_message'', ''slack'')]\<rparr>"
  have "assert_routine_install (ex_routine []) ?b ex_fs_registry (ex_registry_manifest []) None = Inr ()"
    by (rule ex_install [where key = "''messaging.edit_message''"])
      (simp_all add: check_integration_dependencies_def ex_routine_def startswith_def)
  moreover have "''messaging'' \<in> set (required_of (ex_routine []) None)" by (simp add: required_of_def ex_routine_def)
  moreover have "resolve ?b ''messaging'' ''send_message'' = Inl (NoBindingError ''messaging'' ''send_message'')"
    by (simp add: resolve_Inl key_matches_def target_of_def startswith_def)
  ultimately show ?thesis by blast
qed

section \<open>Emergency revocation\<close>

text \<open>For a validated routine over a valid registry, the integration of every dependency has a
  revocation table for the dependency's binding level, and no action in it other than the one the
  dependency declares for an emergency kill.\<close>

theorem revocation_table_matches_dependency:
  assumes "assert_routine_install m b g reg extra = Inr ()" and "bundle_manifest_ok m"
    and "registry_manifest_ok reg" and "dep \<in> set (deps_integrations (rb_dependencies m))"
  shows "\<exists>d acts. d \<in> set (irm_integrations reg) \<and> id_id d = dp_id dep
    \<and> dict_get (id_revocation d) (dp_binding_level dep) = Some acts
    \<and> (\<forall>a \<in> set (dict_keys acts). a = dp_on_emergency_kill dep)"
proof -
  have "check_integration_dependencies m reg = []"
    using assms(1)
    by (auto simp: assert_routine_install_def validate_routine_install_def report_ok_def split: sum.splits if_splits)
  then obtain d where d: "dict_get (integrations_by_id reg) (dp_id dep) = Some d"
    "dp_binding_level dep \<in> set (id_supported_binding_levels d)"
    using assms(4) check_integration_dependencies_Nil by blast
  have mem: "d \<in> set (irm_integrations reg)" "id_id d = dp_id dep"
    using d(1) by (auto simp: integrations_by_id_def dict_get_of dest!: map_of_SomeD)
  have "revocation_covers_supported d = None"
    using mem(1) assms(3) by (auto simp: registry_manifest_ok_def list_all_iff declaration_ok_def declaration_error_None)
  then obtain acts where acts: "dict_get (id_revocation d) (dp_binding_level dep) = Some acts"
    "fst ` set acts \<subseteq> set (valid_actions (dp_binding_level dep))"
    using d(2) by (auto simp: revocation_covers_supported_def check_levels_None)
  have "(dp_binding_level dep, dp_on_emergency_kill dep) \<in> set VALID_BINDING_KILL_PAIRS"
    using assms(2,4) by (auto simp: bundle_manifest_ok_def dependencies_ok_def list_all_iff integration_dependency_ok_def)
  then have "\<forall>a \<in> set (dict_keys acts). a = dp_on_emergency_kill dep"
    using acts(2) valid_pair_functional by (auto simp: valid_actions_pairs subset_iff)
  then show ?thesis using mem acts(1) by blast
qed

definition ex_integration :: "(OnEmergencyKill, RevocationAction) dict \<Rightarrow> IntegrationDeclaration" where
  "ex_integration acts = \<lparr>id_id = ''com.slack'', id_version = ''1.0.0'', id_framework_compat = ''*'',
     id_kill_status = KillActive,
     id_metadata = \<lparr>imd_name = ''Slack'', imd_vendor = [], imd_vendor_url = [], imd_category = [], imd_description = []\<rparr>,
     id_auth_styles = [OAuth2], id_supported_binding_levels = [RoutineExclusive],
     id_default_binding_level = RoutineExclusive,
     id_endpoints = \<lparr>ie_base_url = ''u'', ie_oauth2 = None\<rparr>, id_egress_patterns = [''slack.com''],
     id_scope_vocabulary = [],
     id_rate_limits = \<lparr>rl_requests_per_second = 1, rl_requests_per_minute = 60, rl_burst_capacity = None,
       rl_backoff_strategy = ExponentialWithJitter, rl_retry_after_header = ''Retry-After'',
       rl_max_retries = 5, rl_per_operation_overrides = []\<rparr>,
     id_revocation = [(RoutineExclusive, acts)],
     id_operations = [\<lparr>op_id = ''post'', op_endpoint = ''POST /m'', op_side_effect = StatefulSafe,
       op_required_scopes = [], op_idempotent = False, op_rate_limit_weight = 1, op_pii_classes = [],
       op_auth_style = None, op_arguments_schema_ref = None\<rparr>],
     id_webhooks = [],
     id_pii_handling = \<lparr>ph_payload_contains_pii_default = False, ph_pii_classes_possible = [], ph_response_body_in_audit = False\<rparr>,
     id_data_residency = \<lparr>idr_provider_regions = [], idr_operator_can_pin_region = False\<rparr>,
     id_signature = ex_signature\<rparr>"

definition ex_dependency :: IntegrationDependency where
  "ex_dependency = \<lparr>dp_id = ''com.slack'', dp_scopes = [], dp_optional = False,
     dp_binding_level = RoutineExclusive, dp_on_emergency_kill = BurnCredential\<rparr>"

lemma ex_registry_ok:
  "registry_manifest_ok (ex_registry_manifest [ex_integration []])"
  "registry_manifest_ok (ex_registry_manifest [ex_integration [(BurnCredential, LocalOnlyRevocationAction ''m'')]])"
  by code_simp+

lemma ex_routine_ok: "bundle_manifest_ok (ex_routine [ex_dependency])"
proof -
  have "validate_sha256 (replicate 64 (CHR ''a''))"
    by (rule sha256_plain) (simp_all add: list_all_iff is_lower_hex_def is_digit_def char_between_def)
  moreover have "validate_semver ''1.0.0''" "validate_reverse_dns ''com.ota.triage''" by code_simp+
  ultimately show ?thesis
    by (simp add: bundle_manifest_ok_def ex_routine_def dependencies_ok_def integration_dependency_ok_def
        ex_dependency_def VALID_BINDING_KILL_PAIRS_def llm_requirements_ok_def ex_requirements_def opt_pos_def
        automation_ok_def file_entry_ok_def signature_ok_def ex_signature_def)
qed

lemma ex_dependency_installed:
  "assert_routine_install (ex_routine [ex_dependency]) \<lparr>bi_capabilities = [(''messaging'', ''slack'')]\<rparr>
     ex_fs_registry (ex_registry_manifest [ex_integration acts]) None = Inr ()"
  by (rule ex_install [where key = "''messaging''"])
    (simp_all add: check_integration_dependencies_Nil ex_routine_def integrations_by_id_def
      ex_registry_manifest_def ex_integration_def ex_dependency_def dict_simps)

lemma revocation_table_matches_dependency_witness:
  "\<exists>d acts. d \<in> set (irm_integrations (ex_registry_manifest [ex_integration [(BurnCredential, LocalOnlyRevocationAction ''m'')]]))
     \<and> dict_get (id_revocation d) RoutineExclusive = Some acts \<and> (\<forall>a \<in> set (dict_keys acts). a = BurnCredential)"
proof -
  have "ex_dependency \<in> set (deps_integrations (rb_dependencies (ex_routine [ex_dependency])))"
    by (simp add: ex_routine_def)
  from revocation_table_matches_dependency [OF ex_dependency_installed ex_routine_ok ex_registry_ok(2) this]
  show ?thesis by (auto simp: ex_dependency_def)
qed

text \<open>The contracts do not make the declared emergency action available: a valid registry and a
  valid routine pass the install validation although the integration's revocation table for the
  dependency's binding level is empty, so no action can be run when the routine is killed.\<close>

theorem emergency_action_may_be_missing:
  "\<exists>m b (g :: nat AdapterRegistry) reg dep d.
     bundle_manifest_ok m \<and> registry_manifest_ok reg \<and> assert_routine_install m b g reg None = Inr ()
     \<and> dep \<in> set (deps_integrations (rb_dependencies m)) \<and> dict_get (integrations_by_id reg) (dp_id dep) = Some d
     \<and> dict_get (id_revocation d) (dp_binding_level dep) = Some []"
proof -
  let ?reg = "ex_registry_manifest [ex_integration []]"
  have "ex_dependency \<in> set (deps_integrations (rb_dependencies (ex_routine [ex_dependency])))"
    by (simp add: ex_routine_def)
  moreover have "dict_get (integrations_by_id ?reg) (dp_id ex_dependency) = Some (ex_integration [])"
    by (simp add: integrations_by_id_def ex_registry_manifest_def ex_integration_def ex_dependency_def dict_simps)
  moreover have "dict_get (id_revocation (ex_integration [])) (dp_binding_level ex_dependency) = Some []"
    by (simp add: ex_integration_def ex_dependency_def)
  ultimately show ?thesis
    using ex_routine_ok ex_registry_ok(1) ex_dependency_installed [of "[]"] by blast
qed

end
