(* ===== verification/Http_Client.thy ===== *)
theory Http_Client
  imports Ota_Errors
begin

text \<open>
  The outbound HTTP client: \<open>ota_core/http/client.py\<close> and \<open>ota_core/http/errors.py\<close>.

  Times and token counts are rationals (the code's floats without rounding).  The clock is state: a
  sleep of \<open>d\<close> advances it by \<open>d\<close> and by the extra delay the environment chooses.  \<open>acquire\<close> loops
  until enough tokens are there and may not return, so it is a \<open>partial_function\<close> into \<open>option\<close>:
  \<open>None\<close> is not returning.  What the server answers to the n-th request sent, the random draws and
  the parsers of the standard library are parameters.
\<close>

section \<open>Time\<close>

record http_clock =
  hc_now :: rat
  hc_late :: "nat \<Rightarrow> rat"
  hc_sleeps :: "rat list"

definition sleep :: "rat \<Rightarrow> http_clock \<Rightarrow> http_clock" where
  "sleep d c = c\<lparr>hc_now := hc_now c + max 0 d + hc_late c (length (hc_sleeps c)),
                 hc_sleeps := hc_sleeps c @ [d]\<rparr>"

definition clock_ok :: "http_clock \<Rightarrow> bool" where
  "clock_ok c \<longleftrightarrow> (\<forall>n. hc_late c n \<ge> 0)"

section \<open>\<open>TokenBucket\<close>\<close>

record RateLimitPolicy =
  rp_requests_per_second :: rat
  rp_burst_capacity :: int
  rp_requests_per_minute :: "rat option"
  rp_burst_per_minute :: "int option"

text \<open>\<open>__post_init__\<close>: \<open>None\<close> accepts, \<open>Some\<close> is the text of the \<open>ValueError\<close>.\<close>

definition policy_error :: "RateLimitPolicy \<Rightarrow> string option" where
  "policy_error p =
     (if rp_requests_per_second p \<le> 0 then Some ''requests_per_second must be > 0''
      else if rp_burst_capacity p < 1 then Some ''burst_capacity must be >= 1''
      else if (case rp_requests_per_minute p of None \<Rightarrow> False | Some r \<Rightarrow> r \<le> 0)
        then Some ''requests_per_minute must be > 0''
      else if (case rp_burst_per_minute p of None \<Rightarrow> False | Some b \<Rightarrow> b < 1)
        then Some ''burst_per_minute must be >= 1''
      else None)"

record TokenBucket =
  tb_sec_rate :: rat
  tb_sec_capacity :: int
  tb_sec_tokens :: rat
  tb_sec_last_refill :: rat
  tb_min_rate :: "rat option"
  tb_min_capacity :: int
  tb_min_tokens :: rat
  tb_min_last_refill :: rat

text \<open>\<open>int(x)\<close> truncates; the rate is positive here, so that is the floor.\<close>

definition token_bucket :: "RateLimitPolicy \<Rightarrow> rat \<Rightarrow> TokenBucket" where
  "token_bucket p now =
     (let cap = (case rp_requests_per_minute p of
                   None \<Rightarrow> 0
                 | Some r \<Rightarrow> (case rp_burst_per_minute p of Some b \<Rightarrow> b | None \<Rightarrow> max 1 \<lfloor>r\<rfloor>))
      in \<lparr>tb_sec_rate = rp_requests_per_second p, tb_sec_capacity = rp_burst_capacity p,
          tb_sec_tokens = of_int (rp_burst_capacity p), tb_sec_last_refill = now,
          tb_min_rate = map_option (\<lambda>r. r / 60) (rp_requests_per_minute p),
          tb_min_capacity = cap, tb_min_tokens = of_int cap, tb_min_last_refill = now\<rparr>)"

definition refill_second :: "rat \<Rightarrow> TokenBucket \<Rightarrow> TokenBucket" where
  "refill_second now b =
     b\<lparr>tb_sec_tokens := min (of_int (tb_sec_capacity b))
         (tb_sec_tokens b + (now - tb_sec_last_refill b) * tb_sec_rate b),
       tb_sec_last_refill := now\<rparr>"

definition refill_minute :: "rat \<Rightarrow> TokenBucket \<Rightarrow> TokenBucket" where
  "refill_minute now b =
     (case tb_min_rate b of
        None \<Rightarrow> b
      | Some r \<Rightarrow>
          b\<lparr>tb_min_tokens := min (of_int (tb_min_capacity b))
              (tb_min_tokens b + (now - tb_min_last_refill b) * r),
            tb_min_last_refill := now\<rparr>)"

definition refill :: "rat \<Rightarrow> TokenBucket \<Rightarrow> TokenBucket" where
  "refill now b = refill_minute now (refill_second now b)"

definition wait_time :: "rat \<Rightarrow> TokenBucket \<Rightarrow> rat" where
  "wait_time tokens b =
     (let wait_sec = max 0 ((tokens - tb_sec_tokens b) / tb_sec_rate b);
          wait_min = (case tb_min_rate b of None \<Rightarrow> 0 | Some r \<Rightarrow> max 0 ((tokens - tb_min_tokens b) / r))
      in max wait_sec wait_min)"

definition take_tokens :: "rat \<Rightarrow> TokenBucket \<Rightarrow> TokenBucket" where
  "take_tokens tokens b =
     (case tb_min_rate b of
        None \<Rightarrow> b\<lparr>tb_sec_tokens := tb_sec_tokens b - tokens\<rparr>
      | Some _ \<Rightarrow> b\<lparr>tb_sec_tokens := tb_sec_tokens b - tokens, tb_min_tokens := tb_min_tokens b - tokens\<rparr>)"

partial_function (option) acquire_loop ::
  "rat \<Rightarrow> TokenBucket \<Rightarrow> http_clock \<Rightarrow> (TokenBucket \<times> http_clock) option" where
  "acquire_loop tokens b c =
     (let b1 = refill (hc_now c) b; wait = wait_time tokens b1
      in if wait \<le> 0 then Some (take_tokens tokens b1, c)
         else acquire_loop tokens b1 (sleep wait c))"

text \<open>\<open>acquire\<close>: \<open>Some (Inl e)\<close> is the \<open>ValueError\<close> for a count below one.\<close>

definition acquire ::
  "int \<Rightarrow> TokenBucket \<Rightarrow> http_clock \<Rightarrow> (exn + TokenBucket \<times> http_clock) option" where
  "acquire tokens b c =
     (if tokens < 1 then Some (Inl (PyError ''ValueError'' ''tokens must be >= 1''))
      else map_option Inr (acquire_loop (of_int tokens) b c))"

section \<open>Retry delays\<close>

text \<open>\<open>float()\<close> and the HTTP date parser are parameters; a date is given in seconds.\<close>

definition parse_retry_after ::
  "(string \<Rightarrow> rat option) \<Rightarrow> (string \<Rightarrow> rat option) \<Rightarrow> rat \<Rightarrow> string option \<Rightarrow> rat option" where
  "parse_retry_after parse_float parse_date utc_now hdr =
     (case hdr of
        None \<Rightarrow> None
      | Some s \<Rightarrow>
          if s = [] then None
          else (case parse_float (strip s) of
                  Some x \<Rightarrow> Some (max 0 x)
                | None \<Rightarrow>
                    (case parse_date (strip s) of
                       None \<Rightarrow> None
                     | Some t \<Rightarrow> Some (max 0 (t - utc_now)))))"

text \<open>\<open>random.uniform(0, exp)\<close> with a draw \<open>u\<close> between 0 and 1.\<close>

definition backoff_delay :: "rat \<Rightarrow> nat \<Rightarrow> rat \<Rightarrow> rat \<Rightarrow> rat" where
  "backoff_delay u attempt base cap = u * min cap (base * 2 ^ attempt)"

section \<open>\<open>HttpClient\<close>\<close>

datatype allowlist = Hosts "string list" | Matcher "string \<Rightarrow> bool"

fun host_allowed :: "allowlist \<Rightarrow> string \<Rightarrow> bool" where
  "host_allowed (Hosts hs) h \<longleftrightarrow> h \<in> set hs"
| "host_allowed (Matcher f) h \<longleftrightarrow> f h"

record http_response =
  hr_status :: int
  hr_retry_after :: "string option"

text \<open>\<open>OtherError\<close> is any exception besides \<open>NetworkError\<close> and \<open>TimeoutException\<close>.\<close>

datatype http_outcome = Response http_response | NetworkError exn | OtherError exn

datatype http_error =
    EgressBlocked string string string
  | MaxRetriesExceeded string string int "http_response option" "exn option"
  | HttpRaised exn

record HttpClient =
  cl_max_retries :: int
  cl_base_backoff :: rat
  cl_max_backoff :: rat
  cl_retry_status_codes :: "int list"
  cl_allowlist :: "allowlist option"
  cl_rate_limits :: "(string, TokenBucket) dict"
  cl_clock :: http_clock
  cl_sent :: "(string \<times> string) list"

definition DEFAULT_RETRY_STATUSES :: "int list" where
  "DEFAULT_RETRY_STATUSES = [429, 500, 502, 503, 504]"

text \<open>The environment of a request: host of a URL, answers by number of the request, draws, parsers
  and the wall clock.\<close>

record http_env =
  env_host :: "string \<Rightarrow> string"
  env_answer :: "nat \<Rightarrow> http_outcome"
  env_draw :: "nat \<Rightarrow> rat"
  env_parse_float :: "string \<Rightarrow> rat option"
  env_parse_date :: "string \<Rightarrow> rat option"
  env_utc_now :: "nat \<Rightarrow> rat"

definition set_rate_limit :: "string \<Rightarrow> RateLimitPolicy \<Rightarrow> HttpClient \<Rightarrow> HttpClient" where
  "set_rate_limit host p c =
     c\<lparr>cl_rate_limits := dict_set host (token_bucket p (hc_now (cl_clock c))) (cl_rate_limits c)\<rparr>"

definition set_allowlist :: "allowlist option \<Rightarrow> HttpClient \<Rightarrow> HttpClient" where
  "set_allowlist a c = c\<lparr>cl_allowlist := a\<rparr>"

definition acquire_for :: "string \<Rightarrow> HttpClient \<Rightarrow> HttpClient option" where
  "acquire_for host c =
     (case dict_get (cl_rate_limits c) host of
        None \<Rightarrow> Some c
      | Some b \<Rightarrow>
          (case acquire_loop 1 b (cl_clock c) of
             None \<Rightarrow> None
           | Some (b', k) \<Rightarrow>
               Some (c\<lparr>cl_rate_limits := dict_set host b' (cl_rate_limits c), cl_clock := k\<rparr>)))"

definition client_sleep :: "rat \<Rightarrow> HttpClient \<Rightarrow> HttpClient" where
  "client_sleep d c = c\<lparr>cl_clock := sleep d (cl_clock c)\<rparr>"

definition retry_delay :: "http_env \<Rightarrow> nat \<Rightarrow> nat \<Rightarrow> HttpClient \<Rightarrow> http_response \<Rightarrow> rat" where
  "retry_delay env n attempt c r =
     (case parse_retry_after (env_parse_float env) (env_parse_date env) (env_utc_now env n) (hr_retry_after r) of
        Some d \<Rightarrow> d
      | None \<Rightarrow> backoff_delay (env_draw env n) attempt (cl_base_backoff c) (cl_max_backoff c))"

text \<open>The loop over \<open>range(max_retries + 1)\<close>: \<open>left\<close> counts the attempts still to come.\<close>

fun request_loop ::
  "http_env \<Rightarrow> string \<Rightarrow> string \<Rightarrow> http_response option \<Rightarrow> exn option \<Rightarrow> nat \<Rightarrow> nat \<Rightarrow> HttpClient \<Rightarrow>
   ((http_error + http_response) \<times> HttpClient) option" where
  "request_loop env meth url last_r last_e attempt 0 c =
     Some (Inl (MaxRetriesExceeded meth url (cl_max_retries c + 1) last_r last_e), c)"
| "request_loop env meth url last_r last_e attempt (Suc left) c =
     (case acquire_for (env_host env url) c of
        None \<Rightarrow> None
      | Some c1 \<Rightarrow>
          (let n = length (cl_sent c1); c2 = c1\<lparr>cl_sent := cl_sent c1 @ [(meth, url)]\<rparr>
           in case env_answer env n of
                OtherError e \<Rightarrow> Some (Inl (HttpRaised e), c2)
              | NetworkError e \<Rightarrow>
                  if cl_max_retries c2 \<le> int attempt
                  then Some (Inl (MaxRetriesExceeded meth url (int attempt + 1) None (Some e)), c2)
                  else request_loop env meth url None (Some e) (attempt + 1) left
                         (client_sleep (backoff_delay (env_draw env n) attempt (cl_base_backoff c2) (cl_max_backoff c2)) c2)
              | Response r \<Rightarrow>
                  if hr_status r \<notin> set (cl_retry_status_codes c2) then Some (Inr r, c2)
                  else if cl_max_retries c2 \<le> int attempt
                  then Some (Inl (MaxRetriesExceeded meth url (int attempt + 1) (Some r) None), c2)
                  else request_loop env meth url (Some r) None (attempt + 1) left
                         (client_sleep (retry_delay env n attempt c2 r) c2)))"

definition request ::
  "http_env \<Rightarrow> string \<Rightarrow> string \<Rightarrow> HttpClient \<Rightarrow> ((http_error + http_response) \<times> HttpClient) option" where
  "request env meth url c =
     (let host = env_host env url
      in if (case cl_allowlist c of None \<Rightarrow> False | Some a \<Rightarrow> \<not> host_allowed a host)
         then Some (Inl (EgressBlocked host meth url), c)
         else request_loop env meth url None None 0 (nat (cl_max_retries c + 1)) c)"

end
