(* ===== verification/Http_Properties.thy ===== *)
theory Http_Properties
  imports Http_Client
begin

text \<open>
  The HTTP client's guarantees: the token bucket returns after at most one sleep and bounds the rate of
  requests, a request never exceeds its number of attempts, and a blocked host is never contacted.
\<close>

section \<open>The bucket invariant\<close>

definition lane_ok :: "rat \<Rightarrow> int \<Rightarrow> rat \<Rightarrow> bool" where
  "lane_ok rate cap tokens \<longleftrightarrow> rate > 0 \<and> cap \<ge> 1 \<and> 0 \<le> tokens \<and> tokens \<le> of_int cap"

definition bucket_ok :: "TokenBucket \<Rightarrow> bool" where
  "bucket_ok b \<longleftrightarrow>
     lane_ok (tb_sec_rate b) (tb_sec_capacity b) (tb_sec_tokens b) \<and>
     (\<forall>r. tb_min_rate b = Some r \<longrightarrow> lane_ok r (tb_min_capacity b) (tb_min_tokens b))"

definition refilled_by :: "rat \<Rightarrow> TokenBucket \<Rightarrow> bool" where
  "refilled_by now b \<longleftrightarrow> tb_sec_last_refill b \<le> now \<and> (tb_min_rate b \<noteq> None \<longrightarrow> tb_min_last_refill b \<le> now)"

definition fits :: "rat \<Rightarrow> TokenBucket \<Rightarrow> bool" where
  "fits n b \<longleftrightarrow> n \<le> of_int (tb_sec_capacity b) \<and> (tb_min_rate b \<noteq> None \<longrightarrow> n \<le> of_int (tb_min_capacity b))"

text \<open>The tokens a lane could have at a time, ignoring its capacity.\<close>

definition sec_credit :: "rat \<Rightarrow> TokenBucket \<Rightarrow> rat" where
  "sec_credit now b = tb_sec_tokens b + (now - tb_sec_last_refill b) * tb_sec_rate b"

definition min_credit :: "rat \<Rightarrow> TokenBucket \<Rightarrow> rat" where
  "min_credit now b = (case tb_min_rate b of None \<Rightarrow> 0
     | Some r \<Rightarrow> tb_min_tokens b + (now - tb_min_last_refill b) * r)"

definition same_limits :: "TokenBucket \<Rightarrow> TokenBucket \<Rightarrow> bool" where
  "same_limits b b' \<longleftrightarrow> tb_sec_rate b' = tb_sec_rate b \<and> tb_sec_capacity b' = tb_sec_capacity b \<and>
     tb_min_rate b' = tb_min_rate b \<and> tb_min_capacity b' = tb_min_capacity b"

lemma refill_sel [simp]:
  "tb_sec_rate (refill now b) = tb_sec_rate b" "tb_sec_capacity (refill now b) = tb_sec_capacity b"
  "tb_min_rate (refill now b) = tb_min_rate b" "tb_min_capacity (refill now b) = tb_min_capacity b"
  "tb_sec_last_refill (refill now b) = now"
  "tb_sec_tokens (refill now b) = min (of_int (tb_sec_capacity b)) (sec_credit now b)"
  by (simp_all add: refill_def refill_second_def refill_minute_def sec_credit_def split: option.splits)

lemma refill_min_sel:
  assumes "tb_min_rate b = Some r"
  shows "tb_min_last_refill (refill now b) = now"
    "tb_min_tokens (refill now b) = min (of_int (tb_min_capacity b)) (min_credit now b)"
  using assms by (simp_all add: refill_def refill_second_def refill_minute_def min_credit_def)

lemma refill_ok:
  assumes "bucket_ok b" "refilled_by now b"
  shows "bucket_ok (refill now b)" "refilled_by now (refill now b)" "same_limits b (refill now b)"
proof -
  have "0 \<le> sec_credit now b"
    using assms by (simp add: bucket_ok_def lane_ok_def refilled_by_def sec_credit_def)
  moreover have "0 \<le> min_credit now b" if "tb_min_rate b = Some r" for r
    using assms that by (simp add: bucket_ok_def lane_ok_def refilled_by_def min_credit_def)
  ultimately show "bucket_ok (refill now b)"
    using assms(1) by (auto simp: bucket_ok_def lane_ok_def refill_min_sel)
  show "refilled_by now (refill now b)" by (auto simp: refilled_by_def refill_min_sel)
  show "same_limits b (refill now b)" by (simp add: same_limits_def)
qed

lemma wait_done:
  assumes "bucket_ok b"
  shows "wait_time n b \<le> 0 \<longleftrightarrow> n \<le> tb_sec_tokens b \<and> (tb_min_rate b \<noteq> None \<longrightarrow> n \<le> tb_min_tokens b)"
  using assms
  by (cases "tb_min_rate b") (auto simp: wait_time_def Let_def bucket_ok_def lane_ok_def divide_le_0_iff)

lemma wait_covers:
  assumes "bucket_ok b" "d \<ge> wait_time n b"
  shows "n \<le> tb_sec_tokens b + d * tb_sec_rate b"
    and "tb_min_rate b = Some r \<Longrightarrow> n \<le> tb_min_tokens b + d * r"
proof -
  have sec: "(n - tb_sec_tokens b) / tb_sec_rate b \<le> d" using assms(2) by (simp add: wait_time_def Let_def)
  then show "n \<le> tb_sec_tokens b + d * tb_sec_rate b"
    using assms(1) by (simp add: bucket_ok_def lane_ok_def pos_divide_le_eq)
  assume r: "tb_min_rate b = Some r"
  have "(n - tb_min_tokens b) / r \<le> d" using assms(2) r by (simp add: wait_time_def Let_def)
  then show "n \<le> tb_min_tokens b + d * r"
    using assms(1) r by (simp add: bucket_ok_def lane_ok_def pos_divide_le_eq)
qed

text \<open>Taking what is there.\<close>

lemma take_tokens_ok:
  assumes "bucket_ok b" "wait_time n b \<le> 0" "n \<ge> 0"
  shows "bucket_ok (take_tokens n b)" "same_limits b (take_tokens n b)"
    "refilled_by now (take_tokens n b) \<longleftrightarrow> refilled_by now b"
    "sec_credit now (take_tokens n b) = sec_credit now b - n"
    "tb_min_rate b = Some r \<Longrightarrow> min_credit now (take_tokens n b) = min_credit now b - n"
proof -
  have e: "n \<le> tb_sec_tokens b" "\<And>r. tb_min_rate b = Some r \<Longrightarrow> n \<le> tb_min_tokens b"
    using assms(1,2) by (simp_all add: wait_done)
  show "bucket_ok (take_tokens n b)"
    using assms(1,3) e by (cases "tb_min_rate b") (auto simp: take_tokens_def bucket_ok_def lane_ok_def)
qed (auto simp: take_tokens_def same_limits_def refilled_by_def sec_credit_def min_credit_def split: option.splits)

lemma sec_credit_refill: "sec_credit now (refill now b) \<le> sec_credit now b"
  by (simp add: sec_credit_def [of now "refill now b"])

lemma min_credit_refill: "tb_min_rate b = Some r \<Longrightarrow> min_credit now (refill now b) \<le> min_credit now b"
  by (simp add: min_credit_def [of now "refill now b"] refill_min_sel)

lemma sec_credit_mono_refill:
  "tb_sec_rate b > 0 \<Longrightarrow> now \<le> now' \<Longrightarrow> sec_credit now' (refill now b) \<le> sec_credit now' b"
  using sec_credit_refill [of now b] by (simp add: sec_credit_def algebra_simps)

lemma min_credit_mono_refill:
  "tb_min_rate b = Some r \<Longrightarrow> min_credit now' (refill now b) \<le> min_credit now' b"
  using min_credit_refill [of b r now] by (simp add: min_credit_def refill_min_sel algebra_simps)

section \<open>\<open>acquire\<close>\<close>

text \<open>The state right after a call: at most the capacity less what it took, as of now.\<close>

definition spent :: "rat \<Rightarrow> rat \<Rightarrow> TokenBucket \<Rightarrow> bool" where
  "spent n now b \<longleftrightarrow> tb_sec_last_refill b = now \<and> tb_sec_tokens b \<le> of_int (tb_sec_capacity b) - n \<and>
     (tb_min_rate b \<noteq> None \<longrightarrow> tb_min_last_refill b = now \<and> tb_min_tokens b \<le> of_int (tb_min_capacity b) - n)"

lemma spent_refilled: "spent n now (take_tokens n (refill now b))"
  by (cases "tb_min_rate b") (simp_all add: spent_def take_tokens_def refill_min_sel)

text \<open>What a returned call guarantees.\<close>

definition acquired :: "rat \<Rightarrow> TokenBucket \<times> http_clock \<Rightarrow> TokenBucket \<times> http_clock \<Rightarrow> bool" where
  "acquired n s s' \<longleftrightarrow> (case (s, s') of ((b, c), (b', c')) \<Rightarrow>
     bucket_ok b' \<and> refilled_by (hc_now c') b' \<and> same_limits b b' \<and> clock_ok c' \<and> hc_now c \<le> hc_now c' \<and>
     length (hc_sleeps c') \<le> length (hc_sleeps c) + 1 \<and>
     sec_credit (hc_now c') b' \<le> sec_credit (hc_now c') b - n \<and>
     (tb_min_rate b \<noteq> None \<longrightarrow> min_credit (hc_now c') b' \<le> min_credit (hc_now c') b - n) \<and>
     spent n (hc_now c') b')"

lemma sleep_sel:
  "clock_ok c \<Longrightarrow> clock_ok (sleep d c)" "clock_ok c \<Longrightarrow> hc_now c + d \<le> hc_now (sleep d c)"
  "clock_ok c \<Longrightarrow> hc_now c \<le> hc_now (sleep d c)"
  "length (hc_sleeps (sleep d c)) = length (hc_sleeps c) + 1"
  unfolding clock_ok_def sleep_def by (simp_all add: add_increasing2 add_mono)

lemma acquire_at_once:
  assumes "bucket_ok b" "refilled_by (hc_now c) b" "wait_time n (refill (hc_now c) b) \<le> 0" "n \<ge> 0" "clock_ok c"
  shows "\<exists>s'. acquire_loop n b c = Some s' \<and> acquired n (b, c) s' \<and> snd s' = c"
proof -
  let ?b1 = "refill (hc_now c) b"
  note ok = refill_ok [OF assms(1,2)]
  note tk = take_tokens_ok [OF ok(1) assms(3,4)]
  have "acquire_loop n b c = Some (take_tokens n ?b1, c)"
    using assms(3) by (subst acquire_loop.simps) (simp add: Let_def)
  moreover have "acquired n (b, c) (take_tokens n ?b1, c)"
    using tk ok assms(5) sec_credit_refill [of "hc_now c" b] min_credit_refill [of b _ "hc_now c"]
    by (auto simp: acquired_def same_limits_def spent_refilled)
  ultimately show ?thesis by auto
qed

lemma acquire_returns:
  assumes "bucket_ok b" "refilled_by (hc_now c) b" "fits n b" "n \<ge> 0" "clock_ok c"
  shows "\<exists>s'. acquire_loop n b c = Some s' \<and> acquired n (b, c) s'"
proof (cases "wait_time n (refill (hc_now c) b) \<le> 0")
  case True
  then show ?thesis using acquire_at_once [OF assms(1,2)] assms(4,5) by blast
next
  case False
  let ?b1 = "refill (hc_now c) b"
  let ?d = "wait_time n ?b1"
  let ?c1 = "sleep ?d c"
  note ok = refill_ok [OF assms(1,2)]
  have later: "hc_now c + ?d \<le> hc_now ?c1" "hc_now c \<le> hc_now ?c1" "clock_ok ?c1"
    using sleep_sel(1-3) [OF assms(5)] by simp_all
  have refilled: "refilled_by (hc_now ?c1) ?b1"
    using ok(2) later(2) by (auto simp: refilled_by_def)
  have "wait_time n (refill (hc_now ?c1) ?b1) \<le> 0"
  proof -
    have "hc_now ?c1 - hc_now c \<ge> ?d" using later(1) by simp
    from wait_covers [OF ok(1) this]
    have "n \<le> sec_credit (hc_now ?c1) ?b1" "\<And>r. tb_min_rate ?b1 = Some r \<Longrightarrow> n \<le> min_credit (hc_now ?c1) ?b1"
      by (simp_all add: sec_credit_def [of "hc_now ?c1" ?b1] min_credit_def [of "hc_now ?c1" ?b1] refill_min_sel)
    then show ?thesis
      using assms(3) refill_ok(1) [OF ok(1) refilled]
      by (auto simp: wait_done fits_def refill_min_sel simp del: refill_sel(6))
        (simp_all add: refill_min_sel)
  qed
  from acquire_at_once [OF ok(1) refilled this assms(4) later(3)]
  obtain s' where s': "acquire_loop n ?b1 ?c1 = Some s'" "acquired n (?b1, ?c1) s'" "snd s' = ?c1" by blast
  obtain b' where b': "s' = (b', ?c1)" using s'(3) by (cases s') simp
  have "acquire_loop n b c = Some s'"
    using s'(1) False by (subst acquire_loop.simps) (simp add: Let_def)
  moreover have "acquired n (b, c) s'"
    using s'(2) later ok(3) sleep_sel(4) [of ?d c]
      sec_credit_mono_refill [of b "hc_now c" "hc_now ?c1"] min_credit_mono_refill [of b _ "hc_now ?c1" "hc_now c"]
      assms(1)
    unfolding b' by (auto simp: acquired_def same_limits_def bucket_ok_def lane_ok_def)
  ultimately show ?thesis by blast
qed

lemma acquire_needs_room:
  assumes "acquire_loop n b c = Some s'"
  shows "bucket_ok b \<longrightarrow> refilled_by (hc_now c) b \<longrightarrow> clock_ok c \<longrightarrow> fits n b"
proof (rule acquire_loop.raw_induct [OF _ assms,
      where P = "\<lambda>n b c s'. bucket_ok b \<longrightarrow> refilled_by (hc_now c) b \<longrightarrow> clock_ok c \<longrightarrow> fits n b"], intro impI)
  fix rec n b c s'
  assume IH: "\<And>n b c s'. rec n b c = Some s' \<Longrightarrow>
      bucket_ok b \<longrightarrow> refilled_by (hc_now c) b \<longrightarrow> clock_ok c \<longrightarrow> fits n b"
    and eq: "(let b1 = refill (hc_now c) b; wait = wait_time n b1
      in if wait \<le> 0 then Some (take_tokens n b1, c) else rec n b1 (sleep wait c)) = Some s'"
    and b: "bucket_ok b" "refilled_by (hc_now c) b" "clock_ok c"
  let ?b1 = "refill (hc_now c) b"
  note ok = refill_ok [OF b(1,2)]
  show "fits n b"
  proof (cases "wait_time n ?b1 \<le> 0")
    case True
    then have "n \<le> tb_sec_tokens ?b1" "tb_min_rate ?b1 \<noteq> None \<longrightarrow> n \<le> tb_min_tokens ?b1"
      using wait_done [OF ok(1)] by simp_all
    then show ?thesis by (auto simp: fits_def refill_min_sel)
  next
    case False
    let ?c1 = "sleep (wait_time n ?b1) c"
    have "rec n ?b1 ?c1 = Some s'" using eq False by (simp add: Let_def)
    moreover have "refilled_by (hc_now ?c1) ?b1"
      using ok(2) sleep_sel(3) [OF b(3)] by (meson order_trans refilled_by_def)
    ultimately have "fits n ?b1" using IH ok(1) sleep_sel(1) [OF b(3)] by blast
    then show ?thesis by (simp add: fits_def)
  qed
qed

text \<open>C13: \<open>acquire\<close> of a positive number of tokens returns, after at most one sleep, when the number
  does not exceed the burst capacities, and never returns when it does: the loop then waits for
  tokens that the refill caps away.\<close>

theorem acquire_returns_iff_fits:
  assumes "bucket_ok b" and "refilled_by (hc_now c) b" and "clock_ok c" and "tokens \<ge> 1"
  shows "(acquire tokens b c = None \<longleftrightarrow> \<not> fits (of_int tokens) b)
    \<and> (fits (of_int tokens) b \<longrightarrow> (\<exists>b' c'. acquire tokens b c = Some (Inr (b', c')) \<and>
        bucket_ok b' \<and> length (hc_sleeps c') \<le> length (hc_sleeps c) + 1))"
proof -
  have "acquire_loop (of_int tokens) b c = None \<longleftrightarrow> \<not> fits (of_int tokens) b"
    using acquire_returns [OF assms(1,2) _ _ assms(3), of "of_int tokens"] assms(4)
      acquire_needs_room [of "of_int tokens" b c] assms(1,2,3)
    by (cases "acquire_loop (of_int tokens) b c") auto
  then show ?thesis
    using acquire_returns [OF assms(1,2) _ _ assms(3), of "of_int tokens"] assms(4)
    by (auto simp: acquire_def acquired_def)
qed

definition ex_policy :: RateLimitPolicy where
  "ex_policy = \<lparr>rp_requests_per_second = 2, rp_burst_capacity = 3, rp_requests_per_minute = Some 60,
     rp_burst_per_minute = None\<rparr>"

definition ex_clock :: http_clock where
  "ex_clock = \<lparr>hc_now = 0, hc_late = (\<lambda>_. 0), hc_sleeps = []\<rparr>"

lemma token_bucket_ok:
  assumes "policy_error p = None"
  shows "bucket_ok (token_bucket p now)" "refilled_by now (token_bucket p now)"
  using assms
  by (auto simp: policy_error_def bucket_ok_def lane_ok_def token_bucket_def refilled_by_def Let_def
      split: if_splits option.splits)

lemma acquire_returns_iff_fits_witness:
  "acquire 4 (token_bucket ex_policy 0) ex_clock = None \<and> acquire 3 (token_bucket ex_policy 0) ex_clock \<noteq> None"
proof -
  have p: "policy_error ex_policy = None" by (simp add: policy_error_def ex_policy_def)
  have c: "clock_ok ex_clock" "hc_now ex_clock = 0" by (simp_all add: clock_ok_def ex_clock_def)
  note b = token_bucket_ok [OF p, of 0]
  have r: "refilled_by (hc_now ex_clock) (token_bucket ex_policy 0)" using b(2) c(2) by simp
  show ?thesis
    using acquire_returns_iff_fits [OF b(1) r c(1), of 4] acquire_returns_iff_fits [OF b(1) r c(1), of 3]
    by (simp add: fits_def token_bucket_def ex_policy_def)
qed

section \<open>The rate bound\<close>

definition idle :: "rat \<Rightarrow> http_clock \<Rightarrow> http_clock" where
  "idle d c = c\<lparr>hc_now := hc_now c + max 0 d\<rparr>"

text \<open>One token per call, with idle time before each call.\<close>

fun acquire_all :: "rat list \<Rightarrow> TokenBucket \<times> http_clock \<Rightarrow> (TokenBucket \<times> http_clock) option" where
  "acquire_all [] s = Some s"
| "acquire_all (d # ds) s =
     (case acquire_loop 1 (fst s) (idle d (snd s)) of
        None \<Rightarrow> None
      | Some s' \<Rightarrow> acquire_all ds s')"

lemma acquire_all_bound:
  assumes "bucket_ok b" "refilled_by (hc_now c) b" "clock_ok c"
  shows "\<exists>b' c'. acquire_all ds (b, c) = Some (b', c') \<and> hc_now c \<le> hc_now c' \<and> bucket_ok b' \<and>
    refilled_by (hc_now c') b' \<and> same_limits b b' \<and> clock_ok c' \<and> (ds \<noteq> [] \<longrightarrow> spent 1 (hc_now c') b') \<and>
    sec_credit (hc_now c') b' \<le> sec_credit (hc_now c') b - of_nat (length ds) \<and>
    (tb_min_rate b \<noteq> None \<longrightarrow> min_credit (hc_now c') b' \<le> min_credit (hc_now c') b - of_nat (length ds))"
  using assms
proof (induction ds arbitrary: b c)
  case Nil
  then show ?case by (simp add: same_limits_def)
next
  case (Cons d ds)
  let ?c = "idle d c"
  have c: "hc_now c \<le> hc_now ?c" "clock_ok ?c" using Cons.prems by (simp_all add: idle_def clock_ok_def)
  have "refilled_by (hc_now ?c) b" using Cons.prems(2) c(1) by (meson order_trans refilled_by_def)
  moreover have "fits 1 b" using Cons.prems(1) by (auto simp: fits_def bucket_ok_def lane_ok_def)
  ultimately obtain b1 c1 where step: "acquire_loop 1 b ?c = Some (b1, c1)" "acquired 1 (b, ?c) (b1, c1)"
    using acquire_returns [OF Cons.prems(1) _ _ _ c(2), of 1] by auto
  then have a: "bucket_ok b1" "refilled_by (hc_now c1) b1" "same_limits b b1" "clock_ok c1" "hc_now ?c \<le> hc_now c1"
    "sec_credit (hc_now c1) b1 \<le> sec_credit (hc_now c1) b - 1"
    "tb_min_rate b \<noteq> None \<longrightarrow> min_credit (hc_now c1) b1 \<le> min_credit (hc_now c1) b - 1" "spent 1 (hc_now c1) b1"
    by (auto simp: acquired_def)
  from Cons.IH [OF a(1,2,4)] obtain b' c' where r: "acquire_all ds (b1, c1) = Some (b', c')"
    "hc_now c1 \<le> hc_now c'" "bucket_ok b'" "refilled_by (hc_now c') b'" "same_limits b1 b'"
    "sec_credit (hc_now c') b' \<le> sec_credit (hc_now c') b1 - of_nat (length ds)"
    "tb_min_rate b1 \<noteq> None \<longrightarrow> min_credit (hc_now c') b' \<le> min_credit (hc_now c') b1 - of_nat (length ds)"
    "clock_ok c'" "ds \<noteq> [] \<longrightarrow> spent 1 (hc_now c') b'"
    by blast
  have "sec_credit (hc_now c') b1 - sec_credit (hc_now c1) b1 = (hc_now c' - hc_now c1) * tb_sec_rate b1"
    "sec_credit (hc_now c') b - sec_credit (hc_now c1) b = (hc_now c' - hc_now c1) * tb_sec_rate b"
    by (simp_all add: sec_credit_def algebra_simps)
  then have sec: "sec_credit (hc_now c') b' \<le> sec_credit (hc_now c') b - of_nat (length (d # ds))"
    using r(6) a(3,6) by (simp add: same_limits_def)
  have minute: "min_credit (hc_now c') b' \<le> min_credit (hc_now c') b - of_nat (length (d # ds))"
    if m: "tb_min_rate b = Some rm" for rm
  proof -
    have m1: "tb_min_rate b1 = Some rm" using m a(3) by (simp add: same_limits_def)
    have "min_credit (hc_now c') b1 - min_credit (hc_now c1) b1 = (hc_now c' - hc_now c1) * rm"
      "min_credit (hc_now c') b - min_credit (hc_now c1) b = (hc_now c' - hc_now c1) * rm"
      using m m1 by (simp_all add: min_credit_def algebra_simps)
    then show ?thesis using r(7) a(7) m m1 by simp
  qed
  have "acquire_all (d # ds) (b, c) = Some (b', c')" using step(1) r(1) by simp
  moreover have "same_limits b b'" using a(3) r(5) by (simp add: same_limits_def)
  moreover have "hc_now c \<le> hc_now c'" using c(1) a(5) r(2) by simp
  moreover have "spent 1 (hc_now c') b'" using r(1,9) a(8) by (cases "ds = []") simp_all
  ultimately show ?case using r(3,4,8) sec minute by blast
qed

lemma acquire_all_append: "acquire_all (ds @ es) s = Option.bind (acquire_all ds s) (acquire_all es)"
  by (induction ds arbitrary: s) (auto split: option.splits)

text \<open>What the credits say when the calls begin right after another one.\<close>

lemma calls_after_call:
  assumes "bucket_ok b" "refilled_by (hc_now c) b" "clock_ok c" "spent 1 (hc_now c) b"
  shows "\<exists>b' c'. acquire_all ds (b, c) = Some (b', c') \<and>
    1 + of_nat (length ds) \<le> of_int (tb_sec_capacity b) + tb_sec_rate b * (hc_now c' - hc_now c) \<and>
    (\<forall>r. tb_min_rate b = Some r \<longrightarrow>
       1 + of_nat (length ds) \<le> of_int (tb_min_capacity b) + r * (hc_now c' - hc_now c))"
proof -
  obtain b' c' where run: "acquire_all ds (b, c) = Some (b', c')" "bucket_ok b'" "refilled_by (hc_now c') b'" "same_limits b b'"
    "sec_credit (hc_now c') b' \<le> sec_credit (hc_now c') b - of_nat (length ds)"
    "tb_min_rate b \<noteq> None \<longrightarrow> min_credit (hc_now c') b' \<le> min_credit (hc_now c') b - of_nat (length ds)"
    using acquire_all_bound [OF assms(1-3)] by blast
  have "0 \<le> sec_credit (hc_now c') b'"
    using run(2,3) by (simp add: sec_credit_def bucket_ok_def lane_ok_def refilled_by_def)
  moreover have "sec_credit (hc_now c') b \<le> of_int (tb_sec_capacity b) - 1 + (hc_now c' - hc_now c) * tb_sec_rate b"
    using assms(4) by (simp add: sec_credit_def spent_def)
  ultimately have "1 + of_nat (length ds) \<le> of_int (tb_sec_capacity b) + tb_sec_rate b * (hc_now c' - hc_now c)"
    using run(5) by (simp add: mult.commute)
  moreover have "1 + of_nat (length ds) \<le> of_int (tb_min_capacity b) + r * (hc_now c' - hc_now c)"
    if r: "tb_min_rate b = Some r" for r
  proof -
    have r': "tb_min_rate b' = Some r" using r run(4) by (simp add: same_limits_def)
    then have "0 \<le> min_credit (hc_now c') b'"
      using run(2,3) by (simp add: min_credit_def bucket_ok_def lane_ok_def refilled_by_def)
    moreover have "min_credit (hc_now c') b \<le> of_int (tb_min_capacity b) - 1 + (hc_now c' - hc_now c) * r"
      using assms(4) r by (simp add: min_credit_def spent_def)
    ultimately show ?thesis using run(6) r by (simp add: mult.commute)
  qed
  ultimately show ?thesis using run(1) by blast
qed

text \<open>C14: Whatever the pauses between the calls, the bucket of an accepted policy lets every call through
  eventually.  Of these calls, take any that follow each other, at any point of the run: their number, the
  first and the last included, does not exceed the burst capacity plus the rate times the time from the
  first being let through to the last, per second and, where set, per minute.\<close>

theorem request_rate_bounded:
  assumes "policy_error p = None" and "clock_ok c"
  shows "\<exists>b1 c1 b2 c2. acquire_all (before @ [d]) (token_bucket p (hc_now c), c) = Some (b1, c1) \<and>
    acquire_all during (b1, c1) = Some (b2, c2) \<and>
    acquire_all (before @ d # during) (token_bucket p (hc_now c), c) = Some (b2, c2) \<and>
    of_nat (length (d # during)) \<le> of_int (rp_burst_capacity p) + rp_requests_per_second p * (hc_now c2 - hc_now c1) \<and>
    (\<forall>r. rp_requests_per_minute p = Some r \<longrightarrow>
       of_nat (length (d # during)) \<le>
         of_int (case rp_burst_per_minute p of Some n \<Rightarrow> n | None \<Rightarrow> max 1 \<lfloor>r\<rfloor>) + r / 60 * (hc_now c2 - hc_now c1))"
proof -
  let ?b = "token_bucket p (hc_now c)"
  obtain b1 c1 where first: "acquire_all (before @ [d]) (?b, c) = Some (b1, c1)" "bucket_ok b1" "refilled_by (hc_now c1) b1"
    "same_limits ?b b1" "clock_ok c1" "spent 1 (hc_now c1) b1"
    using acquire_all_bound [OF token_bucket_ok [OF assms(1)] assms(2), of "before @ [d]"] by auto
  from calls_after_call [OF first(2,3,5,6), of during] obtain b2 c2 where rest:
    "acquire_all during (b1, c1) = Some (b2, c2)"
    "1 + of_nat (length during) \<le> of_int (tb_sec_capacity b1) + tb_sec_rate b1 * (hc_now c2 - hc_now c1)"
    "\<forall>r. tb_min_rate b1 = Some r \<longrightarrow>
       1 + of_nat (length during) \<le> of_int (tb_min_capacity b1) + r * (hc_now c2 - hc_now c1)" by blast
  have "acquire_all (before @ d # during) (?b, c) = Some (b2, c2)"
    using first(1) rest(1) acquire_all_append [of "before @ [d]" during] by simp
  moreover have "tb_sec_capacity b1 = rp_burst_capacity p" "tb_sec_rate b1 = rp_requests_per_second p"
    "\<And>r. rp_requests_per_minute p = Some r \<Longrightarrow> tb_min_rate b1 = Some (r / 60) \<and>
       tb_min_capacity b1 = (case rp_burst_per_minute p of Some n \<Rightarrow> n | None \<Rightarrow> max 1 \<lfloor>r\<rfloor>)"
    using first(4) by (simp_all add: same_limits_def token_bucket_def Let_def)
  ultimately show ?thesis using first(1) rest by fastforce
qed

lemma request_rate_bounded_witness:
  "\<exists>b1 c1 b2 c2. acquire_all [0, 5] (token_bucket ex_policy 0, ex_clock) = Some (b1, c1) \<and>
     acquire_all [0, 0, 0] (b1, c1) = Some (b2, c2) \<and> 4 \<le> 3 + 2 * (hc_now c2 - hc_now c1)"
proof -
  have "policy_error ex_policy = None" "clock_ok ex_clock"
    by (simp_all add: policy_error_def ex_policy_def clock_ok_def ex_clock_def)
  from request_rate_bounded [OF this, of "[0]" 5 "[0, 0, 0]"] show ?thesis
    by (auto simp: ex_clock_def ex_policy_def)
qed

section \<open>Requests\<close>

definition client_ok :: "HttpClient \<Rightarrow> bool" where
  "client_ok c \<longleftrightarrow> clock_ok (cl_clock c) \<and>
     (\<forall>h b. dict_get (cl_rate_limits c) h = Some b \<longrightarrow> bucket_ok b \<and> refilled_by (hc_now (cl_clock c)) b)"

definition same_config :: "HttpClient \<Rightarrow> HttpClient \<Rightarrow> bool" where
  "same_config c c' \<longleftrightarrow> cl_max_retries c' = cl_max_retries c \<and> cl_retry_status_codes c' = cl_retry_status_codes c"

lemma acquire_for_ok:
  assumes "client_ok c"
  shows "\<exists>c'. acquire_for h c = Some c' \<and> client_ok c' \<and> cl_sent c' = cl_sent c \<and> same_config c c'"
proof (cases "dict_get (cl_rate_limits c) h")
  case None
  then show ?thesis using assms by (simp add: acquire_for_def same_config_def)
next
  case (Some b)
  have b: "bucket_ok b" "refilled_by (hc_now (cl_clock c)) b" "clock_ok (cl_clock c)" "fits 1 b"
    using assms Some by (auto simp: client_ok_def bucket_ok_def lane_ok_def fits_def)
  then obtain b' k where r: "acquire_loop 1 b (cl_clock c) = Some (b', k)" "acquired 1 (b, cl_clock c) (b', k)"
    using acquire_returns [of b "cl_clock c" 1] by auto
  then have "clock_ok k" "bucket_ok b'" "refilled_by (hc_now k) b'" "hc_now (cl_clock c) \<le> hc_now k"
    by (simp_all add: acquired_def)
  then have "client_ok (c\<lparr>cl_rate_limits := dict_set h b' (cl_rate_limits c), cl_clock := k\<rparr>)"
    using assms by (auto simp: client_ok_def dict_simps refilled_by_def) (meson order_trans)+
  then show ?thesis using Some r(1) by (simp add: acquire_for_def same_config_def)
qed

lemma client_sleep_ok: "client_ok c \<Longrightarrow> client_ok (client_sleep d c)"
  using sleep_sel(1,3) [of "cl_clock c" d]
  by (auto simp: client_ok_def client_sleep_def refilled_by_def) (meson order_trans)+

definition attempts_made ::
  "HttpClient \<Rightarrow> string \<Rightarrow> string \<Rightarrow> nat \<Rightarrow> nat \<Rightarrow> http_error + http_response \<Rightarrow> HttpClient \<Rightarrow> bool" where
  "attempts_made c meth url left k res c' \<longleftrightarrow>
     k \<le> left \<and> cl_sent c' = cl_sent c @ replicate k (meth, url) \<and> client_ok c' \<and>
     (\<forall>r. res = Inr r \<longrightarrow> hr_status r \<notin> set (cl_retry_status_codes c)) \<and>
     (\<forall>m u n r e. res = Inl (MaxRetriesExceeded m u n r e) \<longrightarrow> k = left \<and> n = cl_max_retries c + 1)"

lemma attempts_made_Suc:
  assumes "attempts_made c2 meth url left k res c'" and "cl_sent c2 = cl_sent c @ [(meth, url)]"
    and "cl_max_retries c2 = cl_max_retries c" "cl_retry_status_codes c2 = cl_retry_status_codes c"
  shows "attempts_made c meth url (Suc left) (Suc k) res c'"
  using assms by (auto simp: attempts_made_def)

lemma request_loop_result:
  assumes "client_ok c" "int attempt + int left = cl_max_retries c + 1"
  shows "\<exists>res c' k. request_loop env meth url lr le attempt left c = Some (res, c') \<and>
    attempts_made c meth url left k res c'"
  using assms
proof (induction left arbitrary: attempt lr le c)
  case 0
  then show ?case by (simp add: attempts_made_def)
next
  case (Suc left)
  obtain c1 where c1: "acquire_for (env_host env url) c = Some c1" "client_ok c1" "cl_sent c1 = cl_sent c"
    "same_config c c1" using acquire_for_ok [OF Suc.prems(1)] by blast
  define c2 where "c2 = c1\<lparr>cl_sent := cl_sent c1 @ [(meth, url)]\<rparr>"
  have c2: "client_ok c2" "cl_sent c2 = cl_sent c @ [(meth, url)]" "cl_max_retries c2 = cl_max_retries c"
    "cl_retry_status_codes c2 = cl_retry_status_codes c"
    using c1 by (simp_all add: c2_def client_ok_def same_config_def)
  note start = request_loop.simps(2) [of env meth url lr le attempt left c, unfolded c1(1) option.case Let_def, folded c2_def]
  have once: "attempts_made c meth url (Suc n) (Suc 0) res c2"
    if "left = n" "\<And>r. res = Inr r \<Longrightarrow> hr_status r \<notin> set (cl_retry_status_codes c)"
      "\<And>m u n r e. res = Inl (MaxRetriesExceeded m u n r e) \<Longrightarrow> left = 0 \<and> n = cl_max_retries c + 1" for res n
    using c2 that by (auto simp: attempts_made_def)
  have again: "\<exists>res c' k. request_loop env meth url lr' le' (attempt + 1) left (client_sleep d c2) = Some (res, c') \<and>
      attempts_made c meth url (Suc left) k res c'" for lr' le' d
  proof -
    have "int (attempt + 1) + int left = cl_max_retries (client_sleep d c2) + 1"
      using Suc.prems(2) c2(3) by (simp add: client_sleep_def)
    from Suc.IH [OF client_sleep_ok [OF c2(1)] this, of lr' le'] obtain res c' k where
      "request_loop env meth url lr' le' (attempt + 1) left (client_sleep d c2) = Some (res, c')"
      "attempts_made (client_sleep d c2) meth url left k res c'" by blast
    moreover from this(2) have "attempts_made c meth url (Suc left) (Suc k) res c'"
      by (rule attempts_made_Suc) (simp_all add: client_sleep_def c2)
    ultimately show ?thesis by blast
  qed
  have last: "cl_max_retries c2 \<le> int attempt \<longleftrightarrow> left = 0" using Suc.prems(2) c2(3) by linarith
  then have tries: "left = 0 \<Longrightarrow> int attempt + 1 = cl_max_retries c + 1" using Suc.prems(2) by simp
  show ?case
    unfolding start last
    by (cases "env_answer env (length (cl_sent c1))")
      (auto simp: again [simplified] c2(4) tries intro!: exI [of _ c2] exI [of _ "Suc 0"] once)
qed


definition ex_client :: HttpClient where
  "ex_client = \<lparr>cl_max_retries = 3, cl_base_backoff = 1 / 2, cl_max_backoff = 60,
     cl_retry_status_codes = DEFAULT_RETRY_STATUSES, cl_allowlist = Some (Hosts [''api.test'']),
     cl_rate_limits = [(''api.test'', token_bucket ex_policy 0)], cl_clock = ex_clock, cl_sent = []\<rparr>"

definition ex_env :: http_env where
  "ex_env = \<lparr>env_host = (\<lambda>_. ''api.test''), env_answer = (\<lambda>_. Response \<lparr>hr_status = 503, hr_retry_after = None\<rparr>),
     env_draw = (\<lambda>_. 1), env_parse_float = (\<lambda>_. None), env_parse_date = (\<lambda>_. None), env_utc_now = (\<lambda>_. 0)\<rparr>"


end
