(* ===== verification/Calendar.thy ===== *)
theory Calendar
  imports Ota_Errors
begin

text \<open>
  The proleptic Gregorian calendar of Python's \<open>datetime\<close>: the conversion of an ordinal to year, month
  and day is the one of the standard library.  A time is a number of microseconds since
  1970-01-01T00:00 on the clock the value carries (UTC for every clock in the program).
\<close>

type_synonym wall_time = int

definition MINUTE :: int where
  "MINUTE = 60000000"

definition DAY :: int where
  "DAY = 86400000000"

text \<open>Ordinal of 1970-01-01, where 1 January of year 1 is day 1.\<close>

definition EPOCH_ORDINAL :: int where
  "EPOCH_ORDINAL = 719163"

definition DAYS_BEFORE_MONTH :: "int list" where
  "DAYS_BEFORE_MONTH = [-1, 0, 31, 59, 90, 120, 151, 181, 212, 243, 273, 304, 334]"

definition DAYS_IN_MONTH :: "int list" where
  "DAYS_IN_MONTH = [-1, 31, 28, 31, 30, 31, 30, 31, 31, 30, 31, 30, 31]"

definition days_in_month :: "bool \<Rightarrow> int \<Rightarrow> int" where
  "days_in_month leap m = DAYS_IN_MONTH ! nat m + (if m = 2 \<and> leap then 1 else 0)"

definition days_before_month :: "bool \<Rightarrow> int \<Rightarrow> int" where
  "days_before_month leap m = DAYS_BEFORE_MONTH ! nat m + (if 2 < m \<and> leap then 1 else 0)"

text \<open>Month and day from the day of the year, counted from 0.\<close>

definition month_day :: "bool \<Rightarrow> int \<Rightarrow> int \<times> int" where
  "month_day leap n =
     (let m = (n + 50) div 32; p = days_before_month leap m
      in if n < p then (m - 1, n - (p - days_in_month leap (m - 1)) + 1) else (m, n - p + 1))"

definition ord2ymd :: "int \<Rightarrow> int \<times> int \<times> int" where
  "ord2ymd n0 =
     (let n = n0 - 1;
          n400 = n div 146097; a = n mod 146097;
          n100 = a div 36524; b = a mod 36524;
          n4 = b div 1461; c = b mod 1461;
          n1 = c div 365; d = c mod 365;
          year = n400 * 400 + 1 + n100 * 100 + n4 * 4 + n1
      in if n1 = 4 \<or> n100 = 4 then (year - 1, 12, 31)
         else (year, month_day (n1 = 3 \<and> (n4 \<noteq> 24 \<or> n100 = 3)) d))"

record civil =
  cv_year :: int
  cv_month :: int
  cv_day :: int
  cv_hour :: int
  cv_minute :: int
  cv_second :: int
  cv_micro :: int
  cv_weekday :: int

definition civil_of :: "wall_time \<Rightarrow> civil" where
  "civil_of t =
     (let ordinal = t div DAY + EPOCH_ORDINAL; ymd = ord2ymd ordinal; r = t mod DAY
      in \<lparr>cv_year = fst ymd, cv_month = fst (snd ymd), cv_day = snd (snd ymd),
          cv_hour = r div 3600000000, cv_minute = r div 60000000 mod 60,
          cv_second = r div 1000000 mod 60, cv_micro = r mod 1000000,
          cv_weekday = (ordinal + 6) mod 7\<rparr>)"

lemma nth_months:
  "DAYS_IN_MONTH ! Suc 0 = 31" "DAYS_BEFORE_MONTH ! Suc 0 = 0" "DAYS_IN_MONTH ! 2 = 28" "DAYS_IN_MONTH ! 3 = 31" "DAYS_IN_MONTH ! 4 = 30"
  "DAYS_IN_MONTH ! 5 = 31" "DAYS_IN_MONTH ! 6 = 30" "DAYS_IN_MONTH ! 7 = 31" "DAYS_IN_MONTH ! 8 = 31"
  "DAYS_IN_MONTH ! 9 = 30" "DAYS_IN_MONTH ! 10 = 31" "DAYS_IN_MONTH ! 11 = 30" "DAYS_IN_MONTH ! 12 = 31"
  "DAYS_BEFORE_MONTH ! 2 = 31" "DAYS_BEFORE_MONTH ! 3 = 59"
  "DAYS_BEFORE_MONTH ! 4 = 90" "DAYS_BEFORE_MONTH ! 5 = 120" "DAYS_BEFORE_MONTH ! 6 = 151"
  "DAYS_BEFORE_MONTH ! 7 = 181" "DAYS_BEFORE_MONTH ! 8 = 212" "DAYS_BEFORE_MONTH ! 9 = 243"
  "DAYS_BEFORE_MONTH ! 10 = 273" "DAYS_BEFORE_MONTH ! 11 = 304" "DAYS_BEFORE_MONTH ! 12 = 334"
  by (simp_all add: DAYS_IN_MONTH_def DAYS_BEFORE_MONTH_def)

text \<open>\<open>fst\<close> and \<open>snd\<close> of the month and day stay in range; the estimate of the month is off by at most
  one.\<close>

definition valid_md :: "bool \<Rightarrow> int \<times> int \<Rightarrow> bool" where
  "valid_md leap md \<longleftrightarrow> 1 \<le> fst md \<and> fst md \<le> 12 \<and> 1 \<le> snd md \<and> snd md \<le> days_in_month leap (fst md)"

lemma month_day_valid:
  assumes "0 \<le> n" "n < 365"
  shows "valid_md leap (month_day leap n)"
proof -
  define m where "m = (n + 50) div 32"
  have b: "32 * m \<le> n + 50" "n + 50 < 32 * m + 32" unfolding m_def by presburger+
  then have "1 \<le> m" "m \<le> 12" using assms by linarith+
  then have "m = 1 \<or> m = 2 \<or> m = 3 \<or> m = 4 \<or> m = 5 \<or> m = 6 \<or> m = 7 \<or> m = 8 \<or> m = 9 \<or> m = 10 \<or> m = 11 \<or> m = 12"
    by presburger
  then show ?thesis
    unfolding valid_md_def month_day_def m_def [symmetric] Let_def days_before_month_def days_in_month_def
    using b assms by (elim disjE; cases leap; simp add: nth_months)
qed

text \<open>A date has a month from 1 to 12 and a day the month has.\<close>

lemma ord2ymd_valid: "\<exists>leap. valid_md leap (snd (ord2ymd n))"
proof -
  define c where "c = (n - 1) mod 146097 mod 36524 mod 1461"
  define leap where "leap = (c div 365 = 3 \<and> ((n - 1) mod 146097 mod 36524 div 1461 \<noteq> 24 \<or> (n - 1) mod 146097 div 36524 = 3))"
  have d: "0 \<le> c mod 365" "c mod 365 < 365" by simp_all
  have "valid_md False (12, 31)" by (simp add: valid_md_def days_in_month_def nth_months)
  moreover have "snd (ord2ymd n) = (12, 31) \<or> snd (ord2ymd n) = month_day leap (c mod 365)"
    by (simp add: ord2ymd_def Let_def c_def leap_def)
  ultimately show ?thesis using month_day_valid [OF d, of leap] by metis
qed

lemma civil_ranges:
  "1 \<le> cv_month (civil_of t)" "cv_month (civil_of t) \<le> 12" "1 \<le> cv_day (civil_of t)"
  "cv_day (civil_of t) \<le> 31"
proof -
  obtain leap where v: "valid_md leap (snd (ord2ymd (t div DAY + EPOCH_ORDINAL)))"
    using ord2ymd_valid by blast
  define m where "m = fst (snd (ord2ymd (t div DAY + EPOCH_ORDINAL)))"
  from v have m: "1 \<le> m" "m \<le> 12" by (simp_all add: valid_md_def m_def)
  then have "m = 1 \<or> m = 2 \<or> m = 3 \<or> m = 4 \<or> m = 5 \<or> m = 6 \<or> m = 7 \<or> m = 8 \<or> m = 9 \<or> m = 10 \<or> m = 11 \<or> m = 12"
    by presburger
  then have "days_in_month leap m \<le> 31"
    by (elim disjE) (simp_all add: days_in_month_def nth_months)
  then show "1 \<le> cv_month (civil_of t)" "cv_month (civil_of t) \<le> 12" "1 \<le> cv_day (civil_of t)"
    "cv_day (civil_of t) \<le> 31"
    using v m by (simp_all add: civil_of_def Let_def valid_md_def m_def)
qed

lemma civil_day_valid:
  "1 \<le> cv_day (civil_of t)" "cv_month (civil_of t) = 2 \<Longrightarrow> cv_day (civil_of t) \<le> 29"
proof -
  obtain leap where v: "valid_md leap (snd (ord2ymd (t div DAY + EPOCH_ORDINAL)))"
    using ord2ymd_valid by blast
  then show "1 \<le> cv_day (civil_of t)" by (simp add: civil_of_def Let_def valid_md_def)
  assume "cv_month (civil_of t) = 2"
  then show "cv_day (civil_of t) \<le> 29"
    using v by (simp add: civil_of_def Let_def valid_md_def days_in_month_def nth_months split: if_splits)
qed

end
