(* ===== verification/Cron.thy ===== *)
theory Cron
  imports Calendar
begin

text \<open>
  Cron expressions: \<open>ota_core/automation/cron.py\<close>.  A \<open>CronParseError\<close> is a \<open>ValueError\<close>, so the
  \<open>except ValueError\<close> around \<open>int()\<close> is the \<open>None\<close> case of \<open>py_int\<close>.  The sweep of \<open>next_after\<close>
  is a recursion on the number of minutes still to look at.
\<close>

section \<open>\<open>int()\<close> of a text\<close>

definition is_dec_digit :: "char \<Rightarrow> bool" where
  "is_dec_digit c \<longleftrightarrow> CHR ''0'' \<le> c \<and> c \<le> CHR ''9''"

text \<open>Digits with single underscores between them.\<close>

fun digits_ok :: "string \<Rightarrow> bool" where
  "digits_ok [] = False"
| "digits_ok [c] = is_dec_digit c"
| "digits_ok (c # d # cs) = (is_dec_digit c \<and> (if d = CHR ''_'' then digits_ok cs else digits_ok (d # cs)))"

definition py_int :: "string \<Rightarrow> int option" where
  "py_int s =
     (let t = strip s;
          neg = (case t of c # _ \<Rightarrow> c = CHR ''-'' | [] \<Rightarrow> False);
          body = (case t of c # cs \<Rightarrow> if c = CHR ''-'' \<or> c = CHR ''+'' then cs else t | [] \<Rightarrow> []);
          n = int (nat_of_digits (filter is_dec_digit body))
      in if digits_ok body then Some (if neg then - n else n) else None)"

section \<open>Fields\<close>

definition CronParseError :: "string \<Rightarrow> exn" where
  "CronParseError msg = PyError ''CronParseError'' msg"

definition FIELD_RANGES :: "(int \<times> int) list" where
  "FIELD_RANGES = [(0, 59), (0, 23), (1, 31), (1, 12), (0, 6)]"

text \<open>The base and the step of one comma-separated part.\<close>

definition part_step :: "string \<Rightarrow> exn + string \<times> int" where
  "part_step part =
     (if CHR ''/'' \<in> set part then
        (let step_s = part_after (CHR ''/'') part
         in case py_int step_s of
              None \<Rightarrow> Inl (CronParseError (''invalid step: '' @ repr_str step_s))
            | Some step \<Rightarrow>
                if step \<le> 0 then Inl (CronParseError (''step must be > 0: '' @ int_str step))
                else Inr (part_before (CHR ''/'') part, step))
      else Inr (part, 1))"

text \<open>The values a base names, as first and last value.\<close>

definition base_range :: "string \<Rightarrow> int \<Rightarrow> int \<Rightarrow> exn + int \<times> int" where
  "base_range base lo_val hi_val =
     (if base = ''*'' then Inr (lo_val, hi_val)
      else if CHR ''-'' \<in> set base then
        (case (py_int (part_before (CHR ''-'') base), py_int (part_after (CHR ''-'') base)) of
           (Some lo, Some hi) \<Rightarrow>
             if lo > hi then Inl (CronParseError (''range start > end: '' @ repr_str base)) else Inr (lo, hi)
         | _ \<Rightarrow> Inl (CronParseError (''invalid range: '' @ repr_str base)))
      else (case py_int base of
              None \<Rightarrow> Inl (CronParseError (''invalid value: '' @ repr_str base))
            | Some v \<Rightarrow> Inr (v, v)))"

definition outside_error :: "int \<Rightarrow> int \<Rightarrow> int \<Rightarrow> exn" where
  "outside_error v lo_val hi_val =
     CronParseError (''value '' @ int_str v @ '' outside ['' @ int_str lo_val @ '','' @ int_str hi_val @ '']'')"

fun step_values :: "int \<Rightarrow> int \<Rightarrow> int \<Rightarrow> int \<Rightarrow> int list \<Rightarrow> exn + int list" where
  "step_values start step lo_val hi_val [] = Inr []"
| "step_values start step lo_val hi_val (v # vs) =
     (if v < lo_val \<or> v > hi_val then Inl (outside_error v lo_val hi_val)
      else (case step_values start step lo_val hi_val vs of
              Inl e \<Rightarrow> Inl e
            | Inr out \<Rightarrow> Inr (if (v - start) mod step = 0 then v # out else out)))"

definition parse_part :: "string \<Rightarrow> int \<Rightarrow> int \<Rightarrow> exn + int list" where
  "parse_part part lo_val hi_val =
     (case part_step part of
        Inl e \<Rightarrow> Inl e
      | Inr (base, step) \<Rightarrow>
          (case base_range base lo_val hi_val of
             Inl e \<Rightarrow> Inl e
           | Inr (lo, hi) \<Rightarrow> step_values lo step lo_val hi_val [lo..hi]))"

fun parse_parts :: "string list \<Rightarrow> int \<Rightarrow> int \<Rightarrow> exn + int list" where
  "parse_parts [] lo_val hi_val = Inr []"
| "parse_parts (p # ps) lo_val hi_val =
     (case parse_part p lo_val hi_val of
        Inl e \<Rightarrow> Inl e
      | Inr vs \<Rightarrow> (case parse_parts ps lo_val hi_val of Inl e \<Rightarrow> Inl e | Inr ws \<Rightarrow> Inr (vs @ ws)))"

text \<open>A \<open>frozenset\<close> of values is given by a list of its elements.\<close>

definition parse_field :: "string \<Rightarrow> int \<Rightarrow> int \<Rightarrow> exn + int list" where
  "parse_field spec lo_val hi_val =
     (if spec = ''*'' then Inr [lo_val..hi_val]
      else (case parse_parts (split_on (CHR '','') spec) lo_val hi_val of
              Inl e \<Rightarrow> Inl e
            | Inr out \<Rightarrow> if out = [] then Inl (CronParseError (''empty field: '' @ repr_str spec)) else Inr out))"

section \<open>Expressions\<close>

record CronExpression =
  ce_minutes :: "int list"
  ce_hours :: "int list"
  ce_days :: "int list"
  ce_months :: "int list"
  ce_weekdays :: "int list"

fun parse_all :: "string list \<Rightarrow> (int \<times> int) list \<Rightarrow> exn + int list list" where
  "parse_all (p # ps) ((lo, hi) # rs) =
     (case parse_field p lo hi of
        Inl e \<Rightarrow> Inl e
      | Inr f \<Rightarrow> (case parse_all ps rs of Inl e \<Rightarrow> Inl e | Inr fs \<Rightarrow> Inr (f # fs)))"
| "parse_all _ _ = Inr []"

definition cron_parse :: "string \<Rightarrow> exn + CronExpression" where
  "cron_parse expr =
     (let parts = split_ws expr
      in if length parts \<noteq> 5
         then Inl (CronParseError (''cron expression must have 5 fields, got '' @
           int_str (int (length parts)) @ '': '' @ repr_str expr))
         else (case parse_all parts FIELD_RANGES of
                 Inl e \<Rightarrow> Inl e
               | Inr fs \<Rightarrow> Inr \<lparr>ce_minutes = fs ! 0, ce_hours = fs ! 1, ce_days = fs ! 2,
                                ce_months = fs ! 3, ce_weekdays = fs ! 4\<rparr>))"

definition cron_matches :: "CronExpression \<Rightarrow> wall_time \<Rightarrow> bool" where
  "cron_matches e t \<longleftrightarrow>
     (let c = civil_of t
      in cv_minute c \<in> set (ce_minutes e) \<and> cv_hour c \<in> set (ce_hours e) \<and> cv_day c \<in> set (ce_days e) \<and>
         cv_month c \<in> set (ce_months e) \<and> cv_weekday c \<in> set (ce_weekdays e))"

text \<open>\<open>(dt + 1 minute).replace(second=0, microsecond=0)\<close>.\<close>

definition next_minute :: "wall_time \<Rightarrow> wall_time" where
  "next_minute t = (t + MINUTE) div MINUTE * MINUTE"

definition SWEEP :: nat where
  "SWEEP = 4 * 366 * 24 * 60"

fun sweep :: "CronExpression \<Rightarrow> nat \<Rightarrow> wall_time \<Rightarrow> wall_time option" where
  "sweep e 0 t = None"
| "sweep e (Suc n) t = (if cron_matches e t then Some t else sweep e n (t + MINUTE))"

definition next_after :: "CronExpression \<Rightarrow> wall_time \<Rightarrow> exn + wall_time" where
  "next_after e dt =
     (case sweep e SWEEP (next_minute dt) of
        Some t \<Rightarrow> Inr t
      | None \<Rightarrow> Inl (CronParseError ''no upcoming time matches expression within 4 years''))"

section \<open>Lemmas\<close>

lemma sweep_Some:
  "sweep e n t = Some u \<longleftrightarrow> (\<exists>k < n. u = t + int k * MINUTE \<and> cron_matches e u \<and>
     (\<forall>j < k. \<not> cron_matches e (t + int j * MINUTE)))"
proof (induction n arbitrary: t)
  case 0
  then show ?case by simp
next
  case (Suc n)
  have "t + MINUTE + int k * MINUTE = t + int (Suc k) * MINUTE" for k by (simp add: algebra_simps)
  note IH = Suc.IH [of "t + MINUTE", unfolded this]
  show ?case
    unfolding Ex_less_Suc2 All_less_Suc2 sweep.simps by (cases "cron_matches e t") (auto simp: IH)
qed

lemma sweep_None: "sweep e n t = None \<longleftrightarrow> (\<forall>k < n. \<not> cron_matches e (t + int k * MINUTE))"
proof (induction n arbitrary: t)
  case (Suc n)
  have shift: "t + MINUTE + int k * MINUTE = t + int (Suc k) * MINUTE" for k by (simp add: algebra_simps)
  have "sweep e (Suc n) t = None \<longleftrightarrow>
      \<not> cron_matches e t \<and> (\<forall>k < n. \<not> cron_matches e (t + int (Suc k) * MINUTE))"
    using Suc.IH [of "t + MINUTE"] unfolding shift by simp
  then show ?case by (simp add: All_less_Suc2 del: of_nat_Suc)
qed simp

text \<open>Rounding up to the next multiple, for any positive unit.\<close>

lemma round_up:
  fixes m :: int
  assumes "0 < m"
  shows "t < (t + m) div m * m" "(t + m) div m * m \<le> t + m"
    and "t < x \<Longrightarrow> x mod m = 0 \<Longrightarrow> \<exists>k. x = (t + m) div m * m + int k * m"
proof -
  have e: "(t + m) div m * m = t + m - (t + m) mod m" by (rule minus_mod_eq_div_mult [symmetric])
  show up: "t < (t + m) div m * m" "(t + m) div m * m \<le> t + m"
    using e pos_mod_bound [OF assms, of "t + m"] pos_mod_sign [OF assms, of "t + m"] by linarith+
  assume x: "t < x" "x mod m = 0"
  then obtain q where q: "x = q * m" by (metis mod_0_imp_dvd dvd_def mult.commute)
  have "(t + m) div m * m < (q + 1) * m" using up(2) x(1) q by (simp add: algebra_simps)
  then have "(t + m) div m < q + 1" using assms by simp
  then have "x = (t + m) div m * m + int (nat (q - (t + m) div m)) * m"
    using q by (simp add: algebra_simps)
  then show "\<exists>k. x = (t + m) div m * m + int k * m" by blast
qed

lemma next_minute_bounds: "dt < next_minute dt" "next_minute dt \<le> dt + MINUTE" "next_minute dt mod MINUTE = 0"
  using round_up(1,2) [of MINUTE dt] by (simp_all add: next_minute_def MINUTE_def)

lemma aligned_between: "dt < x \<Longrightarrow> x mod MINUTE = 0 \<Longrightarrow> \<exists>k. x = next_minute dt + int k * MINUTE"
  using round_up(3) [of MINUTE dt x] by (simp add: next_minute_def MINUTE_def)

end
