(* ===== verification/Scheduler.thy ===== *)
theory Scheduler
  imports Cron Audit_Event
begin

text \<open>
  The automation scheduler: \<open>ota_core/automation/scheduler.py\<close>.

  The state has the two dictionaries, the heap of mutable \<open>EventHook\<close> objects, the rows of the two
  tables in insertion order, the number of clock readings taken and the callbacks called, oldest
  first.  The clock gives a time for each reading.  A callback is named by a number; what it does,
  to the scheduler too, is the parameter \<open>run\<close>, which returns the exception it raises, if any.
  The time columns hold UTC instants in place of their ISO texts, whose order is the same.
\<close>

section \<open>State\<close>

record CronJob =
  cj_job_id :: string
  cj_expression :: string
  cj_callback :: nat
  cj_payload :: payload

record EventHook =
  eh_hook_id :: string
  eh_event_type :: string
  eh_callback :: nat
  eh_debounce :: "int option"
  eh_last_fire_at :: "instant option"

record cron_row =
  cr_job_id :: string
  cr_expression :: string
  cr_next_fire_at :: instant
  cr_last_fire_at :: "instant option"
  cr_last_status :: "string option"
  cr_payload :: payload

record event_row =
  er_hook_id :: string
  er_event_type :: string
  er_debounce_ms :: int
  er_last_fire_at :: "instant option"

record scheduler =
  sc_cron :: "(string, CronJob) dict"
  sc_events :: "(string, nat) dict"
  sc_hooks :: "nat \<Rightarrow> EventHook"
  sc_cron_rows :: "cron_row list"
  sc_event_rows :: "event_row list"
  sc_reads :: nat
  sc_called :: "nat list"

record sched_env =
  se_clock :: "nat \<Rightarrow> instant"
  se_run :: "nat \<Rightarrow> scheduler \<Rightarrow> exn option \<times> scheduler"
  se_run_event :: "nat \<Rightarrow> payload \<Rightarrow> scheduler \<Rightarrow> exn option \<times> scheduler"

definition duplicate_job :: "string \<Rightarrow> exn" where
  "duplicate_job i = PyError ''DuplicateJobError'' (''job already registered: '' @ i)"

definition unknown_job :: "string \<Rightarrow> exn" where
  "unknown_job i = PyError ''UnknownJobError'' (''unknown job: '' @ i)"

definition read_clock :: "sched_env \<Rightarrow> scheduler \<Rightarrow> instant \<times> scheduler" where
  "read_clock env s = (se_clock env (sc_reads s), s\<lparr>sc_reads := sc_reads s + 1\<rparr>)"

section \<open>Registration\<close>

text \<open>\<open>INSERT OR REPLACE\<close> deletes the old row and appends the new one.\<close>

definition replace_row :: "('r \<Rightarrow> string) \<Rightarrow> 'r \<Rightarrow> 'r list \<Rightarrow> 'r list" where
  "replace_row key r rows = filter (\<lambda>x. key x \<noteq> key r) rows @ [r]"

definition new_cron_row :: "CronJob \<Rightarrow> instant \<Rightarrow> cron_row" where
  "new_cron_row job next_fire =
     \<lparr>cr_job_id = cj_job_id job, cr_expression = cj_expression job, cr_next_fire_at = next_fire,
      cr_last_fire_at = None, cr_last_status = None, cr_payload = cj_payload job\<rparr>"

definition register_cron :: "sched_env \<Rightarrow> CronJob \<Rightarrow> (scheduler, exn, unit) py" where
  "register_cron env job s =
     (if dict_has (sc_cron s) (cj_job_id job) then (Inl (duplicate_job (cj_job_id job)), s)
      else (case cron_parse (cj_expression job) of
              Inl e \<Rightarrow> (Inl e, s)
            | Inr expr \<Rightarrow>
                (let s1 = s\<lparr>sc_cron := dict_set (cj_job_id job) job (sc_cron s)\<rparr>
                 in case read_clock env s1 of (now, s2) \<Rightarrow>
                      (case next_after expr now of
                         Inl e \<Rightarrow> (Inl e, s2)
                       | Inr next_fire \<Rightarrow>
                           (Inr (), s2\<lparr>sc_cron_rows :=
                              replace_row cr_job_id (new_cron_row job next_fire) (sc_cron_rows s2)\<rparr>)))))"

definition deregister_cron :: "string \<Rightarrow> (scheduler, exn, unit) py" where
  "deregister_cron i s =
     (if \<not> dict_has (sc_cron s) i then (Inl (unknown_job i), s)
      else (Inr (), s\<lparr>sc_cron := dict_pop i (sc_cron s),
                     sc_cron_rows := filter (\<lambda>r. cr_job_id r \<noteq> i) (sc_cron_rows s)\<rparr>))"

text \<open>\<open>int(total_seconds() * 1000)\<close> truncates; an empty debounce counts as none.\<close>

definition debounce_ms :: "int option \<Rightarrow> int" where
  "debounce_ms d = (case d of None \<Rightarrow> 0 | Some us \<Rightarrow> sgn us * (\<bar>us\<bar> div 1000))"

definition register_event_hook :: "nat \<Rightarrow> (scheduler, exn, unit) py" where
  "register_event_hook ref s =
     (let hook = sc_hooks s ref
      in if dict_has (sc_events s) (eh_hook_id hook) then (Inl (duplicate_job (eh_hook_id hook)), s)
         else (Inr (), s\<lparr>sc_events := dict_set (eh_hook_id hook) ref (sc_events s),
                sc_event_rows := replace_row er_hook_id
                  \<lparr>er_hook_id = eh_hook_id hook, er_event_type = eh_event_type hook,
                   er_debounce_ms = debounce_ms (eh_debounce hook), er_last_fire_at = None\<rparr>
                  (sc_event_rows s)\<rparr>))"

definition deregister_event_hook :: "string \<Rightarrow> (scheduler, exn, unit) py" where
  "deregister_event_hook i s =
     (if \<not> dict_has (sc_events s) i then (Inl (unknown_job i), s)
      else (Inr (), s\<lparr>sc_events := dict_pop i (sc_events s),
                     sc_event_rows := filter (\<lambda>r. er_hook_id r \<noteq> i) (sc_event_rows s)\<rparr>))"

definition list_cron :: "scheduler \<Rightarrow> CronJob list" where
  "list_cron s = dict_values (sc_cron s)"

definition list_event_hooks :: "scheduler \<Rightarrow> EventHook list" where
  "list_event_hooks s = map (sc_hooks s) (dict_values (sc_events s))"

section \<open>Firing\<close>

definition call_job :: "sched_env \<Rightarrow> CronJob \<Rightarrow> scheduler \<Rightarrow> exn option \<times> scheduler" where
  "call_job env job s = se_run env (cj_callback job) (s\<lparr>sc_called := sc_called s @ [cj_callback job]\<rparr>)"

definition mark_fired :: "string \<Rightarrow> instant \<Rightarrow> string \<Rightarrow> instant \<Rightarrow> cron_row list \<Rightarrow> cron_row list" where
  "mark_fired i now status next_fire rows =
     update_where (\<lambda>r. cr_job_id r = i)
       (\<lambda>r. r\<lparr>cr_last_fire_at := Some now, cr_last_status := Some status, cr_next_fire_at := next_fire\<rparr>) rows"

definition fire_cron :: "sched_env \<Rightarrow> CronJob \<Rightarrow> (scheduler, exn, unit) py" where
  "fire_cron env job s =
     (case read_clock env s of (now, s1) \<Rightarrow>
      (case call_job env job s1 of (err, s2) \<Rightarrow>
        (case cron_parse (cj_expression job) of
           Inl e \<Rightarrow> (Inl e, s2)
         | Inr expr \<Rightarrow>
             (case read_clock env s2 of (later, s3) \<Rightarrow>
               (case next_after expr later of
                  Inl e \<Rightarrow> (Inl e, s3)
                | Inr next_fire \<Rightarrow>
                    (let s4 = s3\<lparr>sc_cron_rows := mark_fired (cj_job_id job) now
                           (if err = None then ''succeeded'' else ''failed'') next_fire (sc_cron_rows s3)\<rparr>
                     in case err of None \<Rightarrow> (Inr (), s4) | Some e \<Rightarrow> (Inl e, s4)))))))"

definition trigger :: "sched_env \<Rightarrow> string \<Rightarrow> (scheduler, exn, unit) py" where
  "trigger env i s =
     (case dict_get (sc_cron s) i of None \<Rightarrow> (Inl (unknown_job i), s) | Some job \<Rightarrow> fire_cron env job s)"

definition debounced :: "instant \<Rightarrow> EventHook \<Rightarrow> bool" where
  "debounced now hook \<longleftrightarrow>
     (case (eh_debounce hook, eh_last_fire_at hook) of
        (Some d, Some t) \<Rightarrow> now - t < d
      | _ \<Rightarrow> False)"

definition call_hook :: "sched_env \<Rightarrow> EventHook \<Rightarrow> payload \<Rightarrow> scheduler \<Rightarrow> exn option \<times> scheduler" where
  "call_hook env hook pl s =
     se_run_event env (eh_callback hook) pl (s\<lparr>sc_called := sc_called s @ [eh_callback hook]\<rparr>)"

definition mark_hook :: "nat \<Rightarrow> instant \<Rightarrow> scheduler \<Rightarrow> scheduler" where
  "mark_hook ref now s =
     (let hook = (sc_hooks s ref)\<lparr>eh_last_fire_at := Some now\<rparr>
      in s\<lparr>sc_hooks := (sc_hooks s)(ref := hook),
           sc_event_rows := update_where (\<lambda>r. er_hook_id r = eh_hook_id hook)
             (\<lambda>r. r\<lparr>er_last_fire_at := Some now\<rparr>) (sc_event_rows s)\<rparr>)"

fun fire_hooks ::
  "sched_env \<Rightarrow> instant \<Rightarrow> string \<Rightarrow> payload \<Rightarrow> nat list \<Rightarrow> nat \<Rightarrow> (scheduler, exn, nat) py" where
  "fire_hooks env now etype pl [] fired s = (Inr fired, s)"
| "fire_hooks env now etype pl (ref # refs) fired s =
     (let hook = sc_hooks s ref
      in if eh_event_type hook \<noteq> etype \<or> debounced now hook then fire_hooks env now etype pl refs fired s
         else (case call_hook env hook pl s of
                 (Some e, s1) \<Rightarrow> (Inl e, s1)
               | (None, s1) \<Rightarrow> fire_hooks env now etype pl refs (fired + 1) (mark_hook ref now s1)))"

definition fire_event :: "sched_env \<Rightarrow> string \<Rightarrow> payload \<Rightarrow> (scheduler, exn, nat) py" where
  "fire_event env etype pl s =
     (case read_clock env s of (now, s1) \<Rightarrow>
        fire_hooks env now etype pl (dict_values (sc_events s1)) 0 s1)"

section \<open>The loop\<close>

definition fetch_due_jobs :: "instant \<Rightarrow> scheduler \<Rightarrow> cron_row list" where
  "fetch_due_jobs now s = filter (\<lambda>r. cr_next_fire_at r \<le> now) (sc_cron_rows s)"

fun fire_rows :: "sched_env \<Rightarrow> cron_row list \<Rightarrow> (scheduler, exn, unit) py" where
  "fire_rows env [] s = (Inr (), s)"
| "fire_rows env (row # rows) s =
     (case dict_get (sc_cron s) (cr_job_id row) of
        None \<Rightarrow> fire_rows env rows s
      | Some job \<Rightarrow> try_bind (fire_cron env job) (\<lambda>_. fire_rows env rows) s)"

definition tick :: "sched_env \<Rightarrow> (scheduler, exn, unit) py" where
  "tick env s = (case read_clock env s of (now, s1) \<Rightarrow> fire_rows env (fetch_due_jobs now s1) s1)"

text \<open>\<open>_run_loop\<close> until it is stopped after \<open>n\<close> ticks; an exception ends the task.\<close>

fun run_loop :: "sched_env \<Rightarrow> nat \<Rightarrow> (scheduler, exn, unit) py" where
  "run_loop env 0 s = (Inr (), s)"
| "run_loop env (Suc n) s = try_bind (tick env) (\<lambda>_. run_loop env n) s"

end
