(* ===== verification/Scheduler_Properties.thy ===== *)
theory Scheduler_Properties
  imports Scheduler
begin

text \<open>
  The scheduler's guarantees: the next time of an expression is the earliest that matches, a tick calls
  every due job once and moves it past the tick, and what happens when a callback raises or an
  expression never matches.
\<close>

section \<open>The next matching minute\<close>

lemma minutes_ahead:
  "dt < next_minute dt + int k * MINUTE" "(next_minute dt + int k * MINUTE) mod MINUTE = 0"
  "next_minute dt + int k * MINUTE < next_minute dt + int n * MINUTE \<longleftrightarrow> k < n"
proof -
  have M: "0 < MINUTE" by (simp add: MINUTE_def)
  then show "dt < next_minute dt + int k * MINUTE" "(next_minute dt + int k * MINUTE) mod MINUTE = 0"
    using next_minute_bounds(1,3) [of dt] mult_nonneg_nonneg [of "int k" MINUTE] by (linarith, simp)
  show "next_minute dt + int k * MINUTE < next_minute dt + int n * MINUTE \<longleftrightarrow> k < n" using M by simp
qed

text \<open>A statement on the first \<open>n\<close> minutes of the sweep is one on the full minutes after the start.\<close>

lemma all_minutes:
  "(\<forall>k < n. P (next_minute dt + int k * MINUTE)) \<longleftrightarrow>
   (\<forall>x. dt < x \<and> x < next_minute dt + int n * MINUTE \<and> x mod MINUTE = 0 \<longrightarrow> P x)"
  (is "?L \<longleftrightarrow> ?R")
proof
  assume L: ?L
  have all: "P x" if x: "dt < x" "x < next_minute dt + int n * MINUTE" "x mod MINUTE = 0" for x
  proof -
    obtain k where k: "x = next_minute dt + int k * MINUTE" using aligned_between [OF x(1,3)] by blast
    then have "k < n" using x(2) minutes_ahead(3) [of dt k n] by simp
    then show ?thesis using L k by simp
  qed
  show ?R by (intro allI impI, elim conjE, rule all)
next
  assume R: ?R
  have "P (next_minute dt + int k * MINUTE)" if "k < n" for k
    by (rule R [rule_format]) (use minutes_ahead(1,2) [of dt k] iffD2 [OF minutes_ahead(3) that] in simp)
  then show ?L by simp
qed

lemma none_matches:
  "(\<forall>k < n. \<not> cron_matches e (next_minute dt + int k * MINUTE)) \<longleftrightarrow>
   (\<forall>x. dt < x \<and> x < next_minute dt + int n * MINUTE \<and> x mod MINUTE = 0 \<longrightarrow> \<not> cron_matches e x)"
  by (rule all_minutes)

lemma sweep_earliest:
  "sweep e n (next_minute dt) = Some u \<longleftrightarrow>
     dt < u \<and> u mod MINUTE = 0 \<and> cron_matches e u \<and> u < next_minute dt + int n * MINUTE \<and>
     (\<forall>x. dt < x \<and> x < u \<and> x mod MINUTE = 0 \<longrightarrow> \<not> cron_matches e x)"
  (is "_ \<longleftrightarrow> ?R")
proof
  assume "sweep e n (next_minute dt) = Some u"
  then obtain k where k: "k < n" "u = next_minute dt + int k * MINUTE" "cron_matches e u"
    "\<forall>j < k. \<not> cron_matches e (next_minute dt + int j * MINUTE)" by (auto simp: sweep_Some)
  show ?R
    using k(3) minutes_ahead(1,2) [of dt k] iffD2 [OF minutes_ahead(3) k(1)] k(4) [unfolded none_matches]
    unfolding k(2) by blast
next
  assume R: ?R
  then have u: "dt < u" "u mod MINUTE = 0" by simp_all
  from aligned_between [OF this] obtain k where k: "u = next_minute dt + int k * MINUTE" by (elim exE)
  have "\<forall>j < k. \<not> cron_matches e (next_minute dt + int j * MINUTE)" unfolding none_matches using R k by simp
  moreover have "k < n" using R minutes_ahead(3) [of dt k n] unfolding k by simp
  ultimately show "sweep e n (next_minute dt) = Some u" using R k unfolding sweep_Some by blast
qed

text \<open>C16: \<open>next_after\<close> returns the earliest full minute strictly after the given time that matches the
  expression, provided it lies within the sweep of 4 * 366 days; it raises exactly when no minute of
  that window matches.\<close>

theorem next_after_earliest:
  "(next_after e dt = Inr u \<longleftrightarrow>
      dt < u \<and> u mod MINUTE = 0 \<and> cron_matches e u \<and> u < next_minute dt + int SWEEP * MINUTE \<and>
      (\<forall>x. dt < x \<and> x < u \<and> x mod MINUTE = 0 \<longrightarrow> \<not> cron_matches e x))
   \<and> ((\<exists>err. next_after e dt = Inl err) \<longleftrightarrow>
      (\<forall>x. dt < x \<and> x < next_minute dt + int SWEEP * MINUTE \<and> x mod MINUTE = 0 \<longrightarrow> \<not> cron_matches e x))"
proof -
  have "next_after e dt = Inr u \<longleftrightarrow> sweep e SWEEP (next_minute dt) = Some u"
    "(\<exists>err. next_after e dt = Inl err) \<longleftrightarrow> sweep e SWEEP (next_minute dt) = None"
    by (simp_all add: next_after_def split: option.splits)
  then show ?thesis by (simp only: sweep_earliest sweep_None none_matches simp_thms)
qed

definition ex_every_hour :: CronExpression where
  "ex_every_hour = \<lparr>ce_minutes = [0], ce_hours = [0..23], ce_days = [1..31], ce_months = [1..12], ce_weekdays = [0..6]\<rparr>"

lemma next_after_earliest_witness:
  "cron_parse ''0 * * * *'' = Inr ex_every_hour \<and> (\<exists>u. next_after ex_every_hour 61000000 = Inr u \<and> u = 3600000000)"
proof -
  have "cron_parse ''0 * * * *'' = Inr ex_every_hour" by code_simp
  moreover have "cron_matches ex_every_hour 3600000000" by code_simp
  moreover have "\<not> cron_matches ex_every_hour x" if "61000000 < x" "x < 3600000000" for x
  proof -
    have "x mod 86400000000 = x" using that by simp
    moreover have "1 \<le> x div 60000000" "x div 60000000 < 60" using that by simp_all
    ultimately show ?thesis using that by (simp add: cron_matches_def civil_of_def ex_every_hour_def Let_def DAY_def)
  qed
  ultimately show ?thesis
    using next_after_earliest [of ex_every_hour 61000000 3600000000]
    by (simp add: MINUTE_def SWEEP_def next_minute_def)
qed

lemma next_after_later: "next_after e dt = Inr u \<Longrightarrow> dt < u"
proof -
  assume "next_after e dt = Inr u"
  then obtain k where "u = next_minute dt + int k * MINUTE"
    by (auto simp: next_after_def sweep_Some split: option.splits)
  then show "dt < u" using next_minute_bounds(1) [of dt] by (simp add: MINUTE_def)
qed

section \<open>Jobs that have a next time\<close>

text \<open>The expression parses and has a next time whenever the clock is read.\<close>

definition steady :: "sched_env \<Rightarrow> CronJob \<Rightarrow> bool" where
  "steady env job \<longleftrightarrow> (\<exists>e. cron_parse (cj_expression job) = Inr e \<and> (\<forall>n. \<exists>u. next_after e (se_clock env n) = Inr u))"

text \<open>Callbacks that leave the scheduler alone; \<open>out\<close> is what each raises.\<close>

definition quiet :: "sched_env \<Rightarrow> (nat \<Rightarrow> exn option) \<Rightarrow> bool" where
  "quiet env out \<longleftrightarrow> (\<forall>k s. se_run env k s = (out k, s))"

definition advanced :: "string list \<Rightarrow> instant \<Rightarrow> cron_row list \<Rightarrow> cron_row list \<Rightarrow> bool" where
  "advanced ids t rows rows' \<longleftrightarrow>
     list_all2 (\<lambda>r r'. cr_job_id r' = cr_job_id r \<and>
        (if cr_job_id r \<in> set ids then t < cr_next_fire_at r' else r' = r)) rows rows'"

lemma advanced_refl: "advanced [] t rows rows"
  by (simp add: advanced_def list_all2_refl)

lemma advanced_trans:
  assumes "advanced ids t r0 r1" "advanced ids' t r1 r2"
  shows "advanced (ids @ ids') t r0 r2"
proof -
  have len: "length r1 = length r0" "length r2 = length r0"
    using assms by (simp_all add: advanced_def list_all2_conv_all_nth)
  have "cr_job_id (r2 ! n) = cr_job_id (r0 ! n) \<and>
      (if cr_job_id (r0 ! n) \<in> set (ids @ ids') then t < cr_next_fire_at (r2 ! n) else r2 ! n = r0 ! n)"
    if n: "n < length r0" for n
  proof -
    have "cr_job_id (r1 ! n) = cr_job_id (r0 ! n)"
      "if cr_job_id (r0 ! n) \<in> set ids then t < cr_next_fire_at (r1 ! n) else r1 ! n = r0 ! n"
      "cr_job_id (r2 ! n) = cr_job_id (r1 ! n)"
      "if cr_job_id (r1 ! n) \<in> set ids' then t < cr_next_fire_at (r2 ! n) else r2 ! n = r1 ! n"
      using assms n len by (simp_all add: advanced_def list_all2_conv_all_nth)
    then show ?thesis by (auto split: if_splits)
  qed
  with len show ?thesis by (simp add: advanced_def list_all2_conv_all_nth)
qed

lemma advanced_mark: "t < nf \<Longrightarrow> advanced [i] t rows (mark_fired i now st nf rows)"
  by (induction rows) (auto simp: advanced_def mark_fired_def update_where_def)

lemma fire_cron_quiet:
  assumes "quiet env out" "steady env job"
  shows "\<exists>nf. se_clock env (sc_reads s + 1) < nf \<and>
    fire_cron env job s =
      ((case out (cj_callback job) of None \<Rightarrow> Inr () | Some e \<Rightarrow> Inl e),
       s\<lparr>sc_reads := sc_reads s + 2, sc_called := sc_called s @ [cj_callback job],
         sc_cron_rows := mark_fired (cj_job_id job) (se_clock env (sc_reads s))
           (if out (cj_callback job) = None then ''succeeded'' else ''failed'') nf (sc_cron_rows s)\<rparr>)"
proof -
  obtain e where e: "cron_parse (cj_expression job) = Inr e" "\<And>n. \<exists>u. next_after e (se_clock env n) = Inr u"
    using assms(2) by (auto simp: steady_def)
  obtain nf where nf: "next_after e (se_clock env (sc_reads s + 1)) = Inr nf" using e(2) by blast
  then have "se_clock env (sc_reads s + 1) < nf" by (rule next_after_later)
  with nf e(1) assms(1) show ?thesis
    by (intro exI [of _ nf])
      (simp add: fire_cron_def read_clock_def call_job_def quiet_def Let_def split: option.splits)
qed

lemma fire_rows_append:
  "fire_rows env (xs @ ys) s = try_bind (fire_rows env xs) (\<lambda>_. fire_rows env ys) s"
proof (induction xs arbitrary: s)
  case Nil
  then show ?case by (simp add: try_bind_def)
next
  case (Cons r xs)
  then show ?case by (auto simp: try_bind_def split: option.splits prod.splits sum.splits)
qed

definition job_of :: "scheduler \<Rightarrow> cron_row \<Rightarrow> CronJob option" where
  "job_of s row = dict_get (sc_cron s) (cr_job_id row)"

text \<open>The dictionary is keyed by the job's own identifier.\<close>

definition jobs_ok :: "sched_env \<Rightarrow> scheduler \<Rightarrow> bool" where
  "jobs_ok env s \<longleftrightarrow> (\<forall>i job. dict_get (sc_cron s) i = Some job \<longrightarrow> cj_job_id job = i \<and> steady env job)"

definition called_for :: "scheduler \<Rightarrow> cron_row list \<Rightarrow> nat list" where
  "called_for s rows = map cj_callback (List.map_filter (job_of s) rows)"

definition registered_ids :: "scheduler \<Rightarrow> cron_row list \<Rightarrow> string list" where
  "registered_ids s rows = map cr_job_id (filter (\<lambda>r. job_of s r \<noteq> None) rows)"

lemma reads_irrelevant [simp]:
  "called_for (s\<lparr>sc_reads := k\<rparr>) rows = called_for s rows"
  "registered_ids (s\<lparr>sc_reads := k\<rparr>) rows = registered_ids s rows"
  "job_of (s\<lparr>sc_reads := k\<rparr>) r = job_of s r"
  "jobs_ok env (s\<lparr>sc_reads := k\<rparr>) = jobs_ok env s"
  "fetch_due_jobs t (s\<lparr>sc_reads := k\<rparr>) = fetch_due_jobs t s"
proof -
  have e: "job_of (s\<lparr>sc_reads := k\<rparr>) = job_of s" by (auto simp: job_of_def)
  then show "called_for (s\<lparr>sc_reads := k\<rparr>) rows = called_for s rows"
    "registered_ids (s\<lparr>sc_reads := k\<rparr>) rows = registered_ids s rows"
    "job_of (s\<lparr>sc_reads := k\<rparr>) r = job_of s r"
    by (simp_all only: called_for_def registered_ids_def)
qed (simp_all add: jobs_ok_def fetch_due_jobs_def)

lemma fire_rows_quiet:
  assumes "quiet env out" "jobs_ok env s" "mono (se_clock env)" "t \<le> se_clock env (sc_reads s)"
    and "\<And>r job. r \<in> set rows \<Longrightarrow> job_of s r = Some job \<Longrightarrow> out (cj_callback job) = None"
  shows "\<exists>s'. fire_rows env rows s = (Inr (), s') \<and> sc_cron s' = sc_cron s \<and>
    sc_called s' = sc_called s @ called_for s rows \<and> t \<le> se_clock env (sc_reads s') \<and>
    advanced (registered_ids s rows) t (sc_cron_rows s) (sc_cron_rows s')"
  using assms
proof (induction rows arbitrary: s)
  case Nil
  then show ?case by (simp add: called_for_def registered_ids_def advanced_refl map_filter_simps)
next
  case (Cons r rows)
  show ?case
  proof (cases "job_of s r")
    case None
    have "\<And>r job. r \<in> set rows \<Longrightarrow> job_of s r = Some job \<Longrightarrow> out (cj_callback job) = None"
      by (blast intro: Cons.prems(5) list.set_intros)
    note IH = Cons.IH [OF Cons.prems(1-4) this]
    have "fire_rows env (r # rows) s = fire_rows env rows s" using None by (simp add: job_of_def)
    moreover have "called_for s (r # rows) = called_for s rows" "registered_ids s (r # rows) = registered_ids s rows"
      using None by (simp_all add: called_for_def registered_ids_def map_filter_simps)
    ultimately show ?thesis using IH by simp
  next
    case (Some job)
    have steady: "steady env job" "cj_job_id job = cr_job_id r"
      using Cons.prems(2) Some by (auto simp: jobs_ok_def job_of_def)
    have none: "out (cj_callback job) = None" by (rule Cons.prems(5) [of r]) (use Some in simp_all)
    obtain nf where nf: "se_clock env (sc_reads s + 1) < nf"
      "fire_cron env job s = (Inr (),
        s\<lparr>sc_reads := sc_reads s + 2, sc_called := sc_called s @ [cj_callback job],
          sc_cron_rows := mark_fired (cj_job_id job) (se_clock env (sc_reads s)) ''succeeded'' nf (sc_cron_rows s)\<rparr>)"
      using fire_cron_quiet [OF Cons.prems(1) steady(1), of s] none by auto
    define s1 where "s1 = s\<lparr>sc_reads := sc_reads s + 2, sc_called := sc_called s @ [cj_callback job],
          sc_cron_rows := mark_fired (cj_job_id job) (se_clock env (sc_reads s)) ''succeeded'' nf (sc_cron_rows s)\<rparr>"
    have same: "sc_cron s1 = sc_cron s" "job_of s1 = job_of s" by (auto simp: s1_def job_of_def)
    have le: "se_clock env (sc_reads s) \<le> se_clock env (sc_reads s + k)" for k
      using Cons.prems(3) by (simp add: monoD)
    have "jobs_ok env s1" "t \<le> se_clock env (sc_reads s1)"
      using Cons.prems(2,4) le [of 2] same by (simp_all add: jobs_ok_def s1_def)
    then obtain s' where s': "fire_rows env rows s1 = (Inr (), s')" "sc_cron s' = sc_cron s1"
      "sc_called s' = sc_called s1 @ called_for s1 rows" "t \<le> se_clock env (sc_reads s')"
      "advanced (registered_ids s1 rows) t (sc_cron_rows s1) (sc_cron_rows s')"
      using Cons.IH [of s1] Cons.prems same by (metis list.set_intros(2))
    have "advanced [cr_job_id r] t (sc_cron_rows s) (sc_cron_rows s1)"
      using nf(1) le [of 1] Cons.prems(4) unfolding s1_def steady(2) by (simp add: advanced_mark)
    from advanced_trans [OF this s'(5)]
    have "advanced (registered_ids s (r # rows)) t (sc_cron_rows s) (sc_cron_rows s')"
      using Some same by (simp add: registered_ids_def)
    moreover have "fire_rows env (r # rows) s = (Inr (), s')"
      using Some nf(2) s'(1) by (simp add: job_of_def try_bind_def s1_def)
    moreover have "sc_called s' = sc_called s @ called_for s (r # rows)"
      using s'(3) Some same by (simp add: called_for_def map_filter_simps s1_def)
    ultimately show ?thesis
      using s'(2,4) same(1) by (intro exI [of _ s']) simp
  qed
qed

section \<open>A tick without failures\<close>


text \<open>The expression that matches every minute always has a next time.\<close>

definition ex_minutely :: CronExpression where
  "ex_minutely = \<lparr>ce_minutes = [0..59], ce_hours = [0..23], ce_days = [1..31], ce_months = [1..12], ce_weekdays = [0..6]\<rparr>"

lemma minutely_next: "\<exists>u. next_after ex_minutely t = Inr u"
proof -
  have c: "r div 3600000000 \<le> 23" if "r < 86400000000" for r :: int
    using that by simp
  have m: "k mod 60 \<le> 59" "k mod 7 \<le> 6" for k :: int
    using pos_mod_bound [of 60 k] pos_mod_bound [of 7 k] by linarith+
  have "cron_matches ex_minutely u" for u
    using civil_ranges [of u] c [of "u mod 86400000000"]
    by (simp add: m cron_matches_def ex_minutely_def Let_def civil_of_def DAY_def)
  then have "sweep ex_minutely (Suc n) u = Some u" for n u by simp
  moreover have "SWEEP = Suc (SWEEP - 1)" by (simp add: SWEEP_def)
  ultimately have "sweep ex_minutely SWEEP (next_minute t) = Some (next_minute t)" by metis
  then show ?thesis by (simp add: next_after_def)
qed

definition ex_job :: "string \<Rightarrow> nat \<Rightarrow> CronJob" where
  "ex_job i k = \<lparr>cj_job_id = i, cj_expression = ''* * * * *'', cj_callback = k, cj_payload = []\<rparr>"

lemma steady_ex_job: "steady env (ex_job i k)"
proof -
  have "cron_parse ''* * * * *'' = Inr ex_minutely" by code_simp
  then show ?thesis using minutely_next by (simp add: steady_def ex_job_def)
qed

text \<open>Two registered jobs that are due and a row without a job; callback 2 may raise.\<close>

definition ex_sched :: scheduler where
  "ex_sched = \<lparr>sc_cron = [(''a'', ex_job ''a'' 1), (''b'', ex_job ''b'' 2)], sc_events = [],
     sc_hooks = (\<lambda>_. \<lparr>eh_hook_id = [], eh_event_type = [], eh_callback = 0, eh_debounce = None, eh_last_fire_at = None\<rparr>),
     sc_cron_rows = [new_cron_row (ex_job ''a'' 1) 0, new_cron_row (ex_job ''b'' 2) 5, new_cron_row (ex_job ''c'' 3) 5],
     sc_event_rows = [], sc_reads = 0, sc_called = []\<rparr>"

definition ex_env :: "exn option \<Rightarrow> sched_env" where
  "ex_env err = \<lparr>se_clock = (\<lambda>n. 10 + int n), se_run = (\<lambda>k s. (if k = 2 then err else None, s)),
     se_run_event = (\<lambda>k pl s. (None, s))\<rparr>"

lemma ex_env_facts:
  "quiet (ex_env err) (\<lambda>k. if k = 2 then err else None)" "mono (se_clock (ex_env err))"
  by (auto simp: quiet_def ex_env_def mono_def)

lemma ex_sched_facts:
  "jobs_ok env ex_sched" "sc_reads ex_sched = 0" "sc_called ex_sched = []"
  "fetch_due_jobs (se_clock (ex_env err) (sc_reads ex_sched)) ex_sched = sc_cron_rows ex_sched"
proof -
  show "jobs_ok env ex_sched"
    by (auto simp: jobs_ok_def ex_sched_def steady_ex_job split: if_splits) (simp_all add: ex_job_def)
qed (simp_all add: ex_sched_def fetch_due_jobs_def new_cron_row_def ex_env_def)


section \<open>A failing callback\<close>

text \<open>One callback that raises stops the scheduler: the tick raises its exception after recording the
  failure, the jobs after it in the table are not called and stay due, and the loop task ends with
  that exception, so no later tick runs.\<close>

theorem failing_callback_stops_scheduler:
  assumes "quiet env out" and "jobs_ok env s" and "mono (se_clock env)"
    and "fetch_due_jobs (se_clock env (sc_reads s)) s = pre @ row # post"
    and "job_of s row = Some job" and "out (cj_callback job) = Some ex"
    and "\<forall>r \<in> set pre. \<forall>j. job_of s r = Some j \<longrightarrow> out (cj_callback j) = None"
    and "distinct (map cr_job_id (sc_cron_rows s))"
  shows "\<exists>s'. tick env s = (Inl ex, s')
    \<and> sc_called s' = sc_called s @ called_for s pre @ [cj_callback job]
    \<and> set post \<subseteq> set (sc_cron_rows s')
    \<and> (\<forall>n. run_loop env (Suc n) s = (Inl ex, s'))"
proof -
  let ?now = "se_clock env (sc_reads s)" and ?s1 = "s\<lparr>sc_reads := sc_reads s + 1\<rparr>"
  have "jobs_ok env ?s1" "?now \<le> se_clock env (sc_reads ?s1)"
    using assms(2,3) by (simp_all add: monoD)
  from fire_rows_quiet [OF assms(1) this(1) assms(3) this(2), of pre]
  obtain s2 where s2: "fire_rows env pre ?s1 = (Inr (), s2)" "sc_cron s2 = sc_cron s"
    "sc_called s2 = sc_called s @ called_for s pre"
    "advanced (registered_ids s pre) ?now (sc_cron_rows s) (sc_cron_rows s2)"
    using assms(7) by auto
  have j: "steady env job" "cj_job_id job = cr_job_id row" "dict_get (sc_cron s2) (cr_job_id row) = Some job"
    using assms(2,5) s2(2) by (auto simp: jobs_ok_def job_of_def)
  obtain nf where fire: "fire_cron env job s2 = (Inl ex,
      s2\<lparr>sc_reads := sc_reads s2 + 2, sc_called := sc_called s2 @ [cj_callback job],
         sc_cron_rows := mark_fired (cj_job_id job) (se_clock env (sc_reads s2)) ''failed'' nf (sc_cron_rows s2)\<rparr>)"
    using fire_cron_quiet [OF assms(1) j(1), of s2] assms(6) by auto
  define s' where "s' = s2\<lparr>sc_reads := sc_reads s2 + 2, sc_called := sc_called s2 @ [cj_callback job],
         sc_cron_rows := mark_fired (cj_job_id job) (se_clock env (sc_reads s2)) ''failed'' nf (sc_cron_rows s2)\<rparr>"
  have tick: "tick env s = (Inl ex, s')"
    using fire j(3) s2(1) by (simp add: tick_def read_clock_def assms(4) fire_rows_append try_bind_def s'_def)
  have "r \<in> set (sc_cron_rows s')" if r: "r \<in> set post" for r
  proof -
    have due: "set (pre @ row # post) \<subseteq> set (sc_cron_rows s)" "distinct (map cr_job_id (pre @ row # post))"
      using assms(4,8) unfolding fetch_due_jobs_def by (metis filter_is_subset, metis distinct_map_filter)
    have "cr_job_id r \<in> cr_job_id ` set post" using r by (rule imageI)
    then have apart: "cr_job_id r \<notin> cr_job_id ` set pre" "cr_job_id r \<noteq> cr_job_id row"
      using due(2) by auto
    then have other: "cr_job_id r \<notin> set (registered_ids s pre)" "cr_job_id r \<noteq> cr_job_id row"
      by (auto simp: registered_ids_def)
    have "r \<in> set (sc_cron_rows s)" using due(1) r by auto
    then obtain i where i: "i < length (sc_cron_rows s)" "r = sc_cron_rows s ! i" by (metis in_set_conv_nth)
    have "sc_cron_rows s2 ! i = r" "i < length (sc_cron_rows s2)"
      using s2(4) i other(1) unfolding advanced_def by (auto simp: list_all2_conv_all_nth)
    then have "r \<in> set (sc_cron_rows s2)" by (metis nth_mem)
    then show ?thesis
      using other(2) j(2) by (force simp: s'_def mark_fired_def update_where_def)
  qed
  moreover have "run_loop env (Suc n) s = (Inl ex, s')" for n
    using tick by (simp add: try_bind_def)
  ultimately show ?thesis using tick s2(3) by (intro exI [of _ s']) (auto simp: s'_def)
qed

lemma failing_callback_stops_scheduler_witness:
  "\<exists>s'. tick (ex_env (Some (PyError ''ValueError'' ''x''))) ex_sched = (Inl (PyError ''ValueError'' ''x''), s')"
proof -
  let ?e = "PyError ''ValueError'' ''x''"
  have "sc_cron_rows ex_sched = [sc_cron_rows ex_sched ! 0] @ sc_cron_rows ex_sched ! 1 # [sc_cron_rows ex_sched ! 2]"
    "job_of ex_sched (sc_cron_rows ex_sched ! 0) = Some (ex_job ''a'' 1)"
    "job_of ex_sched (sc_cron_rows ex_sched ! 1) = Some (ex_job ''b'' 2)"
    "distinct (map cr_job_id (sc_cron_rows ex_sched))"
    by (simp_all add: ex_sched_def job_of_def new_cron_row_def ex_job_def)
  then show ?thesis
    using failing_callback_stops_scheduler [of "ex_env (Some ?e)" "\<lambda>k. if k = 2 then Some ?e else None" ex_sched
        "[sc_cron_rows ex_sched ! 0]" "sc_cron_rows ex_sched ! 1" "[sc_cron_rows ex_sched ! 2]" "ex_job ''b'' 2" ?e]
      ex_env_facts [of "Some ?e"] ex_sched_facts(1) ex_sched_facts(4) [of "Some ?e"]
    by (auto simp: ex_job_def)
qed

section \<open>An expression that never matches\<close>

text \<open>Registering an expression that parses and never matches, such as 30 February, raises after the
  job has been stored: no row is written, so the job never fires, and it cannot be registered again,
  nor with a corrected expression, until it is deregistered.\<close>

theorem unmatchable_cron_is_stuck:
  assumes "cj_expression job = ''0 0 30 2 *''" and "\<not> dict_has (sc_cron s) (cj_job_id job)"
    and "cj_job_id job' = cj_job_id job"
  shows "\<exists>s'. register_cron env job s = (Inl (CronParseError ''no upcoming time matches expression within 4 years''), s')
    \<and> sc_cron_rows s' = sc_cron_rows s \<and> job \<in> set (list_cron s')
    \<and> register_cron env job' s' = (Inl (duplicate_job (cj_job_id job)), s')"
proof -
  let ?e = "\<lparr>ce_minutes = [0], ce_hours = [0], ce_days = [30], ce_months = [2], ce_weekdays = [0..6]\<rparr>"
  let ?s = "s\<lparr>sc_cron := dict_set (cj_job_id job) job (sc_cron s), sc_reads := sc_reads s + 1\<rparr>"
  have p: "cron_parse (cj_expression job) = Inr ?e" unfolding assms(1) by code_simp
  have "\<not> cron_matches ?e t" for t
    using civil_day_valid(2) [of t] by (auto simp: cron_matches_def Let_def)
  then have n: "next_after ?e t = Inl (CronParseError ''no upcoming time matches expression within 4 years'')" for t
    using sweep_None [of ?e SWEEP] by (simp add: next_after_def)
  have "register_cron env job s = (Inl (CronParseError ''no upcoming time matches expression within 4 years''), ?s)"
    using assms(2) by (simp add: register_cron_def p n read_clock_def)
  moreover have "dict_get (sc_cron ?s) (cj_job_id job) = Some job" by (simp add: dict_simps)
  then have "job \<in> set (list_cron ?s)" "dict_has (sc_cron ?s) (cj_job_id job)"
    using map_of_SomeD [of "sc_cron ?s" "cj_job_id job" job] by (force simp: list_cron_def, simp)
  moreover have "register_cron env job' ?s = (Inl (duplicate_job (cj_job_id job)), ?s)"
    using calculation(3) assms(3) by (simp add: register_cron_def)
  ultimately show ?thesis by (intro exI [of _ ?s]) simp
qed

lemma unmatchable_cron_is_stuck_witness:
  "\<exists>s'. register_cron (ex_env None) \<lparr>cj_job_id = ''z'', cj_expression = ''0 0 30 2 *'', cj_callback = 1, cj_payload = []\<rparr> ex_sched
     = (Inl (CronParseError ''no upcoming time matches expression within 4 years''), s')"
  using unmatchable_cron_is_stuck [of "\<lparr>cj_job_id = ''z'', cj_expression = ''0 0 30 2 *'', cj_callback = 1, cj_payload = []\<rparr>"
      ex_sched "\<lparr>cj_job_id = ''z'', cj_expression = ''0 0 1 2 *'', cj_callback = 1, cj_payload = []\<rparr>" "ex_env None"]
  by (auto simp: ex_sched_def ex_job_def)

end
