(* ===== verification/Audit_Sink.thy ===== *)
theory Audit_Sink
  imports Calendar Trace_Context "HOL-Library.Word"
begin

text \<open>
  The audit sinks and event identifiers: \<open>ota_core/audit/sink.py\<close> and \<open>ids.py\<close>.

  The directory is a dict from file name to text.  The open file, if any, is that
  of \<open>_current_month\<close>.  Pydantic's serialisation of an event is the parameter \<open>dump\<close>; the clock, the
  random draws and the trace identifier bound in the context are arguments of a call, and so is an
  \<open>OSError\<close> of the disk.
\<close>

unbundle bit_operations_syntax

section \<open>Event identifiers\<close>

definition new_event_int :: "int \<Rightarrow> int \<Rightarrow> int \<Rightarrow> int" where
  "new_event_int ms rand_a rand_b =
     (let ts_ms = ms AND (push_bit 48 1 - 1)
      in push_bit 80 ts_ms OR push_bit 76 7 OR push_bit 64 rand_a OR push_bit 62 2 OR rand_b)"

text \<open>\<open>str(uuid.UUID(int=n))\<close>: 32 hexadecimal digits in groups of 8, 4, 4, 4 and 12.\<close>

definition hex32 :: "int \<Rightarrow> string" where
  "hex32 n = map (\<lambda>i. hex_digit (nat (n div 16 ^ (31 - i) mod 16))) [0..<32]"

definition uuid_str :: "int \<Rightarrow> string" where
  "uuid_str n =
     (let h = hex32 n
      in take 8 h @ ''-'' @ take 4 (drop 8 h) @ ''-'' @ take 4 (drop 12 h) @ ''-'' @
         take 4 (drop 16 h) @ ''-'' @ drop 20 h)"

definition new_event_id :: "int \<Rightarrow> int \<Rightarrow> int \<Rightarrow> string" where
  "new_event_id ms rand_a rand_b = uuid_str (new_event_int ms rand_a rand_b)"

section \<open>Building the event\<close>

record sink_config =
  sk_deployment :: DeploymentInfo
  sk_source :: SourceInfo
  sk_schema_version :: string

text \<open>What a call of \<open>emit\<close> draws from outside: the clock, a fresh trace and event identifier, the
  trace identifier of the context.\<close>

record draws =
  dw_now :: instant
  dw_trace :: string
  dw_event_id :: string
  dw_current :: "string option"

record emit_args =
  ea_event_type :: string
  ea_severity :: Severity
  ea_principal :: Principal
  ea_payload :: "payload option"
  ea_trace_id :: "string option"
  ea_routine_run_id :: "string option"
  ea_request_id :: "string option"
  ea_tenant_id :: "string option"
  ea_redactions :: "string list option"
  ea_timestamp :: "instant option"

definition resolved_trace :: "emit_args \<Rightarrow> draws \<Rightarrow> string" where
  "resolved_trace a d =
     (case (case ea_trace_id a of Some t \<Rightarrow> Some t | None \<Rightarrow> dw_current d) of
        Some t \<Rightarrow> t
      | None \<Rightarrow> dw_trace d)"

definition event_of_call :: "sink_config \<Rightarrow> emit_args \<Rightarrow> draws \<Rightarrow> AuditEvent" where
  "event_of_call c a d =
     \<lparr>ae_schema_version = sk_schema_version c, ae_event_id = dw_event_id d,
      ae_timestamp = (case ea_timestamp a of Some t \<Rightarrow> t | None \<Rightarrow> dw_now d),
      ae_event_type = ea_event_type a, ae_severity = ea_severity a, ae_trace_id = resolved_trace a d,
      ae_routine_run_id = ea_routine_run_id a, ae_request_id = ea_request_id a,
      ae_principal = ea_principal a, ae_tenant_id = ea_tenant_id a, ae_deployment = sk_deployment c,
      ae_source = sk_source c, ae_payload = (case ea_payload a of None \<Rightarrow> [] | Some p \<Rightarrow> p),
      ae_redactions = (case ea_redactions a of None \<Rightarrow> [] | Some r \<Rightarrow> r)\<rparr>"

definition validation_error :: exn where
  "validation_error = PyError ''ValidationError'' ''AuditEvent''"

definition AuditSinkError :: "string \<Rightarrow> exn" where
  "AuditSinkError msg = PyError ''AuditSinkError'' msg"

section \<open>The file sink\<close>

type_synonym month = "int \<times> int"

record file_sink =
  fs_config :: sink_config
  fs_files :: "(string, string) dict"
  fs_open :: bool
  fs_month :: "month option"

text \<open>What the disk does in one call; \<open>WriteFails part e\<close> leaves the text \<open>part\<close> in the file.\<close>

datatype disk_fault = NoFault | OpenFails string | WriteFails string string

definition month_of :: "instant \<Rightarrow> month" where
  "month_of t = (let c = civil_of t in (cv_year c, cv_month c))"

definition month_file :: "month \<Rightarrow> string" where
  "month_file m = zero_pad 4 (fst m) @ ''-'' @ zero_pad 2 (snd m) @ ''.jsonl''"

definition touch_file :: "string \<Rightarrow> (string, string) dict \<Rightarrow> (string, string) dict" where
  "touch_file p files = (if dict_has files p then files else dict_set p [] files)"

definition append_file :: "string \<Rightarrow> string \<Rightarrow> (string, string) dict \<Rightarrow> (string, string) dict" where
  "append_file p txt files = dict_set p (dict_get_or files p [] @ txt) files"

text \<open>Opening in append mode creates an absent file.  After a failed open the old file is closed and
  its month is still the current one.\<close>

definition rotate_if_needed :: "disk_fault \<Rightarrow> instant \<Rightarrow> (file_sink, exn, unit) py" where
  "rotate_if_needed fault ts k =
     (let key = month_of ts
      in if fs_open k \<and> fs_month k = Some key then (Inr (), k)
         else (case fault of
                 OpenFails e \<Rightarrow>
                   (Inl (AuditSinkError (''failed to open audit file '' @ month_file key @ '': '' @ e)),
                    k\<lparr>fs_open := False\<rparr>)
               | _ \<Rightarrow> (Inr (), k\<lparr>fs_files := touch_file (month_file key) (fs_files k), fs_open := True,
                                fs_month := Some key\<rparr>)))"

definition sink_write :: "(AuditEvent \<Rightarrow> string) \<Rightarrow> disk_fault \<Rightarrow> AuditEvent \<Rightarrow> (file_sink, exn, unit) py" where
  "sink_write dump fault ev =
     try_bind (rotate_if_needed fault (ae_timestamp ev)) (\<lambda>_ k.
       (let p = month_file (month_of (ae_timestamp ev))
        in case fault of
             WriteFails part e \<Rightarrow>
               (Inl (AuditSinkError (''failed to write audit event '' @ ae_event_id ev @ '': '' @ e)),
                k\<lparr>fs_files := append_file p part (fs_files k)\<rparr>)
           | _ \<Rightarrow> (Inr (), k\<lparr>fs_files := append_file p (dump ev @ nl) (fs_files k)\<rparr>)))"

definition file_emit ::
  "(AuditEvent \<Rightarrow> string) \<Rightarrow> emit_args \<Rightarrow> draws \<Rightarrow> disk_fault \<Rightarrow> (file_sink, exn, AuditEvent) py" where
  "file_emit dump a d fault k =
     (let ev = event_of_call (fs_config k) a d
      in if \<not> audit_event_ok ev then (Inl validation_error, k)
         else try_bind (sink_write dump fault ev) (\<lambda>_. py_return ev) k)"

definition current_path :: "file_sink \<Rightarrow> string option" where
  "current_path k = (case fs_month k of None \<Rightarrow> None | Some m \<Rightarrow> Some (month_file m))"

definition close_sink :: "file_sink \<Rightarrow> file_sink" where
  "close_sink k = (if fs_open k then k\<lparr>fs_open := False, fs_month := None\<rparr> else k)"

section \<open>The in-memory sink\<close>

record null_sink =
  ns_config :: sink_config
  ns_events :: "AuditEvent list"

definition null_emit :: "emit_args \<Rightarrow> draws \<Rightarrow> (null_sink, exn, AuditEvent) py" where
  "null_emit a d k =
     (let ev = event_of_call (ns_config k) a d
      in if \<not> audit_event_ok ev then (Inl validation_error, k)
         else (Inr ev, k\<lparr>ns_events := ns_events k @ [ev]\<rparr>))"

end
