(* ===== verification/Audit_Reader.thy ===== *)
theory Audit_Reader
  imports Audit_Sink "HOL-Library.Product_Lexorder"
begin

text \<open>
  The read side of the audit log: \<open>ota_core/audit/reader.py\<close>.  The reader walks the directory the file
  sink writes to.  Parsing and validating one line is the parameter \<open>parse\<close>, the text of an event that
  the search looks at is \<open>blob\<close>.  The bounds of a filter are aware datetimes: an instant and the offset
  of its clock from UTC.
\<close>

record aware =
  aw_instant :: instant
  aw_offset :: int

record AuditFilter =
  af_start :: "aware option"
  af_end :: "aware option"
  af_event_types :: "string list"
  af_routine_run_id :: "string option"
  af_trace_id :: "string option"
  af_q :: "string option"
  af_severity_at_least :: "string option"

definition no_filter :: AuditFilter where
  "no_filter = \<lparr>af_start = None, af_end = None, af_event_types = [], af_routine_run_id = None,
     af_trace_id = None, af_q = None, af_severity_at_least = None\<rparr>"

definition severity_str :: "Severity \<Rightarrow> string" where
  "severity_str s = (case s of SevDebug \<Rightarrow> ''debug'' | SevInfo \<Rightarrow> ''info'' | SevWarn \<Rightarrow> ''warn''
     | SevError \<Rightarrow> ''error'' | SevCritical \<Rightarrow> ''critical'')"

definition SEVERITY_ORDER :: "(string, int) dict" where
  "SEVERITY_ORDER = [(''debug'', 0), (''info'', 1), (''warn'', 2), (''error'', 3), (''critical'', 4)]"

definition severity_rank :: "string \<Rightarrow> int" where
  "severity_rank s = dict_get_or SEVERITY_ORDER s 0"

definition opt_ok :: "'a option \<Rightarrow> ('a \<Rightarrow> bool) \<Rightarrow> bool" where
  "opt_ok x p = (case x of None \<Rightarrow> True | Some a \<Rightarrow> p a)"

definition filter_matches :: "(AuditEvent \<Rightarrow> string) \<Rightarrow> AuditFilter \<Rightarrow> AuditEvent \<Rightarrow> bool" where
  "filter_matches blob f e \<longleftrightarrow>
     opt_ok (af_start f) (\<lambda>t. \<not> ae_timestamp e < aw_instant t) \<and>
     opt_ok (af_end f) (\<lambda>t. \<not> ae_timestamp e > aw_instant t) \<and>
     (af_event_types f = [] \<or> ae_event_type e \<in> set (af_event_types f)) \<and>
     opt_ok (af_routine_run_id f) (\<lambda>r. ae_routine_run_id e = Some r) \<and>
     opt_ok (af_trace_id f) (\<lambda>t. ae_trace_id e = t) \<and>
     opt_ok (af_severity_at_least f) (\<lambda>s. \<not> severity_rank (severity_str (ae_severity e)) < severity_rank s) \<and>
     opt_ok (af_q f) (\<lambda>q. contains_str (lower (blob e)) (lower q))"

section \<open>The files\<close>

definition MONTHLY_FILE_RE :: regex where
  "MONTHLY_FILE_RE = r_cat [r_rep 4 (RSet is_digit), r_lit ''-'', r_rep 2 (RSet is_digit), r_lit ''.jsonl'']"

text \<open>The two groups of a match, as numbers.\<close>

definition file_month :: "string \<Rightarrow> month option" where
  "file_month name =
     (if re_full MONTHLY_FILE_RE name
      then Some (int (nat_of_digits (take 4 name)), int (nat_of_digits (take 2 (drop 5 name)))) else None)"

text \<open>\<open>sorted\<close> by the pair of numbers is stable; months are compared lexicographically.\<close>

definition monthly_files :: "(string, string) dict \<Rightarrow> string list" where
  "monthly_files files =
     map snd (sort_key fst (List.map_filter
       (\<lambda>name. case file_month name of None \<Rightarrow> None | Some m \<Rightarrow> Some (m, name)) (dict_keys files)))"

text \<open>\<open>start.year\<close> and \<open>start.month\<close> are read on the clock of the bound itself.\<close>

definition local_month :: "aware \<Rightarrow> month" where
  "local_month t = month_of (aw_instant t + aw_offset t)"

definition files_in_range :: "aware option \<Rightarrow> aware option \<Rightarrow> (string, string) dict \<Rightarrow> string list" where
  "files_in_range lo hi files =
     filter (\<lambda>name. case file_month name of
         None \<Rightarrow> False
       | Some m \<Rightarrow> opt_ok lo (\<lambda>t. \<not> m < local_month t) \<and> opt_ok hi (\<lambda>t. \<not> m > local_month t))
       (monthly_files files)"

section \<open>The scan\<close>

definition parse_line :: "(string \<Rightarrow> AuditEvent option) \<Rightarrow> string \<Rightarrow> AuditEvent option" where
  "parse_line parse line = (let l = strip line in if l = [] then None else parse l)"

definition scan_file ::
  "(string \<Rightarrow> AuditEvent option) \<Rightarrow> (AuditEvent \<Rightarrow> string) \<Rightarrow> AuditFilter \<Rightarrow> string \<Rightarrow> AuditEvent list" where
  "scan_file parse blob f txt =
     filter (filter_matches blob f) (List.map_filter (parse_line parse) (split_on (CHR 0x0A) txt))"

definition audit_scan ::
  "(string \<Rightarrow> AuditEvent option) \<Rightarrow> (AuditEvent \<Rightarrow> string) \<Rightarrow> AuditFilter \<Rightarrow> (string, string) dict \<Rightarrow> AuditEvent list" where
  "audit_scan parse blob f files =
     concat (map (\<lambda>p. scan_file parse blob f (dict_get_or files p []))
       (files_in_range (af_start f) (af_end f) files))"

definition events_by_trace ::
  "(string \<Rightarrow> AuditEvent option) \<Rightarrow> (AuditEvent \<Rightarrow> string) \<Rightarrow> string \<Rightarrow> (string, string) dict \<Rightarrow> AuditEvent list" where
  "events_by_trace parse blob t files = audit_scan parse blob (no_filter\<lparr>af_trace_id := Some t\<rparr>) files"

definition events_by_run ::
  "(string \<Rightarrow> AuditEvent option) \<Rightarrow> (AuditEvent \<Rightarrow> string) \<Rightarrow> string \<Rightarrow> (string, string) dict \<Rightarrow> AuditEvent list" where
  "events_by_run parse blob r files = audit_scan parse blob (no_filter\<lparr>af_routine_run_id := Some r\<rparr>) files"

definition audit_count ::
  "(string \<Rightarrow> AuditEvent option) \<Rightarrow> (AuditEvent \<Rightarrow> string) \<Rightarrow> AuditFilter \<Rightarrow> (string, string) dict \<Rightarrow> nat" where
  "audit_count parse blob f files = length (audit_scan parse blob f files)"

end
