(* ===== verification/Calendar_Order.thy ===== *)
theory Calendar_Order
  imports Calendar "HOL-Library.Product_Lexorder"
begin

text \<open>
  The calendar is the inverse of the ordinal count, and years and months grow with time.
\<close>

definition leap_year :: "int \<Rightarrow> bool" where
  "leap_year y \<longleftrightarrow> y mod 4 = 0 \<and> (y mod 100 \<noteq> 0 \<or> y mod 400 = 0)"

definition days_before_year :: "int \<Rightarrow> int" where
  "days_before_year y = (y - 1) * 365 + (y - 1) div 4 - (y - 1) div 100 + (y - 1) div 400"

definition ymd2ord :: "int \<Rightarrow> int \<times> int \<Rightarrow> int" where
  "ymd2ord y md = days_before_year y + days_before_month (leap_year y) (fst md) + snd md"

lemma div_step:
  fixes y k :: int
  assumes "1 < k"
  shows "y div k = (y - 1) div k + (if y mod k = 0 then 1 else 0)"
proof -
  have e: "y = k * (y div k) + y mod k" and b: "0 \<le> y mod k" "y mod k < k" using assms by simp_all
  show ?thesis
  proof (cases "y mod k = 0")
    case True
    then have "y - 1 = k * (y div k - 1) + (k - 1)" using e by (simp add: algebra_simps)
    then have "(y - 1) div k = y div k - 1" by (rule int_div_pos_eq) (use assms in simp_all)
    then show ?thesis using True by simp
  next
    case False
    then have "y - 1 = k * (y div k) + (y mod k - 1)" using e by simp
    then have "(y - 1) div k = y div k" by (rule int_div_pos_eq) (use b False in simp_all)
    then show ?thesis using False by simp
  qed
qed

lemma days_before_next_year:
  "days_before_year (y + 1) = days_before_year y + 365 + (if leap_year y then 1 else 0)"
proof -
  have count: "y * 365 + a - b + c = (y - 1) * 365 + a' - b' + c' + 365 + (if A \<and> (\<not> B \<or> C) then 1 else 0)"
    if "a = a' + (if A then 1 else 0)" "b = b' + (if B then 1 else 0)" "c = c' + (if C then 1 else 0)"
      "C \<Longrightarrow> B" "B \<Longrightarrow> A" for a a' b b' c c' :: int and A B C
    using that by auto
  have dvd: "y mod 400 = 0 \<Longrightarrow> y mod 100 = 0" "y mod 100 = 0 \<Longrightarrow> y mod 4 = 0"
    using dvd_trans [of 100 400 y] dvd_trans [of 4 100 y] by (simp_all add: mod_eq_0_iff_dvd)
  have "1 < (4::int)" "1 < (100::int)" "1 < (400::int)" by simp_all
  from count [OF this [THEN div_step, of y] dvd]
  show ?thesis unfolding days_before_year_def leap_year_def by (simp only: add_diff_cancel_right')
qed

lemma days_before_year_mono: "y \<le> z \<Longrightarrow> days_before_year y \<le> days_before_year z"
  by (induction z rule: int_ge_induct) (auto simp: days_before_next_year)

lemma month_cases:
  fixes m :: int
  assumes "1 \<le> m" "m \<le> 12"
  shows "m = 1 \<or> m = 2 \<or> m = 3 \<or> m = 4 \<or> m = 5 \<or> m = 6 \<or> m = 7 \<or> m = 8 \<or> m = 9 \<or> m = 10 \<or> m = 11 \<or> m = 12"
  using assms by presburger

lemma month_ends:
  assumes "1 \<le> m" "m < m'" "m' \<le> 12"
  shows "days_before_month leap m + days_in_month leap m \<le> days_before_month leap m'"
proof -
  have next_month: "days_before_month leap (k + 1) = days_before_month leap k + days_in_month leap k"
    if "1 \<le> k" "k < 12" for k :: int
  proof -
    from that have "1 \<le> k" "k \<le> 12" by simp_all
    from month_cases [OF this] that show ?thesis
      by (elim disjE) (auto simp: days_before_month_def days_in_month_def nth_months)
  qed
  have pos: "0 \<le> days_in_month leap k" if "1 \<le> k" "k \<le> 12" for k :: int
    using month_cases [OF that] by (elim disjE) (simp_all add: days_in_month_def nth_months)
  have "m' \<le> 12 \<longrightarrow> days_before_month leap (m + 1) \<le> days_before_month leap m'" if "m + 1 \<le> m'" for m' :: int
    using that
  proof (induction m' rule: int_ge_induct)
    case base
    then show ?case by simp
  next
    case (step k)
    show ?case
    proof
      assume k: "k + 1 \<le> 12"
      then have "days_before_month leap (k + 1) = days_before_month leap k + days_in_month leap k"
        using step.hyps assms(1) by (intro next_month) simp_all
      moreover have "0 \<le> days_in_month leap k" using k step.hyps assms(1) by (intro pos) simp_all
      ultimately show "days_before_month leap (m + 1) \<le> days_before_month leap (k + 1)"
        using step.IH k by simp
    qed
  qed
  then show ?thesis using assms next_month [of m] by simp
qed

lemma month_of_year_end:
  assumes "valid_md leap md"
  shows "1 \<le> days_before_month leap (fst md) + snd md"
    "days_before_month leap (fst md) + snd md \<le> 365 + (if leap then 1 else 0)"
proof -
  have m: "1 \<le> fst md" "fst md \<le> 12" "1 \<le> snd md" "snd md \<le> days_in_month leap (fst md)"
    using assms by (simp_all add: valid_md_def)
  show "1 \<le> days_before_month leap (fst md) + snd md"
    using month_cases [OF m(1,2)] m(3) by (elim disjE) (simp_all add: days_before_month_def nth_months)
  show "days_before_month leap (fst md) + snd md \<le> 365 + (if leap then 1 else 0)"
    using month_cases [OF m(1,2)] m(3,4)
    by (elim disjE) (auto simp: days_before_month_def days_in_month_def nth_months split: if_splits)
qed

lemma ymd2ord_less:
  assumes "valid_md (leap_year y) md" "valid_md (leap_year y') md'" "(y, fst md) < (y', fst md')"
  shows "ymd2ord y md < ymd2ord y' md'"
proof (cases "y = y'")
  case True
  then have m: "fst md < fst md'" using assms(3) by simp
  then have "days_before_month (leap_year y) (fst md) + days_in_month (leap_year y) (fst md)
      \<le> days_before_month (leap_year y) (fst md')"
    using assms(1,2) by (intro month_ends) (simp_all add: valid_md_def)
  then show ?thesis using True assms(1,2) by (simp add: ymd2ord_def valid_md_def)
next
  case False
  then have "y + 1 \<le> y'" using assms(3) by auto
  then have "days_before_year (y + 1) \<le> days_before_year y'" by (rule days_before_year_mono)
  then show ?thesis
    using month_of_year_end(2) [OF assms(1)] month_of_year_end(1) [OF assms(2)]
    by (simp add: ymd2ord_def days_before_next_year)
qed

lemma month_day_inverse:
  assumes "0 \<le> n" "n < 365"
  shows "days_before_month leap (fst (month_day leap n)) + snd (month_day leap n) = n + 1"
proof -
  define m where "m = (n + 50) div 32"
  have b: "32 * m \<le> n + 50" "n + 50 < 32 * m + 32" unfolding m_def by presburger+
  then have "1 \<le> m" "m \<le> 12" using assms by linarith+
  from month_cases [OF this] show ?thesis
    unfolding month_day_def m_def [symmetric] Let_def days_before_month_def days_in_month_def
    using b assms by (elim disjE; cases leap; simp add: nth_months)
qed

text \<open>A day count split into 400-year, 100-year, 4-year and one-year periods.\<close>

lemma period_divisions:
  fixes a b c e :: int
  assumes "0 \<le> b" "b \<le> 3" "0 \<le> c" "c \<le> 24" "0 \<le> e" "e \<le> 3"
  shows "(400 * a + 100 * b + 4 * c + e) div 4 = 100 * a + 25 * b + c"
    "(400 * a + 100 * b + 4 * c + e) div 100 = 4 * a + b" "(400 * a + 100 * b + 4 * c + e) div 400 = a"
    "leap_year (400 * a + 100 * b + 4 * c + e + 1) \<longleftrightarrow> e = 3 \<and> (c \<noteq> 24 \<or> b = 3)"
proof -
  let ?y = "400 * a + 100 * b + 4 * c + e"
  show d4: "?y div 4 = 100 * a + 25 * b + c" by (rule int_div_pos_eq [where r = e]) (use assms in simp_all)
  show d100: "?y div 100 = 4 * a + b" by (rule int_div_pos_eq [where r = "4 * c + e"]) (use assms in simp_all)
  show d400: "?y div 400 = a"
    by (rule int_div_pos_eq [where r = "100 * b + 4 * c + e"]) (use assms in simp_all)
  have r: "(?y + 1) mod 4 = (if e = 3 then 0 else e + 1)"
    "(?y + 1) mod 100 = (if e = 3 \<and> c = 24 then 0 else 4 * c + e + 1)"
    "(?y + 1) mod 400 = (if e = 3 \<and> c = 24 \<and> b = 3 then 0 else 100 * b + 4 * c + e + 1)"
  proof -
    show "(?y + 1) mod 4 = (if e = 3 then 0 else e + 1)"
      using assms by (auto intro: int_mod_pos_eq [where q = "100 * a + 25 * b + c"]
          int_mod_pos_eq [where q = "100 * a + 25 * b + c + 1"])
    show "(?y + 1) mod 100 = (if e = 3 \<and> c = 24 then 0 else 4 * c + e + 1)"
      using assms by (auto intro: int_mod_pos_eq [where q = "4 * a + b"] int_mod_pos_eq [where q = "4 * a + b + 1"])
    show "(?y + 1) mod 400 = (if e = 3 \<and> c = 24 \<and> b = 3 then 0 else 100 * b + 4 * c + e + 1)"
      using assms by (auto intro: int_mod_pos_eq [where q = a] int_mod_pos_eq [where q = "a + 1"])
  qed
  show "leap_year (?y + 1) \<longleftrightarrow> e = 3 \<and> (c \<noteq> 24 \<or> b = 3)"
    unfolding leap_year_def r using assms by (auto split: if_splits)
qed

text \<open>The date of an ordinal is a valid date, and its ordinal is the given one.\<close>

lemma last_day_of_leap_year:
  assumes "0 \<le> b" "b \<le> 3" "0 \<le> c" "c \<le> 24" "c \<noteq> 24 \<or> b = 3" and y: "y = 400 * a + 100 * b + 4 * c + 4"
  shows "valid_md (leap_year y) (12, 31)" "ymd2ord y (12, 31) = 146097 * a + 36524 * b + 1461 * c + 1461"
proof -
  have e: "0 \<le> (3::int)" "3 \<le> (3::int)" by simp_all
  note p = period_divisions [OF assms(1-4) e, of a]
  have y': "y - 1 = 400 * a + 100 * b + 4 * c + 3" "y = 400 * a + 100 * b + 4 * c + 3 + 1" using y by simp_all
  have "leap_year y" using p(4) assms(5) unfolding y'(2) by simp
  moreover have "days_before_year y = 146097 * a + 36524 * b + 1461 * c + 1095"
    unfolding days_before_year_def y'(1) p(1-3) by simp
  ultimately show "valid_md (leap_year y) (12, 31)" "ymd2ord y (12, 31) = 146097 * a + 36524 * b + 1461 * c + 1461"
    by (simp_all add: ymd2ord_def valid_md_def days_in_month_def days_before_month_def nth_months)
qed

lemma ord2ymd_inverse:
  "valid_md (leap_year (fst (ord2ymd n))) (snd (ord2ymd n)) \<and> ymd2ord (fst (ord2ymd n)) (snd (ord2ymd n)) = n"
proof -
  define a where "a = (n - 1) div 146097"
  define b where "b = (n - 1) mod 146097 div 36524"
  define c where "c = (n - 1) mod 146097 mod 36524 div 1461"
  define e where "e = (n - 1) mod 146097 mod 36524 mod 1461 div 365"
  define d where "d = (n - 1) mod 146097 mod 36524 mod 1461 mod 365"
  define r where "r = (n - 1) mod 146097"
  define s where "s = r mod 36524"
  define t where "t = s mod 1461"
  have n: "n - 1 = 146097 * a + r" "r = 36524 * b + s" "s = 1461 * c + t" "t = 365 * e + d"
    unfolding a_def b_def c_def e_def d_def r_def s_def t_def by simp_all
  have bounds: "0 \<le> r" "r < 146097" "0 \<le> s" "s < 36524" "0 \<le> t" "t < 1461" "0 \<le> d" "d < 365"
    unfolding r_def s_def t_def d_def by simp_all
  have pos: "0 \<le> b" "0 \<le> c" "0 \<le> e"
    unfolding b_def c_def e_def by (simp_all add: pos_imp_zdiv_nonneg_iff)
  have le: "b \<le> 4" "c \<le> 24" "e \<le> 4" using n bounds pos by linarith+
  have ymd: "ord2ymd n = (if e = 4 \<or> b = 4 then (400 * a + 100 * b + 4 * c + e, 12, 31)
      else (400 * a + 100 * b + 4 * c + e + 1, month_day (e = 3 \<and> (c \<noteq> 24 \<or> b = 3)) d))"
    unfolding a_def b_def c_def e_def d_def ord2ymd_def Let_def by (simp add: algebra_simps)
  show ?thesis
  proof (cases "e = 4 \<or> b = 4")
    case False
    then have small: "b \<le> 3" "e \<le> 3" using le by auto
    note p = period_divisions [OF pos(1) small(1) pos(2) le(2) pos(3) small(2), of a]
    have "days_before_year (400 * a + 100 * b + 4 * c + e + 1) + d + 1 = n"
      unfolding days_before_year_def add_diff_cancel_right' p(1-3) using n by simp
    then show ?thesis
      using False p(4) month_day_valid [OF bounds(7,8)] month_day_inverse [OF bounds(7,8)]
      by (simp add: ymd ymd2ord_def add.assoc)
  next
    case True
    show ?thesis
    proof (cases "b = 4")
      case True
      then have "s = 0" using n(2) bounds by linarith
      then have z: "c = 0" "e = 0" "d = 0" using n(3,4) pos bounds(5,7) by linarith+
      have date: "ord2ymd n = (400 * a + 400, 12, 31)" unfolding ymd using True z by simp
      have "400 * a + 400 = 400 * a + 100 * 3 + 4 * 24 + (4::int)" by simp
      from last_day_of_leap_year [OF _ _ _ _ _ this] show ?thesis
        unfolding date using n True z \<open>s = 0\<close> by simp
    next
      case False
      with True le have e: "e = 4" "b \<le> 3" by auto
      then have d: "d = 0" "t = 1460" using n(4) bounds by linarith+
      then have c: "c \<le> 23" using n(3) bounds(4) le(2) by linarith
      have date: "ord2ymd n = (400 * a + 100 * b + 4 * c + 4, 12, 31)" unfolding ymd using e by simp
      from last_day_of_leap_year [OF pos(1) e(2) pos(2) le(2) _ refl, of a] show ?thesis
        unfolding date using n e c d by simp
    qed
  qed
qed

text \<open>Year and month never go back as time passes.\<close>

lemma year_month_mono:
  assumes "t \<le> u"
  shows "(cv_year (civil_of t), cv_month (civil_of t)) \<le> (cv_year (civil_of u), cv_month (civil_of u))"
proof (rule ccontr)
  let ?n = "t div DAY + EPOCH_ORDINAL" and ?m = "u div DAY + EPOCH_ORDINAL"
  assume "\<not> ?thesis"
  then have "(fst (ord2ymd ?m), fst (snd (ord2ymd ?m))) < (fst (ord2ymd ?n), fst (snd (ord2ymd ?n)))"
    by (simp add: civil_of_def Let_def not_le)
  then have "?m < ?n" using ymd2ord_less ord2ymd_inverse by metis
  moreover have "t div DAY \<le> u div DAY" using assms by (simp add: zdiv_mono1 DAY_def)
  ultimately show False by simp
qed

end
