(* ===== verification/Audit_Properties.thy ===== *)
theory Audit_Properties
  imports Audit_Reader Calendar_Order "HOL-Library.Multiset"
begin

text \<open>
  What the audit log guarantees: the reader returns what the sink wrote, a filter with a bound on another
  clock than UTC skips files, and the event identifiers keep time order.
\<close>

section \<open>File names\<close>

lemma digits_of_digits: "list_all is_digit (digits_of n)"
proof (induction n rule: digits_of.induct)
  case (1 n)
  have d: "is_digit (char_of (48 + k))" if "k < 10" for k :: nat
    using that by (simp add: is_digit_def char_between_def take_bit_eq_mod)
  show ?case
  proof (cases "n < 10")
    case True
    then show ?thesis using d by (simp add: digits_of.simps)
  next
    case False
    then show ?thesis using 1 d [of "n mod 10"] by (subst digits_of.simps) simp
  qed
qed

lemma digits_of_length: "n < 10 ^ w \<Longrightarrow> 0 < w \<Longrightarrow> length (digits_of n) \<le> w"
proof (induction w arbitrary: n)
  case (Suc w)
  show ?case
  proof (cases "n < 10")
    case False
    then have "n div 10 < 10 ^ w" "0 < w" using Suc.prems(1) by (auto simp: less_mult_imp_div_less intro: gr0I)
    from Suc.IH [OF this] show ?thesis using False by (subst digits_of.simps) simp
  qed (simp add: digits_of.simps)
qed simp

lemma zero_pad_digits:
  assumes "0 \<le> i" "i < 10 ^ w" "0 < w"
  shows "length (zero_pad w i) = w" "list_all is_digit (zero_pad w i)" "nat_of_digits (zero_pad w i) = nat i"
proof -
  have "nat i < 10 ^ w" using assms(1,2) by (simp add: nat_less_iff)
  then have "length (digits_of (nat i)) \<le> w" using assms(3) by (rule digits_of_length)
  then show "length (zero_pad w i) = w" using assms(1) by (simp add: zero_pad_def pad_left_def int_str_def)
  show "nat_of_digits (zero_pad w i) = nat i"
    using assms(1) by (simp add: zero_pad_def pad_left_def int_str_def nat_of_digits_zeros)
  have "is_digit (CHR ''0'')" by (simp add: is_digit_def char_between_def)
  then show "list_all is_digit (zero_pad w i)"
    using assms(1) digits_of_digits
    by (auto simp: zero_pad_def pad_left_def int_str_def list_all_iff)
qed

definition month_ok :: "month \<Rightarrow> bool" where
  "month_ok m \<longleftrightarrow> 0 \<le> fst m \<and> fst m < 10000 \<and> 1 \<le> snd m \<and> snd m \<le> 12"

lemma file_month_of_file:
  assumes "month_ok m"
  shows "file_month (month_file m) = Some m"
proof -
  have y: "length (zero_pad 4 (fst m)) = 4" "list_all is_digit (zero_pad 4 (fst m))"
    "nat_of_digits (zero_pad 4 (fst m)) = nat (fst m)"
    using assms zero_pad_digits [of "fst m" 4] by (simp_all add: month_ok_def)
  have k: "length (zero_pad 2 (snd m)) = 2" "list_all is_digit (zero_pad 2 (snd m))"
    "nat_of_digits (zero_pad 2 (snd m)) = nat (snd m)"
    using assms zero_pad_digits [of "snd m" 2] by (simp_all add: month_ok_def)
  have "in_lang MONTHLY_FILE_RE (month_file m)"
    unfolding MONTHLY_FILE_RE_def month_file_def r_cat.simps using y(1,2) k(1,2)
    by (intro lang_seq) (simp_all only: in_lang_rep_set in_lang_lit simp_thms)
  then have "re_full MONTHLY_FILE_RE (month_file m)" by (simp add: re_full_def re_matches_iff)
  then show ?thesis
    using y k assms by (simp add: file_month_def month_file_def month_ok_def prod_eq_iff)
qed

section \<open>Lines\<close>

lemma split_on_append: "split_on c (a @ c # b) = split_on c a @ split_on c b"
  by (induction a) (auto split: list.splits)

lemma split_on_none: "c \<notin> set a \<Longrightarrow> split_on c a = [a]"
  by (induction a) auto

text \<open>What the sink and the reader rely on of the serialisation: one line per event, which parses back.\<close>

definition codec_ok :: "(AuditEvent \<Rightarrow> string) \<Rightarrow> (string \<Rightarrow> AuditEvent option) \<Rightarrow> AuditEvent set \<Rightarrow> bool" where
  "codec_ok dump parse E \<longleftrightarrow> (\<forall>e \<in> E. CHR 0x0A \<notin> set (dump e) \<and> strip (dump e) = dump e \<and> dump e \<noteq> []
     \<and> parse (dump e) = Some e)"

definition text_of :: "(AuditEvent \<Rightarrow> string) \<Rightarrow> AuditEvent list \<Rightarrow> string" where
  "text_of dump es = concat (map (\<lambda>e. dump e @ nl) es)"

lemma parse_text_of:
  assumes "codec_ok dump parse (set es)"
  shows "List.map_filter (parse_line parse) (split_on (CHR 0x0A) (text_of dump es)) = es"
  using assms
proof (induction es)
  case Nil
  then show ?case by (simp add: text_of_def map_filter_simps parse_line_def strip_def)
next
  case (Cons e es)
  have "text_of dump (e # es) = dump e @ CHR 0x0A # text_of dump es" by (simp add: text_of_def nl_def)
  then show ?case
    using Cons by (simp add: codec_ok_def split_on_append split_on_none map_filter_simps parse_line_def)
qed

section \<open>What the files hold\<close>

abbreviation event_month :: "AuditEvent \<Rightarrow> month" where
  "event_month e \<equiv> month_of (ae_timestamp e)"

abbreviation event_file :: "AuditEvent \<Rightarrow> string" where
  "event_file e \<equiv> month_file (event_month e)"

text \<open>Every file holds the lines of its events, in the order they were emitted.\<close>

definition logged :: "(AuditEvent \<Rightarrow> string) \<Rightarrow> AuditEvent list \<Rightarrow> (string, string) dict \<Rightarrow> bool" where
  "logged dump es files \<longleftrightarrow> wf_dict files \<and>
     (\<forall>p. dict_get files p =
        (if p \<in> event_file ` set es then Some (text_of dump (filter (\<lambda>e. event_file e = p) es)) else None))"

lemma logged_empty: "logged dump [] []"
  by (simp add: logged_def wf_dict_def)

lemma text_of_snoc: "text_of dump (es @ [e]) = text_of dump es @ dump e @ nl"
  by (simp add: text_of_def)

lemma append_touched: "append_file p txt (touch_file p files) = append_file p txt files"
  by (auto simp: append_file_def touch_file_def dict_get_or_def dict_simps)

lemma logged_append:
  assumes "logged dump es files"
  shows "logged dump (es @ [e]) (append_file (event_file e) (dump e @ nl) files)"
proof -
  have none: "filter (\<lambda>x. event_file x = event_file e) es = []" if "event_file e \<notin> event_file ` set es"
    using that by (auto simp: filter_empty_conv image_iff)
  then show ?thesis
    using assms
    by (auto simp: logged_def append_file_def wf_dict_set dict_get_or_def dict_simps text_of_snoc)
      (simp_all add: text_of_def)
qed

text \<open>A call that raises nothing appends its event's line to the file of the event's month.\<close>

lemma file_emit_ok:
  assumes "file_emit dump a d NoFault k = (Inr e, k')"
  shows "audit_event_ok e" "fs_files k' = append_file (event_file e) (dump e @ nl) (fs_files k)"
    "fs_config k' = fs_config k"
  using assms
  by (auto simp: file_emit_def sink_write_def rotate_if_needed_def try_bind_def py_return_def Let_def
      append_touched split: if_splits)

text \<open>A run of the sink without faults.\<close>

fun emit_all ::
  "(AuditEvent \<Rightarrow> string) \<Rightarrow> (emit_args \<times> draws) list \<Rightarrow> (file_sink, exn, AuditEvent list) py" where
  "emit_all dump [] k = (Inr [], k)"
| "emit_all dump (c # cs) k =
     try_bind (file_emit dump (fst c) (snd c) NoFault) (\<lambda>e. try_bind (emit_all dump cs) (\<lambda>es. py_return (e # es))) k"

lemma emit_all_logged:
  assumes "emit_all dump cs k = (Inr es, k')" "logged dump old (fs_files k)"
  shows "logged dump (old @ es) (fs_files k')"
  using assms
proof (induction cs arbitrary: k es old)
  case Nil
  then show ?case by simp
next
  case (Cons c cs)
  from Cons.prems(1) obtain e k1 rest where e: "file_emit dump (fst c) (snd c) NoFault k = (Inr e, k1)"
    "emit_all dump cs k1 = (Inr rest, k')" "es = e # rest"
    by (auto simp: try_bind_def py_return_def split: prod.splits sum.splits)
  have "logged dump (old @ [e]) (fs_files k1)"
    unfolding file_emit_ok(2) [OF e(1)] by (rule logged_append [OF Cons.prems(2)])
  from Cons.IH [OF e(2) this] show ?case by (simp add: e(3))
qed

section \<open>What a scan returns\<close>

definition months_ok :: "AuditEvent list \<Rightarrow> bool" where
  "months_ok es \<longleftrightarrow> (\<forall>e \<in> set es. 0 \<le> fst (event_month e) \<and> fst (event_month e) < 10000)"

lemma months_ok_month: "months_ok es \<Longrightarrow> e \<in> set es \<Longrightarrow> month_ok (event_month e)"
  using civil_ranges by (simp add: months_ok_def month_ok_def month_of_def Let_def)

lemma file_month_event: "months_ok es \<Longrightarrow> e \<in> set es \<Longrightarrow> file_month (event_file e) = Some (event_month e)"
  by (simp add: months_ok_month file_month_of_file)

definition month_entries :: "(string, string) dict \<Rightarrow> (month \<times> string) list" where
  "month_entries files = List.map_filter
     (\<lambda>name. case file_month name of None \<Rightarrow> None | Some m \<Rightarrow> Some (m, name)) (dict_keys files)"

lemma set_map_filter: "set (List.map_filter f xs) = {y. \<exists>x \<in> set xs. f x = Some y}"
  by (induction xs) (auto simp: map_filter_simps split: option.splits)

lemma month_entries_set:
  assumes "logged dump es files" "months_ok es"
  shows "set (month_entries files) = (\<lambda>e. (event_month e, event_file e)) ` set es"
    and "distinct (map snd (month_entries files))"
proof -
  have keys: "set (dict_keys files) = event_file ` set es"
  proof -
    have "p \<in> set (dict_keys files) \<longleftrightarrow> dict_get files p \<noteq> None" for p
      by (simp only: map_of_eq_None_iff set_map not_not)
    moreover have "dict_get files p \<noteq> None \<longleftrightarrow> p \<in> event_file ` set es" for p
      using assms(1) by (simp add: logged_def)
    ultimately show ?thesis by blast
  qed
  show "set (month_entries files) = (\<lambda>e. (event_month e, event_file e)) ` set es"
  proof -
    have entry: "(case m of None \<Rightarrow> None | Some k \<Rightarrow> Some (k, n)) = Some x \<longleftrightarrow> m = Some (fst x) \<and> snd x = n"
      for m :: "month option" and n :: string and x
      by (cases m; cases x) auto
    have same: "file_month (event_file e) = Some (fst x) \<and> snd x = event_file e \<longleftrightarrow> x = (event_month e, event_file e)"
      if "e \<in> set es" for e x
      unfolding file_month_event [OF assms(2) that] by (cases x) auto
    have "x \<in> set (month_entries files) \<longleftrightarrow> (\<exists>n \<in> set (dict_keys files). file_month n = Some (fst x) \<and> snd x = n)" for x
      by (simp only: month_entries_def set_map_filter mem_Collect_eq entry)
    then have "x \<in> set (month_entries files) \<longleftrightarrow>
        (\<exists>e \<in> set es. file_month (event_file e) = Some (fst x) \<and> snd x = event_file e)" for x
      unfolding keys by blast
    then show ?thesis using same by blast
  qed
  have "map snd (List.map_filter (\<lambda>name. case file_month name of None \<Rightarrow> None | Some m \<Rightarrow> Some (m, name)) ns)
      = filter (\<lambda>n. file_month n \<noteq> None) ns" for ns
    by (induction ns) (auto simp: map_filter_simps split: option.splits)
  then have "map snd (month_entries files) = filter (\<lambda>n. file_month n \<noteq> None) (dict_keys files)"
    unfolding month_entries_def .
  then show "distinct (map snd (month_entries files))"
    using assms(1) by (simp add: logged_def wf_dict_def)
qed

lemma concat_one: "distinct ps \<Longrightarrow> q \<in> set ps \<Longrightarrow> concat (map (\<lambda>p. if p = q then ys else []) ps) = ys"
proof (induction ps)
  case (Cons p ps)
  have "q \<notin> set ps \<Longrightarrow> concat (map (\<lambda>p. if p = q then ys else []) ps) = []" by (induction ps) auto
  then show ?case using Cons by auto
qed simp

lemma sorted_concat_groups:
  assumes "sorted (map h ps)" "\<And>p x. p \<in> set ps \<Longrightarrow> x \<in> set (G p) \<Longrightarrow> f x = h p"
  shows "sorted (map f (concat (map G ps)))"
  using assms
proof (induction ps)
  case (Cons p ps)
  have "map f (G p) = replicate (length (G p)) (h p)"
    using Cons.prems(2) by (intro replicate_eqI) auto
  moreover have "h p \<le> f x" if "q \<in> set ps" "x \<in> set (G q)" for q x
    using that Cons.prems(1) Cons.prems(2) [of q x] by auto
  moreover have "sorted (map f (concat (map G ps)))"
    by (rule Cons.IH) (use Cons.prems in auto)
  ultimately show ?case by (auto simp: sorted_append sorted_replicate)
qed simp

text \<open>Groups in the order of their keys, each in the given order, are the stable sort.\<close>

lemma concat_groups:
  assumes "sorted (map h ps)" "distinct ps" "\<forall>x \<in> set xs. g x \<in> set ps"
    and h: "\<forall>x \<in> set xs. h (g x) = f x" and inj: "\<forall>x \<in> set xs. \<forall>y \<in> set xs. f x = f y \<longrightarrow> g x = g y"
  shows "concat (map (\<lambda>p. filter (\<lambda>x. g x = p) xs) ps) = sort_key f xs" (is "?ys = _")
proof (rule properties_for_sort_key [symmetric])
  have set_ys: "set ?ys = set xs" using assms(3) by auto
  have group: "filter (\<lambda>x. f k = f x) ?ys = filter (\<lambda>x. f k = f x) xs" if k: "k \<in> set xs" for k
  proof -
    have key: "g x = g k" if "x \<in> set xs" "f k = f x" for x
      by (rule inj [rule_format, OF that(1) k that(2) [symmetric]])
    have same: "filter (\<lambda>x. f k = f x) (filter (\<lambda>x. g x = p) xs)
        = (if p = g k then filter (\<lambda>x. f k = f x) xs else [])" for p
    proof (cases "p = g k")
      case True
      have "filter (\<lambda>x. g x = p \<and> f k = f x) xs = filter (\<lambda>x. f k = f x) xs"
        by (rule filter_cong [OF refl]) (use key True in blast)
      then show ?thesis using True by (simp only: filter_filter if_True simp_thms)
    next
      case False
      then have "\<not> (g x = p \<and> f k = f x)" if "x \<in> set xs" for x using key [OF that] by metis
      then show ?thesis using False by (simp only: filter_filter filter_empty_conv if_False) blast
    qed
    have "filter (\<lambda>x. f k = f x) ?ys
        = concat (map (\<lambda>p. filter (\<lambda>x. f k = f x) (filter (\<lambda>x. g x = p) xs)) ps)"
      by (simp only: filter_concat map_map comp_def)
    also have "\<dots> = concat (map (\<lambda>p. if p = g k then filter (\<lambda>x. f k = f x) xs else []) ps)"
      by (simp only: same)
    also have "\<dots> = filter (\<lambda>x. f k = f x) xs"
      by (rule concat_one [OF assms(2)]) (use assms(3) k in blast)
    finally show ?thesis .
  qed
  show "mset ?ys = mset xs"
  proof (rule multiset_eqI)
    fix x
    have "count (mset (filter (\<lambda>y. f x = f y) zs)) x = count (mset zs) x" for zs
      by (simp only: mset_filter count_filter_mset) simp
    then show "count (mset ?ys) x = count (mset xs) x"
      using group [of x] set_ys by (metis count_mset_0_iff)
  qed
  show "\<And>k. k \<in> set ?ys \<Longrightarrow> filter (\<lambda>x. f k = f x) ?ys = filter (\<lambda>x. f k = f x) xs"
    using group set_ys by blast
  show "sorted (map f ?ys)"
    by (rule sorted_concat_groups [OF assms(1)]) (use h in auto)
qed

lemma monthly_files_set:
  assumes "logged dump es files" "months_ok es"
  shows "set (monthly_files files) = event_file ` set es"
  using month_entries_set(1) [OF assms] by (simp add: monthly_files_def image_image flip: month_entries_def)

text \<open>Scanning one file of a log.\<close>

lemma scan_log_file:
  assumes "logged dump es files" "codec_ok dump parse (set es)" "p \<in> event_file ` set es"
  shows "scan_file parse blob f (dict_get_or files p [])
    = filter (filter_matches blob f) (filter (\<lambda>e. event_file e = p) es)"
proof -
  have "dict_get_or files p [] = text_of dump (filter (\<lambda>e. event_file e = p) es)"
    using assms(1,3) by (simp add: logged_def dict_get_or_def)
  moreover have "codec_ok dump parse (set (filter (\<lambda>e. event_file e = p) es))"
    using assms(2) by (simp add: codec_ok_def)
  ultimately show ?thesis by (simp only: scan_file_def parse_text_of)
qed

text \<open>Scanning all files of a log one after the other.\<close>

lemma scan_groups:
  assumes "logged dump es files" "months_ok es" "codec_ok dump parse (set es)"
  shows "concat (map (\<lambda>p. scan_file parse blob f (dict_get_or files p [])) (monthly_files files))
    = filter (filter_matches blob f) (sort_key event_month es)"
proof -
  let ?G = "\<lambda>p. filter (\<lambda>e. event_file e = p) es" and ?ps = "monthly_files files"
  have ps: "?ps = map snd (sort_key fst (month_entries files))"
    by (simp add: monthly_files_def month_entries_def)
  note entries = month_entries_set [OF assms(1,2)] and set_ps = monthly_files_set [OF assms(1,2)]
  have "distinct ?ps" unfolding ps using entries(2)
    by (metis distinct_map mset_eq_imp_distinct_iff mset_map mset_sort)
  moreover have "sorted (map (\<lambda>p. the (file_month p)) ?ps)"
  proof -
    have "map (\<lambda>p. the (file_month p)) ?ps = map fst (sort_key fst (month_entries files))"
      unfolding ps map_map
      by (rule map_cong [OF refl]) (use entries(1) file_month_event [OF assms(2)] in auto)
    then show ?thesis by simp
  qed
  moreover have "\<forall>e \<in> set es. the (file_month (event_file e)) = event_month e"
    using file_month_event [OF assms(2)] by simp
  ultimately have groups: "concat (map ?G ?ps) = sort_key event_month es"
    using set_ps by (intro concat_groups [where h = "\<lambda>p. the (file_month p)"]) auto
  have "map (\<lambda>p. scan_file parse blob f (dict_get_or files p [])) ?ps
      = map (\<lambda>p. filter (filter_matches blob f) (?G p)) ?ps"
    by (rule map_cong [OF refl]) (use scan_log_file [OF assms(1,3)] set_ps in blast)
  then show ?thesis unfolding groups [symmetric] by (simp only: filter_concat map_map comp_def)
qed

lemma concat_filter_empty:
  "\<forall>p \<in> set ps. \<not> P p \<longrightarrow> h p = [] \<Longrightarrow> concat (map h (filter P ps)) = concat (map h ps)"
  by (induction ps) auto

definition utc_bound :: "aware option \<Rightarrow> bool" where
  "utc_bound t \<longleftrightarrow> opt_ok t (\<lambda>a. aw_offset a = 0)"

text \<open>A month outside the bounds holds no event of the filter, when the bounds are UTC.\<close>

lemma month_out_of_range:
  assumes "utc_bound (af_start f)" "utc_bound (af_end f)" and "filter_matches blob f e"
  shows "opt_ok (af_start f) (\<lambda>t. \<not> event_month e < local_month t) \<and> opt_ok (af_end f) (\<lambda>t. \<not> event_month e > local_month t)"
proof -
  have mono: "t \<le> u \<Longrightarrow> month_of t \<le> month_of u" for t u
    using year_month_mono by (simp add: month_of_def Let_def)
  show ?thesis
    using assms by (cases "af_start f"; cases "af_end f")
      (auto simp: opt_ok_def filter_matches_def utc_bound_def local_month_def not_less mono)
qed

lemma skipped_file_empty:
  assumes "logged dump es k" "codec_ok dump parse (set es)" "months_ok es"
    and "utc_bound (af_start f)" "utc_bound (af_end f)" and p: "p \<in> set (monthly_files k)"
    and skip: "\<not> (case file_month p of None \<Rightarrow> False
       | Some m \<Rightarrow> opt_ok (af_start f) (\<lambda>t. \<not> m < local_month t) \<and> opt_ok (af_end f) (\<lambda>t. \<not> m > local_month t))"
  shows "scan_file parse blob f (dict_get_or k p []) = []"
proof -
  have at: "p \<in> event_file ` set es" using p monthly_files_set [OF assms(1,3)] by simp
  have "\<not> filter_matches blob f e" if e: "e \<in> set es" "event_file e = p" for e
  proof
    assume "filter_matches blob f e"
    from month_out_of_range [OF assms(4,5) this] file_month_event [OF assms(3) e(1)] e(2) skip show False by simp
  qed
  then show ?thesis unfolding scan_log_file [OF assms(1,2) at] by (auto simp: filter_empty_conv)
qed

text \<open>C19: Write and read back: after any sequence of successful \<open>emit\<close> calls on a fresh file sink, a scan
  with a filter whose bounds are in UTC returns exactly the emitted events the filter matches, each once,
  ordered by month and in emission order within a month; no file the reader skips holds a match.  The
  emission order is not that of the timestamps the reader's documentation promises: a caller may pass any
  timestamp to \<open>emit\<close>.\<close>

theorem audit_log_round_trip:
  assumes "fs_files k = []" and "emit_all dump cs k = (Inr es, k')"
    and "codec_ok dump parse (set es)" and "months_ok es"
    and "utc_bound (af_start f)" and "utc_bound (af_end f)"
  shows "audit_scan parse blob f (fs_files k') = filter (filter_matches blob f) (sort_key event_month es)"
proof -
  have log: "logged dump es (fs_files k')"
    using emit_all_logged [OF assms(2), of "[]"] logged_empty assms(1) by simp
  have "audit_scan parse blob f (fs_files k')
      = concat (map (\<lambda>p. scan_file parse blob f (dict_get_or (fs_files k') p [])) (monthly_files (fs_files k')))"
    unfolding audit_scan_def files_in_range_def
    by (rule concat_filter_empty, intro ballI impI, rule skipped_file_empty [OF log assms(3-6)])
  then show ?thesis by (simp only: scan_groups [OF log assms(4,3)])
qed

text \<open>A bound on another clock loses matches: the reader picks the files by the year and month the
  bound shows on its own clock, so an event at or after the start is left out of the scan when its
  UTC month is before the month the start shows.\<close>

theorem local_bound_skips_events:
  assumes "fs_files k = []" and "emit_all dump cs k = (Inr es, k')"
    and "codec_ok dump parse (set es)" and "months_ok es"
    and "e \<in> set es" and "filter_matches blob f e"
    and "af_start f = Some t" and "event_month e < local_month t"
  shows "e \<notin> set (audit_scan parse blob f (fs_files k'))"
proof
  let ?files = "fs_files k'"
  assume "e \<in> set (audit_scan parse blob f ?files)"
  then obtain p where p: "p \<in> set (files_in_range (af_start f) (af_end f) ?files)"
    "e \<in> set (scan_file parse blob f (dict_get_or ?files p []))"
    by (auto simp: audit_scan_def)
  have log: "logged dump es ?files"
    using emit_all_logged [OF assms(2), of "[]"] logged_empty assms(1) by simp
  have "p \<in> event_file ` set es"
    using p(1) monthly_files_set [OF log assms(4)] by (simp add: files_in_range_def)
  from scan_log_file [OF log assms(3) this] p(2) have "event_file e = p" by auto
  then have "file_month p = Some (event_month e)" using file_month_event [OF assms(4,5)] by simp
  then show False using p(1) assms(7,8) by (simp add: files_in_range_def opt_ok_def)
qed

section \<open>An example log\<close>

text \<open>Events at 23:00 on 31 January 2026, one day later, and again in January.\<close>

definition ex_at :: "nat \<Rightarrow> instant" where
  "ex_at n = [1769900400000000, 1769986800000000, 1769900401000000] ! n"

definition ex_sink :: file_sink where
  "ex_sink = \<lparr>fs_config = \<lparr>sk_deployment = \<lparr>dep_id = ''d'', dep_mode = LocalMode, dep_edition = Core, dep_version = ''1.0.0''\<rparr>,
       sk_source = \<lparr>src_component = ''c'', src_version = ''1.0.0''\<rparr>, sk_schema_version = ''1.0.0''\<rparr>,
     fs_files = [], fs_open = False, fs_month = None\<rparr>"

definition ex_call :: "nat \<Rightarrow> emit_args \<times> draws" where
  "ex_call n = (\<lparr>ea_event_type = ''routine.loaded'', ea_severity = SevInfo,
       ea_principal = \<lparr>pr_id = ''s'', pr_type = PSystem, pr_idp_sub = None, pr_display_name = None\<rparr>,
       ea_payload = None, ea_trace_id = None, ea_routine_run_id = None, ea_request_id = None, ea_tenant_id = None,
       ea_redactions = None, ea_timestamp = None\<rparr>,
     \<lparr>dw_now = ex_at n, dw_trace = replicate 32 (CHR ''a''), dw_event_id = [''a'', ''b'', ''c''] ! n, dw_current = None\<rparr>)"

definition ex_event :: "nat \<Rightarrow> AuditEvent" where
  "ex_event n = event_of_call (fs_config ex_sink) (fst (ex_call n)) (snd (ex_call n))"

definition ex_parse :: "string \<Rightarrow> AuditEvent option" where
  "ex_parse s = (if s = ''a'' then Some (ex_event 0) else if s = ''b'' then Some (ex_event 1)
     else if s = ''c'' then Some (ex_event 2) else None)"

lemma ex_log:
  "\<exists>k'. emit_all ae_event_id [ex_call 0, ex_call 1, ex_call 2] ex_sink = (Inr [ex_event 0, ex_event 1, ex_event 2], k')"
proof -
  have "fst (emit_all ae_event_id [ex_call 0, ex_call 1, ex_call 2] ex_sink) = Inr [ex_event 0, ex_event 1, ex_event 2]"
    by code_simp
  then show ?thesis by (metis prod.collapse)
qed

lemma ex_log_ok:
  "codec_ok ae_event_id ex_parse (set [ex_event 0, ex_event 1, ex_event 2])"
  "months_ok [ex_event 0, ex_event 1, ex_event 2]" "fs_files ex_sink = []"
  by code_simp+

lemma audit_log_round_trip_witness:
  "\<exists>k'. emit_all ae_event_id [ex_call 0, ex_call 1, ex_call 2] ex_sink = (Inr [ex_event 0, ex_event 1, ex_event 2], k')
     \<and> audit_scan ex_parse ae_event_id no_filter (fs_files k') = [ex_event 0, ex_event 2, ex_event 1]"
proof -
  obtain k' where k': "emit_all ae_event_id [ex_call 0, ex_call 1, ex_call 2] ex_sink
      = (Inr [ex_event 0, ex_event 1, ex_event 2], k')" using ex_log by blast
  have "utc_bound (af_start no_filter)" "utc_bound (af_end no_filter)" by code_simp+
  from audit_log_round_trip [OF ex_log_ok(3) k' ex_log_ok(1,2) this, of ae_event_id]
  have "audit_scan ex_parse ae_event_id no_filter (fs_files k') =
      filter (filter_matches ae_event_id no_filter) (sort_key event_month [ex_event 0, ex_event 1, ex_event 2])" .
  also have "\<dots> = [ex_event 0, ex_event 2, ex_event 1]" by code_simp
  finally show ?thesis using k' by blast
qed

text \<open>Midnight and a half on 1 February on a clock two hours ahead of UTC.\<close>

definition ex_local_start :: AuditFilter where
  "ex_local_start = no_filter\<lparr>af_start := Some \<lparr>aw_instant = 1769898600000000, aw_offset = 7200000000\<rparr>\<rparr>"

lemma local_bound_skips_events_witness:
  "\<exists>k'. emit_all ae_event_id [ex_call 0, ex_call 1, ex_call 2] ex_sink = (Inr [ex_event 0, ex_event 1, ex_event 2], k')
     \<and> filter_matches ae_event_id ex_local_start (ex_event 0)
     \<and> ex_event 0 \<notin> set (audit_scan ex_parse ae_event_id ex_local_start (fs_files k'))"
proof -
  obtain k' where k': "emit_all ae_event_id [ex_call 0, ex_call 1, ex_call 2] ex_sink
      = (Inr [ex_event 0, ex_event 1, ex_event 2], k')" using ex_log by blast
  have m: "filter_matches ae_event_id ex_local_start (ex_event 0)"
    "af_start ex_local_start = Some \<lparr>aw_instant = 1769898600000000, aw_offset = 7200000000\<rparr>"
    "event_month (ex_event 0) < local_month \<lparr>aw_instant = 1769898600000000, aw_offset = 7200000000\<rparr>"
    by code_simp+
  have "ex_event 0 \<in> set [ex_event 0, ex_event 1, ex_event 2]" by simp
  from local_bound_skips_events [OF ex_log_ok(3) k' ex_log_ok(1,2) this m] m(1) k' show ?thesis by blast
qed

end
