(* ===== verification/Event_Ids.thy ===== *)
theory Event_Ids
  imports Audit_Sink
begin

text \<open>
  The layout of the event identifiers (UUID version 7): the fields do not overlap, later milliseconds
  give larger numbers, and different draws give different texts.
\<close>

lemma or_disjoint:
  fixes a b :: int
  assumes "0 \<le> b" "b < 2 ^ k"
  shows "push_bit k a OR b = a * 2 ^ k + b"
proof -
  have "take_bit k b = b" using assms by (simp add: take_bit_int_eq_self_iff)
  then have low: "bit b n \<Longrightarrow> n < k" for n by (metis bit_take_bit_iff)
  have "push_bit k a AND b = 0"
  proof (rule bit_eqI)
    fix n
    show "bit (push_bit k a AND b) n \<longleftrightarrow> bit 0 n"
      using low [of n] by (auto simp: bit_and_iff bit_push_bit_iff)
  qed
  then have "push_bit k a + b = push_bit k a OR b" by (rule disjunctive_add_eq_or)
  then show ?thesis by (simp add: push_bit_eq_mult)
qed

lemma new_event_int_sum:
  assumes "0 \<le> ms" "ms < 2 ^ 48" "0 \<le> ra" "ra < 2 ^ 12" "0 \<le> rb" "rb < 2 ^ 62"
  shows "new_event_int ms ra rb = ms * 2 ^ 80 + (7 * 2 ^ 76 + (ra * 2 ^ 64 + (2 * 2 ^ 62 + rb)))"
proof -
  have "ms AND (push_bit 48 1 - 1) = take_bit 48 ms"
    by (simp add: take_bit_eq_mask mask_eq_exp_minus_1 push_bit_eq_mult)
  also have "\<dots> = ms" using assms by (simp add: take_bit_int_eq_self_iff)
  finally have t: "ms AND (push_bit 48 1 - 1) = ms" .
  have 1: "push_bit 62 2 OR rb = 2 * 2 ^ 62 + rb" by (rule or_disjoint) (use assms in simp_all)
  have 2: "push_bit 64 ra OR (2 * 2 ^ 62 + rb) = ra * 2 ^ 64 + (2 * 2 ^ 62 + rb)"
    by (rule or_disjoint) (use assms in simp_all)
  have 3: "push_bit 76 7 OR (ra * 2 ^ 64 + (2 * 2 ^ 62 + rb)) = 7 * 2 ^ 76 + (ra * 2 ^ 64 + (2 * 2 ^ 62 + rb))"
    by (rule or_disjoint) (use assms in simp_all)
  have 4: "push_bit 80 ms OR (7 * 2 ^ 76 + (ra * 2 ^ 64 + (2 * 2 ^ 62 + rb)))
      = ms * 2 ^ 80 + (7 * 2 ^ 76 + (ra * 2 ^ 64 + (2 * 2 ^ 62 + rb)))"
    by (rule or_disjoint) (use assms in simp_all)
  show ?thesis unfolding new_event_int_def t Let_def 1 2 3 4 ..
qed

section \<open>The text\<close>

lemma hex_digit_inject: "i < 16 \<Longrightarrow> j < 16 \<Longrightarrow> hex_digit i = hex_digit j \<longleftrightarrow> i = j"
  by (auto simp: hex_digit_def char_of_eq_iff take_bit_eq_mod split: if_splits)

lemma hex32_length [simp]: "length (hex32 n) = 32"
  by (simp add: hex32_def)

lemma hex32_nth: "i < 32 \<Longrightarrow> hex32 n ! i = hex_digit (nat (n div 16 ^ (31 - i) mod 16))"
  by (simp add: hex32_def del: upt_conv_Cons)

lemma hex32_inject:
  assumes "hex32 m = hex32 n" "0 \<le> m" "m < 16 ^ 32" "0 \<le> n" "n < 16 ^ 32"
  shows "m = n"
proof -
  have digit: "m div 16 ^ k mod 16 = n div 16 ^ k mod 16" if "k < 32" for k
  proof -
    have "hex32 m ! (31 - k) = hex32 n ! (31 - k)" using assms(1) by simp
    moreover have "31 - k < 32" "31 - (31 - k) = k" using that by simp_all
    ultimately have "hex_digit (nat (m div 16 ^ k mod 16)) = hex_digit (nat (n div 16 ^ k mod 16))"
      by (simp only: hex32_nth)
    moreover have "nat (x mod 16) < 16" for x :: int by (simp add: nat_less_iff)
    ultimately show ?thesis by (simp add: hex_digit_inject)
  qed
  have "m mod 16 ^ k = n mod 16 ^ k" if "k \<le> 32" for k
    using that
  proof (induction k)
    case (Suc k)
    then show ?case using digit [of k] by (simp add: mult.commute [of 16] zmod_zmult2_eq)
  qed simp
  from this [of 32] show ?thesis using assms by simp
qed

lemma uuid_str_inject: "uuid_str m = uuid_str n \<Longrightarrow> hex32 m = hex32 n"
proof -
  have pieces: "h = take 8 h @ take 4 (drop 8 h) @ take 4 (drop 12 h) @ take 4 (drop 16 h) @ drop 20 h" for h :: string
    using append_take_drop_id [of 8 h] append_take_drop_id [of 4 "drop 8 h"]
      append_take_drop_id [of 4 "drop 12 h"] append_take_drop_id [of 4 "drop 16 h"] by simp
  assume "uuid_str m = uuid_str n"
  then have "take 8 (hex32 m) = take 8 (hex32 n)" "take 4 (drop 8 (hex32 m)) = take 4 (drop 8 (hex32 n))"
    "take 4 (drop 12 (hex32 m)) = take 4 (drop 12 (hex32 n))"
    "take 4 (drop 16 (hex32 m)) = take 4 (drop 16 (hex32 n))" "drop 20 (hex32 m) = drop 20 (hex32 n)"
    by (simp_all add: uuid_str_def Let_def append_eq_append_conv)
  then show ?thesis using pieces [of "hex32 m"] pieces [of "hex32 n"] by simp
qed

section \<open>Layout\<close>

text \<open>A clock before the year 10889 and two draws of \<open>secrets.randbits\<close>.\<close>

definition draw_ok :: "int \<Rightarrow> int \<Rightarrow> int \<Rightarrow> bool" where
  "draw_ok ms ra rb \<longleftrightarrow> 0 \<le> ms \<and> ms < 2 ^ 48 \<and> 0 \<le> ra \<and> ra < 2 ^ 12 \<and> 0 \<le> rb \<and> rb < 2 ^ 62"

lemma draw_sum: "draw_ok ms ra rb \<Longrightarrow>
    new_event_int ms ra rb = ms * 2 ^ 80 + (7 * 2 ^ 76 + (ra * 2 ^ 64 + (2 * 2 ^ 62 + rb)))"
  using new_event_int_sum by (simp add: draw_ok_def)

lemma draw_fields:
  assumes "draw_ok ms ra rb"
  shows "new_event_int ms ra rb div 2 ^ 80 = ms" "new_event_int ms ra rb div 2 ^ 76 = ms * 16 + 7"
    "new_event_int ms ra rb div 2 ^ 64 = (ms * 16 + 7) * 2 ^ 12 + ra"
    "new_event_int ms ra rb div 2 ^ 62 = ((ms * 16 + 7) * 2 ^ 12 + ra) * 4 + 2"
    "0 \<le> new_event_int ms ra rb" "new_event_int ms ra rb < 2 ^ 128"
proof -
  note d = assms [unfolded draw_ok_def] and s = draw_sum [OF assms]
  show "new_event_int ms ra rb div 2 ^ 80 = ms"
    by (rule int_div_pos_eq [where r = "7 * 2 ^ 76 + (ra * 2 ^ 64 + (2 * 2 ^ 62 + rb))"]) (use s d in simp_all)
  show "new_event_int ms ra rb div 2 ^ 76 = ms * 16 + 7"
    by (rule int_div_pos_eq [where r = "ra * 2 ^ 64 + (2 * 2 ^ 62 + rb)"]) (use s d in simp_all)
  show "new_event_int ms ra rb div 2 ^ 64 = (ms * 16 + 7) * 2 ^ 12 + ra"
    by (rule int_div_pos_eq [where r = "2 * 2 ^ 62 + rb"]) (use s d in simp_all)
  show "new_event_int ms ra rb div 2 ^ 62 = ((ms * 16 + 7) * 2 ^ 12 + ra) * 4 + 2"
    by (rule int_div_pos_eq [where r = rb]) (use s d in simp_all)
  show "0 \<le> new_event_int ms ra rb" "new_event_int ms ra rb < 2 ^ 128" using s d by simp_all
qed

text \<open>An event identifier is a version 7 UUID of 128 bits: version and variant are in place, the
  millisecond and both draws can be read back, so identifiers of different draws have different texts,
  and a later millisecond gives a larger number.\<close>

theorem event_id_layout:
  assumes "draw_ok ms ra rb" and "draw_ok ms' ra' rb'"
  shows "0 \<le> new_event_int ms ra rb \<and> new_event_int ms ra rb < 2 ^ 128
    \<and> new_event_int ms ra rb div 2 ^ 76 mod 16 = 7 \<and> new_event_int ms ra rb div 2 ^ 62 mod 4 = 2
    \<and> (ms < ms' \<longrightarrow> new_event_int ms ra rb < new_event_int ms' ra' rb')
    \<and> (new_event_id ms ra rb = new_event_id ms' ra' rb' \<longleftrightarrow> ms = ms' \<and> ra = ra' \<and> rb = rb')"
proof -
  note f = draw_fields [OF assms(1)] and g = draw_fields [OF assms(2)]
  have version: "new_event_int ms ra rb div 2 ^ 76 mod 16 = 7" "new_event_int ms ra rb div 2 ^ 62 mod 4 = 2"
    unfolding f(2,4) by (simp, rule int_mod_pos_eq [where q = "(ms * 16 + 7) * 2 ^ 12 + ra"]) simp_all
  have later: "new_event_int ms ra rb < new_event_int ms' ra' rb'" if "ms < ms'"
  proof (rule ccontr)
    assume "\<not> ?thesis"
    then have "new_event_int ms' ra' rb' div 2 ^ 80 \<le> new_event_int ms ra rb div 2 ^ 80"
      by (intro zdiv_mono1) simp_all
    then show False using that f(1) g(1) by simp
  qed
  have "ms = ms' \<and> ra = ra' \<and> rb = rb'" if "new_event_id ms ra rb = new_event_id ms' ra' rb'"
  proof -
    have p: "(2::int) ^ 128 = 16 ^ 32" by simp
    have h: "hex32 (new_event_int ms ra rb) = hex32 (new_event_int ms' ra' rb')"
      using that unfolding new_event_id_def by (rule uuid_str_inject)
    have e: "new_event_int ms ra rb = new_event_int ms' ra' rb'"
      by (rule hex32_inject [OF h f(5) f(6) [unfolded p] g(5) g(6) [unfolded p]])
    have m: "ms' = ms" using f(1) g(1) unfolding e by linarith
    have a: "ra' = ra" using f(3) g(3) unfolding e m by linarith
    have "rb' = rb" using draw_sum [OF assms(1)] draw_sum [OF assms(2)] unfolding e m a by linarith
    then show ?thesis using m a by blast
  qed
  then show ?thesis using f(5,6) version later by blast
qed

lemma event_id_layout_witness:
  "new_event_int 1769900400000 5 9 < new_event_int 1769900400001 0 0"
  using event_id_layout [of 1769900400000 5 9 1769900400001 0 0] by (simp add: draw_ok_def)

end
