(* ===== verification/Triage_State.thy ===== *)
theory Triage_State
  imports Audit_Event Ota_Errors
begin

text \<open>
  The store of the email triage routine: \<open>ota_routines/email_triage/state.py\<close>.

  The four tables are lists of rows in insertion order; \<open>AUTOINCREMENT\<close> identifiers count the rows,
  since none is ever deleted.  Integer flags are booleans and times are UTC instants, whose order is
  that of their ISO texts.  Every reading of the clock counts: the clock is a function of the number of
  readings made.
\<close>

section \<open>Rows\<close>

datatype TriageAction = Drafted | AutoSent | Skipped | Approved | Rejected

definition action_str :: "TriageAction \<Rightarrow> string" where
  "action_str a = (case a of Drafted \<Rightarrow> ''drafted'' | AutoSent \<Rightarrow> ''auto_sent'' | Skipped \<Rightarrow> ''skipped''
     | Approved \<Rightarrow> ''approved'' | Rejected \<Rightarrow> ''rejected'')"

record TemplateTrust =
  tt_template :: string
  tt_consecutive_unedited :: int
  tt_total_sent :: int
  tt_auto_send_enabled :: bool
  tt_opt_in_auto_send :: bool
  tt_demoted_at :: "instant option"
  tt_updated_at :: instant

record TriageDecisionRecord =
  td_id :: int
  td_routine_run_id :: string
  td_email_id :: string
  td_category :: "string option"
  td_template :: "string option"
  td_action :: TriageAction
  td_payload :: payload
  td_decided_at :: instant

record edit_row =
  ed_id :: int
  ed_template :: string
  ed_email_id :: string
  ed_edit_kind :: string
  ed_recorded_at :: instant

record processed_row =
  pc_email_id :: string
  pc_content_hash :: string
  pc_processed_at :: instant

record EmailTriageState =
  es_trust_threshold :: int
  es_processed :: "processed_row list"
  es_trust :: "TemplateTrust list"
  es_edits :: "edit_row list"
  es_decisions :: "TriageDecisionRecord list"
  es_reads :: nat

type_synonym clock = "nat \<Rightarrow> instant"

definition triage_now :: "clock \<Rightarrow> EmailTriageState \<Rightarrow> instant \<times> EmailTriageState" where
  "triage_now ck s = (ck (es_reads s), s\<lparr>es_reads := es_reads s + 1\<rparr>)"

definition new_triage_state :: "int \<Rightarrow> EmailTriageState" where
  "new_triage_state threshold =
     \<lparr>es_trust_threshold = threshold, es_processed = [], es_trust = [], es_edits = [], es_decisions = [], es_reads = 0\<rparr>"

section \<open>Deduplication\<close>

definition is_processed :: "string \<Rightarrow> string \<Rightarrow> EmailTriageState \<Rightarrow> bool" where
  "is_processed email_id content_hash s \<longleftrightarrow>
     (\<exists>r \<in> set (es_processed s). pc_email_id r = email_id \<and> pc_content_hash r = content_hash)"

text \<open>The primary key makes the \<open>INSERT\<close> fail for a pair already there.\<close>

definition mark_processed :: "clock \<Rightarrow> string \<Rightarrow> string \<Rightarrow> EmailTriageState \<Rightarrow> bool \<times> EmailTriageState" where
  "mark_processed ck email_id content_hash s =
     (case triage_now ck s of (now, s1) \<Rightarrow>
        if is_processed email_id content_hash s1 then (False, s1)
        else (True, s1\<lparr>es_processed := es_processed s1 @
          [\<lparr>pc_email_id = email_id, pc_content_hash = content_hash, pc_processed_at = now\<rparr>]\<rparr>))"

section \<open>Template trust\<close>

definition trust_row :: "string \<Rightarrow> EmailTriageState \<Rightarrow> TemplateTrust option" where
  "trust_row template s = List.find (\<lambda>r. tt_template r = template) (es_trust s)"

definition fresh_trust :: "string \<Rightarrow> instant \<Rightarrow> TemplateTrust" where
  "fresh_trust template now =
     \<lparr>tt_template = template, tt_consecutive_unedited = 0, tt_total_sent = 0, tt_auto_send_enabled = False,
      tt_opt_in_auto_send = False, tt_demoted_at = None, tt_updated_at = now\<rparr>"

definition ensure_trust_row :: "clock \<Rightarrow> string \<Rightarrow> EmailTriageState \<Rightarrow> EmailTriageState" where
  "ensure_trust_row ck template s =
     (if trust_row template s \<noteq> None then s
      else (case triage_now ck s of (now, s1) \<Rightarrow> s1\<lparr>es_trust := es_trust s1 @ [fresh_trust template now]\<rparr>))"

definition trust_of :: "clock \<Rightarrow> string \<Rightarrow> EmailTriageState \<Rightarrow> TemplateTrust \<times> EmailTriageState" where
  "trust_of ck template s =
     (let s1 = ensure_trust_row ck template s in (the (trust_row template s1), s1))"

definition update_trust ::
  "string \<Rightarrow> (TemplateTrust \<Rightarrow> TemplateTrust) \<Rightarrow> EmailTriageState \<Rightarrow> EmailTriageState" where
  "update_trust template f s = s\<lparr>es_trust := update_where (\<lambda>r. tt_template r = template) f (es_trust s)\<rparr>"

definition opt_in_auto_send ::
  "clock \<Rightarrow> string \<Rightarrow> bool \<Rightarrow> EmailTriageState \<Rightarrow> TemplateTrust \<times> EmailTriageState" where
  "opt_in_auto_send ck template enabled s =
     (case triage_now ck (ensure_trust_row ck template s) of (now, s1) \<Rightarrow>
        trust_of ck template
          (update_trust template (\<lambda>r. r\<lparr>tt_opt_in_auto_send := enabled, tt_updated_at := now\<rparr>) s1))"

definition record_unedited_approval ::
  "clock \<Rightarrow> string \<Rightarrow> EmailTriageState \<Rightarrow> TemplateTrust \<times> EmailTriageState" where
  "record_unedited_approval ck template s =
     (case trust_of ck template (ensure_trust_row ck template s) of (current, s1) \<Rightarrow>
        (let new_count = tt_consecutive_unedited current + 1;
             promote = tt_opt_in_auto_send current \<and> \<not> tt_auto_send_enabled current \<and>
               new_count \<ge> es_trust_threshold s1
         in case triage_now ck s1 of (now, s2) \<Rightarrow>
              trust_of ck template
                (update_trust template (\<lambda>r. r\<lparr>tt_consecutive_unedited := new_count,
                   tt_total_sent := tt_total_sent r + 1,
                   tt_auto_send_enabled := (tt_auto_send_enabled current \<or> promote),
                   tt_updated_at := now\<rparr>) s2)))"

text \<open>The clock is read for the edit row, then for \<open>demoted_at\<close> only when it demotes, then for
  \<open>updated_at\<close>.\<close>

definition record_edit ::
  "clock \<Rightarrow> string \<Rightarrow> string \<Rightarrow> string \<Rightarrow> EmailTriageState \<Rightarrow> TemplateTrust \<times> EmailTriageState" where
  "record_edit ck template email_id edit_kind s =
     (case trust_of ck template (ensure_trust_row ck template s) of (current, s1) \<Rightarrow>
      (case triage_now ck s1 of (recorded, s2) \<Rightarrow>
        (let s3 = s2\<lparr>es_edits := es_edits s2 @ [\<lparr>ed_id = int (length (es_edits s2)) + 1, ed_template = template,
               ed_email_id = email_id, ed_edit_kind = edit_kind, ed_recorded_at = recorded\<rparr>]\<rparr>
         in case (if tt_auto_send_enabled current
                  then (case triage_now ck s3 of (t, s4) \<Rightarrow> (Some t, s4))
                  else (tt_demoted_at current, s3)) of (demoted, s4) \<Rightarrow>
            (case triage_now ck s4 of (now, s5) \<Rightarrow>
               trust_of ck template
                 (update_trust template (\<lambda>r. r\<lparr>tt_consecutive_unedited := 0, tt_auto_send_enabled := False,
                    tt_demoted_at := demoted, tt_updated_at := now\<rparr>) s5)))))"

definition list_trust :: "EmailTriageState \<Rightarrow> TemplateTrust list" where
  "list_trust s = sort_key tt_template (es_trust s)"

section \<open>Decision log\<close>

definition triage_record_decision ::
  "clock \<Rightarrow> string \<Rightarrow> string \<Rightarrow> TriageAction \<Rightarrow> string option \<Rightarrow> string option \<Rightarrow> payload \<Rightarrow>
   EmailTriageState \<Rightarrow> TriageDecisionRecord \<times> EmailTriageState" where
  "triage_record_decision ck run_id email_id action category template pl s =
     (case triage_now ck s of (decided_at, s1) \<Rightarrow>
        (let d = \<lparr>td_id = int (length (es_decisions s1)) + 1, td_routine_run_id = run_id, td_email_id = email_id,
               td_category = category, td_template = template, td_action = action, td_payload = pl,
               td_decided_at = decided_at\<rparr>
         in (d, s1\<lparr>es_decisions := es_decisions s1 @ [d]\<rparr>)))"

definition by_email_id :: "string \<Rightarrow> EmailTriageState \<Rightarrow> TriageDecisionRecord list" where
  "by_email_id email_id s =
     sort_key td_decided_at (filter (\<lambda>d. td_email_id d = email_id) (es_decisions s))"

definition by_routine_run :: "string \<Rightarrow> EmailTriageState \<Rightarrow> TriageDecisionRecord list" where
  "by_routine_run run_id s =
     sort_key td_decided_at (filter (\<lambda>d. td_routine_run_id d = run_id) (es_decisions s))"

text \<open>\<open>within\<close> is a number of microseconds; the actions are a sequence that can be read twice.\<close>

definition recent_decisions ::
  "clock \<Rightarrow> int \<Rightarrow> TriageAction list option \<Rightarrow> EmailTriageState \<Rightarrow> TriageDecisionRecord list \<times> EmailTriageState" where
  "recent_decisions ck window actions s =
     (case triage_now ck s of (now, s1) \<Rightarrow>
        (sort_key td_decided_at (filter (\<lambda>d. td_decided_at d \<ge> now - window \<and>
           (case actions of None \<Rightarrow> True | Some xs \<Rightarrow> td_action d \<in> set xs)) (es_decisions s1)), s1))"

section \<open>Lemmas\<close>

lemma triage_now_eq [simp]: "triage_now ck s = (ck (es_reads s), s\<lparr>es_reads := es_reads s + 1\<rparr>)"
  by (simp add: triage_now_def)

lemma trust_row_reads [simp]: "trust_row t (s\<lparr>es_reads := k\<rparr>) = trust_row t s"
  by (simp add: trust_row_def)

lemma trust_row_key: "trust_row t s = Some r \<Longrightarrow> tt_template r = t"
  by (simp add: trust_row_def find_Some_iff) blast

lemma trust_row_update:
  assumes "\<And>r. tt_template (f r) = tt_template r"
  shows "trust_row t (update_trust u f s) = map_option (if t = u then f else id) (trust_row t s)"
proof -
  have "List.find (\<lambda>r. tt_template r = t) (update_where (\<lambda>r. tt_template r = u) f rows)
      = map_option (if t = u then f else id) (List.find (\<lambda>r. tt_template r = t) rows)" for rows
    using assms by (induction rows) (auto simp: update_where_def)
  then show ?thesis by (simp add: trust_row_def update_trust_def)
qed

text \<open>After it has been ensured, the row of a template is there; other rows are as before.\<close>

lemma trust_row_ensure:
  "trust_row t (ensure_trust_row ck u s) =
     (if t = u \<and> trust_row u s = None then Some (fresh_trust u (ck (es_reads s))) else trust_row t s)"
proof (cases "trust_row u s")
  case None
  have "List.find (\<lambda>r. tt_template r = t) (rows @ [fresh_trust u now]) =
      (case List.find (\<lambda>r. tt_template r = t) rows of
         Some r \<Rightarrow> Some r | None \<Rightarrow> if t = u then Some (fresh_trust u now) else None)" for rows now
    by (induction rows) (auto simp: fresh_trust_def)
  with None show ?thesis by (auto simp: ensure_trust_row_def trust_row_def split: option.splits)
next
  case (Some r)
  then show ?thesis by (simp add: ensure_trust_row_def)
qed

lemma ensured: "\<exists>r. trust_row u (ensure_trust_row ck u s) = Some r"
  by (cases "trust_row u s") (simp_all add: trust_row_ensure)

lemma ensure_trust_row_idem: "trust_row u s \<noteq> None \<Longrightarrow> ensure_trust_row ck u s = s"
  by (simp add: ensure_trust_row_def)

lemma ensure_trust_row_frame [simp]:
  "es_trust_threshold (ensure_trust_row ck u s) = es_trust_threshold s"
  "es_processed (ensure_trust_row ck u s) = es_processed s"
  "es_decisions (ensure_trust_row ck u s) = es_decisions s"
  "es_edits (ensure_trust_row ck u s) = es_edits s"
  by (simp_all add: ensure_trust_row_def)

end
