(* ===== verification/Triage_Helpers.thy ===== *)
theory Triage_Helpers
  imports Triage_State Audit_Reader
begin

text \<open>
  The helpers of the email triage routine: \<open>ota_routines/email_triage/helpers.py\<close>.

  Ratios are exact rationals: with the counts of a decision log, comparing the quotients of machine
  floats with a threshold such as 0.4 gives the same answers.  The digest of \<open>content_hash\<close> and the
  texts of a percentage, of a float and of a payload are parameters.
\<close>

section \<open>Dedup hashing\<close>

definition norm_text :: "string \<Rightarrow> string" where
  "norm_text s = lower (join '' '' (split_ws s))"

definition content_hash :: "(string \<Rightarrow> string) \<Rightarrow> string \<Rightarrow> string \<Rightarrow> string \<Rightarrow> string" where
  "content_hash sha256_hex subject body sender =
     sha256_hex (norm_text subject @ ''|'' @ norm_text body @ ''|'' @ lower (strip sender))"

section \<open>Trust promotion\<close>

record SendDecision =
  sd_template :: string
  sd_auto_send :: bool
  sd_requires_approval :: bool
  sd_trust :: TemplateTrust

text \<open>The set of allowed templates is a list without duplicates, in its order of iteration.\<close>

fun opt_in_all :: "clock \<Rightarrow> string list \<Rightarrow> EmailTriageState \<Rightarrow> EmailTriageState" where
  "opt_in_all ck [] s = s"
| "opt_in_all ck (t # ts) s = opt_in_all ck ts (snd (opt_in_auto_send ck t True s))"

definition evaluate_send ::
  "clock \<Rightarrow> string list \<Rightarrow> string \<Rightarrow> EmailTriageState \<Rightarrow> SendDecision \<times> EmailTriageState" where
  "evaluate_send ck allowed template s =
     (case trust_of ck template s of (trust, s1) \<Rightarrow>
        (let in_allowlist = template \<in> set allowed;
             opted_in = tt_opt_in_auto_send trust \<or> in_allowlist;
             threshold_met = tt_consecutive_unedited trust \<ge> es_trust_threshold s1;
             auto_send = tt_auto_send_enabled trust \<or> (opted_in \<and> threshold_met)
         in (\<lparr>sd_template = template, sd_auto_send = auto_send, sd_requires_approval = (\<not> auto_send),
              sd_trust = trust\<rparr>, s1)))"

definition record_approval :: "clock \<Rightarrow> string \<Rightarrow> EmailTriageState \<Rightarrow> TemplateTrust \<times> EmailTriageState" where
  "record_approval ck template s = record_unedited_approval ck template s"

definition promotion_record_edit ::
  "clock \<Rightarrow> string \<Rightarrow> string \<Rightarrow> EmailTriageState \<Rightarrow> TemplateTrust \<times> EmailTriageState" where
  "promotion_record_edit ck template email_id s = record_edit ck template email_id ''tuned'' s"

section \<open>Drift\<close>

record DriftSignal =
  ds_kind :: string
  ds_template :: "string option"
  ds_ratio :: rat
  ds_threshold :: rat
  ds_samples :: int
  ds_message :: string

record DriftConfig =
  dc_window_hours :: int
  dc_processed_skip_ratio_alarm :: rat
  dc_draft_send_ratio_alarm :: rat

definition default_drift_config :: DriftConfig where
  "default_drift_config =
     \<lparr>dc_window_hours = 24, dc_processed_skip_ratio_alarm = 4 / 10, dc_draft_send_ratio_alarm = 3 / 10\<rparr>"

type_synonym action_counts = "(TriageAction, int) dict"

definition bump :: "TriageAction \<Rightarrow> action_counts \<Rightarrow> action_counts" where
  "bump a d = dict_set a (dict_get_or d a 0 + 1) d"

fun count_decisions ::
  "TriageDecisionRecord list \<Rightarrow> action_counts \<Rightarrow> (string, action_counts) dict \<Rightarrow>
   action_counts \<times> (string, action_counts) dict" where
  "count_decisions [] per_action per_template = (per_action, per_template)"
| "count_decisions (d # ds) per_action per_template =
     count_decisions ds (bump (td_action d) per_action)
       (case td_template d of
          None \<Rightarrow> per_template
        | Some t \<Rightarrow> dict_set t (bump (td_action d) (dict_get_or per_template t [])) per_template)"

definition skip_signal :: "(rat \<Rightarrow> string) \<Rightarrow> DriftConfig \<Rightarrow> action_counts \<Rightarrow> DriftSignal list" where
  "skip_signal pct cfg per_action =
     (let processed = dict_get_or per_action Drafted 0 + dict_get_or per_action AutoSent 0 +
            dict_get_or per_action Approved 0;
          skipped = dict_get_or per_action Skipped 0;
          ratio = rat_of_int skipped / rat_of_int (max 1 (processed + skipped))
      in if processed + skipped > 0 \<and> ratio > dc_processed_skip_ratio_alarm cfg
         then [\<lparr>ds_kind = ''skip_ratio_high'', ds_template = None, ds_ratio = ratio,
                ds_threshold = dc_processed_skip_ratio_alarm cfg, ds_samples = processed + skipped,
                ds_message = ''skip-rate '' @ pct ratio @ '' over the past '' @ int_str (dc_window_hours cfg) @
                  ''h exceeds threshold '' @ pct (dc_processed_skip_ratio_alarm cfg)\<rparr>]
         else [])"

definition send_signal ::
  "(rat \<Rightarrow> string) \<Rightarrow> string \<Rightarrow> DriftConfig \<Rightarrow> string \<times> action_counts \<Rightarrow> DriftSignal list" where
  "send_signal pct dash cfg entry =
     (let counts = snd entry;
          drafted = dict_get_or counts Drafted 0;
          sent = dict_get_or counts AutoSent 0 + dict_get_or counts Approved 0;
          ratio = rat_of_int sent / rat_of_int (max 1 (sent + drafted))
      in if drafted = 0 then []
         else if ratio < dc_draft_send_ratio_alarm cfg
         then [\<lparr>ds_kind = ''draft_send_ratio_low'', ds_template = Some (fst entry), ds_ratio = ratio,
                ds_threshold = dc_draft_send_ratio_alarm cfg, ds_samples = sent + drafted,
                ds_message = ''template '' @ repr_str (fst entry) @ '' send-ratio '' @ pct ratio @
                  '' below threshold '' @ pct (dc_draft_send_ratio_alarm cfg) @ '' '' @ dash @
                  '' drafts are being rejected or edited heavily''\<rparr>]
         else [])"

definition drift_signals ::
  "(rat \<Rightarrow> string) \<Rightarrow> string \<Rightarrow> DriftConfig \<Rightarrow> TriageDecisionRecord list \<Rightarrow> DriftSignal list" where
  "drift_signals pct dash cfg decisions =
     (if decisions = [] then []
      else (case count_decisions decisions [] [] of (per_action, per_template) \<Rightarrow>
              skip_signal pct cfg per_action @ concat (map (send_signal pct dash cfg) per_template)))"

definition drift_evaluate ::
  "(rat \<Rightarrow> string) \<Rightarrow> string \<Rightarrow> clock \<Rightarrow> DriftConfig \<Rightarrow> EmailTriageState \<Rightarrow> DriftSignal list \<times> EmailTriageState" where
  "drift_evaluate pct dash ck cfg s =
     (case recent_decisions ck (dc_window_hours cfg * 3600000000) None s of
        (decisions, s1) \<Rightarrow> (drift_signals pct dash cfg decisions, s1))"

section \<open>The \<open>/why\<close> lookup\<close>

record WhyEntry =
  wy_timestamp :: instant
  wy_kind :: string
  wy_description :: string
  wy_payload :: payload

definition describe_decision :: "TriageDecisionRecord \<Rightarrow> string" where
  "describe_decision d =
     join '' '' ([action_str (td_action d)] @
       (case td_category d of None \<Rightarrow> [] | Some c \<Rightarrow> [''category='' @ c]) @
       (case td_template d of None \<Rightarrow> [] | Some t \<Rightarrow> [''template='' @ t]))"

definition decision_entry :: "TriageDecisionRecord \<Rightarrow> WhyEntry" where
  "decision_entry d =
     \<lparr>wy_timestamp = td_decided_at d, wy_kind = ''decision.'' @ action_str (td_action d),
      wy_description = describe_decision d, wy_payload = td_payload d\<rparr>"

definition audit_entry :: "(payload \<Rightarrow> string) \<Rightarrow> AuditEvent \<Rightarrow> WhyEntry" where
  "audit_entry payload_text e =
     \<lparr>wy_timestamp = ae_timestamp e, wy_kind = ae_event_type e, wy_description = payload_text (ae_payload e),
      wy_payload = ae_payload e\<rparr>"

text \<open>\<open>scan\<close> is the reader's scan with a filter on the run; the set of run identifiers is a list without
  duplicates in its order of iteration, given by \<open>order\<close>.\<close>

definition why_lookup ::
  "(AuditEvent \<Rightarrow> string) \<Rightarrow> (payload \<Rightarrow> string) \<Rightarrow> (AuditFilter \<Rightarrow> AuditEvent list) \<Rightarrow>
   (string list \<Rightarrow> string list) \<Rightarrow> string \<Rightarrow> EmailTriageState \<Rightarrow> WhyEntry list" where
  "why_lookup event_text payload_text scan order email_id s =
     (let decisions = by_email_id email_id s;
          run_ids = order (remdups (map td_routine_run_id decisions));
          audits = concat (map (\<lambda>run_id.
            map (audit_entry payload_text)
              (filter (\<lambda>e. \<not> (email_id \<noteq> [] \<and> \<not> contains_str (event_text e) email_id))
                (scan (no_filter\<lparr>af_routine_run_id := Some run_id\<rparr>)))) run_ids)
      in sort_key wy_timestamp (map decision_entry decisions @ audits))"

end
