(* ===== verification/Triage_Run.thy ===== *)
theory Triage_Run
  imports Triage_Helpers
begin

text \<open>
  One tick of the email triage routine: \<open>ota_routines/email_triage/run.py\<close>.

  The capabilities it calls are parameters of the environment, answering by the number of the call; the
  run state logs the calls.  The configuration is the JSON of the knobs.  A value of a type the code
  cannot use raises \<open>TypeError\<close> where it is read; the configuration schema rules that out.
\<close>

section \<open>Reading the configuration\<close>

definition type_error :: "string \<Rightarrow> exn" where
  "type_error what = PyError ''TypeError'' what"

definition key_error :: "string \<Rightarrow> exn" where
  "key_error k = PyError ''KeyError'' (repr_str k)"

definition as_object :: "json \<Rightarrow> exn + payload" where
  "as_object j = (case j of JObj o' \<Rightarrow> Inr o' | _ \<Rightarrow> Inl (type_error ''mapping''))"

definition as_text :: "json \<Rightarrow> exn + string" where
  "as_text j = (case j of JStr t \<Rightarrow> Inr t | _ \<Rightarrow> Inl (type_error ''text''))"

definition as_list :: "json \<Rightarrow> exn + json list" where
  "as_list j = (case j of JArr xs \<Rightarrow> Inr xs | _ \<Rightarrow> Inl (type_error ''list''))"

definition err_bind :: "exn + 'a \<Rightarrow> ('a \<Rightarrow> exn + 'b) \<Rightarrow> exn + 'b" where
  "err_bind r f = (case r of Inl e \<Rightarrow> Inl e | Inr a \<Rightarrow> f a)"

text \<open>\<open>d[k]\<close>, where \<open>d\<close> has to be a mapping and the value a text.\<close>

definition item_text :: "json \<Rightarrow> string \<Rightarrow> exn + string" where
  "item_text j k = err_bind (as_object j) (\<lambda>d. case dict_get d k of None \<Rightarrow> Inl (key_error k) | Some v \<Rightarrow> as_text v)"

text \<open>\<open>config.get(k) or {}\<close>.\<close>

definition section_of :: "payload \<Rightarrow> string \<Rightarrow> exn + payload" where
  "section_of config k =
     (case dict_get config k of
        None \<Rightarrow> Inr []
      | Some j \<Rightarrow> if falsy j then Inr [] else as_object j)"

fun map_err :: "('a \<Rightarrow> exn + 'b) \<Rightarrow> 'a list \<Rightarrow> exn + 'b list" where
  "map_err f [] = Inr []"
| "map_err f (x # xs) = err_bind (f x) (\<lambda>y. err_bind (map_err f xs) (\<lambda>ys. Inr (y # ys)))"

definition run_config :: "payload \<Rightarrow> exn + payload" where
  "run_config knobs =
     err_bind (case dict_get knobs ''config'' of None \<Rightarrow> Inr [] | Some j \<Rightarrow> as_object j)
       (\<lambda>config. Inr (if config = [] then knobs else config))"

definition allowed_templates :: "payload \<Rightarrow> exn + string list" where
  "allowed_templates config =
     err_bind (section_of config ''auto_send'') (\<lambda>sec.
       (case dict_get sec ''allowed_templates'' of
          None \<Rightarrow> Inr []
        | Some j \<Rightarrow> if falsy j then Inr [] else err_bind (as_list j) (map_err as_text)))"

definition list_item :: "payload \<Rightarrow> string \<Rightarrow> exn + json list" where
  "list_item config k = (case dict_get config k of None \<Rightarrow> Inr [] | Some j \<Rightarrow> as_list j)"

definition templates_by_name :: "payload \<Rightarrow> exn + (string, json) dict" where
  "templates_by_name config =
     err_bind (list_item config ''templates'') (\<lambda>ts.
       err_bind (map_err (\<lambda>t. err_bind (item_text t ''name'') (\<lambda>n. Inr (n, t))) ts) (\<lambda>items. Inr (dict_of items)))"

definition approval_channel :: "payload \<Rightarrow> exn + string option" where
  "approval_channel config =
     err_bind (section_of config ''notifications'') (\<lambda>sec.
       (case dict_get sec ''approval_channel'' of
          None \<Rightarrow> Inr None
        | Some j \<Rightarrow> if j = JNull then Inr None else err_bind (as_text j) (\<lambda>t. Inr (Some t))))"

section \<open>Classification\<close>

definition classification :: "string \<Rightarrow> json \<Rightarrow> string \<Rightarrow> payload" where
  "classification category confidence reasoning =
     [(''category'', JStr category), (''confidence'', confidence), (''reasoning'', JStr reasoning)]"

fun first_keyword :: "string \<Rightarrow> string \<Rightarrow> json list \<Rightarrow> exn + string option" where
  "first_keyword lower_subject lower_body [] = Inr None"
| "first_keyword lower_subject lower_body (kw # kws) =
     err_bind (as_text kw) (\<lambda>k.
       if contains_str lower_subject (lower k) \<or> contains_str lower_body (lower k) then Inr (Some k)
       else first_keyword lower_subject lower_body kws)"

text \<open>The category's name and the matching keyword of the first category with a match.\<close>

fun first_category :: "string \<Rightarrow> string \<Rightarrow> json list \<Rightarrow> exn + (string \<times> string) option" where
  "first_category lower_subject lower_body [] = Inr None"
| "first_category lower_subject lower_body (cat # cats) =
     err_bind (as_object cat) (\<lambda>c.
     err_bind (list_item c ''keywords'') (\<lambda>kws.
     err_bind (first_keyword lower_subject lower_body kws) (\<lambda>hit.
       (case hit of
          None \<Rightarrow> first_category lower_subject lower_body cats
        | Some kw \<Rightarrow> err_bind (item_text cat ''name'') (\<lambda>n. Inr (Some (n, kw)))))))"

definition classify :: "string \<Rightarrow> string \<Rightarrow> json list \<Rightarrow> exn + string \<times> payload" where
  "classify subject body categories =
     err_bind (first_category (lower subject) (lower body) categories) (\<lambda>hit.
       Inr (case hit of
              None \<Rightarrow> (''skip'', classification ''skip'' (JNum 1 0) ''no keyword match'')
            | Some (n, kw) \<Rightarrow> (n, classification n (JNum 9 (-1)) (''keyword:'' @ kw))))"

fun template_for :: "string \<Rightarrow> json list \<Rightarrow> exn + string option" where
  "template_for category [] = Inr None"
| "template_for category (c # cs) =
     err_bind (item_text c ''name'') (\<lambda>n.
       if n = category then err_bind (item_text c ''template'') (\<lambda>t. Inr (Some t)) else template_for category cs)"

section \<open>Drafting\<close>

text \<open>\<open>str.title\<close>: a letter after a non-letter is a capital, the others are small.\<close>

definition is_alpha :: "char \<Rightarrow> bool" where
  "is_alpha c \<longleftrightarrow> is_lower_alpha (char_lower c)"

definition char_upper :: "char \<Rightarrow> char" where
  "char_upper c = (if is_lower_alpha c then char_of ((of_char c :: nat) - 32) else c)"

fun title_from :: "bool \<Rightarrow> string \<Rightarrow> string" where
  "title_from after_letter [] = []"
| "title_from after_letter (c # cs) =
     (if after_letter then char_lower c else char_upper c) # title_from (is_alpha c) cs"

definition sender_first_name :: "string \<Rightarrow> string" where
  "sender_first_name sender =
     (if sender = [] then ''there''
      else title_from False (part_before (CHR ''.'') (part_before (CHR ''@'') sender)))"

text \<open>\<open>str.format\<close>: literal text with doubled braces, and replacement fields whose value \<open>field\<close> gives.\<close>

fun format_text :: "(string \<Rightarrow> exn + string) \<Rightarrow> string \<Rightarrow> exn + string"
  and format_field :: "(string \<Rightarrow> exn + string) \<Rightarrow> string \<Rightarrow> nat \<Rightarrow> string \<Rightarrow> exn + string" where
  "format_text field [] = Inr []"
| "format_text field [c] =
     (if c = CHR ''{'' then Inl (PyError ''ValueError'' ''Single '{' encountered in format string'')
      else if c = CHR ''}'' then Inl (PyError ''ValueError'' ''Single '}' encountered in format string'')
      else Inr [c])"
| "format_text field (c # d # cs) =
     (if (c = CHR ''{'' \<and> d = CHR ''{'') \<or> (c = CHR ''}'' \<and> d = CHR ''}'')
      then err_bind (format_text field cs) (\<lambda>out. Inr (c # out))
      else if c = CHR ''{'' then format_field field [] 0 (d # cs)
      else if c = CHR ''}'' then Inl (PyError ''ValueError'' ''Single '}' encountered in format string'')
      else err_bind (format_text field (d # cs)) (\<lambda>out. Inr (c # out)))"
| "format_field field acc depth [] = Inl (PyError ''ValueError'' ''expected '}' before end of string'')"
| "format_field field acc depth (c # cs) =
     (if c = CHR ''{'' then format_field field (acc @ [c]) (depth + 1) cs
      else if c = CHR ''}'' then
        (if depth = 0
         then err_bind (field acc) (\<lambda>v. err_bind (format_text field cs) (\<lambda>out. Inr (v @ out)))
         else format_field field (acc @ [c]) (depth - 1) cs)
      else format_field field (acc @ [c]) depth cs)"

text \<open>A plain field names a placeholder; a field with an attribute, an index, a conversion or a format
  specification is rendered by the parameter \<open>other\<close>, and so is a value that is not a text.\<close>

definition placeholder :: "(string \<Rightarrow> exn + string) \<Rightarrow> (json \<Rightarrow> string) \<Rightarrow> payload \<Rightarrow> string \<Rightarrow> exn + string" where
  "placeholder other value_text values name =
     (if \<exists>c \<in> set name. c \<in> set ''.[!:{'' then other name
      else if list_all is_digit name
      then Inl (PyError ''IndexError'' (''Replacement index '' @ (if name = [] then ''0'' else name) @
             '' out of range for positional args tuple''))
      else (case dict_get values name of
              None \<Rightarrow> Inl (key_error name)
            | Some (JStr t) \<Rightarrow> Inr t
            | Some v \<Rightarrow> Inr (value_text v)))"

record triage_env =
  te_clock :: clock
  te_sha256 :: "string \<Rightarrow> string"
  te_field :: "string \<Rightarrow> exn + string"
  te_value_text :: "json \<Rightarrow> string"
  te_mailbox :: "json \<Rightarrow> int \<Rightarrow> exn + string list"
  te_send :: "nat \<Rightarrow> exn + string"
  te_message :: "nat \<Rightarrow> exn option"

record runtime =
  rt_knobs :: payload
  rt_routine_run_id :: string
  rt_fetched_bodies :: "(string, (string, string) dict) dict"
  rt_templates :: "(string, string) dict"

record outgoing =
  og_to :: string
  og_subject :: string
  og_body :: string
  og_reply_to :: string

record triage_run =
  tr_state :: EmailTriageState
  tr_sent :: "outgoing list"
  tr_messages :: "(string \<times> string) list"

definition placeholders :: "runtime \<Rightarrow> string \<Rightarrow> string \<Rightarrow> payload" where
  "placeholders rt subject sender =
     [(''sender_first_name'', JStr (sender_first_name sender)), (''thread_subject'', JStr subject),
      (''commit_date'', JStr ''Friday''), (''status_line'', JStr ''still in progress''),
      (''operator_first_name'', dict_get_or (rt_knobs rt) ''operator_first_name'' (JStr ''Omar'')),
      (''slot_1'', JStr ''Tue 10:00''), (''slot_2'', JStr ''Wed 14:00''), (''slot_3'', JStr ''Thu 11:00'')]"

definition draft_reply :: "triage_env \<Rightarrow> runtime \<Rightarrow> string \<Rightarrow> string \<Rightarrow> json \<Rightarrow> exn + string \<times> string" where
  "draft_reply env rt subject sender template =
     (let render = format_text (placeholder (te_field env) (te_value_text env) (placeholders rt subject sender))
      in err_bind (item_text template ''body_path'') (\<lambda>path.
         err_bind (case dict_get (rt_templates rt) path of None \<Rightarrow> Inl (key_error path) | Some t \<Rightarrow> Inr t) (\<lambda>body_template.
         err_bind (render body_template) (\<lambda>rendered.
         err_bind (as_object template) (\<lambda>t.
         err_bind (as_text (dict_get_or t ''subject_pattern'' (JStr ''Re: {thread_subject}''))) (\<lambda>pattern.
         err_bind (render pattern) (\<lambda>subj. Inr (subj, rendered))))))))"

section \<open>One email\<close>

definition lift_err :: "exn + 'a \<Rightarrow> (triage_run, exn, 'a) py" where
  "lift_err r s = (r, s)"

definition on_state :: "(EmailTriageState \<Rightarrow> 'a \<times> EmailTriageState) \<Rightarrow> (triage_run, exn, 'a) py" where
  "on_state f s = (case f (tr_state s) of (a, st) \<Rightarrow> (Inr a, s\<lparr>tr_state := st\<rparr>))"

definition fetch_email_content :: "runtime \<Rightarrow> string \<Rightarrow> string \<times> string \<times> string" where
  "fetch_email_content rt ref =
     (let entry = dict_get_or (rt_fetched_bodies rt) ref []
      in (dict_get_or entry ''body'' [], dict_get_or entry ''subject'' [], dict_get_or entry ''sender'' []))"

text \<open>\<open>email.send_email\<close> and \<open>messaging.send_message\<close>: the call is made, then it answers.\<close>

definition send_email :: "triage_env \<Rightarrow> outgoing \<Rightarrow> (triage_run, exn, string) py" where
  "send_email env m s = (te_send env (length (tr_sent s)), s\<lparr>tr_sent := tr_sent s @ [m]\<rparr>)"

definition send_message :: "triage_env \<Rightarrow> string \<Rightarrow> string \<Rightarrow> (triage_run, exn, unit) py" where
  "send_message env channel content s =
     (case te_message env (length (tr_messages s)) of None \<Rightarrow> Inr () | Some e \<Rightarrow> Inl e,
      s\<lparr>tr_messages := tr_messages s @ [(channel, content)]\<rparr>)"

definition draft_json :: "string \<times> string \<Rightarrow> json" where
  "draft_json d = JObj [(''subject'', JStr (fst d)), (''body'', JStr (snd d))]"

definition approval_text :: "string \<Rightarrow> string \<times> string \<Rightarrow> string" where
  "approval_text sender d = ''Draft reply to '' @ sender @ '':'' @ nl @ ''Subject: '' @ fst d @ nl @ nl @ snd d"

definition record_and_mark ::
  "triage_env \<Rightarrow> runtime \<Rightarrow> string \<Rightarrow> string \<Rightarrow> TriageAction \<Rightarrow> string option \<Rightarrow> string option \<Rightarrow> payload \<Rightarrow>
   (EmailTriageState \<Rightarrow> EmailTriageState) \<Rightarrow> (triage_run, exn, unit) py" where
  "record_and_mark env rt ref chash action category template pl extra =
     on_state (\<lambda>st.
       (let st1 = snd (triage_record_decision (te_clock env) (rt_routine_run_id rt) ref action category template pl st);
            st2 = extra st1
        in ((), snd (mark_processed (te_clock env) ref chash st2))))"

definition auto_send_branch ::
  "triage_env \<Rightarrow> runtime \<Rightarrow> string \<Rightarrow> string \<Rightarrow> string \<Rightarrow> string \<Rightarrow> string \<Rightarrow> string \<times> string \<Rightarrow> (triage_run, exn, string) py" where
  "auto_send_branch env rt ref chash sender category template_name draft =
     try_bind (send_email env \<lparr>og_to = ''mailto:'' @ sender, og_subject = fst draft, og_body = snd draft,
       og_reply_to = ref\<rparr>) (\<lambda>sent_id.
     try_bind (record_and_mark env rt ref chash AutoSent (Some category) (Some template_name)
       [(''draft'', draft_json draft), (''sent_email_id'', JStr sent_id)]
       (\<lambda>st. snd (record_approval (te_clock env) template_name st))) (\<lambda>_.
     py_return ''auto_sent''))"

definition draft_branch ::
  "triage_env \<Rightarrow> runtime \<Rightarrow> string option \<Rightarrow> string \<Rightarrow> string \<Rightarrow> string \<Rightarrow> string \<Rightarrow> string \<Rightarrow> string \<times> string \<Rightarrow>
   (triage_run, exn, string) py" where
  "draft_branch env rt channel ref chash sender category template_name draft =
     try_bind (case channel of None \<Rightarrow> py_return () | Some c \<Rightarrow> send_message env c (approval_text sender draft)) (\<lambda>_.
     try_bind (record_and_mark env rt ref chash Drafted (Some category) (Some template_name)
       [(''draft'', draft_json draft)] id) (\<lambda>_.
     py_return ''drafted''))"

definition process_one ::
  "triage_env \<Rightarrow> runtime \<Rightarrow> string list \<Rightarrow> json list \<Rightarrow> (string, json) dict \<Rightarrow> string option \<Rightarrow> string \<Rightarrow>
   (triage_run, exn, string) py" where
  "process_one env rt allowed categories templates channel ref s =
     (case fetch_email_content rt ref of (body, subject, sender) \<Rightarrow>
      (let chash = content_hash (te_sha256 env) subject body sender
       in if is_processed ref chash (tr_state s) then (Inr ''duplicates'', s)
          else try_bind (lift_err (classify subject body categories)) (\<lambda>cls.
            if fst cls = ''skip''
            then try_bind (record_and_mark env rt ref chash Skipped None None (snd cls) id) (\<lambda>_. py_return ''skipped'')
            else try_bind (lift_err (template_for (fst cls) categories)) (\<lambda>name.
              (case name of
                 None \<Rightarrow> py_return ''skipped''
               | Some template_name \<Rightarrow>
                   (case dict_get templates template_name of
                      None \<Rightarrow> py_return ''skipped''
                    | Some template \<Rightarrow>
                        try_bind (lift_err (draft_reply env rt subject sender template)) (\<lambda>draft.
                        try_bind (on_state (evaluate_send (te_clock env) allowed template_name)) (\<lambda>decision.
                          if sd_auto_send decision
                          then auto_send_branch env rt ref chash sender (fst cls) template_name draft
                          else draft_branch env rt channel ref chash sender (fst cls) template_name draft)))))) s))"

section \<open>The tick\<close>

type_synonym summary = "(string, int) dict"

definition empty_summary :: summary where
  "empty_summary = [(''scanned'', 0), (''drafted'', 0), (''auto_sent'', 0), (''skipped'', 0), (''duplicates'', 0)]"

definition add_one :: "string \<Rightarrow> summary \<Rightarrow> summary" where
  "add_one k d = dict_set k (dict_get_or d k 0 + 1) d"

fun process_all ::
  "triage_env \<Rightarrow> runtime \<Rightarrow> string list \<Rightarrow> payload \<Rightarrow> string list \<Rightarrow> summary \<Rightarrow> (triage_run, exn, summary) py" where
  "process_all env rt allowed config [] summary s = (Inr summary, s)"
| "process_all env rt allowed config (ref # refs) summary s =
     try_bind (lift_err (list_item config ''categories'')) (\<lambda>categories.
     try_bind (lift_err (templates_by_name config)) (\<lambda>templates.
     try_bind (lift_err (approval_channel config)) (\<lambda>channel.
     try_bind (process_one env rt allowed categories templates channel ref) (\<lambda>outcome.
       process_all env rt allowed config refs (add_one outcome (add_one ''scanned'' summary)))))) s"

text \<open>The allowed templates are a set, so each is opted in once.\<close>

definition triage_tick :: "triage_env \<Rightarrow> runtime \<Rightarrow> (triage_run, exn, summary) py" where
  "triage_tick env rt =
     try_bind (lift_err (run_config (rt_knobs rt))) (\<lambda>config.
     try_bind (lift_err (err_bind (allowed_templates config) (\<lambda>ts. Inr (remdups ts)))) (\<lambda>allowed.
     try_bind (on_state (\<lambda>st. ((), opt_in_all (te_clock env) allowed st))) (\<lambda>_.
     try_bind (lift_err (section_of config ''mailbox'')) (\<lambda>mailbox.
     try_bind (lift_err (te_mailbox env (dict_get_or mailbox ''folder'' (JStr ''INBOX'')) 25)) (\<lambda>refs.
       process_all env rt allowed config refs empty_summary)))))"

end
