(* ===== verification/Triage_Properties.thy ===== *)
theory Triage_Properties
  imports Triage_Run
begin

text \<open>
  What the triage routine guarantees: the trust table implements a small machine per template, nothing
  is sent without a streak of unedited approvals, and what one email does to the store.
\<close>

section \<open>The trust machine of a template\<close>

text \<open>What an operator, or the routine after sending, does to the trust table.\<close>

datatype trust_op = OptIn string bool | Approve string | Edit string string | Look string

definition trust_step :: "clock \<Rightarrow> trust_op \<Rightarrow> EmailTriageState \<Rightarrow> EmailTriageState" where
  "trust_step ck op s =
     (case op of
        OptIn t b \<Rightarrow> snd (opt_in_auto_send ck t b s)
      | Approve t \<Rightarrow> snd (record_approval ck t s)
      | Edit t e \<Rightarrow> snd (promotion_record_edit ck t e s)
      | Look t \<Rightarrow> snd (trust_of ck t s))"

definition trust_run :: "clock \<Rightarrow> trust_op list \<Rightarrow> EmailTriageState \<Rightarrow> EmailTriageState" where
  "trust_run ck ops s = fold (trust_step ck) ops s"

text \<open>The specification: the streak of unedited approvals, whether sending is on, and the opt-in.\<close>

record trust_view =
  tv_streak :: int
  tv_enabled :: bool
  tv_opted_in :: bool

definition no_trust :: trust_view where
  "no_trust = \<lparr>tv_streak = 0, tv_enabled = False, tv_opted_in = False\<rparr>"

fun view_step :: "int \<Rightarrow> string \<Rightarrow> trust_op \<Rightarrow> trust_view \<Rightarrow> trust_view" where
  "view_step th t (OptIn u b) v = (if u = t then v\<lparr>tv_opted_in := b\<rparr> else v)"
| "view_step th t (Approve u) v =
     (if u = t then v\<lparr>tv_streak := tv_streak v + 1,
        tv_enabled := tv_enabled v \<or> (tv_opted_in v \<and> tv_streak v + 1 \<ge> th)\<rparr> else v)"
| "view_step th t (Edit u e) v = (if u = t then v\<lparr>tv_streak := 0, tv_enabled := False\<rparr> else v)"
| "view_step th t (Look u) v = v"

definition view_of_row :: "TemplateTrust \<Rightarrow> trust_view" where
  "view_of_row r = \<lparr>tv_streak = tt_consecutive_unedited r, tv_enabled = tt_auto_send_enabled r,
     tv_opted_in = tt_opt_in_auto_send r\<rparr>"

definition view_of :: "string \<Rightarrow> EmailTriageState \<Rightarrow> trust_view" where
  "view_of t s = (case trust_row t s of None \<Rightarrow> no_trust | Some r \<Rightarrow> view_of_row r)"

lemma view_ensure [simp]: "view_of t (ensure_trust_row ck u s) = view_of t s"
  by (auto simp: view_of_def trust_row_ensure view_of_row_def fresh_trust_def no_trust_def)

lemma view_reads [simp]: "view_of t (s\<lparr>es_reads := k\<rparr>) = view_of t s"
  "view_of t (s\<lparr>es_edits := es\<rparr>) = view_of t s"
  by (simp_all add: view_of_def trust_row_def)

lemma view_trust_of [simp]: "view_of t (snd (trust_of ck u s)) = view_of t s"
  by (simp add: trust_of_def Let_def)

lemma trust_of_row: "view_of_row (fst (trust_of ck t s)) = view_of t s"
  using ensured [of t ck s] view_ensure [of t ck t s]
  by (auto simp: trust_of_def Let_def view_of_def split: option.splits)

text \<open>Updating the row of a template that is there.\<close>

lemma view_update:
  assumes "trust_row u s \<noteq> None" "\<And>r. tt_template (f r) = tt_template r"
    and "\<And>r. view_of_row (f r) = g (view_of_row r)"
  shows "view_of t (update_trust u f s) = (if t = u then g (view_of t s) else view_of t s)"
  using assms(1,3) by (auto simp: view_of_def trust_row_update [OF assms(2)] split: option.splits)

lemma trust_row_ensure_some: "trust_row u (ensure_trust_row ck u s) \<noteq> None"
  using ensured [of u ck s] by auto

lemma view_opt_in: "view_of t (snd (opt_in_auto_send ck u b s)) = view_step th t (OptIn u b) (view_of t s)"
proof -
  let ?s = "(ensure_trust_row ck u s)\<lparr>es_reads := es_reads (ensure_trust_row ck u s) + 1\<rparr>"
  have "trust_row u ?s \<noteq> None" using trust_row_ensure_some by simp
  from view_update [OF this, of "\<lambda>r. r\<lparr>tt_opt_in_auto_send := b, tt_updated_at := ck (es_reads (ensure_trust_row ck u s))\<rparr>"
      "\<lambda>v. v\<lparr>tv_opted_in := b\<rparr>"]
  show ?thesis by (simp add: opt_in_auto_send_def view_of_row_def)
qed

lemma ensure_threshold [simp]: "es_trust_threshold (snd (trust_of ck u s)) = es_trust_threshold s"
  by (simp add: trust_of_def Let_def)

lemma trust_of_there: "trust_row u (snd (trust_of ck u s)) \<noteq> None"
  using trust_row_ensure_some by (simp add: trust_of_def Let_def)

lemma view_fields:
  "view_of_row r = v \<Longrightarrow> tt_consecutive_unedited r = tv_streak v"
  "view_of_row r = v \<Longrightarrow> tt_auto_send_enabled r = tv_enabled v"
  "view_of_row r = v \<Longrightarrow> tt_opt_in_auto_send r = tv_opted_in v"
  by (auto simp: view_of_row_def)

lemma view_approve:
  "view_of t (snd (record_unedited_approval ck u s)) = view_step (es_trust_threshold s) t (Approve u) (view_of t s)"
proof -
  define s0 where "s0 = ensure_trust_row ck u s"
  define current where "current = fst (trust_of ck u s0)"
  define s1 where "s1 = snd (trust_of ck u s0)"
  let ?s2 = "s1\<lparr>es_reads := es_reads s1 + 1\<rparr>"
  have there: "trust_row u ?s2 \<noteq> None" unfolding s1_def using trust_of_there by simp
  have cur: "view_of_row current = view_of u s" unfolding current_def s0_def by (simp add: trust_of_row)
  define promote where "promote \<longleftrightarrow> tt_opt_in_auto_send current \<and> \<not> tt_auto_send_enabled current \<and>
    tt_consecutive_unedited current + 1 \<ge> es_trust_threshold s1"
  define f where "f = (\<lambda>r::TemplateTrust. r\<lparr>tt_consecutive_unedited := tt_consecutive_unedited current + 1,
    tt_total_sent := tt_total_sent r + 1, tt_auto_send_enabled := (tt_auto_send_enabled current \<or> promote),
    tt_updated_at := ck (es_reads s1)\<rparr>)"
  define g where "g = (\<lambda>v::trust_view. v\<lparr>tv_streak := tt_consecutive_unedited current + 1,
    tv_enabled := (tt_auto_send_enabled current \<or> promote)\<rparr>)"
  have pair: "trust_of ck u s0 = (current, s1)" by (simp add: current_def s1_def)
  have "record_unedited_approval ck u s = trust_of ck u (update_trust u f ?s2)"
    by (simp add: record_unedited_approval_def f_def promote_def pair Let_def flip: s0_def)
  then have "view_of t (snd (record_unedited_approval ck u s)) = view_of t (update_trust u f ?s2)" by simp
  also have "\<dots> = (if t = u then g (view_of t ?s2) else view_of t ?s2)"
    by (rule view_update [OF there]) (simp_all add: f_def g_def view_of_row_def)
  also have "view_of t ?s2 = view_of t s" by (simp add: s1_def s0_def)
  also have "(if t = u then g (view_of t s) else view_of t s)
      = view_step (es_trust_threshold s) t (Approve u) (view_of t s)"
    using view_fields [OF cur] by (auto simp: g_def promote_def s1_def s0_def)
  finally show ?thesis .
qed

lemma view_edit: "view_of t (snd (record_edit ck u e kind s)) = view_step th t (Edit u e) (view_of t s)"
proof -
  define s0 where "s0 = ensure_trust_row ck u s"
  define current where "current = fst (trust_of ck u s0)"
  define s1 where "s1 = snd (trust_of ck u s0)"
  obtain s5 f where s5: "record_edit ck u e kind s = trust_of ck u (update_trust u f s5)"
    "trust_row u s5 = trust_row u s1" "view_of t s5 = view_of t s1"
    "\<And>r. tt_template (f r) = tt_template r" "\<And>r. view_of_row (f r) = (view_of_row r)\<lparr>tv_streak := 0, tv_enabled := False\<rparr>"
  proof (rule that)
    let ?s3 = "s1\<lparr>es_reads := es_reads s1 + 1, es_edits := es_edits s1 @ [\<lparr>ed_id = int (length (es_edits s1)) + 1,
      ed_template = u, ed_email_id = e, ed_edit_kind = kind, ed_recorded_at = ck (es_reads s1)\<rparr>]\<rparr>"
    let ?s4 = "if tt_auto_send_enabled current then ?s3\<lparr>es_reads := es_reads ?s3 + 1\<rparr> else ?s3"
    let ?d = "if tt_auto_send_enabled current then Some (ck (es_reads ?s3)) else tt_demoted_at current"
    let ?s5 = "?s4\<lparr>es_reads := es_reads ?s4 + 1\<rparr>"
    let ?f = "\<lambda>r. r\<lparr>tt_consecutive_unedited := 0, tt_auto_send_enabled := False,
      tt_demoted_at := ?d, tt_updated_at := ck (es_reads ?s4)\<rparr>"
    show "record_edit ck u e kind s = trust_of ck u (update_trust u ?f ?s5)"
      by (simp add: record_edit_def current_def s1_def s0_def Let_def split: prod.splits)
    show "trust_row u ?s5 = trust_row u s1" by (simp add: trust_row_def)
    show "view_of t ?s5 = view_of t s1" by (simp add: view_of_def trust_row_def)
    show "tt_template (?f r) = tt_template r" for r by simp
    show "view_of_row (?f r) = (view_of_row r)\<lparr>tv_streak := 0, tv_enabled := False\<rparr>" for r
      by (simp add: view_of_row_def)
  qed
  have "trust_row u s5 \<noteq> None" unfolding s5(2) s1_def by (rule trust_of_there)
  from view_update [OF this s5(4,5), of t] show ?thesis
    by (simp add: s5(1,3) s1_def s0_def)
qed

lemma view_trust_step: "view_of t (trust_step ck op s) = view_step (es_trust_threshold s) t op (view_of t s)"
  by (cases op)
    (simp_all add: trust_step_def view_opt_in [where th = 0] record_approval_def view_approve
      promotion_record_edit_def view_edit [where th = 0])

lemma threshold_step [simp]: "es_trust_threshold (trust_step ck op s) = es_trust_threshold s"
  by (simp add: trust_step_def opt_in_auto_send_def record_approval_def record_unedited_approval_def
      promotion_record_edit_def record_edit_def trust_of_def update_trust_def Let_def split: trust_op.splits)

lemma trust_store_view:
  "view_of t (trust_run ck ops s) = fold (view_step (es_trust_threshold s) t) ops (view_of t s)"
proof (induction ops arbitrary: s)
  case Nil
  then show ?case by (simp add: trust_run_def)
next
  case (Cons op ops)
  then show ?case using view_trust_step [of t ck op s] by (simp add: trust_run_def)
qed

text \<open>C20: The trust table refines one small machine per template: whatever operators and the routine do,
  in any order and for any templates, the row of a template is the state of a machine that counts its
  unedited approvals since the last edit, turns sending on when the count reaches the threshold while it is
  opted in, and turns it off on an edit; operations on other templates do not touch it.\<close>

theorem trust_store_refines:
  "view_of t (trust_run ck ops s) = fold (view_step (es_trust_threshold s) t) ops (view_of t s)"
  by (rule trust_store_view)

section \<open>When the routine may send\<close>

text \<open>The unedited approvals of a template since its last edit.\<close>

fun streak_step :: "string \<Rightarrow> trust_op \<Rightarrow> int \<Rightarrow> int" where
  "streak_step t (Approve u) n = (if u = t then n + 1 else n)"
| "streak_step t (Edit u e) n = (if u = t then 0 else n)"
| "streak_step t op n = n"

definition streak :: "string \<Rightarrow> trust_op list \<Rightarrow> int" where
  "streak t ops = fold (streak_step t) ops 0"

lemma evaluate_view:
  "sd_auto_send (fst (evaluate_send ck allowed t s)) \<longleftrightarrow>
     tv_enabled (view_of t s) \<or>
     ((tv_opted_in (view_of t s) \<or> t \<in> set allowed) \<and> es_trust_threshold s \<le> tv_streak (view_of t s))"
proof -
  obtain r s1 where p: "trust_of ck t s = (r, s1)" by fastforce
  then have "view_of_row r = view_of t s" "es_trust_threshold s1 = es_trust_threshold s"
    using trust_of_row [of ck t s] ensure_threshold [of ck t s] by simp_all
  then show ?thesis using view_fields [of r] by (simp add: evaluate_send_def p Let_def)
qed

lemma view_of_history:
  assumes "v = fold (view_step th t) ops no_trust"
  shows "tv_streak v = streak t ops \<and> (tv_opted_in v \<longrightarrow> OptIn t True \<in> set ops) \<and>
    (tv_enabled v \<longrightarrow> th \<le> streak t ops \<and> OptIn t True \<in> set ops)"
  using assms
proof (induction ops arbitrary: v rule: rev_induct)
  case Nil
  then show ?case by (simp add: no_trust_def streak_def)
next
  case (snoc op ops)
  then show ?case by (cases op) (auto simp: streak_def)
qed

lemma threshold_run [simp]: "es_trust_threshold (trust_run ck ops s) = es_trust_threshold s"
  unfolding trust_run_def by (induction ops arbitrary: s) simp_all

lemma new_state_view [simp]: "view_of t (new_triage_state th) = no_trust" "es_trust_threshold (new_triage_state th) = th"
  by (simp_all add: view_of_def new_triage_state_def trust_row_def)

text \<open>C21: From an empty store, after any history, the routine sends on its own only for a template that
  is allowed or was opted in, and whose last \<open>trust_threshold\<close> decisions since the latest edit were all
  unedited approvals; it asks for approval exactly when it does not send on its own; and for an allowed
  template with such a streak it does send.\<close>

theorem auto_send_needs_streak:
  assumes "d = fst (evaluate_send ck allowed t (trust_run ck ops (new_triage_state th)))"
  shows "sd_template d = t \<and> (sd_requires_approval d \<longleftrightarrow> \<not> sd_auto_send d) \<and>
    (sd_auto_send d \<longrightarrow> th \<le> streak t ops \<and> (t \<in> set allowed \<or> OptIn t True \<in> set ops)) \<and>
    (t \<in> set allowed \<and> th \<le> streak t ops \<longrightarrow> sd_auto_send d)"
proof -
  have "view_of t (trust_run ck ops (new_triage_state th)) = fold (view_step th t) ops no_trust"
    by (simp add: trust_store_view)
  from view_of_history [OF this]
  have "(sd_auto_send d \<longrightarrow> th \<le> streak t ops \<and> (t \<in> set allowed \<or> OptIn t True \<in> set ops)) \<and>
      (t \<in> set allowed \<and> th \<le> streak t ops \<longrightarrow> sd_auto_send d)"
    unfolding assms evaluate_view by auto
  moreover have "sd_template d = t \<and> (sd_requires_approval d \<longleftrightarrow> \<not> sd_auto_send d)"
    by (auto simp: assms evaluate_send_def Let_def split: prod.splits)
  ultimately show ?thesis by blast
qed

lemma auto_send_needs_streak_witness:
  "2 \<le> streak ''ack'' [OptIn ''ack'' True, Approve ''ack'', Edit ''other'' ''m'', Approve ''ack''] \<and>
   sd_requires_approval (fst (evaluate_send int [] ''ack'' (trust_run int
      [OptIn ''ack'' True, Approve ''ack'', Edit ''ack'' ''m'', Approve ''ack''] (new_triage_state 2))))"
proof -
  have "sd_auto_send (fst (evaluate_send int [] ''ack'' (trust_run int
      [OptIn ''ack'' True, Approve ''ack'', Edit ''other'' ''m'', Approve ''ack''] (new_triage_state 2))))"
    by code_simp
  with auto_send_needs_streak [OF refl, of int "[]" "''ack''" "[OptIn ''ack'' True, Approve ''ack'', Edit ''other'' ''m'', Approve ''ack'']" 2]
  have "2 \<le> streak ''ack'' [OptIn ''ack'' True, Approve ''ack'', Edit ''other'' ''m'', Approve ''ack'']" by blast
  moreover have "\<not> 2 \<le> streak ''ack'' [OptIn ''ack'' True, Approve ''ack'', Edit ''ack'' ''m'', Approve ''ack'']"
    by (simp add: streak_def)
  with auto_send_needs_streak [OF refl, of int "[]" "''ack''" "[OptIn ''ack'' True, Approve ''ack'', Edit ''ack'' ''m'', Approve ''ack'']" 2]
  have "sd_requires_approval (fst (evaluate_send int [] ''ack'' (trust_run int
      [OptIn ''ack'' True, Approve ''ack'', Edit ''ack'' ''m'', Approve ''ack''] (new_triage_state 2))))" by blast
  ultimately show ?thesis by blast
qed

text \<open>Once a template is promoted, only an edit stops automatic sending: opting it out, or taking
  it off the list of allowed templates, leaves the routine sending on its own.\<close>

theorem opt_out_keeps_sending:
  assumes "tv_enabled (view_of t s)" and "\<forall>op \<in> set ops. \<forall>e. op \<noteq> Edit t e"
  shows "sd_auto_send (fst (evaluate_send ck [] t (trust_run ck ops s)))"
proof -
  have "tv_enabled (fold (view_step th t) ops v)" if "tv_enabled v" for th v
    using that assms(2)
  proof (induction ops arbitrary: v)
    case (Cons op ops)
    then show ?case by (cases op) auto
  qed simp
  then show ?thesis using assms(1) by (simp add: evaluate_view trust_store_view)
qed

lemma opt_out_keeps_sending_witness:
  "sd_auto_send (fst (evaluate_send int [] ''ack''
     (trust_run int [OptIn ''ack'' False] (trust_run int [OptIn ''ack'' True, Approve ''ack''] (new_triage_state 1)))))"
proof -
  have "tv_enabled (view_of ''ack'' (trust_run int [OptIn ''ack'' True, Approve ''ack''] (new_triage_state 1)))"
    by code_simp
  then show ?thesis by (rule opt_out_keeps_sending) simp
qed

section \<open>One email\<close>

lemma update_trust_frame [simp]:
  "es_processed (update_trust u f s) = es_processed s" "es_decisions (update_trust u f s) = es_decisions s"
  by (simp_all add: update_trust_def)

lemma trust_frames [simp]:
  "es_processed (snd (trust_of ck u s)) = es_processed s" "es_decisions (snd (trust_of ck u s)) = es_decisions s"
  "es_processed (snd (evaluate_send ck al u s)) = es_processed s"
  "es_decisions (snd (evaluate_send ck al u s)) = es_decisions s"
  "es_decisions (snd (record_approval ck u s)) = es_decisions s"
  by (auto simp: trust_of_def evaluate_send_def record_approval_def record_unedited_approval_def Let_def)

lemma marked: "is_processed e h (snd (mark_processed ck e h s))" "es_decisions (snd (mark_processed ck e h s)) = es_decisions s"
  by (auto simp: mark_processed_def is_processed_def)

text \<open>An email's handling is on record: it will be skipped as a duplicate, and one decision was appended.\<close>

definition recorded ::
  "runtime \<Rightarrow> string \<Rightarrow> string \<Rightarrow> TriageAction \<Rightarrow> string option \<Rightarrow> string option \<Rightarrow> payload \<Rightarrow> triage_run \<Rightarrow> triage_run \<Rightarrow> bool" where
  "recorded rt ref chash a c t pl s s' \<longleftrightarrow> is_processed ref chash (tr_state s') \<and>
     (\<exists>d. es_decisions (tr_state s') = es_decisions (tr_state s) @ [d] \<and> td_routine_run_id d = rt_routine_run_id rt \<and>
        td_email_id d = ref \<and> td_action d = a \<and> td_category d = c \<and> td_template d = t \<and> td_payload d = pl)"

definition unmarked :: "triage_run \<Rightarrow> triage_run \<Rightarrow> bool" where
  "unmarked s s' \<longleftrightarrow> es_processed (tr_state s') = es_processed (tr_state s) \<and> es_decisions (tr_state s') = es_decisions (tr_state s) \<and>
     (\<forall>u. view_of u (tr_state s') = view_of u (tr_state s))"

text \<open>The template of the email's category, when one is configured.\<close>

definition reply_template ::
  "json list \<Rightarrow> (string, json) dict \<Rightarrow> string \<Rightarrow> string \<Rightarrow> string \<Rightarrow> string \<Rightarrow> json \<Rightarrow> bool" where
  "reply_template categories templates subject body cat t template \<longleftrightarrow>
     (\<exists>why. classify subject body categories = Inr (cat, why)) \<and> cat \<noteq> ''skip'' \<and>
     template_for cat categories = Inr (Some t) \<and> dict_get templates t = Some template"

text \<open>The trust under which the routine sends on its own.\<close>

definition trusted :: "string list \<Rightarrow> string \<Rightarrow> EmailTriageState \<Rightarrow> bool" where
  "trusted allowed t st \<longleftrightarrow> tv_enabled (view_of t st) \<or>
     ((tv_opted_in (view_of t st) \<or> t \<in> set allowed) \<and> es_trust_threshold st \<le> tv_streak (view_of t st))"

definition reply_mail :: "string \<Rightarrow> string \<Rightarrow> string \<times> string \<Rightarrow> outgoing" where
  "reply_mail ref sender d = \<lparr>og_to = ''mailto:'' @ sender, og_subject = fst d, og_body = snd d, og_reply_to = ref\<rparr>"

definition posted :: "string option \<Rightarrow> string \<Rightarrow> string \<times> string \<Rightarrow> (string \<times> string) list" where
  "posted channel sender d =
     (case channel of
        None \<Rightarrow> []
      | Some ch \<Rightarrow> [(ch, ''Draft reply to '' @ sender @ '':'' @ [CHR 0x0A] @ ''Subject: '' @ fst d @ [CHR 0x0A, CHR 0x0A] @ snd d)])"

text \<open>A reply that was drafted: sent when the template is trusted, else posted for the operator.\<close>

definition replied ::
  "triage_env \<Rightarrow> runtime \<Rightarrow> string list \<Rightarrow> string option \<Rightarrow> string \<Rightarrow> string \<Rightarrow> string \<Rightarrow> string \<Rightarrow> string \<Rightarrow> string \<times> string \<Rightarrow>
   triage_run \<Rightarrow> exn + string \<Rightarrow> triage_run \<Rightarrow> bool" where
  "replied env rt allowed channel ref chash sender cat t d s res s' \<longleftrightarrow>
     (if trusted allowed t (tr_state s)
      then tr_sent s' = tr_sent s @ [reply_mail ref sender d] \<and> tr_messages s' = tr_messages s \<and>
        (case te_send env (length (tr_sent s)) of
           Inl e \<Rightarrow> res = Inl e \<and> unmarked s s'
         | Inr i \<Rightarrow> res = Inr ''auto_sent'' \<and>
             recorded rt ref chash AutoSent (Some cat) (Some t) [(''draft'', draft_json d), (''sent_email_id'', JStr i)] s s' \<and>
             (\<forall>u. view_of u (tr_state s') = view_step (es_trust_threshold (tr_state s)) u (Approve t) (view_of u (tr_state s))))
      else tr_sent s' = tr_sent s \<and> tr_messages s' = tr_messages s @ posted channel sender d \<and>
        (case (if channel = None then None else te_message env (length (tr_messages s))) of
           Some e \<Rightarrow> res = Inl e \<and> unmarked s s'
         | None \<Rightarrow> res = Inr ''drafted'' \<and>
             recorded rt ref chash Drafted (Some cat) (Some t) [(''draft'', draft_json d)] s s' \<and>
             (\<forall>u. view_of u (tr_state s') = view_of u (tr_state s))))"

lemma view_frames [simp]:
  "view_of u (snd (evaluate_send ck al v s)) = view_of u s"
  "view_of u (snd (mark_processed ck e h s)) = view_of u s"
  "view_of u (snd (triage_record_decision ck i e a c t pl s)) = view_of u s"
proof -
  show "view_of u (snd (evaluate_send ck al v s)) = view_of u s"
    using view_trust_of [of u ck v s] by (simp add: evaluate_send_def Let_def case_prod_beta)
qed (simp_all add: mark_processed_def triage_record_decision_def view_of_def trust_row_def Let_def)

lemma threshold_frames [simp]:
  "es_trust_threshold (snd (evaluate_send ck al v s)) = es_trust_threshold s"
  "es_trust_threshold (snd (triage_record_decision ck i e a c t pl s)) = es_trust_threshold s"
proof -
  show "es_trust_threshold (snd (evaluate_send ck al v s)) = es_trust_threshold s"
    using ensure_threshold [of ck v s] by (simp add: evaluate_send_def Let_def case_prod_beta)
qed (simp add: triage_record_decision_def Let_def)

lemma evaluate_trusted: "sd_auto_send (fst (evaluate_send ck allowed t s)) \<longleftrightarrow> trusted allowed t s"
  by (simp add: evaluate_view trusted_def)

lemma record_and_mark_run:
  assumes "\<And>st. es_decisions (extra st) = es_decisions st"
  shows "\<exists>s' st. record_and_mark env rt ref chash a c t pl extra s = (Inr (), s') \<and>
    tr_sent s' = tr_sent s \<and> tr_messages s' = tr_messages s \<and> recorded rt ref chash a c t pl s s' \<and>
    (\<forall>u. view_of u (tr_state s') = view_of u (extra st)) \<and>
    (\<forall>u. view_of u st = view_of u (tr_state s)) \<and> es_trust_threshold st = es_trust_threshold (tr_state s)"
proof -
  let ?st = "snd (triage_record_decision (te_clock env) (rt_routine_run_id rt) ref a c t pl (tr_state s))"
  let ?s' = "s\<lparr>tr_state := snd (mark_processed (te_clock env) ref chash (extra ?st))\<rparr>"
  have "record_and_mark env rt ref chash a c t pl extra s = (Inr (), ?s')"
    by (simp add: record_and_mark_def on_state_def Let_def)
  moreover have "recorded rt ref chash a c t pl s ?s'"
    by (simp add: recorded_def marked assms) (simp add: triage_record_decision_def Let_def)
  ultimately show ?thesis by (intro exI [of _ ?s'] exI [of _ ?st]) simp
qed

lemma auto_send_branch_run:
  assumes "auto_send_branch env rt ref chash sender c t d s = (res, s')"
  shows "tr_sent s' = tr_sent s @ [reply_mail ref sender d] \<and> tr_messages s' = tr_messages s \<and>
    (case te_send env (length (tr_sent s)) of
       Inl e \<Rightarrow> res = Inl e \<and> tr_state s' = tr_state s
     | Inr i \<Rightarrow> res = Inr ''auto_sent'' \<and>
         recorded rt ref chash AutoSent (Some c) (Some t) [(''draft'', draft_json d), (''sent_email_id'', JStr i)] s s' \<and>
         (\<forall>u. view_of u (tr_state s') = view_step (es_trust_threshold (tr_state s)) u (Approve t) (view_of u (tr_state s))))"
proof -
  let ?s1 = "s\<lparr>tr_sent := tr_sent s @ [reply_mail ref sender d]\<rparr>"
  note send = auto_send_branch_def send_email_def try_bind_def reply_mail_def [symmetric]
  show ?thesis
  proof (cases "te_send env (length (tr_sent s))")
    case (Inl e)
    then show ?thesis using assms by (clarsimp simp: auto_send_branch_def send_email_def try_bind_def reply_mail_def Inl)
  next
    case (Inr i)
    let ?extra = "\<lambda>st. snd (record_approval (te_clock env) t st)"
    obtain s2 st where s2: "record_and_mark env rt ref chash AutoSent (Some c) (Some t)
        [(''draft'', draft_json d), (''sent_email_id'', JStr i)] ?extra ?s1 = (Inr (), s2)"
      "tr_sent s2 = tr_sent ?s1" "tr_messages s2 = tr_messages ?s1"
      "recorded rt ref chash AutoSent (Some c) (Some t) [(''draft'', draft_json d), (''sent_email_id'', JStr i)] ?s1 s2"
      "\<forall>u. view_of u (tr_state s2) = view_of u (?extra st)" "\<forall>u. view_of u st = view_of u (tr_state ?s1)"
      "es_trust_threshold st = es_trust_threshold (tr_state ?s1)"
      using record_and_mark_run [of ?extra] trust_frames(5) by blast
    have "auto_send_branch env rt ref chash sender c t d s = (Inr ''auto_sent'', s2)"
      by (simp only: send Inr s2(1) py_return_def prod.case sum.case)
    moreover have "view_of u (tr_state s2) = view_step (es_trust_threshold (tr_state s)) u (Approve t) (view_of u (tr_state s))" for u
      using s2(5-7) by (simp add: record_approval_def view_approve)
    ultimately show ?thesis using assms s2(2-4) Inr by (simp add: recorded_def)
  qed
qed

lemma draft_branch_run:
  assumes "draft_branch env rt channel ref chash sender c t d s = (res, s')"
  shows "tr_sent s' = tr_sent s \<and> tr_messages s' = tr_messages s @ posted channel sender d \<and>
    (case (if channel = None then None else te_message env (length (tr_messages s))) of
       Some e \<Rightarrow> res = Inl e \<and> tr_state s' = tr_state s
     | None \<Rightarrow> res = Inr ''drafted'' \<and> recorded rt ref chash Drafted (Some c) (Some t) [(''draft'', draft_json d)] s s' \<and>
         (\<forall>u. view_of u (tr_state s') = view_of u (tr_state s)))"
proof -
  define m where "m = (case channel of None \<Rightarrow> py_return () | Some ch \<Rightarrow> send_message env ch (approval_text sender d))"
  obtain r1 s1 where 1: "m s = (r1, s1)" by fastforce
  have same: "tr_sent s1 = tr_sent s" "tr_state s1 = tr_state s" "tr_messages s1 = tr_messages s @ posted channel sender d"
    "(case (if channel = None then None else te_message env (length (tr_messages s))) of Some e \<Rightarrow> r1 = Inl e | None \<Rightarrow> r1 = Inr ())"
    using 1 by (auto simp: m_def send_message_def py_return_def posted_def approval_text_def nl_def split: option.splits)
  obtain s2 st where 2: "record_and_mark env rt ref chash Drafted (Some c) (Some t) [(''draft'', draft_json d)] id s1
      = (Inr (), s2)" "tr_sent s2 = tr_sent s1" "tr_messages s2 = tr_messages s1"
    "recorded rt ref chash Drafted (Some c) (Some t) [(''draft'', draft_json d)] s1 s2"
    "\<forall>u. view_of u (tr_state s2) = view_of u (id st)" "\<forall>u. view_of u st = view_of u (tr_state s1)"
    using record_and_mark_run [of id] by (metis id_apply)
  have "draft_branch env rt channel ref chash sender c t d s = (case r1 of Inl e \<Rightarrow> (Inl e, s1) | Inr _ \<Rightarrow> (Inr ''drafted'', s2))"
    unfolding draft_branch_def m_def [symmetric] by (cases r1) (simp_all add: try_bind_def 1 2(1) py_return_def)
  with assms same 2(2-6) show ?thesis
    by (cases channel; cases "te_message env (length (tr_messages s))") (auto simp: recorded_def)
qed

lemma replied_run:
  assumes "(if sd_auto_send (fst (evaluate_send (te_clock env) allowed t (tr_state s)))
      then auto_send_branch env rt ref chash sender c t d
      else draft_branch env rt channel ref chash sender c t d)
      (s\<lparr>tr_state := snd (evaluate_send (te_clock env) allowed t (tr_state s))\<rparr>) = (res, s')"
  shows "replied env rt allowed channel ref chash sender c t d s res s'"
proof -
  let ?s1 = "s\<lparr>tr_state := snd (evaluate_send (te_clock env) allowed t (tr_state s))\<rparr>"
  have rec: "recorded rt ref chash a c t pl ?s1 s' \<longleftrightarrow> recorded rt ref chash a c t pl s s'" for a c t pl by (simp add: recorded_def)
  have un: "tr_state s' = tr_state ?s1 \<Longrightarrow> unmarked s s'" by (simp add: unmarked_def)
  show ?thesis
  proof (cases "trusted allowed t (tr_state s)")
    case True
    with assms have "auto_send_branch env rt ref chash sender c t d ?s1 = (res, s')" by (simp add: evaluate_trusted)
    from auto_send_branch_run [OF this] True rec un show ?thesis by (auto simp: replied_def split: sum.splits)
  next
    case False
    with assms have "draft_branch env rt channel ref chash sender c t d ?s1 = (res, s')" by (simp add: evaluate_trusted)
    from draft_branch_run [OF this] False rec un show ?thesis
      by (cases channel; cases "te_message env (length (tr_messages s))") (simp_all add: replied_def)
  qed
qed

text \<open>C22: One email.  An email that was processed before is a duplicate and changes nothing.  One without a
  category is recorded as skipped; one whose category has no configured template is reported as skipped and
  leaves no trace.  For any other a reply is drafted from that template: when the template is trusted (it was
  promoted, or is opted in or allowed with enough unedited approvals) one mail with this draft goes to the
  sender in reply to the email, the decision is recorded and counts as an approval of the template; else
  nothing is sent, the draft is posted to the channel, if there is one, and recorded.  An exception (of the
  configuration, or of the one call made) leaves the email unmarked, so a later tick handles it again, also
  after a mail went out.\<close>

theorem process_one_outcome:
  assumes "process_one env rt allowed categories templates channel ref s = (res, s')"
    and "fetch_email_content rt ref = (body, subject, sender)"
    and "chash = content_hash (te_sha256 env) subject body sender"
  shows "(is_processed ref chash (tr_state s) \<and> res = Inr ''duplicates'' \<and> s' = s) \<or>
    (\<not> is_processed ref chash (tr_state s) \<and>
      ((\<exists>why. classify subject body categories = Inr (''skip'', why) \<and> res = Inr ''skipped'' \<and>
          recorded rt ref chash Skipped None None why s s' \<and> tr_sent s' = tr_sent s \<and> tr_messages s' = tr_messages s \<and>
          (\<forall>u. view_of u (tr_state s') = view_of u (tr_state s))) \<or>
       ((\<exists>cat why. classify subject body categories = Inr (cat, why) \<and> cat \<noteq> ''skip'') \<and>
          (\<nexists>cat t template. reply_template categories templates subject body cat t template) \<and> res = Inr ''skipped'' \<and> s' = s) \<or>
       (\<exists>cat t template d. reply_template categories templates subject body cat t template \<and>
          draft_reply env rt subject sender template = Inr d \<and>
          replied env rt allowed channel ref chash sender cat t d s res s') \<or>
       (\<exists>e. res = Inl e \<and> s' = s \<and>
          (classify subject body categories = Inl e \<or>
           (\<exists>cat why. classify subject body categories = Inr (cat, why) \<and> cat \<noteq> ''skip'' \<and> template_for cat categories = Inl e) \<or>
           (\<exists>cat t template. reply_template categories templates subject body cat t template \<and>
              draft_reply env rt subject sender template = Inl e)))))"
proof (cases "is_processed ref chash (tr_state s)")
  case True
  then show ?thesis using assms by (simp add: process_one_def Let_def)
next
  case new: False
  note run = assms(1) [unfolded process_one_def assms(2) prod.case Let_def, folded assms(3), unfolded if_not_P [OF new]]
  show ?thesis
  proof (cases "classify subject body categories")
    case (Inl e)
    then show ?thesis using run new by (auto simp: try_bind_def lift_err_def)
  next
    case (Inr p)
    obtain cat why where cls: "classify subject body categories = Inr (cat, why)" using Inr by (cases p) simp
    show ?thesis
    proof (cases "cat = ''skip''")
      case True
      obtain s2 st where "record_and_mark env rt ref chash Skipped None None why id s = (Inr (), s2)" "tr_sent s2 = tr_sent s"
        "tr_messages s2 = tr_messages s" "recorded rt ref chash Skipped None None why s s2"
        "\<forall>u. view_of u (tr_state s2) = view_of u (id st)" "\<forall>u. view_of u st = view_of u (tr_state s)"
        using record_and_mark_run [of id] by (metis id_apply)
      then show ?thesis using run new cls True by (simp add: try_bind_def lift_err_def py_return_def)
    next
      case keep: False
      note run = run [unfolded try_bind_def lift_err_def cls prod.case sum.case fst_conv if_not_P [OF keep]]
      note reply = reply_template_def cls keep
      consider (err) e where "template_for cat categories = Inl e"
        | (none) name where "template_for cat categories = Inr name" "\<And>t. name = Some t \<Longrightarrow> dict_get templates t = None"
        | (some) t template where "template_for cat categories = Inr (Some t)" "dict_get templates t = Some template"
        by (metis obj_sumE option.exhaust)
      then show ?thesis
      proof cases
        case err
        then show ?thesis using run new cls keep by (auto simp: try_bind_def lift_err_def)
      next
        case none
        then show ?thesis using run new cls keep
          by (auto simp: reply try_bind_def lift_err_def py_return_def split: option.splits)
      next
        case (some t template)
        then have rt: "reply_template categories templates subject body cat t template" by (simp add: reply)
        show ?thesis
        proof (cases "draft_reply env rt subject sender template")
          case (Inl e)
          then show ?thesis using run some rt new by (auto simp: try_bind_def lift_err_def)
        next
          case (Inr d)
          have "replied env rt allowed channel ref chash sender cat t d s res s'"
            by (rule replied_run) (use run some Inr in \<open>simp add: try_bind_def lift_err_def on_state_def case_prod_beta\<close>)
          then show ?thesis using rt Inr new by blast
        qed
      qed
    qed
  qed
qed

definition ex_triage_env :: triage_env where
  "ex_triage_env = \<lparr>te_clock = int, te_sha256 = id, te_field = (\<lambda>f. Inl (key_error f)), te_value_text = (\<lambda>j. []),
     te_mailbox = (\<lambda>folder n. Inr [''m1'']), te_send = (\<lambda>n. Inr ''sent-1''), te_message = (\<lambda>n. None)\<rparr>"

definition ex_runtime :: runtime where
  "ex_runtime = \<lparr>rt_knobs = [], rt_routine_run_id = ''run'',
     rt_fetched_bodies = [(''m1'', [(''body'', ''please pay''), (''subject'', ''Invoice 7''), (''sender'', ''jane.doe@x.org'')])],
     rt_templates = [(''ack.txt'', ''Hi {sender_first_name}'')]\<rparr>"

definition ex_categories :: "json list" where
  "ex_categories = [JObj [(''name'', JStr ''bill''), (''template'', JStr ''ack''), (''keywords'', JArr [JStr ''invoice''])]]"

definition ex_templates :: "(string, json) dict" where
  "ex_templates = [(''ack'', JObj [(''name'', JStr ''ack''), (''body_path'', JStr ''ack.txt'')])]"

definition ex_triage_run :: triage_run where
  "ex_triage_run = \<lparr>tr_state = trust_run int [OptIn ''ack'' True, Approve ''ack''] (new_triage_state 1), tr_sent = [], tr_messages = []\<rparr>"

lemma process_one_outcome_witness:
  "\<exists>s'. process_one ex_triage_env ex_runtime [] ex_categories ex_templates None ''m1'' ex_triage_run = (Inr ''auto_sent'', s')
     \<and> tr_sent s' = [reply_mail ''m1'' ''jane.doe@x.org'' (''Re: Invoice 7'', ''Hi Jane'')]"
proof -
  let ?r = "process_one ex_triage_env ex_runtime [] ex_categories ex_templates None ''m1'' ex_triage_run"
  have r: "fst ?r = Inr ''auto_sent''" by code_simp
  have f: "fetch_email_content ex_runtime ''m1'' = (''please pay'', ''Invoice 7'', ''jane.doe@x.org'')" by code_simp
  have p: "?r = (Inr ''auto_sent'', snd ?r)" using r by (metis prod.collapse)
  have d: "draft_reply ex_triage_env ex_runtime ''Invoice 7'' ''jane.doe@x.org'' template = Inr (''Re: Invoice 7'', ''Hi Jane'')"
    if "reply_template ex_categories ex_templates ''Invoice 7'' ''please pay'' cat t template" for cat t template
  proof -
    have "classify ''Invoice 7'' ''please pay'' ex_categories = Inr (''bill'', classification ''bill'' (JNum 9 (-1)) ''keyword:invoice'')"
      "template_for ''bill'' ex_categories = Inr (Some ''ack'')"
      "dict_get ex_templates ''ack'' = Some (JObj [(''name'', JStr ''ack''), (''body_path'', JStr ''ack.txt'')])"
      by code_simp+
    with that have "template = JObj [(''name'', JStr ''ack''), (''body_path'', JStr ''ack.txt'')]" by (auto simp: reply_template_def)
    then show ?thesis by (simp only:) code_simp
  qed
  from process_one_outcome [OF p f refl] obtain cat t template d' where
    "reply_template ex_categories ex_templates ''Invoice 7'' ''please pay'' cat t template"
    "draft_reply ex_triage_env ex_runtime ''Invoice 7'' ''jane.doe@x.org'' template = Inr d'"
    "replied ex_triage_env ex_runtime [] None ''m1''
       (content_hash (te_sha256 ex_triage_env) ''Invoice 7'' ''please pay'' ''jane.doe@x.org'') ''jane.doe@x.org'' cat t d'
       ex_triage_run (Inr ''auto_sent'') (snd ?r)"
    by auto
  with d have "tr_sent (snd ?r) = tr_sent ex_triage_run @ [reply_mail ''m1'' ''jane.doe@x.org'' (''Re: Invoice 7'', ''Hi Jane'')]"
    by (auto simp: replied_def split: if_splits option.splits)
  with p show ?thesis by (intro exI [of _ "snd ?r"]) (simp add: ex_triage_run_def)
qed

end
