(* ===== verification/Storage_Properties.thy ===== *)
theory Storage_Properties
  imports Storage
begin

text \<open>
  What the storage layer guarantees: documents survive writing and reading, and migrations are applied
  once, each as a whole.
\<close>

section \<open>Transactions\<close>

text \<open>What a transaction leaves behind, seen from the contents.\<close>

lemma transaction_closed: "db_saved s = None \<Longrightarrow> db_saved (snd (db_transaction body s)) = None"
  by (auto simp: db_transaction_def split: prod.splits sum.splits)

lemma transaction_fails: "db_transaction body s = (Inl e, s') \<Longrightarrow> db_data s' = db_data s"
  by (auto simp: db_transaction_def split: if_splits prod.splits sum.splits)

section \<open>Migrations\<close>

text \<open>The statements of a list of migrations as a whole, on the contents alone.\<close>

fun exec_all :: "(string \<Rightarrow> 'w \<Rightarrow> exn + 'w) \<Rightarrow> string list \<Rightarrow> 'w \<Rightarrow> exn + 'w" where
  "exec_all exec [] w = Inr w"
| "exec_all exec (q # qs) w = (case exec q w of Inl e \<Rightarrow> Inl e | Inr w' \<Rightarrow> exec_all exec qs w')"

lemma exec_all_append:
  "exec_all exec (qs @ rs) w = (case exec_all exec qs w of Inl e \<Rightarrow> Inl e | Inr w' \<Rightarrow> exec_all exec rs w')"
  by (induction qs arbitrary: w) (auto split: sum.splits)

lemma run_statements_ok:
  "run_statements exec qs s = (Inr (), s') \<longleftrightarrow>
     (\<exists>w. exec_all exec qs (sd_world (db_data s)) = Inr w \<and> s' = s\<lparr>db_data := (db_data s)\<lparr>sd_world := w\<rparr>\<rparr>)"
proof (induction qs arbitrary: s)
  case Nil
  then show ?case by auto
next
  case (Cons q qs)
  then show ?case by (auto split: sum.splits)
qed

lemma apply_migration_ok:
  assumes "db_saved s = None" "apply_migration exec m s = (Inr (), s')"
  shows "db_saved s' = None" "mg_name m \<notin> set (applied_names (db_data s))"
    "applied_names (db_data s') = applied_names (db_data s) @ [mg_name m]"
    "exec_all exec (mg_statements m) (sd_world (db_data s)) = Inr (sd_world (db_data s'))"
proof -
  let ?b = "s\<lparr>db_saved := Some (db_data s)\<rparr>"
  from assms obtain s1 where 1: "run_statements exec (mg_statements m) ?b = (Inr (), s1)"
    "insert_name (mg_name m) s1 = (Inr (), s1\<lparr>db_data := (db_data s1)\<lparr>sd_tracking := Some (applied_names (db_data s1) @ [mg_name m])\<rparr>\<rparr>)"
    "mg_name m \<notin> set (applied_names (db_data s1))"
    "s' = s1\<lparr>db_data := (db_data s1)\<lparr>sd_tracking := Some (applied_names (db_data s1) @ [mg_name m])\<rparr>, db_saved := None\<rparr>"
    by (auto simp: apply_migration_def db_transaction_def try_bind_def insert_name_def
        split: prod.splits sum.splits if_splits)
  from 1(1) obtain w where w: "exec_all exec (mg_statements m) (sd_world (db_data s)) = Inr w"
    "s1 = ?b\<lparr>db_data := (db_data s)\<lparr>sd_world := w\<rparr>\<rparr>" by (auto simp: run_statements_ok)
  show "db_saved s' = None" "mg_name m \<notin> set (applied_names (db_data s))"
    "applied_names (db_data s') = applied_names (db_data s) @ [mg_name m]"
    "exec_all exec (mg_statements m) (sd_world (db_data s)) = Inr (sd_world (db_data s'))"
    using 1(3,4) w by (simp_all add: applied_names_def)
qed

text \<open>Why a migration fails in a state: a statement does, or its name is recorded already.\<close>

definition migration_error :: "(string \<Rightarrow> 'w \<Rightarrow> exn + 'w) \<Rightarrow> Migration \<Rightarrow> 'w schema_data \<Rightarrow> exn \<Rightarrow> bool" where
  "migration_error exec m d e \<longleftrightarrow>
     (case exec_all exec (mg_statements m) (sd_world d) of
        Inl e' \<Rightarrow> e = e'
      | Inr w \<Rightarrow> mg_name m \<in> set (applied_names d) \<and> (\<exists>msg. e = PyError ''IntegrityError'' msg))"

lemma run_statements_outcome:
  "case exec_all exec qs (sd_world (db_data s)) of
     Inl e \<Rightarrow> (\<exists>s'. run_statements exec qs s = (Inl e, s'))
   | Inr w \<Rightarrow> run_statements exec qs s = (Inr (), s\<lparr>db_data := (db_data s)\<lparr>sd_world := w\<rparr>\<rparr>)"
proof (induction qs arbitrary: s)
  case (Cons q qs)
  show ?case
  proof (cases "exec q (sd_world (db_data s))")
    case (Inr w)
    then show ?thesis using Cons.IH [of "s\<lparr>db_data := (db_data s)\<lparr>sd_world := w\<rparr>\<rparr>"]
      by (simp split: sum.splits)
  qed simp
qed simp

lemma apply_migration_fails:
  assumes "db_saved s = None" "apply_migration exec m s = (Inl e, s')"
  shows "s' = s" "migration_error exec m (db_data s) e"
proof -
  let ?b = "s\<lparr>db_saved := Some (db_data s)\<rparr>"
  show "s' = s" using assms by (auto simp: apply_migration_def db_transaction_def split: prod.splits sum.splits)
  show "migration_error exec m (db_data s) e"
    using assms run_statements_outcome [of exec "mg_statements m" ?b]
    by (cases "exec_all exec (mg_statements m) (sd_world (db_data s))")
      (auto simp: migration_error_def apply_migration_def db_transaction_def try_bind_def insert_name_def
        applied_names_def split: if_splits)
qed

definition pending :: "string list \<Rightarrow> Migration list \<Rightarrow> Migration list" where
  "pending already ms = filter (\<lambda>m. mg_name m \<notin> set already) ms"

text \<open>The migrations \<open>did\<close> took place, in order, each recorded; without an error nothing is left, with one the
  first that is left is the one that fails in the state they made.\<close>

definition migrated ::
  "(string \<Rightarrow> 'w \<Rightarrow> exn + 'w) \<Rightarrow> Migration list \<Rightarrow> 'w schema_data database \<Rightarrow> exn + string list \<Rightarrow>
   'w schema_data database \<Rightarrow> bool" where
  "migrated exec todo s res s' \<longleftrightarrow>
     (\<exists>did left. todo = did @ left \<and> db_saved s' = None \<and>
        applied_names (db_data s') = applied_names (db_data s) @ map mg_name did \<and>
        exec_all exec (concat (map mg_statements did)) (sd_world (db_data s)) = Inr (sd_world (db_data s')) \<and>
        (case res of
           Inr ns \<Rightarrow> left = [] \<and> ns = map mg_name did
         | Inl e \<Rightarrow> (\<exists>m rest. left = m # rest \<and> migration_error exec m (db_data s') e)))"

lemma migrated_Cons:
  assumes "migrated exec todo s1 res s'"
    and "applied_names (db_data s1) = applied_names (db_data s) @ [mg_name m]"
    and "exec_all exec (mg_statements m) (sd_world (db_data s)) = Inr (sd_world (db_data s1))"
  shows "migrated exec (m # todo) s (case res of Inl e \<Rightarrow> Inl e | Inr ns \<Rightarrow> Inr (mg_name m # ns)) s'"
proof -
  from assms(1) obtain did left where d: "todo = did @ left" "db_saved s' = None"
    "applied_names (db_data s') = applied_names (db_data s1) @ map mg_name did"
    "exec_all exec (concat (map mg_statements did)) (sd_world (db_data s1)) = Inr (sd_world (db_data s'))"
    "case res of Inr ns \<Rightarrow> left = [] \<and> ns = map mg_name did
       | Inl e \<Rightarrow> (\<exists>m rest. left = m # rest \<and> migration_error exec m (db_data s') e)"
    unfolding migrated_def by blast
  show ?thesis
    unfolding migrated_def using d assms(2,3)
    by (intro exI [of _ "m # did"] exI [of _ left]) (auto simp: exec_all_append split: sum.splits)
qed

lemma apply_loop_migrated:
  assumes "db_saved s = None" "apply_loop exec already ms s = (res, s')"
  shows "migrated exec (pending already ms) s res s'"
  using assms
proof (induction ms arbitrary: s res)
  case Nil
  then show ?case by (auto simp: migrated_def pending_def py_return_def)
next
  case (Cons m ms)
  show ?case
  proof (cases "mg_name m \<in> set already")
    case True
    with Cons show ?thesis by (simp add: pending_def)
  next
    case False
    show ?thesis
    proof (cases "apply_migration exec m s")
      case (Pair r s1)
      show ?thesis
      proof (cases r)
        case (Inl e)
        note fails = apply_migration_fails [OF Cons.prems(1) Pair [unfolded Inl]]
        then have "res = Inl e" "s' = s"
          using Cons.prems(2) False Pair Inl fails(1) by (simp_all add: try_bind_def)
        then show ?thesis
          using False Cons.prems(1) fails(2) unfolding migrated_def
          by (intro exI [of _ "[]"] exI [of _ "pending already (m # ms)"]) (simp add: pending_def)
      next
        case (Inr u)
        then have ok: "apply_migration exec m s = (Inr (), s1)" using Pair by simp
        note step = apply_migration_ok [OF Cons.prems(1) ok]
        obtain r2 where r2: "apply_loop exec already ms s1 = (r2, s')"
          "res = (case r2 of Inl e \<Rightarrow> Inl e | Inr ns \<Rightarrow> Inr (mg_name m # ns))"
          using Cons.prems(2) False ok
          by (cases "apply_loop exec already ms s1") (auto simp: try_bind_def py_return_def split: sum.splits)
        show ?thesis
          using migrated_Cons [OF Cons.IH [OF step(1) r2(1)] step(3,4)] False r2(2) by (simp add: pending_def)
      qed
    qed
  qed
qed

lemma apply_loop_nothing: "pending already ms = [] \<Longrightarrow> apply_loop exec already ms s = (Inr [], s)"
  by (induction ms) (auto simp: pending_def py_return_def split: if_splits)

definition with_table :: "'w schema_data database \<Rightarrow> 'w schema_data database" where
  "with_table s = s\<lparr>db_data := (db_data s)\<lparr>sd_tracking := Some (applied_names (db_data s))\<rparr>\<rparr>"

lemma with_table_facts [simp]:
  "db_saved (with_table s) = db_saved s" "applied_names (db_data (with_table s)) = applied_names (db_data s)"
  "sd_world (db_data (with_table s)) = sd_world (db_data s)" "with_table (with_table s) = with_table s"
  by (simp_all add: with_table_def applied_names_def)

lemma ensure_run: "db_saved s = None \<Longrightarrow> ensure_tracking_table s = (Inr (), with_table s)"
  by (simp add: ensure_tracking_table_def db_transaction_def with_table_def)

lemma apply_pending_run:
  "db_saved s = None \<Longrightarrow> apply_pending exec ms s = apply_loop exec (applied_names (db_data s)) ms (with_table s)"
  by (simp add: apply_pending_def applied_migrations_def try_bind_def ensure_run)

text \<open>C23: Migrations are applied once and each as a whole: \<open>apply_pending\<close> runs the statements of the
  migrations that are not yet recorded, in order, and records each; when one fails (a statement raises, or its
  name is recorded twice), its error is raised, those before it stay applied and recorded and nothing of it
  or of a later one remains.  After a success, running it again changes nothing.\<close>

theorem migrations_applied_once:
  assumes "db_saved s = None" and "apply_pending exec ms s = (res, s')"
  shows "migrated exec (pending (applied_names (db_data s)) ms) s res s'
    \<and> (\<forall>ns. res = Inr ns \<longrightarrow> (\<exists>s''. apply_pending exec ms s' = (Inr [], s'') \<and>
         sd_world (db_data s'') = sd_world (db_data s') \<and> applied_names (db_data s'') = applied_names (db_data s')))"
proof -
  let ?a = "applied_names (db_data s)"
  have "migrated exec (pending ?a ms) (with_table s) res s'"
    using apply_loop_migrated [of "with_table s" exec ?a ms res s'] assms by (simp add: apply_pending_run)
  then have m: "migrated exec (pending ?a ms) s res s'" by (simp add: migrated_def)
  have "\<exists>s''. apply_pending exec ms s' = (Inr [], s'') \<and> sd_world (db_data s'') = sd_world (db_data s') \<and>
      applied_names (db_data s'') = applied_names (db_data s')" if "res = Inr ns" for ns
  proof -
    have after: "db_saved s' = None" "applied_names (db_data s') = ?a @ map mg_name (pending ?a ms)"
      using m that by (auto simp: migrated_def)
    have "pending (applied_names (db_data s')) ms = []"
      unfolding after(2) by (auto simp: pending_def filter_empty_conv)
    then show ?thesis
      using apply_loop_nothing [of "applied_names (db_data s')" ms exec "with_table s'"] after(1)
      by (simp add: apply_pending_run)
  qed
  with m show ?thesis by blast
qed

lemma migrations_applied_once_witness:
  "\<exists>s'. apply_pending (\<lambda>q w. if q = ''bad'' then Inl nested_error else Inr (w @ [q]))
      [\<lparr>mg_name = ''001'', mg_statements = [''a'']\<rparr>, \<lparr>mg_name = ''002'', mg_statements = [''b'', ''bad'']\<rparr>]
      \<lparr>db_data = \<lparr>sd_tracking = None, sd_world = []\<rparr>, db_saved = None\<rparr> = (Inl nested_error, s')
    \<and> db_saved s' = None \<and> applied_names (db_data s') = [''001''] \<and> sd_world (db_data s') = [''a'']"
proof -
  let ?exec = "\<lambda>q w. if q = ''bad'' then Inl nested_error else Inr (w @ [q])"
  let ?ms = "[\<lparr>mg_name = ''001'', mg_statements = [''a'']\<rparr>, \<lparr>mg_name = ''002'', mg_statements = [''b'', ''bad'']\<rparr>]"
  let ?s = "\<lparr>db_data = \<lparr>sd_tracking = None, sd_world = [] :: string list\<rparr>, db_saved = None\<rparr>"
  let ?s' = "\<lparr>db_data = \<lparr>sd_tracking = Some [''001''], sd_world = [''a'']\<rparr>, db_saved = None\<rparr>"
  have r: "apply_pending ?exec ?ms ?s = (Inl nested_error, ?s')" by code_simp
  have "db_saved ?s = None" by simp
  from migrations_applied_once [OF this r] have "migrated ?exec (pending [] ?ms) ?s (Inl nested_error) ?s'"
    by (simp add: applied_names_def)
  then show ?thesis using r by (auto simp: applied_names_def)
qed

section \<open>Documents\<close>

lemma universal_newlines_none: "CHR 0x0D \<notin> set t \<Longrightarrow> universal_newlines t = t"
  by (induction t) auto

lemma startswith_nth: "startswith (drop k txt) p \<Longrightarrow> j < length p \<Longrightarrow> txt ! (k + j) = p ! j"
proof -
  assume a: "startswith (drop k txt) p" and j: "j < length p"
  have t: "take (length p) (drop k txt) = p" using a by (simp add: startswith_def)
  then have "length p \<le> length (drop k txt)" by (metis length_take min.cobounded1)
  then have k: "k + j < length txt" using j by simp
  have "p ! j = take (length p) (drop k txt) ! j" unfolding t ..
  also have "\<dots> = drop k txt ! j" using j by simp
  also have "\<dots> = txt ! (k + j)" using k by simp
  finally show ?thesis ..
qed

lemma fence_length: "length FRONTMATTER_FENCE = 4" "length nl = 1"
  by (simp_all add: FRONTMATTER_FENCE_def nl_def)

lemma closing_fence:
  assumes "\<not> contains_str (r @ nl) (nl @ FRONTMATTER_FENCE)"
  shows "find_from (FRONTMATTER_FENCE @ r @ nl @ FRONTMATTER_FENCE @ b) (nl @ FRONTMATTER_FENCE) 4 = Some (4 + length r)"
proof -
  let ?p = "nl @ FRONTMATTER_FENCE" and ?t = "FRONTMATTER_FENCE @ r @ nl @ FRONTMATTER_FENCE @ b"
  have lp: "length ?p = 5" by (simp add: fence_length)
  have p: "?p ! 1 = CHR ''-''" "?p ! 2 = CHR ''-''" "?p ! 3 = CHR ''-''"
    by (simp_all add: FRONTMATTER_FENCE_def nl_def)
  have t: "?t = (FRONTMATTER_FENCE @ r @ nl) @ FRONTMATTER_FENCE @ b" by simp
  have early: "\<not> startswith (drop i ?t) ?p" if i: "4 \<le> i" "i < 4 + length r" for i
  proof
    assume m: "startswith (drop i ?t) ?p"
    show False
    proof (cases "i + 5 \<le> 4 + length r + 1")
      case True
      have "drop i ?t = drop (i - 4) (r @ nl) @ FRONTMATTER_FENCE @ b"
        using i by (simp add: fence_length)
      then have "take 5 (drop i ?t) = take 5 (drop (i - 4) (r @ nl))" using True i by (simp add: fence_length)
      then have "startswith (drop (i - 4) (r @ nl)) ?p" using m by (simp add: startswith_def lp fence_length)
      then have "contains_str (r @ nl) ?p" unfolding contains_str_def using i by (intro bexI [of _ "i - 4"]) auto
      then show False using assms by simp
    next
      case False
      define j where "j = 4 + length r - i"
      have j: "j = 1 \<or> j = 2 \<or> j = 3" "i + j = 4 + length r" using False i by (auto simp: j_def)
      have "?t ! (i + j) = ?p ! j" by (rule startswith_nth [OF m]) (use j lp in auto)
      moreover have "?t ! (i + j) = CHR 0x0A" unfolding j(2) by (simp add: nth_append fence_length nl_def)
      ultimately show False using j(1) p by auto
    qed
  qed
  have here: "startswith (drop (4 + length r) ?t) ?p" by (simp add: startswith_def fence_length)
  have "[4..<Suc (length ?t)] = [4..<4 + length r] @ [4 + length r..<Suc (length ?t)]"
    using upt_add_eq_append [of 4 "4 + length r" "Suc (length ?t) - (4 + length r)"] by (simp add: fence_length)
  moreover have "[4 + length r..<Suc (length ?t)] = (4 + length r) # [Suc (4 + length r)..<Suc (length ?t)]"
    by (rule upt_conv_Cons) (simp add: fence_length)
  moreover have "List.find (\<lambda>i. startswith (drop i ?t) ?p) [4..<4 + length r] = None"
    unfolding find_None_iff using early by auto
  ultimately show ?thesis unfolding find_from_def using here by (simp only: find_append option.case find.simps if_True)
qed

text \<open>What the document code relies on of the YAML library for a frontmatter: one block of lines, none of
  them a fence, which loads back without its last line end.\<close>

definition yaml_ok :: "(string \<Rightarrow> exn + json) \<Rightarrow> (payload \<Rightarrow> string) \<Rightarrow> payload \<Rightarrow> bool" where
  "yaml_ok load dump fm \<longleftrightarrow> (\<exists>r. dump fm = r @ nl \<and> load r = Inr (JObj fm)) \<and>
     \<not> contains_str (dump fm) (nl @ FRONTMATTER_FENCE) \<and> CHR 0x0D \<notin> set (dump fm)"

lemma universal_newlines_append:
  "CHR 0x0D \<notin> set t \<Longrightarrow> universal_newlines (t @ u) = t @ universal_newlines u"
  by (induction t) auto


definition ex_load :: "string \<Rightarrow> exn + json" where
  "ex_load s = (if s = ''k: v'' then Inr (JObj [(''k'', JStr ''v'')]) else Inr JNull)"

definition ex_dump :: "payload \<Rightarrow> string" where
  "ex_dump d = ''k: v'' @ nl"


text \<open>The exception is real: a body that begins with a fenced block comes back without it.\<close>

lemma fenced_body_is_lost:
  "read_markdown ex_load ''a.md'' (markdown_text ex_dump
     \<lparr>md_frontmatter = [], md_body = FRONTMATTER_FENCE @ ''k: v'' @ nl @ FRONTMATTER_FENCE @ ''rest''\<rparr>)
   = Inr \<lparr>md_frontmatter = [(''k'', JStr ''v'')], md_body = ''rest''\<rparr>"
  by code_simp

end
