(* ===== verification/Conductor.thy ===== *)
theory Conductor
  imports Routine_Engine
begin

text \<open>
  From an intent to a run: \<open>ota_core/conductor\<close>, \<open>ota_core/branches/branch.py\<close> and
  \<open>ota_core/systems/system.py\<close>.  The registries are dicts, interpreted as the \<open>keyed_store\<close> of the
  prelude; a router is the function behind \<open>IntentRouter\<close>.
\<close>

section \<open>Branches\<close>

record Branch =
  br_name :: string
  br_description :: string
  br_routines :: "string list"

type_synonym BranchRegistry = "(string, Branch) dict"

definition branch_contains :: "Branch \<Rightarrow> string \<Rightarrow> bool" where
  "branch_contains b rid \<longleftrightarrow> rid \<in> set (br_routines b)"

definition duplicate_branch :: "string \<Rightarrow> exn" where
  "duplicate_branch name = PyError ''DuplicateBranchError'' (''branch already registered: '' @ name)"

definition register_branch :: "Branch \<Rightarrow> (BranchRegistry, exn, unit) py" where
  "register_branch b reg =
     (if dict_has reg (br_name b) then (Inl (duplicate_branch (br_name b)), reg)
      else (Inr (), dict_set (br_name b) b reg))"

definition deregister_branch :: "string \<Rightarrow> BranchRegistry \<Rightarrow> BranchRegistry" where
  "deregister_branch name reg = dict_pop name reg"

definition get_branch :: "BranchRegistry \<Rightarrow> string \<Rightarrow> Branch option" where
  "get_branch reg name = dict_get reg name"

definition all_branches :: "BranchRegistry \<Rightarrow> Branch list" where
  "all_branches reg = dict_values reg"

definition for_routine :: "BranchRegistry \<Rightarrow> string \<Rightarrow> Branch option" where
  "for_routine reg rid = find (\<lambda>b. branch_contains b rid) (dict_values reg)"

definition default_branches :: "string list \<Rightarrow> BranchRegistry" where
  "default_branches routines =
     snd (register_branch
       \<lparr>br_name = ''productivity'',
        br_description = ''Productivity automation routines (v0.1 default branch).'',
        br_routines = routines\<rparr> [])"

section \<open>Routing\<close>

record Intent =
  in_text :: string
  in_channel :: string
  in_user_id :: string
  in_metadata :: payload

record RoutingDecision =
  rdc_routine_id :: string
  rdc_confidence :: decimal
  rdc_reason :: string
  rdc_fallback_used :: bool

type_synonym IntentRouter = "Intent \<Rightarrow> exn + RoutingDecision"

definition no_route :: "string \<Rightarrow> exn" where
  "no_route summary = PyError ''NoRouteError'' (''no route for intent: '' @ summary)"

definition routine_not_registered :: "string \<Rightarrow> exn" where
  "routine_not_registered rid =
     PyError ''RoutineNotRegisteredError'' (''routine not registered with conductor: '' @ rid)"

definition direct_decision :: "string \<Rightarrow> RoutingDecision" where
  "direct_decision rid = \<lparr>rdc_routine_id = rid, rdc_confidence = \<lparr>dec_coef = 1, dec_exp = 0\<rparr>,
     rdc_reason = ''direct routing to '' @ rid @ '' (v0.1 single-routine mode)'', rdc_fallback_used = False\<rparr>"

definition direct_router :: "string \<Rightarrow> exn + IntentRouter" where
  "direct_router rid =
     (if rid = [] then Inl (PyError ''ValueError'' ''routine_id cannot be empty'')
      else Inr (\<lambda>intent. Inr (direct_decision rid)))"

definition routine_not_found_router :: IntentRouter where
  "routine_not_found_router intent = Inl (no_route (in_channel intent @ '': '' @ take 40 (in_text intent)))"

section \<open>The conductor\<close>

record 's RegisteredRoutine =
  rr_routine_id :: string
  rr_capabilities :: "(string, 's Capability) dict"
  rr_knob_overrides :: payload

record 's Conductor =
  co_router :: IntentRouter
  co_engine :: "'s RoutineEngine"
  co_observability :: obs_sink
  co_registry :: "(string, 's RegisteredRoutine) dict"

definition register_routine ::
  "string \<Rightarrow> (string, 's Capability) dict \<Rightarrow> payload \<Rightarrow> 's Conductor \<Rightarrow> 's Conductor" where
  "register_routine rid caps overrides co =
     co\<lparr>co_registry := dict_set rid
       \<lparr>rr_routine_id = rid, rr_capabilities = caps, rr_knob_overrides = overrides\<rparr> (co_registry co)\<rparr>"

definition deregister_routine :: "string \<Rightarrow> 's Conductor \<Rightarrow> 's Conductor" where
  "deregister_routine rid co = co\<lparr>co_registry := dict_pop rid (co_registry co)\<rparr>"

definition registered_routines :: "'s Conductor \<Rightarrow> string list" where
  "registered_routines co = sort (dict_keys (co_registry co))"

definition decide_route :: "'s Conductor \<Rightarrow> Intent \<Rightarrow> exn + RoutingDecision" where
  "decide_route co intent = co_router co intent"

text \<open>\<open>now\<close> is the reading for the metric, \<open>hex\<close> the draw of the loader and \<open>d\<close> those of the run.\<close>

definition route_attributes :: "RoutingDecision \<Rightarrow> Intent \<Rightarrow> (string, string) dict" where
  "route_attributes dec intent =
     [(''routine_id'', rdc_routine_id dec), (''channel'', in_channel intent),
      (''fallback_used'', if rdc_fallback_used dec then ''true'' else ''false'')]"

definition conductor_dispatch ::
  "'w engine_world_scheme Conductor \<Rightarrow> Intent \<Rightarrow> Principal \<Rightarrow> string option \<Rightarrow> instant \<Rightarrow> string \<Rightarrow> run_draws \<Rightarrow>
   ('w engine_world_scheme, exn, RoutineRunResult) py" where
  "conductor_dispatch co intent who request_id now hex d w =
     (case co_router co intent of
        Inl e \<Rightarrow> (Inl e, w)
      | Inr dec \<Rightarrow>
          (case dict_get (co_registry co) (rdc_routine_id dec) of
             None \<Rightarrow> (Inl (routine_not_registered (rdc_routine_id dec)), w)
           | Some reg \<Rightarrow>
               try_bind (engine_load (co_engine co) (rdc_routine_id dec) (rr_knob_overrides reg) hex)
                 (\<lambda>h. engine_run (co_engine co) h who (rr_capabilities reg) request_id None None d)
                 (obs_metric (co_observability co) ''conductor.route_decided'' \<lparr>dec_coef = 1, dec_exp = 0\<rparr> Counter
                    (route_attributes dec intent) now w)))"

section \<open>The system\<close>

record 's System =
  sy_conductor :: "'s Conductor"
  sy_branches :: BranchRegistry

definition system_dispatch ::
  "'w engine_world_scheme System \<Rightarrow> Intent \<Rightarrow> Principal \<Rightarrow> string option \<Rightarrow> instant \<Rightarrow> string \<Rightarrow> run_draws \<Rightarrow>
   ('w engine_world_scheme, exn, RoutineRunResult) py" where
  "system_dispatch sys intent who request_id now hex d =
     conductor_dispatch (sy_conductor sys) intent who request_id now hex d"

definition branch_for :: "'s System \<Rightarrow> string \<Rightarrow> string option" where
  "branch_for sys rid = map_option br_name (for_routine (sy_branches sys) rid)"

section \<open>The registries meet the contract of the prelude\<close>

interpretation branches: keyed_store get_branch "\<lambda>k b reg. dict_set k b reg" wf_dict deregister_branch
  by unfold_locales (simp_all add: get_branch_def deregister_branch_def dict_simps)

definition registration_of :: "'s Conductor \<Rightarrow> string \<Rightarrow> ((string, 's Capability) dict \<times> payload) option" where
  "registration_of co rid =
     map_option (\<lambda>reg. (rr_capabilities reg, rr_knob_overrides reg)) (dict_get (co_registry co) rid)"

interpretation routines: keyed_store registration_of
  "\<lambda>rid v co. register_routine rid (fst v) (snd v) co" "\<lambda>co. True" deregister_routine
  by unfold_locales (simp_all add: registration_of_def register_routine_def deregister_routine_def dict_simps)

text \<open>Whatever was registered and removed before, a dispatch finds the last registration of its routine.\<close>

lemmas last_registration = routines.look_run

end
