(* ===== verification/Routine_Code.thy ===== *)
theory Routine_Code
  imports Conductor Dispatch_Properties
begin

text \<open>
  The code of a routine as data.  A routine is third-party code, not part of the repository: it is any
  program over the operations the framework gives it, the verbs of the capability modules, the budget of
  the enforcer and the observability sink, and it may look at each result or error before it goes on, so
  it may catch what a call raises.  The type stands for such code that comes to an end; it does not
  translate a file.  The adapters behind the verbs keep to their own part of the world.
\<close>

section \<open>Calls of a verb\<close>

text \<open>A call carries the identifier its wrapper draws and the names of its keyword arguments.\<close>

record 'k verb_call =
  vc_invocation_id :: string
  vc_capability :: string
  vc_verb :: string
  vc_keys :: "string list"
  vc_args :: 'k

definition call_one ::
  "'i importer \<Rightarrow> ('i, 'z, 'k, 'r) invoker \<Rightarrow> 'k verb_call \<Rightarrow> (('i, 'z) dispatch_world_scheme, exn, 'r) py" where
  "call_one im invoke call =
     (case verb_decl_of (vc_capability call) (vc_verb call) of
        None \<Rightarrow> py_raise (PyError ''AttributeError'' (''module has no attribute '' @ repr_str (vc_verb call)))
      | Some decl \<Rightarrow> call_verb im invoke (vc_invocation_id call) decl (vc_capability call) (vc_verb call) (vc_keys call) (vc_args call))"

text \<open>An operation on the part of the world the framework does not look at.\<close>

definition on_more :: "('z, exn, 'r) py \<Rightarrow> (('i, 'z) dispatch_world_scheme, exn, 'r) py" where
  "on_more f w =
     (case f (dispatch_world.more w) of (res, s) \<Rightarrow> (res, dispatch_world.more_update (\<lambda>_. s) w))"

definition own_state :: "('i \<Rightarrow> string \<Rightarrow> string \<Rightarrow> 'k \<Rightarrow> ('z, exn, 'r) py) \<Rightarrow> ('i, 'z, 'k, 'r) invoker" where
  "own_state invoke i c v k = on_more (invoke i c v k)"

section \<open>Programs\<close>

datatype ('k, 'r) routine_code =
    Finish json
  | Fail exn
  | CallVerb "'k verb_call" "exn + 'r \<Rightarrow> ('k, 'r) routine_code"
  | Reserve enforcer int int decimal "exn + unit \<Rightarrow> ('k, 'r) routine_code"
  | Usage enforcer int int decimal "string option" "exn + unit \<Rightarrow> ('k, 'r) routine_code"
  | Observe obs_sink obs_record "('k, 'r) routine_code"

primrec run_code ::
  "'i importer \<Rightarrow> ('i, 'z, 'k, 'r) invoker \<Rightarrow> ('k, 'r) routine_code \<Rightarrow> (('i, 'z) dispatch_world_scheme, exn, json) py" where
  "run_code im invoke (Finish v) = py_return v"
| "run_code im invoke (Fail e) = py_raise e"
| "run_code im invoke (CallVerb call k) = (\<lambda>w. case call_one im invoke call w of (res, w1) \<Rightarrow> run_code im invoke (k res) w1)"
| "run_code im invoke (Reserve e i n u k) = (\<lambda>w. case reserve_llm_budget e i n u w of (res, w1) \<Rightarrow> run_code im invoke (k res) w1)"
| "run_code im invoke (Usage e i n u model k) = (\<lambda>w. case record_llm_usage e i n u model w of (res, w1) \<Rightarrow> run_code im invoke (k res) w1)"
| "run_code im invoke (Observe sink rec c) = (\<lambda>w. run_code im invoke c (obs_emit sink rec w))"

text \<open>The verb calls of an execution, in order: each with the world it starts in, what it returns or raises,
  and the world it leaves.\<close>

type_synonym ('w, 'k, 'r) call_step = "'k verb_call \<times> 'w \<times> (exn + 'r) \<times> 'w"

primrec call_steps ::
  "'i importer \<Rightarrow> ('i, 'z, 'k, 'r) invoker \<Rightarrow> ('k, 'r) routine_code \<Rightarrow> ('i, 'z) dispatch_world_scheme \<Rightarrow>
   (('i, 'z) dispatch_world_scheme, 'k, 'r) call_step list" where
  "call_steps im invoke (Finish v) = (\<lambda>w. [])"
| "call_steps im invoke (Fail e) = (\<lambda>w. [])"
| "call_steps im invoke (CallVerb call k) = (\<lambda>w. case call_one im invoke call w of (res, w1) \<Rightarrow>
     (call, w, res, w1) # call_steps im invoke (k res) w1)"
| "call_steps im invoke (Reserve e i n u k) = (\<lambda>w. case reserve_llm_budget e i n u w of (res, w1) \<Rightarrow> call_steps im invoke (k res) w1)"
| "call_steps im invoke (Usage e i n u model k) = (\<lambda>w. case record_llm_usage e i n u model w of (res, w1) \<Rightarrow> call_steps im invoke (k res) w1)"
| "call_steps im invoke (Observe sink rec c) = (\<lambda>w. call_steps im invoke c (obs_emit sink rec w))"

text \<open>Code after code: such programs compose, so a helper function or a capability that is such code is part of it.\<close>

primrec then_code :: "('k, 'r) routine_code \<Rightarrow> (exn + json \<Rightarrow> ('k, 'r) routine_code) \<Rightarrow> ('k, 'r) routine_code" where
  "then_code (Finish v) f = f (Inr v)"
| "then_code (Fail e) f = f (Inl e)"
| "then_code (CallVerb call k) f = CallVerb call (\<lambda>res. then_code (k res) f)"
| "then_code (Reserve e i n u k) f = Reserve e i n u (\<lambda>res. then_code (k res) f)"
| "then_code (Usage e i n u model k) f = Usage e i n u model (\<lambda>res. then_code (k res) f)"
| "then_code (Observe sink rec c) f = Observe sink rec (then_code c f)"

lemma run_then_code:
  "run_code im invoke (then_code c f) w =
     (case run_code im invoke c w of (res, w1) \<Rightarrow> run_code im invoke (f res) w1)"
  by (induction c arbitrary: w) (auto simp: py_return_def py_raise_def split: prod.splits)

text \<open>Code that lets every error of a call pass.\<close>

primrec lets_errors_pass :: "('k, 'r) routine_code \<Rightarrow> bool" where
  "lets_errors_pass (Finish v) = True"
| "lets_errors_pass (Fail e) = True"
| "lets_errors_pass (CallVerb call k) = ((\<forall>e. k (Inl e) = Fail e) \<and> (\<forall>r. lets_errors_pass (k (Inr r))))"
| "lets_errors_pass (Reserve e i n u k) = (\<forall>r. lets_errors_pass (k r))"
| "lets_errors_pass (Usage e i n u model k) = (\<forall>r. lets_errors_pass (k r))"
| "lets_errors_pass (Observe sink rec c) = lets_errors_pass c"

lemma passed_error_ends:
  assumes "lets_errors_pass c" and "(call, u, Inl e, v) \<in> set (call_steps im invoke c w)"
  shows "run_code im invoke c w = (Inl e, v)"
  using assms
proof (induction c arbitrary: w)
  case (CallVerb cl k)
  obtain res w1 where call: "call_one im invoke cl w = (res, w1)" by force
  show ?case
  proof (cases res)
    case (Inl e')
    then show ?thesis using CallVerb.prems call by (auto simp: py_raise_def)
  next
    case (Inr r)
    with CallVerb.IH [of "k res" w1] CallVerb.prems call show ?thesis by (auto simp: rangeI)
  qed
qed (auto split: prod.splits)

text \<open>A module: its top-level statements and what they leave as the attribute \<open>run\<close>.\<close>

datatype ('s, 'k, 'r) run_source = SourceNoRun | SourceNotCallable | SourceRun "'s RoutineRuntime \<Rightarrow> ('k, 'r) routine_code"

record ('s, 'k, 'r) module_source =
  ms_top :: "('k, 'r) routine_code"
  ms_run :: "('s, 'k, 'r) run_source"

fun source_attr ::
  "'i importer \<Rightarrow> ('i, 'z, 'k, 'r) invoker \<Rightarrow> (('i, 'z) dispatch_world_scheme, 'k, 'r) run_source \<Rightarrow>
   ('i, 'z) dispatch_world_scheme run_attr" where
  "source_attr im invoke SourceNoRun = NoRun"
| "source_attr im invoke SourceNotCallable = NotCallable"
| "source_attr im invoke (SourceRun code) = RunFunction (\<lambda>rt. run_code im invoke (code rt))"

definition exec_source ::
  "'i importer \<Rightarrow> ('i, 'z, 'k, 'r) invoker \<Rightarrow> (string \<Rightarrow> (('i, 'z) dispatch_world_scheme, 'k, 'r) module_source) \<Rightarrow>
   string \<Rightarrow> (('i, 'z) dispatch_world_scheme, exn, ('i, 'z) dispatch_world_scheme run_attr) py" where
  "exec_source im invoke files path =
     try_bind (run_code im invoke (ms_top (files path)))
       (\<lambda>_. py_return (source_attr im invoke (ms_run (files path))))"

section \<open>What every step keeps\<close>

definition kept_by_code ::
  "'i importer \<Rightarrow> ('i, 'z, 'k, 'r) invoker \<Rightarrow> (('i, 'z) dispatch_world_scheme \<Rightarrow> bool) \<Rightarrow> bool" where
  "kept_by_code im invoke P \<longleftrightarrow>
     (\<forall>w. P w \<longrightarrow> (\<forall>call. P (snd (call_one im invoke call w))) \<and>
        (\<forall>e i n u. P (snd (reserve_llm_budget e i n u w))) \<and>
        (\<forall>e i n u model. P (snd (record_llm_usage e i n u model w))) \<and> (\<forall>sink rec. P (obs_emit sink rec w)))"

lemma run_code_keeps:
  assumes "kept_by_code im invoke P" "P w"
  shows "P (snd (run_code im invoke c w)) \<and>
    (\<forall>(call, u, res, v) \<in> set (call_steps im invoke c w). P u \<and> call_one im invoke call u = (res, v) \<and> P v)"
  using assms(2)
proof (induction c arbitrary: w)
  case (CallVerb call k)
  obtain res w1 where call: "call_one im invoke call w = (res, w1)" by force
  then have "P w1" using assms(1) CallVerb.prems unfolding kept_by_code_def by (metis snd_conv)
  with CallVerb.IH [of "k res" w1] CallVerb.prems show ?case by (simp add: call rangeI)
next
  case (Reserve e i n u k)
  obtain res w1 where call: "reserve_llm_budget e i n u w = (res, w1)" by force
  then have "P w1" using assms(1) Reserve.prems unfolding kept_by_code_def by (metis snd_conv)
  with Reserve.IH [of "k res" w1] show ?case by (simp add: call rangeI)
next
  case (Usage e i n u model k)
  obtain res w1 where call: "record_llm_usage e i n u model w = (res, w1)" by force
  then have "P w1" using assms(1) Usage.prems unfolding kept_by_code_def by (metis snd_conv)
  with Usage.IH [of "k res" w1] show ?case by (simp add: call rangeI)
next
  case (Observe sink rec c)
  then have "P (obs_emit sink rec w)" using assms(1) unfolding kept_by_code_def by blast
  with Observe.IH [of "obs_emit sink rec w"] show ?case by simp
qed (simp_all add: py_return_def py_raise_def)

lemma code_frames [simp]:
  "dispatch_world.more (snd (reserve_llm_budget e i n u w)) = dispatch_world.more w"
  "dispatch_world.more (snd (record_llm_usage e i n u model w)) = dispatch_world.more w"
  "dispatch_world.more (obs_emit sink rec w) = dispatch_world.more w"
  "dw_active (snd (reserve_llm_budget e i n u w)) = dw_active w"
  "dw_active (snd (record_llm_usage e i n u model w)) = dw_active w"
  "dw_active (obs_emit sink rec w) = dw_active w"
  "dw_registries (snd (reserve_llm_budget e i n u w)) = dw_registries w"
  "dw_registries (snd (record_llm_usage e i n u model w)) = dw_registries w"
  "dw_registries (obs_emit sink rec w) = dw_registries w"
  by (auto simp: reserve_llm_budget_def record_llm_usage_def obs_emit_def audit_emit_def update_ctx_def Let_def
      split: option.splits prod.splits)

lemma bracketed_obs_emit: "bracketed w (obs_emit sink rec w)"
  by (simp add: bracketed_def obs_emit_def)

text \<open>Steps that start one after the other: the adapters' part of the world changes in the calls only.\<close>

fun linked :: "'z \<Rightarrow> (('i, 'z) dispatch_world_scheme, 'k, 'r) call_step list \<Rightarrow> 'z \<Rightarrow> bool" where
  "linked s [] t \<longleftrightarrow> s = t"
| "linked s ((call, u, res, v) # steps) t \<longleftrightarrow> dispatch_world.more u = s \<and> linked (dispatch_world.more v) steps t"

lemma code_steps_linked:
  "linked (dispatch_world.more w) (call_steps im invoke c w) (dispatch_world.more (snd (run_code im invoke c w)))"
proof (induction c arbitrary: w)
  case (CallVerb call k)
  obtain res w1 where "call_one im invoke call w = (res, w1)" by force
  with CallVerb.IH [of "k res" w1] show ?case by (simp add: rangeI)
next
  case (Reserve e i n u k)
  obtain res w1 where call: "reserve_llm_budget e i n u w = (res, w1)" by force
  then have "dispatch_world.more w1 = dispatch_world.more w" using code_frames(1) [of e i n u w] by simp
  with Reserve.IH [of "k res" w1] call show ?case by (simp add: rangeI)
next
  case (Usage e i n u model k)
  obtain res w1 where call: "record_llm_usage e i n u model w = (res, w1)" by force
  then have "dispatch_world.more w1 = dispatch_world.more w" using code_frames(2) [of e i n u model w] by simp
  with Usage.IH [of "k res" w1] call show ?case by (simp add: rangeI)
next
  case (Observe sink rec c)
  from Observe.IH [of "obs_emit sink rec w"] show ?case by simp
qed (simp_all add: py_return_def py_raise_def)

text \<open>A call of a verb leaves a closed pair in the trail, because the adapter keeps to its own state.\<close>

lemma bracketed_load: "bracketed w (snd (load_adapter im g aid c v w))"
  by (simp add: bracketed_def load_adapter_def split: prod.splits)

lemma bracketed_policy: "bracketed w (snd (enforce_policy iid c v w))"
proof (cases "pw_active w")
  case None
  then show ?thesis by (simp add: enforce_policy_def)
next
  case (Some er)
  obtain e r where er: "er = (e, r)" by force
  obtain res w1 where one: "enforce_integration e iid w = (res, w1)" by force
  have "bracketed w w1" using bracketed_enforce_integration [of w e iid] one by simp
  moreover have "bracketed w1 (snd (enforce_scopes e iid req w1))" for req by (rule bracketed_enforce_scopes)
  ultimately show ?thesis using Some er one
    by (auto simp: enforce_policy_def try_bind_def py_return_def Let_def split: sum.splits intro: bracketed_trans)
qed

lemma bracketed_invoke: "bracketed w (snd (invoke_adapter (own_state invoke) aid impl c v k w))"
  by (auto simp: bracketed_def invoke_adapter_def normalize_adapter_errors_def own_state_def on_more_def
      split: prod.splits sum.splits)

lemma bracketed_dispatch: "bracketed w (snd (dispatch_capability im (own_state invoke) c v k w))"
proof (cases "dw_active w")
  case (Some bg)
  obtain bs g where bg: "bg = (bs, g)" by force
  show ?thesis
  proof (cases "resolve bs c v")
    case (Inr rs)
    obtain lres w1 where load: "load_adapter im g (rs_adapter_id rs) c v w = (lres, w1)" by force
    have b1: "bracketed w w1" using bracketed_load [of w im g "rs_adapter_id rs" c v] load by simp
    show ?thesis
    proof (cases lres)
      case (Inr la)
      obtain pres w2 where pol: "enforce_policy (loaded_integration la) c v w1 = (pres, w2)" by force
      have b2: "bracketed w w2" using bracketed_policy [of w1 "loaded_integration la" c v] pol b1 bracketed_trans by force
      then show ?thesis
        using Some bg \<open>resolve bs c v = Inr rs\<close> load Inr pol
          bracketed_invoke [of w2 invoke "rs_adapter_id rs" "la_impl la" c v k]
        by (cases pres) (auto simp: dispatch_capability_def try_bind_def intro: bracketed_trans)
    qed (use Some bg Inr load b1 in \<open>simp add: dispatch_capability_def try_bind_def\<close>)
  qed (simp add: dispatch_capability_def Some bg)
qed (simp add: dispatch_capability_def)

lemma bracketed_call: "bracketed w (snd (call_one im (own_state invoke) call w))"
  by (simp add: call_one_def call_verb_def py_raise_def bracketed_verb bracketed_dispatch split: option.splits)

lemma bracketed_code: "bracketed w (snd (run_code im (own_state invoke) c w))"
proof -
  have "kept_by_code im (own_state invoke) (bracketed w)"
    unfolding kept_by_code_def
    by (auto intro: bracketed_trans [OF _ bracketed_call] bracketed_trans [OF _ bracketed_reserve]
        bracketed_trans [OF _ bracketed_record] bracketed_trans [OF _ bracketed_obs_emit])
  from run_code_keeps [OF this bracketed_refl] show ?thesis by blast
qed

section \<open>The rights of the code\<close>

definition same_rights :: "RoutineRunContext \<Rightarrow> RoutineRunContext \<Rightarrow> bool" where
  "same_rights c d \<longleftrightarrow> rc_allowed_integrations c = rc_allowed_integrations d \<and> rc_declared_scopes c = rc_declared_scopes d"

lemma same_rights_permitted: "same_rights c d \<Longrightarrow> permitted c iid required \<longleftrightarrow> permitted d iid required"
  by (simp add: same_rights_def permitted_def)

lemma same_run_rights:
  assumes "same_run c d"
  shows "same_rights d c"
proof -
  obtain i out u n where "d = c\<lparr>rc_input_tokens_used := i, rc_output_tokens_used := out,
      rc_usd_spent := u, rc_tool_calls_made := n\<rparr>"
    using assms unfolding same_run_def by blast
  then show ?thesis by (simp add: same_rights_def)
qed

text \<open>A run of \<open>e\<close> in the context \<open>r\<close> is under way with the rights of \<open>ctx\<close> and the installed bindings.\<close>

definition running ::
  "enforcer \<Rightarrow> ctx_ref \<Rightarrow> RoutineRunContext \<Rightarrow> Bindings \<times> nat \<Rightarrow> ('i, 'z) dispatch_world_scheme \<Rightarrow> bool" where
  "running e r ctx bg w \<longleftrightarrow> dw_active w = Some bg \<and> pw_active w = Some (e, r) \<and> same_rights (pw_ctxs w r) ctx"

lemma running_bracketed:
  assumes "running e r ctx bg w" "bracketed w w'" "dw_active w' = dw_active w"
  shows "running e r ctx bg w'"
proof -
  have "same_rights (pw_ctxs w' r) (pw_ctxs w r)" using assms(2) unfolding bracketed_def by (simp add: same_run_rights)
  then have "same_rights (pw_ctxs w' r) ctx" using assms(1) unfolding running_def same_rights_def by simp
  then show ?thesis using assms unfolding running_def bracketed_def by simp
qed

lemma call_bindings: "dw_active (snd (call_one im (own_state invoke) call w)) = dw_active w"
proof -
  have load: "dw_active (snd (load_adapter im g aid c v u)) = dw_active u" for g aid c v and u :: "('a, 'b) dispatch_world_scheme"
    by (simp add: load_adapter_def split: prod.splits)
  have pol: "dw_active (snd (enforce_policy iid c v u)) = dw_active u" for iid c v and u :: "('a, 'b) dispatch_world_scheme"
    by (auto simp: enforce_policy_def try_bind_def enforce_integration_def enforce_scopes_def Let_def audit_emit_def
        py_return_def split: option.splits prod.splits sum.splits)
  have inv: "dw_active (snd (invoke_adapter (own_state invoke) aid impl c v k u)) = dw_active u" for aid impl c v k u
    by (auto simp: invoke_adapter_def normalize_adapter_errors_def own_state_def on_more_def split: prod.splits sum.splits)
  have disp: "dw_active (snd (dispatch_capability im (own_state invoke) c v k u)) = dw_active u" for c v k u
  proof (cases "dw_active u")
    case (Some bg)
    obtain bs g where bg: "bg = (bs, g)" by force
    show ?thesis
    proof (cases "resolve bs c v")
      case (Inr rs)
      obtain lres u1 where l: "load_adapter im g (rs_adapter_id rs) c v u = (lres, u1)" by force
      show ?thesis
      proof (cases lres)
        case la: (Inr la)
        obtain pres u2 where p: "enforce_policy (loaded_integration la) c v u1 = (pres, u2)" by force
        have "dw_active u2 = dw_active u"
          using load [of g "rs_adapter_id rs" c v u] pol [of "loaded_integration la" c v u1] l p by simp
        then show ?thesis
          using Some bg Inr l la p inv [of "rs_adapter_id rs" "la_impl la" c v k u2]
          by (cases pres) (simp_all add: dispatch_capability_def try_bind_def)
      qed (use Some bg Inr l load [of g "rs_adapter_id rs" c v u] in \<open>simp add: dispatch_capability_def try_bind_def\<close>)
    qed (simp add: dispatch_capability_def Some bg)
  qed (simp add: dispatch_capability_def)
  have "dw_active (snd (verb_wrapper invid verb meta keys (dispatch_capability im (own_state invoke) c v k) u)) = dw_active u"
    for invid verb meta keys c v k u
  proof (cases "pw_active u")
    case None
    then show ?thesis using disp by (simp add: verb_wrapper_def)
  next
    case (Some er)
    obtain e r where er: "er = (e, r)" by force
    obtain u1 where rec: "record_verb_invocation e invid verb meta keys u = (Inr r, u1)" "dw_active u1 = dw_active u"
      using Some er by (auto simp: record_verb_invocation_def require_ctx_def update_ctx_def audit_emit_def Let_def)
    obtain res u2 where d: "dispatch_capability im (own_state invoke) c v k u1 = (res, u2)" by force
    then have "dw_active u2 = dw_active u" using disp [of c v k u1] rec(2) by simp
    then show ?thesis using Some er rec(1) d
      by (cases res) (simp_all add: verb_wrapper_def complete_def audit_emit_def)
  qed
  then show ?thesis by (simp add: call_one_def call_verb_def py_raise_def split: option.splits)
qed

lemma running_kept: "kept_by_code im (own_state invoke) (running e r ctx bg)"
  unfolding kept_by_code_def
  by (auto intro: running_bracketed [OF _ bracketed_call call_bindings] running_bracketed [OF _ bracketed_reserve code_frames(4)]
      running_bracketed [OF _ bracketed_record code_frames(5)] running_bracketed [OF _ bracketed_obs_emit code_frames(6)])

end
