(* ===== verification/Routine_Properties.thy ===== *)
theory Routine_Properties
  imports Routine_Bundles Install_Properties
begin

text \<open>
  What a successful routine lookup promises: the identifier, the constraints of the manifest and the
  digests of the bundle's files, and, because every directory is loaded, those of all the others.
\<close>

lemma load_dirs_count:
  "load_dirs env verify ds = Inr bs \<Longrightarrow>
     length (filter P bs) = length (filter (\<lambda>d. \<exists>b. load_dir env verify d = Inr b \<and> P b) ds)"
  by (induction ds arbitrary: bs) (auto split: sum.splits if_splits)

lemma verify_error_class:
  "verify_file_hashes env dir fs = Some e \<Longrightarrow> is_class ''FileIntegrityError'' e"
  by (induction fs) (auto simp: is_class_def file_integrity_error_def split: option.splits if_splits)

lemma load_dir_verified:
  assumes "load_dirs env True ds = Inr bs" "d \<in> set ds" "routine_read_manifest env d = Inr (m, body)"
  shows "verify_file_hashes env (fst d) (rb_files m) = None"
proof (rule ccontr)
  assume "verify_file_hashes env (fst d) (rb_files m) \<noteq> None"
  then obtain e where e: "verify_file_hashes env (fst d) (rb_files m) = Some e" by blast
  have "is_class ''FileIntegrityError'' e" using e by (rule verify_error_class)
  then have "load_dir env True d = Inl e \<and> \<not> is_class ''ManifestNotFoundError'' e"
    using e assms(3) by (simp add: load_dir_def is_class_def)
  then have "\<exists>e. load_dirs env True ds = Inl e"
    using assms(2) load_dirs_error [of env True ds] by blast
  then show False using assms(1) by simp
qed

text \<open>C25: A verified lookup of one routine returns the only bundle of that identifier, with a valid
  manifest and files that match their declared digests, and it certifies the whole root: had a file of
  any readable bundle been missing or changed, no routine could have been loaded.\<close>

theorem routine_load_certifies:
  assumes "routine_load env True src_root rid = Inr b"
  shows "routine_bundle_id b = rid \<and> bundle_manifest_ok (rbd_manifest b) \<and> digests_match env b
    \<and> length (filter (\<lambda>d. \<exists>b. load_dir env True d = Inr b \<and> routine_bundle_id b = rid) (routine_dirs src_root)) = 1
    \<and> (\<forall>d m body. d \<in> set (routine_dirs src_root) \<and> routine_read_manifest env d = Inr (m, body)
         \<longrightarrow> verify_file_hashes env (fst d) (rb_files m) = None)"
proof -
  obtain bs where bs: "load_dirs env True (routine_dirs src_root) = Inr bs"
    and b: "filter (\<lambda>b. routine_bundle_id b = rid) bs = [b]"
    using assms by (auto simp: routine_load_def split: sum.splits list.splits)
  from b have mem: "b \<in> set bs" "routine_bundle_id b = rid"
    using filter_set [of "\<lambda>b. routine_bundle_id b = rid" bs] by auto
  then obtain d where "load_dir env True d = Inr b" using load_dirs_ok [OF bs] by blast
  then have "bundle_manifest_ok (rbd_manifest b)" "digests_match env b" using load_dir_ok by blast+
  moreover have "length (filter (\<lambda>d. \<exists>b. load_dir env True d = Inr b \<and> routine_bundle_id b = rid) (routine_dirs src_root)) = 1"
    using load_dirs_count [OF bs, of "\<lambda>b. routine_bundle_id b = rid"] b by simp
  ultimately show ?thesis using mem load_dir_verified [OF bs] by blast
qed

definition ex_bundle_env :: bundle_env where
  "ex_bundle_env = \<lparr>be_yaml = \<lambda>_. Inr (JObj []), be_validate = \<lambda>_. Inr (ex_routine []),
     be_read_bytes = \<lambda>p. if p \<in> {''/r/a/p'', ''/r/a/helpers.py''} then Some ''text'' else None,
     be_sha256 = \<lambda>_. replicate 64 (CHR ''a'')\<rparr>"

definition ex_routine_root :: source_root where
  "ex_routine_root = \<lparr>sr_path = ''/r'', sr_children = Some
     [\<lparr>de_name = ''b'', de_is_dir = True, de_files = []\<rparr>,
      \<lparr>de_name = ''a'', de_is_dir = True, de_files = [(''routine.yaml'', ''x'')]\<rparr>]\<rparr>"

lemma ex_routine_no_deps_ok: "bundle_manifest_ok (ex_routine [])"
  using ex_routine_ok by (simp add: bundle_manifest_ok_def ex_routine_def dependencies_ok_def)

lemma ex_routine_loads:
  "routine_load ex_bundle_env True ex_routine_root ''com.ota.triage'' =
     Inr \<lparr>rbd_manifest = ex_routine [], rbd_directory = ''/r/a'', rbd_body = []\<rparr>"
proof -
  have dirs: "routine_dirs ex_routine_root =
      [(''/r/a'', \<lparr>de_name = ''a'', de_is_dir = True, de_files = [(''routine.yaml'', ''x'')]\<rparr>),
       (''/r/b'', \<lparr>de_name = ''b'', de_is_dir = True, de_files = []\<rparr>)]"
    by code_simp
  have d: "normalized_digest (replicate 64 (CHR ''a'')) = replicate 64 (CHR ''a'')" by code_simp
  have f: "rb_files (ex_routine []) = [\<lparr>fe_path = ''p'', fe_role = SystemPrompt, fe_sha256 = replicate 64 (CHR ''a'')\<rparr>]"
    "rb_id (ex_routine []) = ''com.ota.triage''"
    by (simp_all add: ex_routine_def)
  have p: "bundle_file_path ''/r/a'' ''p'' = ''/r/a/p''" by code_simp
  have a: "load_dir ex_bundle_env True (''/r/a'', \<lparr>de_name = ''a'', de_is_dir = True, de_files = [(''routine.yaml'', ''x'')]\<rparr>)
      = Inr \<lparr>rbd_manifest = ex_routine [], rbd_directory = ''/r/a'', rbd_body = []\<rparr>"
    by (simp add: load_dir_def routine_read_manifest_def ROUTINE_MANIFEST_NAMES_def dict_simps read_candidate_def
        ex_bundle_env_def ex_routine_no_deps_ok f d p)
  have b: "load_dir ex_bundle_env True (''/r/b'', \<lparr>de_name = ''b'', de_is_dir = True, de_files = []\<rparr>) =
      Inl (manifest_not_found (''no routine manifest ('' @ join '' | '' ROUTINE_MANIFEST_NAMES @ '') under '' @ ''/r/b''))"
    by (simp add: load_dir_def routine_read_manifest_def dict_simps ROUTINE_MANIFEST_NAMES_def)
  show ?thesis
    unfolding routine_load_def dirs
    by (simp add: a b is_class_def manifest_not_found_def routine_bundle_id_def f del: append.simps)
qed

lemma routine_load_certifies_witness:
  "routine_bundle_id \<lparr>rbd_manifest = ex_routine [], rbd_directory = ''/r/a'', rbd_body = []\<rparr> = ''com.ota.triage''
   \<and> digests_match ex_bundle_env \<lparr>rbd_manifest = ex_routine [], rbd_directory = ''/r/a'', rbd_body = []\<rparr>"
  using routine_load_certifies [OF ex_routine_loads] by blast

end
