(* ===== verification/System_Properties.thy ===== *)
theory System_Properties
  imports Routine_Code Routine_Properties
begin

text \<open>
  Properties across the components: from the conductor through the engine and the enforcer to the
  adapter.  A run's rights come from the routine's manifest; every dispatch leaves a balanced audit trail.
\<close>

section \<open>The state a routine starts in\<close>

definition valid_draws :: "string option \<Rightarrow> run_draws \<Rightarrow> bool" where
  "valid_draws trace_id d \<longleftrightarrow>
     re_full TRACE_ID_PATTERN (case trace_id of Some t \<Rightarrow> t | None \<Rightarrow> rd_trace d) \<and> re_full SPAN_ID_PATTERN (rd_bind_span d)"

definition run_start ::
  "'w engine_world_scheme RoutineEngine \<Rightarrow> RoutineRunContext \<Rightarrow> run_draws \<Rightarrow> 'w engine_world_scheme \<Rightarrow> 'w engine_world_scheme" where
  "run_start eng ctx d w =
     audit_emit (en_l0b eng) (started_call ctx)
       (w\<lparr>pw_ctxs := (pw_ctxs w)(rd_ctx d := ctx), pw_active := Some (en_l0b eng, rd_ctx d),
          tv_trace := Some (rc_trace_id ctx), tv_span := Some (rd_bind_span d)\<rparr>)"

text \<open>What the run adds to the state its routine left: the span, the closing event, the old variables.\<close>

definition run_end ::
  "'w engine_world_scheme RoutineEngine \<Rightarrow> RoutineBundle \<Rightarrow> RoutineRunContext \<Rightarrow> run_draws \<Rightarrow> (exn + json) \<Rightarrow>
   'w engine_world_scheme \<Rightarrow> 'w engine_world_scheme \<Rightarrow> 'w engine_world_scheme" where
  "run_end eng b ctx d res w w2 =
     (audit_emit (en_l0b eng) (end_call (pw_ctxs w2 (rd_ctx d)) res)
       (obs_emit (en_observability eng)
         (SpanRecord (close_span (rd_span d) res (open_span ''routine.run'' (span_attributes b d) (rd_span d) (run_start eng ctx d w)))) w2))
     \<lparr>tv_span := tv_span w, tv_trace := tv_trace w, pw_active := pw_active w\<rparr>"

lemma engine_run_eq:
  assumes "main_callable h = Inr (Some main)" and "valid_draws trace_id d"
    and ctx: "ctx = run_context (rh_bundle h) who req ten trace_id d"
    and "main (run_runtime eng h caps d) (run_start eng ctx d w) = (res, w2)"
  shows "engine_run eng h who caps req ten trace_id d w =
    ((case res of Inl e \<Rightarrow> Inl e | Inr v \<Rightarrow> Inr (run_result (rh_bundle h) v (pw_ctxs w2 (rd_ctx d)))),
     run_end eng (rh_bundle h) ctx d res w w2)"
proof -
  let ?sink = "en_observability eng"
  let ?body = "obs_span ?sink ''routine.run'' (span_attributes (rh_bundle h) d) (rd_span d)
     (plain_body (main (run_runtime eng h caps d)))"
  let ?v = "w\<lparr>pw_ctxs := (pw_ctxs w)(rd_ctx d := ctx), pw_active := Some (en_l0b eng, rd_ctx d),
     tv_trace := Some (rc_trace_id ctx), tv_span := Some (rd_bind_span d)\<rparr>"
  let ?rec = "SpanRecord (close_span (rd_span d) res (open_span ''routine.run'' (span_attributes (rh_bundle h) d) (rd_span d) (run_start eng ctx d w)))"
  have v: "audit_emit (en_l0b eng) (started_call (pw_ctxs ?v (rd_ctx d))) ?v = run_start eng ctx d w"
    by (simp add: run_start_def)
  have "?body (run_start eng ctx d w) = (res, obs_emit ?sink ?rec w2)"
    using assms(4) by (simp add: obs_span_plain)
  then have body: "run_body (en_l0b eng) (rd_ctx d) ?body ?v =
      (res, audit_emit (en_l0b eng) (end_call (pw_ctxs w2 (rd_ctx d)) res) (obs_emit ?sink ?rec w2))"
    using run_body_eq [where body = ?body and e = "en_l0b eng" and r = "rd_ctx d" and w = ?v] v by simp
  have trace: "rc_trace_id ctx = (case trace_id of Some t \<Rightarrow> t | None \<Rightarrow> rd_trace d)"
    by (simp add: ctx run_context_def)
  have "routine_run (en_l0b eng) (rd_ctx d) (rd_bind_span d) ?body (w\<lparr>pw_ctxs := (pw_ctxs w)(rd_ctx d := ctx)\<rparr>) =
      (res, run_end eng (rh_bundle h) ctx d res w w2)"
    using assms(2) body trace
    by (simp add: routine_run_def bind_trace_def resolve_trace_def resolve_span_def valid_draws_def run_end_def Let_def)
  moreover have "pw_ctxs (run_end eng (rh_bundle h) ctx d res w w2) (rd_ctx d) = pw_ctxs w2 (rd_ctx d)"
    by (simp add: run_end_def)
  ultimately show ?thesis
    using assms(1) ctx by (cases res) (simp_all add: engine_run_def Let_def)
qed

section \<open>The manifest confines the routine\<close>

text \<open>The right to call a verb of an adapter, read off the manifest: the integration is declared (or none
  is), and the last declaration of that integration names every scope the verb requires.\<close>

definition manifest_permits :: "RoutineBundle \<Rightarrow> string \<Rightarrow> string list \<Rightarrow> bool" where
  "manifest_permits b iid required \<longleftrightarrow>
     (manifest_integrations b = [] \<or> iid \<in> set (map dp_id (manifest_integrations b))) \<and>
     (case find (\<lambda>p. dp_id p = iid) (rev (manifest_integrations b)) of
        None \<Rightarrow> required = []
      | Some p \<Rightarrow> set required \<subseteq> set (dp_scopes p))"

lemma map_of_find: "map_of (map (\<lambda>p. (f p, g p)) ps) k = map_option g (find (\<lambda>p. f p = k) ps)"
  by (induction ps) auto

lemma run_context_rights:
  "permitted (run_context b who req ten tr d) iid required \<longleftrightarrow> manifest_permits b iid required"
proof -
  have "dict_get (dict_of (map (\<lambda>p. (dp_id p, dp_scopes p)) (manifest_integrations b))) iid =
      map_option dp_scopes (find (\<lambda>p. dp_id p = iid) (rev (manifest_integrations b)))"
    by (simp add: dict_get_of rev_map map_of_find)
  then show ?thesis
    by (auto simp: permitted_def manifest_permits_def run_context_def dict_get_or_def split: option.splits)
qed

lemma run_end_sel [simp]:
  "pw_audit (run_end eng b ctx d res w w2) =
     pw_audit w2 @ [(en_l0b eng, tv_trace w2, end_call (pw_ctxs w2 (rd_ctx d)) res)]"
  "pw_active (run_end eng b ctx d res w w2) = pw_active w" "tv_trace (run_end eng b ctx d res w w2) = tv_trace w"
  "tv_span (run_end eng b ctx d res w w2) = tv_span w" "pw_ctxs (run_end eng b ctx d res w w2) = pw_ctxs w2"
  by (simp_all add: run_end_def)

lemma run_start_sel [simp]:
  "pw_active (run_start eng ctx d w) = Some (en_l0b eng, rd_ctx d)"
  "pw_ctxs (run_start eng ctx d w) = (pw_ctxs w)(rd_ctx d := ctx)"
  "pw_audit (run_start eng ctx d w) = pw_audit w @ [(en_l0b eng, Some (rc_trace_id ctx), started_call ctx)]"
  by (simp_all add: run_start_def)

lemma run_start_trace: "tv_trace (run_start eng ctx d w) = Some (rc_trace_id ctx)"
  by (simp add: run_start_def)

lemma run_start_dispatch [simp]:
  "dw_active (run_start eng ctx d w) = dw_active w" "dw_registries (run_start eng ctx d w) = dw_registries w"
  by (simp_all add: run_start_def audit_emit_def)

lemma started_running:
  assumes "dw_active w = Some bg" and "ctx = run_context b who req ten trace_id d"
  shows "running (en_l0b eng) (rd_ctx d) ctx bg (run_start eng ctx d w)"
  using assms by (simp add: running_def same_rights_def)

text \<open>Where the calls of a run happen: inside the run, with the rights of its manifest, after its start.\<close>

lemma call_in_run:
  assumes "dw_active w = Some bg" and "ctx = run_context b who req ten trace_id d"
    and "(call, u, res, v) \<in> set (call_steps im (own_state invoke) c (run_start eng ctx d w))"
  shows "running (en_l0b eng) (rd_ctx d) ctx bg u" "bracketed (run_start eng ctx d w) u"
    "call_one im (own_state invoke) call u = (res, v)"
proof -
  have k: "kept_by_code im (own_state invoke) (bracketed (run_start eng ctx d w))"
    unfolding kept_by_code_def
    by (auto intro: bracketed_trans [OF _ bracketed_call] bracketed_trans [OF _ bracketed_reserve]
        bracketed_trans [OF _ bracketed_record] bracketed_trans [OF _ bracketed_obs_emit])
  show "running (en_l0b eng) (rd_ctx d) ctx bg u"
    using run_code_keeps [OF running_kept started_running [OF assms(1,2)]] assms(3) by blast
  show "bracketed (run_start eng ctx d w) u" "call_one im (own_state invoke) call u = (res, v)"
    using run_code_keeps [OF k bracketed_refl] assms(3) by blast+
qed

definition is_policy_event :: "string \<Rightarrow> bool" where
  "is_policy_event t \<longleftrightarrow> t \<in> {''tool_call.blocked_by_policy'', ''policy.scope_escalation_attempt''}"

lemma world_frames [simp]:
  "dispatch_world.more (audit_emit e call w) = dispatch_world.more w"
  "dispatch_world.more (update_ctx r f w) = dispatch_world.more w"
  "dw_active (audit_emit e call w) = dw_active w" "dw_active (update_ctx r f w) = dw_active w"
  "dw_registries (audit_emit e call w) = dw_registries w" "dw_registries (update_ctx r f w) = dw_registries w"
  by (simp_all add: audit_emit_def update_ctx_def)

lemma refused_event:
  assumes "pw_active w = Some (e, r)" and "\<not> permitted (pw_ctxs w r) iid (verb_required_scopes c v)"
  shows "\<exists>err ev. is_policy_error err \<and> is_policy_event (em_event_type ev) \<and>
    enforce_policy iid c v w = (Inl err, audit_emit e ev w)"
proof -
  have typed: "em_event_type (emit_ctx t sev ctx pl) = t" for t sev ctx pl by (simp add: emit_ctx_def emit_for_run_def)
  show ?thesis
  proof (cases "rc_allowed_integrations (pw_ctxs w r) = [] \<or> iid \<in> set (rc_allowed_integrations (pw_ctxs w r))")
    case True
    then have m: "missing_scopes (pw_ctxs w r) iid (verb_required_scopes c v) \<noteq> []"
      using assms(2) by (simp add: permitted_def missing_scopes_empty)
    then have "verb_required_scopes c v \<noteq> []" by (auto simp: missing_scopes_def)
    moreover have "enforce_integration e iid w = (Inr (), w)"
      using True assms(1) by (auto simp: enforce_integration_def require_ctx_def Let_def)
    moreover obtain err pl where "is_policy_error err" "enforce_scopes e iid (verb_required_scopes c v) w =
        (Inl err, audit_emit e (emit_ctx ''policy.scope_escalation_attempt'' SevWarn (pw_ctxs w r) pl) w)"
      using m assms(1) by (simp add: enforce_scopes_def require_ctx_def Let_def)
    ultimately show ?thesis using assms(1) typed
      by (intro exI [of _ err] exI [of _ "emit_ctx ''policy.scope_escalation_attempt'' SevWarn (pw_ctxs w r) pl"])
        (simp add: enforce_policy_def try_bind_def is_policy_event_def Let_def)
  next
    case False
    then obtain err pl where "is_policy_error err" "enforce_integration e iid w =
        (Inl err, audit_emit e (emit_ctx ''tool_call.blocked_by_policy'' SevWarn (pw_ctxs w r) pl) w)"
      using assms(1) by (simp add: enforce_integration_def require_ctx_def Let_def)
    then show ?thesis using assms(1) typed
      by (intro exI [of _ err] exI [of _ "emit_ctx ''tool_call.blocked_by_policy'' SevWarn (pw_ctxs w r) pl"])
        (simp add: enforce_policy_def try_bind_def is_policy_event_def)
  qed
qed

text \<open>The three events of a refused call: its invocation, the refusal, its failure.\<close>

definition refused_trail ::
  "enforcer \<Rightarrow> string \<Rightarrow> RoutineRunContext \<Rightarrow> 'k verb_call \<Rightarrow> verb_decl \<Rightarrow> emit_call \<Rightarrow> exn \<Rightarrow>
   (enforcer \<times> string option \<times> emit_call) list" where
  "refused_trail e trace c call decl refusal err =
     [(e, Some trace, invoked_call c (vc_verb call) (vc_invocation_id call)
         (verb_meta_of (vd_idempotency decl) (vd_required_scopes decl) (vd_destructive decl)) (vc_keys call)),
      (e, Some trace, refusal),
      (e, Some trace, emit_ctx ''tool_call.failed'' SevError c (complete_payload (vc_verb call) (vc_invocation_id call) (Some err)))]"

lemma refused_call:
  assumes "running e r ctx (bs, g) u" and "tv_trace u = Some trace"
    and "verb_decl_of (vc_capability call) (vc_verb call) = Some decl"
    and "resolve bs (vc_capability call) (vc_verb call) = Inr rs"
    and "registry_load im (rs_adapter_id rs) (vc_capability call) (vc_verb call) (dw_registries u g) = (Inr la, reg)"
    and "\<not> permitted ctx (loaded_integration la) (vd_required_scopes decl)"
    and "call_one im (own_state invoke) call u = (res, v)"
  shows "\<exists>err refusal. is_policy_error err \<and> is_policy_event (em_event_type refusal) \<and> res = Inl err \<and>
    dispatch_world.more v = dispatch_world.more u \<and>
    pw_audit v = pw_audit u @ refused_trail e trace (pw_ctxs v r) call decl refusal err"
proof -
  let ?c = "vc_capability call" and ?v = "vc_verb call"
  let ?meta = "verb_meta_of (vd_idempotency decl) (vd_required_scopes decl) (vd_destructive decl)"
  let ?t = "update_ctx r (\<lambda>c. c\<lparr>rc_tool_calls_made := rc_tool_calls_made c + 1\<rparr>) u"
  let ?u1 = "audit_emit e (invoked_call (pw_ctxs ?t r) ?v (vc_invocation_id call) ?meta (vc_keys call)) ?t"
  let ?u2 = "?u1\<lparr>dw_registries := (dw_registries u)(g := reg)\<rparr>"
  have run: "dw_active u = Some (bs, g)" "pw_active u = Some (e, r)" "same_rights (pw_ctxs u r) ctx"
    using assms(1) by (simp_all add: running_def)
  have need: "verb_required_scopes ?c ?v = vd_required_scopes decl" using assms(3) by (simp add: verb_required_scopes_def)
  have sr: "same_rights (pw_ctxs ?u2 r) ctx" using run(3) by (simp add: same_rights_def)
  have "\<not> permitted (pw_ctxs ?u2 r) (loaded_integration la) (verb_required_scopes ?c ?v)"
    unfolding need same_rights_permitted [OF sr] by (rule assms(6))
  moreover have "pw_active ?u2 = Some (e, r)" using run(2) by simp
  ultimately obtain err refusal where err: "is_policy_error err" "is_policy_event (em_event_type refusal)"
    and pol: "enforce_policy (loaded_integration la) ?c ?v ?u2 = (Inl err, audit_emit e refusal ?u2)"
    using refused_event by blast
  have load: "load_adapter im g (rs_adapter_id rs) ?c ?v ?u1 = (Inr la, ?u2)"
    using assms(5) by (simp add: load_adapter_def)
  have rec: "record_verb_invocation e (vc_invocation_id call) ?v ?meta (vc_keys call) u = (Inr r, ?u1)"
    using run(2) by (simp add: record_verb_invocation_def require_ctx_def Let_def)
  have "dispatch_capability im (own_state invoke) ?c ?v (vc_args call) ?u1 = (Inl err, audit_emit e refusal ?u2)"
    using run(1) assms(4) load pol by (simp add: dispatch_capability_def try_bind_def)
  then have v: "res = Inl err" "v = complete e r ?v (vc_invocation_id call) False (Some err) (audit_emit e refusal ?u2)"
    using assms(3,7) run(2) rec by (simp_all add: call_one_def call_verb_def verb_wrapper_def)
  have c: "pw_ctxs v r = pw_ctxs ?t r" by (simp add: v(2) complete_def)
  have "pw_audit v = pw_audit u @ refused_trail e trace (pw_ctxs v r) call decl refusal err"
    unfolding c using assms(2) by (simp add: v(2) complete_def refused_trail_def)
  moreover have "dispatch_world.more v = dispatch_world.more u" by (simp add: v(2) complete_def)
  ultimately show ?thesis using err v(1) by blast
qed


definition ex_span_draws :: span_draws where
  "ex_span_draws = \<lparr>sd_trace_high = replicate 16 (CHR ''c''), sd_trace_low = replicate 16 (CHR ''d''),
     sd_span = replicate 16 (CHR ''e''), sd_start = 0, sd_end = 1\<rparr>"

definition ex_draws :: run_draws where
  "ex_draws = \<lparr>rd_ctx = 1, rd_run_id = ''run2'', rd_trace = replicate 32 (CHR ''a''),
     rd_bind_span = replicate 16 (CHR ''b''), rd_span = ex_span_draws\<rparr>"

lemma ex_draws_valid: "valid_draws None ex_draws"
  by code_simp

definition ex_engine :: "unit dispatch_world RoutineEngine" where
  "ex_engine = \<lparr>en_source = ex_bundle_env, en_verify_files = True, en_root = ex_routine_root, en_identity = 0,
     en_secrets = 0, en_audit = 0, en_observability = 0, en_l0b = 0, en_spec = (\<lambda>_. True),
     en_exec_module = (\<lambda>_ w. (Inr NoRun, w))\<rparr>"

definition ex_invoke :: "unit \<Rightarrow> string \<Rightarrow> string \<Rightarrow> unit \<Rightarrow> (unit, exn, string) py" where
  "ex_invoke impl c v args = py_return ''sent''"

definition ex_send_call :: "unit verb_call" where
  "ex_send_call = \<lparr>vc_invocation_id = ''v1'', vc_capability = ''messaging'', vc_verb = ''send_message'',
     vc_keys = [], vc_args = ()\<rparr>"

text \<open>A routine that sends one message.\<close>

definition ex_sending :: "'s RoutineRuntime \<Rightarrow> (unit, string) routine_code" where
  "ex_sending rt = CallVerb ex_send_call (\<lambda>res. case res of Inl e \<Rightarrow> Fail e | Inr m \<Rightarrow> Finish (JStr m))"

definition ex_sender_handle :: "unit dispatch_world RoutineHandle" where
  "ex_sender_handle = \<lparr>rh_bundle = \<lparr>rbd_manifest = ex_routine [], rbd_directory = ''/r/a'', rbd_body = []\<rparr>,
     rh_helpers = Some (RunFunction (\<lambda>rt. run_code no_import (own_state ex_invoke) (ex_sending rt))), rh_knobs = []\<rparr>"


section \<open>Every dispatch leaves a balanced trail\<close>

definition trail_kept :: "'w policy_world_scheme \<Rightarrow> 'w policy_world_scheme \<Rightarrow> bool" where
  "trail_kept w w' \<longleftrightarrow>
     (\<exists>es. pw_audit w' = pw_audit w @ es \<and> balanced es) \<and>
     pw_active w' = pw_active w \<and> tv_trace w' = tv_trace w \<and> tv_span w' = tv_span w"

lemma trail_kept_refl [simp]: "trail_kept w w"
  by (simp add: trail_kept_def)

lemma trail_kept_trans: "trail_kept u v \<Longrightarrow> trail_kept v w \<Longrightarrow> trail_kept u w"
  unfolding trail_kept_def by (metis append.assoc balanced_append)

lemma bracketed_trail: "bracketed w w' \<Longrightarrow> trail_kept w w'"
  by (auto simp: bracketed_def trail_kept_def)

lemma trail_kept_metric: "trail_kept w (obs_metric s n v kd attrs now w)"
  by (simp add: trail_kept_def obs_metric_def)

lemma bracketed_obs_span:
  assumes "\<And>v. bracketed v (snd (m v))"
  shows "bracketed w (snd (obs_span s n attrs d (plain_body m) w))"
  using assms [of w] by (auto simp: obs_span_plain bracketed_def split: prod.splits)

lemma trail_kept_run:
  assumes "\<And>f rt v. main_callable h = Inr (Some f) \<Longrightarrow> bracketed v (snd (f rt v))"
  shows "trail_kept w (snd (engine_run eng h who caps req ten trace_id d w))"
proof (cases "main_callable h")
  case (Inr m)
  show ?thesis
  proof (cases m)
    case (Some f)
    let ?u = "w\<lparr>pw_ctxs := (pw_ctxs w)(rd_ctx d := run_context (rh_bundle h) who req ten trace_id d)\<rparr>"
    let ?m = "obs_span (en_observability eng) ''routine.run'' (span_attributes (rh_bundle h) d) (rd_span d)
        (plain_body (f (run_runtime eng h caps d)))"
    have "bracketed ?u (snd (routine_run (en_l0b eng) (rd_ctx d) (rd_bind_span d) ?m ?u))"
      by (rule bracketed_routine_run) (rule bracketed_obs_span, rule assms, simp add: Inr Some)
    then have "trail_kept ?u (snd (routine_run (en_l0b eng) (rd_ctx d) (rd_bind_span d) ?m ?u))"
      by (rule bracketed_trail)
    moreover have "snd (engine_run eng h who caps req ten trace_id d w) =
        snd (routine_run (en_l0b eng) (rd_ctx d) (rd_bind_span d) ?m ?u)"
      using Inr Some by (simp add: engine_run_def Let_def split: prod.splits sum.splits)
    ultimately show ?thesis by (simp add: trail_kept_def)
  qed (simp add: engine_run_def Inr)
qed (simp add: engine_run_def)

text \<open>What the lemmas need of an engine: its modules and the functions they define leave a balanced trail.  It
  holds of an engine whose modules are code over the operations of the framework.\<close>

definition well_behaved_code :: "'w engine_world_scheme RoutineEngine \<Rightarrow> bool" where
  "well_behaved_code eng \<longleftrightarrow>
     (\<forall>path w. bracketed w (snd (en_exec_module eng path w)) \<and>
        (\<forall>f rt v. fst (en_exec_module eng path w) = Inr (RunFunction f) \<longrightarrow> bracketed v (snd (f rt v))))"

lemma source_code_behaves:
  assumes "en_exec_module eng = exec_source im (own_state invoke) files"
  shows "well_behaved_code eng"
proof -
  have "bracketed w (snd (en_exec_module eng path w))" for path w
    using bracketed_code [of w im invoke "ms_top (files path)"]
    by (auto simp: assms exec_source_def try_bind_def py_return_def split: prod.splits sum.splits)
  moreover have "bracketed v (snd (f rt v))" if "fst (en_exec_module eng path w) = Inr (RunFunction f)" for path w f rt v
    using that bracketed_code
    by (cases "ms_run (files path)")
      (auto simp: assms exec_source_def try_bind_def py_return_def split: prod.splits sum.splits)
  ultimately show ?thesis by (simp add: well_behaved_code_def)
qed

lemma load_helpers_trail:
  assumes "well_behaved_code eng" "load_helpers eng hex b w = (res, w1)"
  shows "trail_kept w w1 \<and> (\<forall>f rt v. res = Inr (Some (RunFunction f)) \<longrightarrow> bracketed v (snd (f rt v)))"
proof -
  let ?path = "bundle_file_path (rbd_directory b) ''helpers.py''"
  let ?u = "w\<lparr>gw_modules := List.insert (dynamic_module_name (routine_bundle_id b) hex) (gw_modules w)\<rparr>"
  obtain r w2 where r: "en_exec_module eng ?path ?u = (r, w2)" by force
  have "bracketed ?u w2" "\<And>f rt v. r = Inr (RunFunction f) \<Longrightarrow> bracketed v (snd (f rt v))"
    using assms(1) r unfolding well_behaved_code_def by (metis snd_conv, metis fst_conv)
  then show ?thesis
    using assms(2) r
    by (auto simp: load_helpers_def Let_def trail_kept_def bracketed_def split: if_splits sum.splits)
qed

lemma engine_load_trail:
  assumes "well_behaved_code eng" "engine_load eng rid overrides hex w = (res, w1)"
  shows "trail_kept w w1 \<and>
    (\<forall>h f rt v. res = Inr h \<and> main_callable h = Inr (Some f) \<longrightarrow> bracketed v (snd (f rt v)))"
  using assms(2)
  by (auto simp: engine_load_def main_callable_def split: sum.splits prod.splits option.splits run_attr.splits
      dest: load_helpers_trail [OF assms(1)])


text \<open>A routine whose module runs and sends a message: the run is started, its call refused and both closed.\<close>

definition ex_code_engine :: "unit dispatch_world RoutineEngine" where
  "ex_code_engine = ex_engine\<lparr>en_exec_module := exec_source no_import (own_state ex_invoke)
     (\<lambda>path. \<lparr>ms_top = Finish JNull, ms_run = SourceRun ex_sending\<rparr>)\<rparr>"

definition ex_conductor :: "unit dispatch_world Conductor" where
  "ex_conductor = register_routine ''com.ota.triage'' [] []
     \<lparr>co_router = (\<lambda>_. Inr (direct_decision ''com.ota.triage'')), co_engine = ex_code_engine, co_observability = 0, co_registry = []\<rparr>"

definition ex_intent :: Intent where
  "ex_intent = \<lparr>in_text = [], in_channel = [], in_user_id = [], in_metadata = []\<rparr>"

lemma ex_engine_loads:
  "engine_load ex_code_engine ''com.ota.triage'' [] hex w =
     (Inr ex_sender_handle, w\<lparr>gw_modules := List.insert (dynamic_module_name ''com.ota.triage'' hex) (gw_modules w)\<rparr>)"
proof -
  have h: "bundle_file_path ''/r/a'' ''helpers.py'' = ''/r/a/helpers.py''" by code_simp
  have k: "resolve_knobs (ex_routine []) [] = Inr []" by code_simp
  have i: "routine_bundle_id \<lparr>rbd_manifest = ex_routine [], rbd_directory = ''/r/a'', rbd_body = []\<rparr> = ''com.ota.triage''"
    by (simp add: routine_bundle_id_def ex_routine_def)
  have env: "en_source ex_code_engine = ex_bundle_env" "en_verify_files ex_code_engine = True"
    "en_root ex_code_engine = ex_routine_root" "en_spec ex_code_engine = (\<lambda>_. True)"
    by (simp_all add: ex_code_engine_def ex_engine_def)
  have f: "be_read_bytes ex_bundle_env ''/r/a/helpers.py'' = Some ''text''" by (simp add: ex_bundle_env_def)
  have x: "en_exec_module ex_code_engine path v = (Inr (RunFunction (\<lambda>rt. run_code no_import (own_state ex_invoke) (ex_sending rt))), v)"
    for path v
    by (simp add: ex_code_engine_def exec_source_def try_bind_def py_return_def)
  show ?thesis
    by (simp add: engine_load_def env ex_routine_loads k load_helpers_def h f i x ex_sender_handle_def Let_def)
qed


end
