(* ===== verification/Knob_Properties.thy ===== *)
theory Knob_Properties
  imports Knobs Install_Properties
begin

text \<open>
  The resolution of knobs against a reference: the values an override may have (\<open>knob_accepts\<close>), and
  for each knob its normalised override or its default.
\<close>

definition in_range :: "decimal option \<Rightarrow> decimal option \<Rightarrow> rat \<Rightarrow> bool" where
  "in_range lo hi x \<longleftrightarrow>
     (\<forall>m \<in> set_option lo. dec_value m \<le> x) \<and> (\<forall>m \<in> set_option hi. x \<le> dec_value m)"

definition knob_accepts :: "KnobType \<Rightarrow> json \<Rightarrow> bool" where
  "knob_accepts t v =
     (case t of
        KnobBool d \<Rightarrow> \<exists>b \<in> {True, False}. v = JBool b
      | KnobInt d lo hi \<Rightarrow>
          (case v of JInt i \<Rightarrow> (\<forall>m \<in> set_option lo. m \<le> i) \<and> (\<forall>m \<in> set_option hi. i \<le> m) | _ \<Rightarrow> False)
      | KnobFloat d lo hi \<Rightarrow>
          (case v of JInt i \<Rightarrow> in_range lo hi (of_int i)
           | JNum c e \<Rightarrow> in_range lo hi (dec_value \<lparr>dec_coef = c, dec_exp = e\<rparr>) | _ \<Rightarrow> False)
      | KnobString d ml p \<Rightarrow> (case v of JStr s \<Rightarrow> \<forall>n \<in> set_option ml. int (length s) \<le> n | _ \<Rightarrow> False)
      | KnobEnum vs d \<Rightarrow> (case v of JStr s \<Rightarrow> s \<in> set vs | _ \<Rightarrow> False)
      | KnobList inner d \<Rightarrow> (case v of JArr xs \<Rightarrow> True | _ \<Rightarrow> False)
      | KnobSecretRef \<Rightarrow> True
      | KnobIntegrationRef \<Rightarrow> True
      | _ \<Rightarrow> (case v of JStr s \<Rightarrow> True | _ \<Rightarrow> False))"

definition knob_normal :: "KnobType \<Rightarrow> json \<Rightarrow> json" where
  "knob_normal t v =
     (case t of
        KnobFloat d lo hi \<Rightarrow>
          (case v of JInt i \<Rightarrow> JNum (dec_coef (strip_zeros i 0)) (dec_exp (strip_zeros i 0)) | _ \<Rightarrow> v)
      | _ \<Rightarrow> v)"

lemma coerce_int_ok:
  "coerce_int k lo hi i = Inr v \<longleftrightarrow>
     (\<forall>m \<in> set_option lo. m \<le> i) \<and> (\<forall>m \<in> set_option hi. i \<le> m) \<and> v = JInt i"
  by (auto simp: coerce_int_def split: option.splits)

lemma coerce_float_ok:
  "coerce_float k lo hi f = Inr v \<longleftrightarrow> in_range lo hi (dec_value f) \<and> v = JNum (dec_coef f) (dec_exp f)"
  by (auto simp: coerce_float_def in_range_def below_def above_def dec_less_def split: option.splits)

lemma dec_value_int: "dec_value (strip_zeros i 0) = of_int i"
  by (simp add: dec_value_strip ten_pow_def)

lemma coerce_exact:
  "coerce k v = Inr w \<longleftrightarrow> knob_accepts (kn_type k) v \<and> w = knob_normal (kn_type k) v"
proof (cases "kn_type k")
  case (KnobBool d)
  then show ?thesis by (cases v) (auto simp: coerce_def knob_accepts_def knob_normal_def)
next
  case (KnobInt d lo hi)
  then show ?thesis by (cases v) (auto simp: coerce_def knob_accepts_def knob_normal_def coerce_int_ok)
next
  case (KnobFloat d lo hi)
  then show ?thesis
    by (cases v) (auto simp: coerce_def knob_accepts_def knob_normal_def coerce_float_ok dec_value_int)
next
  case (KnobString d ml p)
  then show ?thesis
    by (cases v) (auto simp: coerce_def coerce_string_def knob_accepts_def knob_normal_def split: option.splits)
next
  case (KnobEnum vs d)
  then show ?thesis by (cases v) (auto simp: coerce_def knob_accepts_def knob_normal_def)
qed (cases v; auto simp: coerce_def coerce_text_def knob_accepts_def knob_normal_def)+

text \<open>What one knob needs, and what it becomes.\<close>

definition knob_fits :: "payload \<Rightarrow> Knob \<Rightarrow> bool" where
  "knob_fits overrides k =
     (case dict_get overrides (kn_name k) of
        Some v \<Rightarrow> knob_accepts (kn_type k) v
      | None \<Rightarrow> kn_type k \<noteq> KnobSecretRef \<and> kn_type k \<noteq> KnobIntegrationRef)"

definition knob_final :: "payload \<Rightarrow> Knob \<Rightarrow> json" where
  "knob_final overrides k =
     (case dict_get overrides (kn_name k) of
        Some v \<Rightarrow> knob_normal (kn_type k) v
      | None \<Rightarrow> (case default_for (kn_type k) of Some d \<Rightarrow> d | None \<Rightarrow> JNull))"

lemma knob_value_exact: "knob_value overrides k = Inr v \<longleftrightarrow> knob_fits overrides k \<and> v = knob_final overrides k"
  by (cases "kn_type k") (auto simp: knob_value_def knob_fits_def knob_final_def coerce_exact split: option.splits)

lemma knob_loop_exact:
  assumes "distinct (dict_keys resolved @ map kn_name ks)"
  shows "knob_loop overrides ks resolved = Inr r \<longleftrightarrow>
    (\<forall>k \<in> set ks. knob_fits overrides k) \<and> r = resolved @ map (\<lambda>k. (kn_name k, knob_final overrides k)) ks"
  using assms
proof (induction ks arbitrary: resolved)
  case (Cons k ks)
  have "dict_set (kn_name k) v resolved = resolved @ [(kn_name k, v)]" for v
    by (rule dict_set_new) (use Cons.prems in \<open>auto simp: map_of_eq_None_iff\<close>)
  then show ?case
    using Cons.IH [of "resolved @ [(kn_name k, knob_final overrides k)]"] Cons.prems
    by (auto simp: knob_value_exact split: sum.splits)
      (metis Inr_not_Inl knob_value_exact)
qed auto

text \<open>C26: With distinct knob names, the resolution succeeds exactly when every knob has an acceptable
  override or a default and every override names a knob; the result lists the knobs in the order of
  the manifest with the normalised override or the default.\<close>

theorem resolve_knobs_exact:
  assumes "distinct (map kn_name (rb_knobs m))"
  shows "resolve_knobs m overrides = Inr r \<longleftrightarrow>
    (\<forall>k \<in> set (rb_knobs m). knob_fits overrides k) \<and> set (dict_keys overrides) \<subseteq> set (map kn_name (rb_knobs m))
    \<and> r = map (\<lambda>k. (kn_name k, knob_final overrides k)) (rb_knobs m)"
proof -
  have "unknown_overrides overrides (rb_knobs m) = [] \<longleftrightarrow> set (dict_keys overrides) \<subseteq> set (map kn_name (rb_knobs m))"
    unfolding unknown_overrides_def by (metis (mono_tags, lifting) filter_empty_conv set_sort set_empty subset_iff)
  then show ?thesis
    using knob_loop_exact [of "[]" "rb_knobs m" overrides] assms
    by (auto simp: resolve_knobs_def split: sum.splits)
qed

definition ex_knobs :: "Knob list" where
  "ex_knobs = [\<lparr>kn_name = ''hour'', kn_description = [], kn_type = KnobInt 30 (Some 0) (Some 23)\<rparr>]"

definition ex_knob_routine :: RoutineBundleManifest where
  "ex_knob_routine = (ex_routine [])\<lparr>rb_knobs := ex_knobs\<rparr>"

lemma resolve_knobs_exact_witness: "resolve_knobs ex_knob_routine [(''hour'', JInt 7)] = Inr [(''hour'', JInt 7)]"
  by (subst resolve_knobs_exact)
    (simp_all add: ex_knob_routine_def ex_knobs_def knob_fits_def knob_final_def knob_accepts_def knob_normal_def)

text \<open>A default is not checked against the constraints of its own knob: a valid manifest can
  resolve to a value that the same knob rejects as an override.\<close>

theorem default_escapes_constraints:
  "\<exists>m name v e. bundle_manifest_ok m \<and> resolve_knobs m [] = Inr [(name, v)] \<and> resolve_knobs m [(name, v)] = Inl e"
proof -
  have "bundle_manifest_ok ex_knob_routine"
    using ex_routine_ok
    by (simp add: bundle_manifest_ok_def ex_knob_routine_def ex_routine_def dependencies_ok_def ex_knobs_def knob_ok_def)
  moreover have "resolve_knobs ex_knob_routine [] = Inr [(''hour'', JInt 30)]"
    by (simp add: resolve_knobs_def ex_knob_routine_def ex_knobs_def knob_value_def unknown_overrides_def)
  moreover have "\<exists>e. resolve_knobs ex_knob_routine [(''hour'', JInt 30)] = Inl e"
    by (simp add: resolve_knobs_def ex_knob_routine_def ex_knobs_def knob_value_def coerce_def coerce_int_def)
  ultimately show ?thesis by blast
qed

end
