(* ===== verification/Secrets.thy ===== *)
theory Secrets
  imports Contracts_Shared Audit_Event Ota_Errors
begin

text \<open>
  The secrets providers: \<open>ota_core/secrets/provider.py\<close>.  The store of a provider is a dict of
  credentials; the encrypted provider also has a file and writes it through a temporary file.  JSON,
  the cipher, ISO dates and the text of Python's own errors are the parameter \<open>vault_env\<close>; the lock
  makes each operation one step.  A style is the text of \<open>AuthStyle\<close>, which nothing checks.
\<close>

section \<open>Data\<close>

record Credential =
  cr_integration_id :: string
  cr_routine_id :: "string option"
  cr_style :: string
  cr_granted_scopes :: "string list"
  cr_secret :: payload
  cr_rotated_at :: instant
  cr_expires_at :: "instant option"

type_synonym credential_store = "(string, Credential) dict"

definition credential_key :: "string \<Rightarrow> string option \<Rightarrow> string" where
  "credential_key iid rid = iid @ ''::'' @ (case rid of None \<Rightarrow> [] | Some r \<Rightarrow> r)"

definition key_of :: "Credential \<Rightarrow> string" where
  "key_of c = credential_key (cr_integration_id c) (cr_routine_id c)"

section \<open>Errors\<close>

definition opt_text :: "string option \<Rightarrow> string" where
  "opt_text x = (case x of None \<Rightarrow> ''None'' | Some t \<Rightarrow> t)"

definition credential_not_found :: "string \<Rightarrow> string option \<Rightarrow> exn" where
  "credential_not_found iid rid = PyError ''CredentialNotFoundError''
     (''no credential for integration='' @ iid @ '' ('' @
      (if rid = None \<or> rid = Some [] then ''client-shared'' else ''routine='' @ opt_text rid) @ '')'')"

definition insufficient_scopes :: "string \<Rightarrow> string option \<Rightarrow> string list \<Rightarrow> string list \<Rightarrow> exn" where
  "insufficient_scopes iid rid requested granted = PyError ''InsufficientScopesError''
     (''credential for integration='' @ iid @ '' routine='' @ opt_text rid @ '' missing scopes '' @
      repr_strs (sort (remdups (filter (\<lambda>s. s \<notin> set granted) requested))) @ ''; granted='' @ repr_strs (sort granted))"

definition credential_expired :: "string \<Rightarrow> string option \<Rightarrow> exn" where
  "credential_expired iid rid = PyError ''CredentialExpiredError''
     (''credential for integration='' @ iid @ '' routine='' @ opt_text rid @ '' has expired'')"

definition store_corrupt :: "string \<Rightarrow> exn" where
  "store_corrupt msg = PyError ''SecretsStoreCorruptError'' msg"

section \<open>The JSON of a credential\<close>

record vault_env =
  ve_path :: string
  ve_dumps :: "json \<Rightarrow> string"
  ve_loads :: "string \<Rightarrow> exn + json"
  ve_encrypt :: "string \<Rightarrow> string"
  ve_decrypt :: "string \<Rightarrow> exn + string"
  ve_iso :: "instant \<Rightarrow> string"
  ve_from_iso :: "string \<Rightarrow> string + instant"
  ve_type_error :: "json \<Rightarrow> string"

text \<open>A record of another shape than the ones written may build a credential with a field of another
  type (\<open>style=3\<close>): the model stops there with \<open>IllTyped\<close>.\<close>

datatype 'a loaded = Loaded 'a | Refused exn | IllTyped

definition credential_to_dict :: "vault_env \<Rightarrow> Credential \<Rightarrow> json" where
  "credential_to_dict env c =
     JObj [(''integration_id'', JStr (cr_integration_id c)), (''routine_id'', JOpt (cr_routine_id c)),
       (''style'', JStr (cr_style c)), (''granted_scopes'', JStrs (cr_granted_scopes c)),
       (''secret'', JObj (cr_secret c)), (''rotated_at'', JStr (ve_iso env (cr_rotated_at c))),
       (''expires_at'', case cr_expires_at c of None \<Rightarrow> JNull | Some t \<Rightarrow> JStr (ve_iso env t))]"

definition malformed :: "string \<Rightarrow> 'a loaded" where
  "malformed msg = Refused (PyError ''SecretsProviderError'' (''malformed credential record: '' @ msg))"

definition iso_field :: "vault_env \<Rightarrow> json \<Rightarrow> string + instant" where
  "iso_field env j = (case j of JStr t \<Rightarrow> ve_from_iso env t | _ \<Rightarrow> Inl (ve_type_error env j))"

fun json_strings :: "json list \<Rightarrow> string list option" where
  "json_strings [] = Some []"
| "json_strings (JStr s # js) = map_option (\<lambda>ss. s # ss) (json_strings js)"
| "json_strings (j # js) = None"

text \<open>\<open>tuple(d.get("granted_scopes", []))\<close> and \<open>dict(d.get("secret", {}))\<close>.\<close>

definition scopes_field :: "vault_env \<Rightarrow> json option \<Rightarrow> string list loaded" where
  "scopes_field env j =
     (case j of
        None \<Rightarrow> Loaded []
      | Some (JArr xs) \<Rightarrow> (case json_strings xs of Some ss \<Rightarrow> Loaded ss | None \<Rightarrow> IllTyped)
      | Some (JObj d) \<Rightarrow> Loaded (dict_keys d)
      | Some (JStr s) \<Rightarrow> Loaded (map (\<lambda>c. [c]) s)
      | Some v \<Rightarrow> malformed (ve_type_error env v))"

definition secret_field :: "vault_env \<Rightarrow> json option \<Rightarrow> payload loaded" where
  "secret_field env j =
     (case j of
        None \<Rightarrow> Loaded []
      | Some (JObj d) \<Rightarrow> Loaded d
      | Some (JArr xs) \<Rightarrow> (if xs = [] then Loaded [] else IllTyped)
      | Some (JStr s) \<Rightarrow> (if s = [] then Loaded [] else malformed (ve_type_error env (JStr s)))
      | Some v \<Rightarrow> malformed (ve_type_error env v))"

definition missing_key :: "string \<Rightarrow> string" where
  "missing_key k = repr_str k"

definition build_credential ::
  "json \<Rightarrow> json option \<Rightarrow> json \<Rightarrow> string list \<Rightarrow> payload \<Rightarrow> instant \<Rightarrow> instant option \<Rightarrow> Credential loaded" where
  "build_credential iid rid style scopes secret rotated expires =
     (case (iid, style) of
        (JStr i, JStr s) \<Rightarrow>
          (let cred = (\<lambda>r. \<lparr>cr_integration_id = i, cr_routine_id = r, cr_style = s, cr_granted_scopes = scopes,
             cr_secret = secret, cr_rotated_at = rotated, cr_expires_at = expires\<rparr>)
           in case rid of
                None \<Rightarrow> Loaded (cred None)
              | Some JNull \<Rightarrow> Loaded (cred None)
              | Some (JStr r) \<Rightarrow> Loaded (cred (Some r))
              | Some _ \<Rightarrow> IllTyped)
      | _ \<Rightarrow> IllTyped)"

definition expires_field :: "vault_env \<Rightarrow> json option \<Rightarrow> string + instant option" where
  "expires_field env j =
     (case j of
        None \<Rightarrow> Inr None
      | Some v \<Rightarrow> if falsy v then Inr None
          else (case iso_field env v of Inl msg \<Rightarrow> Inl msg | Inr t \<Rightarrow> Inr (Some t)))"

definition loaded_bind :: "'a loaded \<Rightarrow> ('a \<Rightarrow> 'b loaded) \<Rightarrow> 'b loaded" where
  "loaded_bind m f = (case m of Loaded a \<Rightarrow> f a | Refused e \<Rightarrow> Refused e | IllTyped \<Rightarrow> IllTyped)"

definition required_field :: "payload \<Rightarrow> string \<Rightarrow> json loaded" where
  "required_field d k = (case dict_get d k of None \<Rightarrow> malformed (missing_key k) | Some j \<Rightarrow> Loaded j)"

definition or_malformed :: "string + 'a \<Rightarrow> 'a loaded" where
  "or_malformed r = (case r of Inl msg \<Rightarrow> malformed msg | Inr a \<Rightarrow> Loaded a)"

definition credential_from_dict :: "vault_env \<Rightarrow> json \<Rightarrow> Credential loaded" where
  "credential_from_dict env j =
     (case j of
        JObj d \<Rightarrow>
          loaded_bind (required_field d ''rotated_at'') (\<lambda>rj.
          loaded_bind (or_malformed (iso_field env rj)) (\<lambda>rotated.
          loaded_bind (or_malformed (expires_field env (dict_get d ''expires_at''))) (\<lambda>expires.
          loaded_bind (required_field d ''integration_id'') (\<lambda>iid.
          loaded_bind (required_field d ''style'') (\<lambda>style.
          loaded_bind (scopes_field env (dict_get d ''granted_scopes'')) (\<lambda>scopes.
          loaded_bind (secret_field env (dict_get d ''secret'')) (\<lambda>secret.
          build_credential iid (dict_get d ''routine_id'') style scopes secret rotated expires)))))))
      | _ \<Rightarrow> malformed (ve_type_error env j))"

section \<open>Reading the file\<close>

definition SCHEMA_VERSION :: string where
  "SCHEMA_VERSION = ''1.0''"

fun load_records :: "vault_env \<Rightarrow> json list \<Rightarrow> credential_store \<Rightarrow> credential_store loaded" where
  "load_records env [] out = Loaded out"
| "load_records env (r # rs) out =
     loaded_bind (credential_from_dict env r) (\<lambda>c. load_records env rs (dict_set (key_of c) c out))"

definition load_envelope :: "vault_env \<Rightarrow> json \<Rightarrow> credential_store loaded" where
  "load_envelope env j =
     (case j of
        JObj d \<Rightarrow>
          if dict_get d ''schema_version'' \<noteq> Some (JStr SCHEMA_VERSION)
          then Refused (store_corrupt (''unsupported secrets schema_version='' @
            (case dict_get d ''schema_version'' of None \<Rightarrow> ''None'' | Some v \<Rightarrow> py_repr v) @ '' in '' @ ve_path env))
          else (case dict_get d ''credentials'' of
              None \<Rightarrow> Loaded []
            | Some (JArr rs) \<Rightarrow> load_records env rs []
            | Some _ \<Rightarrow> Refused (store_corrupt (''credentials must be list in '' @ ve_path env)))
      | _ \<Rightarrow> Refused (store_corrupt (''secrets store envelope is not a mapping in '' @ ve_path env)))"

definition load_vault :: "vault_env \<Rightarrow> string option \<Rightarrow> credential_store loaded" where
  "load_vault env file_bytes =
     (case file_bytes of
        None \<Rightarrow> Loaded []
      | Some ciphertext \<Rightarrow>
          (case (case ve_decrypt env ciphertext of Inl e \<Rightarrow> Inl e | Inr plain \<Rightarrow> ve_loads env plain) of
             Inl e \<Rightarrow> Refused (store_corrupt (''failed to decrypt/parse secrets store '' @ ve_path env @ '': '' @ exc_str e))
           | Inr j \<Rightarrow> load_envelope env j))"

section \<open>Providers\<close>

record provider =
  pv_store :: credential_store
  pv_encrypted :: bool
  pv_file :: "string option"
  pv_tmp :: "string option"

text \<open>Where a write of the disk fails, with which error, and what it leaves of the temporary file.  A
  \<open>PermissionError\<close> of \<open>chmod\<close> is swallowed and is no failure.\<close>

datatype disk_failure = TmpWriteFails exn string | ReplaceFails exn | ChmodFails exn

definition envelope_text :: "vault_env \<Rightarrow> credential_store \<Rightarrow> string" where
  "envelope_text env st =
     ve_dumps env (JObj [(''schema_version'', JStr SCHEMA_VERSION),
       (''credentials'', JArr (map (credential_to_dict env) (dict_values st)))])"

definition persist :: "vault_env \<Rightarrow> disk_failure option \<Rightarrow> (provider, exn, unit) py" where
  "persist env fault p =
     (if \<not> pv_encrypted p then (Inr (), p)
      else (let cipher = ve_encrypt env (envelope_text env (pv_store p))
            in case fault of
                 None \<Rightarrow> (Inr (), p\<lparr>pv_file := Some cipher, pv_tmp := None\<rparr>)
               | Some (TmpWriteFails e rest) \<Rightarrow> (Inl e, p\<lparr>pv_tmp := Some rest\<rparr>)
               | Some (ReplaceFails e) \<Rightarrow> (Inl e, p\<lparr>pv_tmp := Some cipher\<rparr>)
               | Some (ChmodFails e) \<Rightarrow> (Inl e, p\<lparr>pv_file := Some cipher, pv_tmp := None\<rparr>)))"

definition reload :: "vault_env \<Rightarrow> provider \<Rightarrow> provider loaded" where
  "reload env p = loaded_bind (load_vault env (pv_file p)) (\<lambda>st. Loaded (p\<lparr>pv_store := st\<rparr>))"

definition validate_not_expired :: "Credential \<Rightarrow> instant \<Rightarrow> exn option" where
  "validate_not_expired c now =
     (case cr_expires_at c of
        None \<Rightarrow> None
      | Some t \<Rightarrow> if t \<le> now then Some (credential_expired (cr_integration_id c) (cr_routine_id c)) else None)"

definition virtual_scope :: "Credential \<Rightarrow> string list \<Rightarrow> exn + Credential" where
  "virtual_scope c requested =
     (if requested = [] then Inr c
      else if filter (\<lambda>s. s \<notin> set (cr_granted_scopes c)) requested \<noteq> []
      then Inl (insufficient_scopes (cr_integration_id c) (cr_routine_id c) requested (cr_granted_scopes c))
      else Inr (c\<lparr>cr_granted_scopes := requested\<rparr>))"

definition find_credential :: "credential_store \<Rightarrow> string \<Rightarrow> string option \<Rightarrow> Credential option" where
  "find_credential st iid rid =
     (case dict_get st (credential_key iid rid) of
        Some c \<Rightarrow> Some c
      | None \<Rightarrow> if rid = None then None else dict_get st (credential_key iid None))"

definition fetch_credential ::
  "string \<Rightarrow> string option \<Rightarrow> string list \<Rightarrow> instant \<Rightarrow> provider \<Rightarrow> exn + Credential" where
  "fetch_credential iid rid requested now p =
     (case find_credential (pv_store p) iid rid of
        None \<Rightarrow> Inl (credential_not_found iid rid)
      | Some c \<Rightarrow> (case validate_not_expired c now of Some e \<Rightarrow> Inl e | None \<Rightarrow> virtual_scope c requested))"

definition store_credential :: "vault_env \<Rightarrow> disk_failure option \<Rightarrow> Credential \<Rightarrow> (provider, exn, unit) py" where
  "store_credential env fault c p = persist env fault (p\<lparr>pv_store := dict_set (key_of c) c (pv_store p)\<rparr>)"

definition rotate_credential ::
  "vault_env \<Rightarrow> disk_failure option \<Rightarrow> string \<Rightarrow> string option \<Rightarrow> payload \<Rightarrow> string list option \<Rightarrow> instant option \<Rightarrow>
   instant \<Rightarrow> (provider, exn, Credential) py" where
  "rotate_credential env fault iid rid new_secret scopes expires now p =
     (case dict_get (pv_store p) (credential_key iid rid) of
        None \<Rightarrow> (Inl (credential_not_found iid rid), p)
      | Some existing \<Rightarrow>
          (let rotated = \<lparr>cr_integration_id = cr_integration_id existing, cr_routine_id = cr_routine_id existing,
                 cr_style = cr_style existing,
                 cr_granted_scopes = (case scopes of Some s \<Rightarrow> s | None \<Rightarrow> cr_granted_scopes existing),
                 cr_secret = new_secret, cr_rotated_at = now, cr_expires_at = expires\<rparr>
           in try_bind (persist env fault) (\<lambda>_. py_return rotated)
                (p\<lparr>pv_store := dict_set (credential_key iid rid) rotated (pv_store p)\<rparr>)))"

definition revoke_credential :: "vault_env \<Rightarrow> disk_failure option \<Rightarrow> string \<Rightarrow> string option \<Rightarrow> (provider, exn, unit) py" where
  "revoke_credential env fault iid rid p =
     persist env fault (p\<lparr>pv_store := dict_pop (credential_key iid rid) (pv_store p)\<rparr>)"

definition list_credentials :: "provider \<Rightarrow> Credential list" where
  "list_credentials p = dict_values (pv_store p)"

end
