(* ===== verification/Secrets_Properties.thy ===== *)
theory Secrets_Properties
  imports Secrets "HOL-Library.Countable"
begin

text \<open>
  The file of the encrypted provider always holds a whole store: what a successful write leaves decodes
  to the store in memory, and a failed one leaves the previous file or the new one.  A fetch narrows.
\<close>

section \<open>Laws of the parameters\<close>

fun json_wf :: "json \<Rightarrow> bool" where
  "json_wf (JArr xs) = list_all json_wf xs"
| "json_wf (JObj d) = (distinct (map fst d) \<and> list_all (\<lambda>kv. json_wf (snd kv)) d)"
| "json_wf _ = True"

definition vault_laws :: "vault_env \<Rightarrow> bool" where
  "vault_laws env \<longleftrightarrow>
     (\<forall>x. ve_decrypt env (ve_encrypt env x) = Inr x) \<and>
     (\<forall>j. json_wf j \<longrightarrow> ve_loads env (ve_dumps env j) = Inr j) \<and>
     (\<forall>t. ve_from_iso env (ve_iso env t) = Inr t \<and> ve_iso env t \<noteq> [])"

section \<open>Round trips\<close>

lemma json_strings_map [simp]: "json_strings (map JStr ss) = Some ss"
  by (induction ss) simp_all

lemma credential_round_trip:
  assumes "vault_laws env"
  shows "credential_from_dict env (credential_to_dict env c) = Loaded c"
proof -
  have iso: "\<And>t. ve_from_iso env (ve_iso env t) = Inr t" "\<And>t. ve_iso env t \<noteq> []"
    using assms by (simp_all add: vault_laws_def)
  have expires: "expires_field env (Some (case cr_expires_at c of None \<Rightarrow> JNull | Some t \<Rightarrow> JStr (ve_iso env t))) =
      Inr (cr_expires_at c)"
    by (cases "cr_expires_at c") (simp_all add: expires_field_def falsy_def iso_field_def iso)
  show ?thesis
    by (cases "cr_routine_id c")
      (simp_all add: credential_from_dict_def credential_to_dict_def required_field_def loaded_bind_def iso_field_def
        or_malformed_def iso expires scopes_field_def secret_field_def JStrs_def build_credential_def)
qed

lemma load_records_written:
  "vault_laws env \<Longrightarrow> load_records env (map (credential_to_dict env) cs) out =
     Loaded (fold (\<lambda>c. dict_set (key_of c) c) cs out)"
  by (induction cs arbitrary: out) (simp_all add: credential_round_trip loaded_bind_def)

definition store_ok :: "credential_store \<Rightarrow> bool" where
  "store_ok st \<longleftrightarrow> wf_dict st \<and>
     (\<forall>k c. dict_get st k = Some c \<longrightarrow> k = key_of c \<and> json_wf (JObj (cr_secret c)))"

lemma store_ok_entry: "store_ok st \<Longrightarrow> (k, c) \<in> set st \<Longrightarrow> k = key_of c \<and> json_wf (JObj (cr_secret c))"
  unfolding store_ok_def by (metis dict_get_value)

lemma fold_own_keys:
  assumes "distinct (map fst (out @ st))" "\<And>k c. (k, c) \<in> set st \<Longrightarrow> k = key_of c"
  shows "fold (\<lambda>c. dict_set (key_of c) c) (dict_values st) out = out @ st"
  using assms
proof (induction st arbitrary: out)
  case (Cons p st)
  obtain k c where p: "p = (k, c)" by force
  then have k: "k = key_of c" using Cons.prems(2) by simp
  have "dict_set (key_of c) c out = out @ [p]"
    using Cons.prems(1) p k by (simp add: dict_set_new map_of_eq_None_iff)
  then show ?case using Cons.IH [of "out @ [p]"] Cons.prems p by simp
qed simp

lemma store_values_wf: "store_ok st \<Longrightarrow> c \<in> set (dict_values st) \<Longrightarrow> json_wf (JObj (cr_secret c))"
  by (auto dest: store_ok_entry simp del: json_wf.simps)

lemma written_store_loads:
  assumes "vault_laws env" "store_ok st"
  shows "load_vault env (Some (ve_encrypt env (envelope_text env st))) = Loaded st"
proof -
  let ?rs = "map (credential_to_dict env) (dict_values st)"
  let ?j = "JObj [(''schema_version'', JStr SCHEMA_VERSION), (''credentials'', JArr ?rs)]"
  have "json_wf (credential_to_dict env c)" if "c \<in> set (dict_values st)" for c
    using store_values_wf [OF assms(2) that]
    by (cases "cr_routine_id c"; cases "cr_expires_at c")
      (simp_all add: credential_to_dict_def JStrs_def list_all_iff)
  then have "json_wf ?j" by (auto simp: list_all_iff)
  then have "ve_loads env (envelope_text env st) = Inr ?j"
    using assms(1) by (simp add: vault_laws_def envelope_text_def del: json_wf.simps)
  moreover have "ve_decrypt env (ve_encrypt env (envelope_text env st)) = Inr (envelope_text env st)"
    using assms(1) by (simp add: vault_laws_def)
  moreover have "load_records env ?rs [] = Loaded st"
  proof -
    have "distinct (map fst ([] @ st))" using assms(2) by (simp add: store_ok_def wf_dict_def)
    moreover have "k = key_of c" if "(k, c) \<in> set st" for k c using store_ok_entry [OF assms(2) that] by (rule conjunct1)
    ultimately have "fold (\<lambda>c. dict_set (key_of c) c) (dict_values st) [] = [] @ st" by (rule fold_own_keys)
    then show ?thesis using load_records_written [OF assms(1), of "dict_values st" "[]"] by simp
  qed
  ultimately show ?thesis by (simp add: load_vault_def load_envelope_def)
qed

section \<open>The operations keep a whole store on disk\<close>

datatype vault_op =
    VStore Credential
  | VRotate string "string option" payload "string list option" "instant option" instant
  | VRevoke string "string option"

definition vault_step :: "vault_env \<Rightarrow> disk_failure option \<Rightarrow> vault_op \<Rightarrow> (provider, exn, unit) py" where
  "vault_step env fault opn p =
     (case opn of
        VStore c \<Rightarrow> store_credential env fault c p
      | VRotate iid rid s sc ex now \<Rightarrow>
          try_bind (rotate_credential env fault iid rid s sc ex now) (\<lambda>_. py_return ()) p
      | VRevoke iid rid \<Rightarrow> revoke_credential env fault iid rid p)"

primrec op_wf :: "vault_op \<Rightarrow> bool" where
  "op_wf (VStore c) = json_wf (JObj (cr_secret c))"
| "op_wf (VRotate iid rid s sc ex now) = json_wf (JObj s)"
| "op_wf (VRevoke iid rid) = True"

lemma store_ok_set: "store_ok st \<Longrightarrow> json_wf (JObj (cr_secret c)) \<Longrightarrow> store_ok (dict_set (key_of c) c st)"
  by (auto simp: store_ok_def dict_simps simp del: json_wf.simps)

lemma store_ok_pop: "store_ok st \<Longrightarrow> store_ok (dict_pop k st)"
  by (auto simp: store_ok_def dict_simps simp del: json_wf.simps split: if_splits)

lemma persist_outcome:
  assumes "vault_laws env" "pv_encrypted p" "store_ok (pv_store p)" "persist env fault p = (res, p')"
  shows "pv_store p' = pv_store p \<and> pv_encrypted p' \<and>
    (pv_file p' = pv_file p \<and> res \<noteq> Inr () \<or> load_vault env (pv_file p') = Loaded (pv_store p'))"
  using assms written_store_loads [OF assms(1,3)]
  by (auto simp: persist_def Let_def split: option.splits disk_failure.splits)

text \<open>C30: The file of the encrypted provider is never torn and never behind a successful write: after every
  operation that returns, the file decrypts and decodes to exactly the store in memory, and after one
  that raises (no such credential, a failing disk at any point) the file is the previous one or decodes
  to the store in memory.\<close>

theorem vault_file_is_whole:
  assumes "vault_laws env" "pv_encrypted p" "store_ok (pv_store p)" "op_wf opn"
    and "vault_step env fault opn p = (res, p')"
  shows "store_ok (pv_store p') \<and> pv_encrypted p'
    \<and> (res = Inr () \<longrightarrow> load_vault env (pv_file p') = Loaded (pv_store p'))
    \<and> (res \<noteq> Inr () \<longrightarrow> pv_file p' = pv_file p \<or> load_vault env (pv_file p') = Loaded (pv_store p'))"
proof (cases opn)
  case (VStore c)
  let ?q = "p\<lparr>pv_store := dict_set (key_of c) c (pv_store p)\<rparr>"
  have "store_ok (pv_store ?q)" using assms(3,4) VStore by (simp add: store_ok_set del: json_wf.simps)
  then show ?thesis
    using persist_outcome [OF assms(1), of ?q fault res p'] assms(2,5) VStore
    by (auto simp: vault_step_def store_credential_def)
next
  case (VRevoke iid rid)
  let ?q = "p\<lparr>pv_store := dict_pop (credential_key iid rid) (pv_store p)\<rparr>"
  have "store_ok (pv_store ?q)" using assms(3) by (simp add: store_ok_pop)
  then show ?thesis
    using persist_outcome [OF assms(1), of ?q fault res p'] assms(2,5) VRevoke
    by (auto simp: vault_step_def revoke_credential_def)
next
  case (VRotate iid rid s sc ex now)
  show ?thesis
  proof (cases "dict_get (pv_store p) (credential_key iid rid)")
    case None
    then show ?thesis
      using assms VRotate by (auto simp: vault_step_def rotate_credential_def try_bind_def)
  next
    case (Some old)
    define new where "new = \<lparr>cr_integration_id = cr_integration_id old, cr_routine_id = cr_routine_id old,
        cr_style = cr_style old, cr_granted_scopes = (case sc of Some s \<Rightarrow> s | None \<Rightarrow> cr_granted_scopes old),
        cr_secret = s, cr_rotated_at = now, cr_expires_at = ex\<rparr>"
    let ?q = "p\<lparr>pv_store := dict_set (credential_key iid rid) new (pv_store p)\<rparr>"
    obtain r q where r: "persist env fault ?q = (r, q)" by force
    have "key_of new = credential_key iid rid"
      using assms(3) Some by (simp add: store_ok_def key_of_def new_def)
    then have "store_ok (pv_store ?q)"
      using store_ok_set [OF assms(3), of new] assms(4) VRotate by (simp add: new_def)
    note out = persist_outcome [OF assms(1) _ this r]
    have "p' = q \<and> (res = Inr () \<longleftrightarrow> r = Inr ())"
      using assms(5) VRotate Some r
      by (auto simp: vault_step_def rotate_credential_def try_bind_def py_return_def Let_def new_def split: sum.splits)
    then show ?thesis using out assms(2) \<open>store_ok (pv_store ?q)\<close> by auto
  qed
qed

text \<open>Parameters that satisfy the laws: numbers of JSON values written in decimal, and no cipher.\<close>

instance json :: countable by countable_datatype

definition ex_vault :: vault_env where
  "ex_vault = \<lparr>ve_path = ''vault'', ve_dumps = (\<lambda>j. digits_of (to_nat j)),
     ve_loads = (\<lambda>s. Inr (from_nat (nat_of_digits s))), ve_encrypt = (\<lambda>s. s), ve_decrypt = Inr,
     ve_iso = (\<lambda>t. digits_of (to_nat t)), ve_from_iso = (\<lambda>s. Inr (from_nat (nat_of_digits s))),
     ve_type_error = (\<lambda>j. ''TypeError'')\<rparr>"

lemma ex_vault_laws: "vault_laws ex_vault"
  by (simp add: vault_laws_def ex_vault_def)

definition ex_credential :: Credential where
  "ex_credential = \<lparr>cr_integration_id = ''gmail'', cr_routine_id = None, cr_style = ''oauth2'',
     cr_granted_scopes = [''email:read'', ''email:send''], cr_secret = [(''token'', JStr ''t'')],
     cr_rotated_at = 0, cr_expires_at = Some 100\<rparr>"

definition ex_provider :: provider where
  "ex_provider = \<lparr>pv_store = [], pv_encrypted = True, pv_file = None, pv_tmp = None\<rparr>"

lemma vault_file_is_whole_witness:
  "\<exists>p'. vault_step ex_vault None (VStore ex_credential) ex_provider = (Inr (), p')
    \<and> load_vault ex_vault (pv_file p') = Loaded [(''gmail::'', ex_credential)]"
proof -
  let ?st = "[(''gmail::'', ex_credential)]"
  let ?p = "ex_provider\<lparr>pv_store := ?st, pv_file := Some (ve_encrypt ex_vault (envelope_text ex_vault ?st)), pv_tmp := None\<rparr>"
  have run: "vault_step ex_vault None (VStore ex_credential) ex_provider = (Inr (), ?p)"
    by (simp add: vault_step_def store_credential_def persist_def ex_provider_def key_of_def credential_key_def
        ex_credential_def Let_def)
  have "pv_encrypted ex_provider" "store_ok (pv_store ex_provider)" "op_wf (VStore ex_credential)"
    by (simp_all add: ex_provider_def store_ok_def ex_credential_def)
  from vault_file_is_whole [OF ex_vault_laws this run] run show ?thesis by auto
qed

section \<open>What a fetch returns\<close>

lemma fetch_exact:
  shows "fetch_credential iid rid requested now p = Inr c \<longleftrightarrow>
    (\<exists>full. (dict_get (pv_store p) (credential_key iid rid) = Some full \<or>
             dict_get (pv_store p) (credential_key iid rid) = None \<and> rid \<noteq> None \<and>
             dict_get (pv_store p) (credential_key iid None) = Some full)
       \<and> (\<forall>t \<in> set_option (cr_expires_at full). now < t)
       \<and> set requested \<subseteq> set (cr_granted_scopes full)
       \<and> c = (if requested = [] then full else full\<lparr>cr_granted_scopes := requested\<rparr>))"
proof -
  have scope: "virtual_scope full requested = Inr c \<longleftrightarrow> set requested \<subseteq> set (cr_granted_scopes full) \<and>
      c = (if requested = [] then full else full\<lparr>cr_granted_scopes := requested\<rparr>)" for full
    by (auto simp: virtual_scope_def filter_empty_conv)
  have found: "find_credential (pv_store p) iid rid = Some full \<longleftrightarrow>
      dict_get (pv_store p) (credential_key iid rid) = Some full \<or>
      dict_get (pv_store p) (credential_key iid rid) = None \<and> rid \<noteq> None \<and>
      dict_get (pv_store p) (credential_key iid None) = Some full" for full
    by (auto simp: find_credential_def split: option.splits)
  have fresh: "validate_not_expired full now = None \<longleftrightarrow> (\<forall>t \<in> set_option (cr_expires_at full). now < t)" for full
    by (auto simp: validate_not_expired_def split: option.splits)
  have "fetch_credential iid rid requested now p = Inr c \<longleftrightarrow>
      (\<exists>full. find_credential (pv_store p) iid rid = Some full \<and> validate_not_expired full now = None \<and>
         virtual_scope full requested = Inr c)"
    by (auto simp: fetch_credential_def split: option.splits)
  then show ?thesis unfolding found fresh scope by blast
qed

lemma revoke_store: "pv_store (snd (revoke_credential env fault iid rid p)) = dict_pop (credential_key iid rid) (pv_store p)"
  by (auto simp: revoke_credential_def persist_def Let_def split: option.splits disk_failure.splits)

text \<open>C31: A fetched credential is the one stored for the routine or, only when there is none, the shared one;
  it has not expired; and when scopes are asked for it carries exactly those, all of them granted.  In
  every other case the fetch raises.  After a revocation of the routine's own credential (whether or not
  the file could be written) the fetch looks at the shared one alone, under the same conditions: a
  revoked routine keeps its access as long as a shared credential is stored.\<close>

theorem fetch_narrows:
  shows "(fetch_credential iid rid requested now p = Inr c \<longleftrightarrow>
    (\<exists>full. (dict_get (pv_store p) (credential_key iid rid) = Some full \<or>
             dict_get (pv_store p) (credential_key iid rid) = None \<and> rid \<noteq> None \<and>
             dict_get (pv_store p) (credential_key iid None) = Some full)
       \<and> (\<forall>t \<in> set_option (cr_expires_at full). now < t)
       \<and> set requested \<subseteq> set (cr_granted_scopes full)
       \<and> c = (if requested = [] then full else full\<lparr>cr_granted_scopes := requested\<rparr>)))
  \<and> (r \<noteq> [] \<longrightarrow> (fetch_credential iid (Some r) requested now (snd (revoke_credential env fault iid (Some r) p)) = Inr c \<longleftrightarrow>
    (\<exists>full. dict_get (pv_store p) (credential_key iid None) = Some full
       \<and> (\<forall>t \<in> set_option (cr_expires_at full). now < t)
       \<and> set requested \<subseteq> set (cr_granted_scopes full)
       \<and> c = (if requested = [] then full else full\<lparr>cr_granted_scopes := requested\<rparr>))))"
proof -
  have "credential_key iid (Some r) \<noteq> credential_key iid None" if "r \<noteq> []"
    using that by (simp add: credential_key_def)
  then show ?thesis unfolding fetch_exact revoke_store by (simp add: dict_simps)
qed

lemma fetch_narrows_witness:
  "fetch_credential ''gmail'' (Some ''com.ota.triage'') [''email:read''] 50
     (ex_provider\<lparr>pv_store := [(''gmail::'', ex_credential)]\<rparr>)
   = Inr (ex_credential\<lparr>cr_granted_scopes := [''email:read'']\<rparr>)
   \<and> fetch_credential ''gmail'' (Some ''com.ota.triage'') [] 50
      (snd (revoke_credential ex_vault None ''gmail'' (Some ''com.ota.triage'')
        (ex_provider\<lparr>pv_store := [(''gmail::'', ex_credential), (''gmail::com.ota.triage'', ex_credential\<lparr>cr_granted_scopes := []\<rparr>)]\<rparr>)))
   = Inr ex_credential"
proof
  show "fetch_credential ''gmail'' (Some ''com.ota.triage'') [''email:read''] 50
     (ex_provider\<lparr>pv_store := [(''gmail::'', ex_credential)]\<rparr>)
   = Inr (ex_credential\<lparr>cr_granted_scopes := [''email:read'']\<rparr>)"
    unfolding fetch_narrows [THEN conjunct1] by (simp add: credential_key_def ex_credential_def)
  show "fetch_credential ''gmail'' (Some ''com.ota.triage'') [] 50
      (snd (revoke_credential ex_vault None ''gmail'' (Some ''com.ota.triage'')
        (ex_provider\<lparr>pv_store := [(''gmail::'', ex_credential), (''gmail::com.ota.triage'', ex_credential\<lparr>cr_granted_scopes := []\<rparr>)]\<rparr>)))
   = Inr ex_credential"
    by (subst fetch_narrows [THEN conjunct2, rule_format]) (simp_all add: credential_key_def ex_credential_def)
qed

text \<open>Revocation of a routine's own credential does not end its access while a shared one is stored.\<close>

theorem revoked_routine_falls_back:
  assumes "dict_get (pv_store p) (credential_key iid None) = Some shared" and "rid \<noteq> []"
    and "revoke_credential env None iid (Some rid) p = (Inr (), p')"
    and "\<forall>t \<in> set_option (cr_expires_at shared). now < t"
  shows "fetch_credential iid (Some rid) [] now p' = Inr shared"
proof -
  have st: "pv_store p' = dict_pop (credential_key iid (Some rid)) (pv_store p)"
    using revoke_store [of env None iid "Some rid" p] assms(3) by simp
  have "credential_key iid (Some rid) \<noteq> credential_key iid None"
    using assms(2) by (simp add: credential_key_def)
  then show ?thesis
    unfolding fetch_exact using assms(1,4) by (auto simp: st dict_simps)
qed

text \<open>Reverse-DNS routine identifiers keep the keys apart: a key determines its integration and routine.\<close>

lemma credential_key_inject:
  assumes "CHR '':'' \<notin> set r" "CHR '':'' \<notin> set s" "r \<noteq> []" "s \<noteq> []"
  shows "credential_key i (Some r) = credential_key j (Some s) \<longleftrightarrow> i = j \<and> r = s"
proof
  assume eq: "credential_key i (Some r) = credential_key j (Some s)"
  have tail: "takeWhile (\<lambda>c. c \<noteq> CHR '':'') (rev (credential_key k (Some q))) = rev q"
    if "CHR '':'' \<notin> set q" for k q
    using that by (simp add: credential_key_def) (subst takeWhile_append2, auto)
  have "rev r = rev s" using tail [OF assms(1), of i] tail [OF assms(2), of j] eq by simp
  then show "i = j \<and> r = s" using eq by (simp add: credential_key_def)
qed simp

end
