(* ===== verification/Identity.thy ===== *)
theory Identity
  imports Storage
begin

text \<open>
  Identity references and the roster: \<open>ota_core/identity/provider.py\<close>.  The roster file is given by its
  text; YAML is the parameter of \<open>read_markdown\<close>.  Keys of a YAML mapping are texts here.
\<close>

record Person =
  ps_handle :: string
  ps_display_name :: json
  ps_emails :: "string list"
  ps_adapters :: "(string, string) dict"

datatype ParsedIdentityRef =
    HandleRef string
  | MailtoRef string
  | RawRef string string

section \<open>Errors\<close>

definition identity_not_found :: "string \<Rightarrow> exn" where
  "identity_not_found handle = PyError ''IdentityNotFoundError'' (''identity not found: handle:@'' @ handle)"

definition identity_adapter_missing :: "string \<Rightarrow> string \<Rightarrow> string list \<Rightarrow> exn" where
  "identity_adapter_missing handle adapter available = PyError ''IdentityAdapterMissingError''
     (''identity handle:@'' @ handle @ '' has no mapping for adapter '' @ [CHR 0x27] @ adapter @ [CHR 0x27] @
      ''; available adapters: '' @ repr_strs available)"

definition identity_adapter_mismatch :: "string \<Rightarrow> string \<Rightarrow> exn" where
  "identity_adapter_mismatch ref_adapter bound_adapter = PyError ''IdentityAdapterMismatchError''
     (''raw:'' @ ref_adapter @ '':... cannot be resolved by bound adapter '' @ [CHR 0x27] @ bound_adapter @ [CHR 0x27])"

definition malformed_ref :: "string \<Rightarrow> string \<Rightarrow> exn" where
  "malformed_ref ref reason =
     PyError ''MalformedIdentityRefError'' (''malformed IdentityRef '' @ repr_str ref @ '': '' @ reason)"

definition identity_error :: "string \<Rightarrow> exn" where
  "identity_error msg = PyError ''IdentityProviderError'' msg"

section \<open>Parsing a reference\<close>

definition lstrip_at :: "string \<Rightarrow> string" where
  "lstrip_at s = dropWhile (\<lambda>c. c = CHR ''@'') s"

definition parse_handle :: "string \<Rightarrow> string \<Rightarrow> exn + ParsedIdentityRef" where
  "parse_handle ref body =
     (if body = [] then Inl (malformed_ref ref ''empty handle'')
      else if lstrip_at body = []
      then Inl (malformed_ref ref (''handle is empty after stripping '' @ [CHR 0x27, CHR ''@'', CHR 0x27]))
      else Inr (HandleRef (lstrip_at body)))"

definition parse_mailto :: "string \<Rightarrow> string \<Rightarrow> exn + ParsedIdentityRef" where
  "parse_mailto ref email =
     (if CHR ''@'' \<notin> set email then Inl (malformed_ref ref ''mailto: payload is not an email address'')
      else Inr (MailtoRef email))"

definition parse_raw :: "string \<Rightarrow> string \<Rightarrow> exn + ParsedIdentityRef" where
  "parse_raw ref body =
     (if CHR '':'' \<notin> set body
      then Inl (malformed_ref ref (''raw: payload must be '' @ [CHR 0x27] @ ''<adapter>:<id>'' @ [CHR 0x27]))
      else if part_before (CHR '':'') body = [] \<or> part_after (CHR '':'') body = []
      then Inl (malformed_ref ref ''raw: requires both adapter and id'')
      else Inr (RawRef (part_before (CHR '':'') body) (part_after (CHR '':'') body)))"

definition parse_identity_ref :: "string \<Rightarrow> exn + ParsedIdentityRef" where
  "parse_identity_ref ref =
     (if startswith ref ''handle:'' then parse_handle ref (drop 7 ref)
      else if startswith ref ''mailto:'' then parse_mailto ref (drop 7 ref)
      else if startswith ref ''raw:'' then parse_raw ref (drop 4 ref)
      else Inl (malformed_ref ref ''unrecognized prefix; expected handle:/mailto:/raw:''))"

section \<open>Resolution\<close>

type_synonym roster = "(string, Person) dict"

definition roster_of :: "Person list \<Rightarrow> roster" where
  "roster_of ps = dict_of (map (\<lambda>p. (ps_handle p, p)) ps)"

definition resolve_identity :: "roster \<Rightarrow> string \<Rightarrow> string \<Rightarrow> exn + string" where
  "resolve_identity roster ref adapter =
     (case parse_identity_ref ref of
        Inl e \<Rightarrow> Inl e
      | Inr (HandleRef h) \<Rightarrow>
          (case dict_get roster h of
             None \<Rightarrow> Inl (identity_not_found h)
           | Some person \<Rightarrow>
               (case dict_get (ps_adapters person) adapter of
                  None \<Rightarrow> Inl (identity_adapter_missing h adapter (dict_keys (ps_adapters person)))
                | Some mapped \<Rightarrow> Inr mapped))
      | Inr (MailtoRef email) \<Rightarrow> Inr email
      | Inr (RawRef a i) \<Rightarrow> if a \<noteq> adapter then Inl (identity_adapter_mismatch a adapter) else Inr i)"

definition resolve_email :: "roster \<Rightarrow> string \<Rightarrow> exn + string" where
  "resolve_email roster ref =
     (case parse_identity_ref ref of
        Inl e \<Rightarrow> Inl e
      | Inr (MailtoRef email) \<Rightarrow> Inr email
      | Inr (HandleRef h) \<Rightarrow>
          (case dict_get roster h of
             None \<Rightarrow> Inl (identity_not_found h)
           | Some person \<Rightarrow>
               (case ps_emails person of
                  [] \<Rightarrow> Inl (identity_adapter_missing h ''email'' (dict_keys (ps_adapters person)))
                | email # _ \<Rightarrow> Inr email))
      | Inr (RawRef a i) \<Rightarrow> Inl (identity_error (''cannot resolve email from raw ref: '' @ repr_str ref)))"

definition roster_people :: "roster \<Rightarrow> Person list" where
  "roster_people roster = dict_values roster"

definition roster_get :: "roster \<Rightarrow> string \<Rightarrow> Person option" where
  "roster_get roster handle = dict_get roster (lstrip_at handle)"

section \<open>Loading the roster\<close>

definition class_repr :: "json \<Rightarrow> string" where
  "class_repr j = ''<class '' @ repr_str (json_type_name j) @ ''>''"

definition person_label :: "nat \<Rightarrow> string" where
  "person_label i = ''people['' @ int_str (int i) @ '']''"

text \<open>\<open>entry.get(k, default) or default\<close>\<close>

definition get_or_empty :: "payload \<Rightarrow> string \<Rightarrow> json \<Rightarrow> json" where
  "get_or_empty d k dflt = (case dict_get d k of None \<Rightarrow> dflt | Some v \<Rightarrow> if falsy v then dflt else v)"

fun texts_of :: "json list \<Rightarrow> string list option" where
  "texts_of [] = Some []"
| "texts_of (JStr s # js) = map_option (\<lambda>ss. s # ss) (texts_of js)"
| "texts_of (j # js) = None"

definition emails_of :: "json \<Rightarrow> string list option" where
  "emails_of j = (case j of JArr xs \<Rightarrow> texts_of xs | _ \<Rightarrow> None)"

definition adapters_of :: "json \<Rightarrow> (string, string) dict option" where
  "adapters_of j =
     (case j of JObj d \<Rightarrow> map_option (\<lambda>vs. zip (dict_keys d) vs) (texts_of (dict_values d)) | _ \<Rightarrow> None)"

definition load_person :: "string \<Rightarrow> nat \<Rightarrow> json \<Rightarrow> roster \<Rightarrow> exn + Person" where
  "load_person path idx entry out =
     (case entry of
        JObj d \<Rightarrow>
          (case dict_get d ''handle'' of
             Some (JStr (c # cs)) \<Rightarrow>
               (let handle = lstrip_at (c # cs)
                in if dict_has out handle
                   then Inl (identity_error (''duplicate handle '' @ repr_str handle @ '' in '' @ path))
                   else case emails_of (get_or_empty d ''emails'' (JArr [])) of
                       None \<Rightarrow> Inl (identity_error (person_label idx @ ''.emails must be list[str] in '' @ path))
                     | Some emails \<Rightarrow>
                         (case adapters_of (get_or_empty d ''adapters'' (JObj [])) of
                            None \<Rightarrow> Inl (identity_error (person_label idx @ ''.adapters must be dict[str,str] in '' @ path))
                          | Some adapters \<Rightarrow>
                              Inr \<lparr>ps_handle = handle, ps_display_name = dict_get_or d ''display_name'' (JStr handle),
                                ps_emails = emails, ps_adapters = adapters\<rparr>))
           | _ \<Rightarrow> Inl (identity_error (person_label idx @ ''.handle missing or empty in '' @ path)))
      | _ \<Rightarrow> Inl (identity_error (person_label idx @ '' must be a mapping in '' @ path @ '', got '' @ class_repr entry)))"

fun load_people :: "string \<Rightarrow> nat \<Rightarrow> json list \<Rightarrow> roster \<Rightarrow> exn + roster" where
  "load_people path idx [] out = Inr out"
| "load_people path idx (entry # rest) out =
     (case load_person path idx entry out of
        Inl e \<Rightarrow> Inl e
      | Inr p \<Rightarrow> load_people path (Suc idx) rest (dict_set (ps_handle p) p out))"

definition load_roster :: "(string \<Rightarrow> exn + json) \<Rightarrow> string \<Rightarrow> string option \<Rightarrow> exn + roster" where
  "load_roster yaml path content =
     (case content of
        None \<Rightarrow> Inl (identity_error (''identity roster not found: '' @ path))
      | Some txt_content \<Rightarrow>
          (case read_markdown yaml path txt_content of
             Inl e \<Rightarrow> Inl e
           | Inr doc \<Rightarrow>
               (case dict_get (md_frontmatter doc) ''schema_version'' of
                  None \<Rightarrow> Inl (identity_error (''missing schema_version in '' @ path))
                | Some v \<Rightarrow>
                    if falsy v then Inl (identity_error (''missing schema_version in '' @ path))
                    else (case dict_get_or (md_frontmatter doc) ''people'' JNull of
                            JNull \<Rightarrow> Inr []
                          | JArr people \<Rightarrow> load_people path 0 people []
                          | j \<Rightarrow> Inl (identity_error
                              ([CHR 0x27] @ ''people'' @ [CHR 0x27] @ '' must be a list in '' @ path @ '', got '' @ class_repr j))))))"

section \<open>Lemmas\<close>

text \<open>The provider's constructor keys the people by their handles again; a loaded roster already is.\<close>

lemma load_people_keys:
  assumes "load_people path idx entries out = Inr roster" "wf_dict out"
    and "\<And>k p. dict_get out k = Some p \<Longrightarrow> ps_handle p = k"
  shows "wf_dict roster \<and> (\<forall>k p. dict_get roster k = Some p \<longrightarrow> ps_handle p = k)"
  using assms
proof (induction path idx entries out rule: load_people.induct)
  case (2 path idx entry rest out)
  obtain p where p: "load_person path idx entry out = Inr p"
    using "2.prems"(1) by (cases "load_person path idx entry out") simp_all
  show ?case
  proof (rule "2.IH" [OF p])
    show "load_people path (Suc idx) rest (dict_set (ps_handle p) p out) = Inr roster" using "2.prems"(1) p by simp
    show "wf_dict (dict_set (ps_handle p) p out)" using "2.prems"(2) by simp
    show "ps_handle q = k" if "dict_get (dict_set (ps_handle p) p out) k = Some q" for k q
      using that "2.prems"(3) [of k q] by (simp add: dict_get_set split: if_splits)
  qed
qed auto

lemma rebuilt_roster:
  assumes "wf_dict roster" "\<And>k p. dict_get roster k = Some p \<Longrightarrow> ps_handle p = k"
  shows "roster_of (dict_values roster) = roster"
proof -
  have "map (\<lambda>p. (ps_handle p, p)) (dict_values roster) = roster"
    unfolding map_map
  proof (rule map_idI)
    fix q assume "q \<in> set roster"
    then have "dict_get roster (fst q) = Some (snd q)" using dict_get_value [OF assms(1), of "fst q" "snd q"] by simp
    then have "ps_handle (snd q) = fst q" by (rule assms(2))
    then show "((\<lambda>p. (ps_handle p, p)) \<circ> snd) q = q" by simp
  qed
  moreover have "dict_of d = d" if "wf_dict d" for d :: roster
  proof -
    have "dict_merge e d = e @ d" if "wf_dict (e @ d)" for e :: roster
      using that
    proof (induction d arbitrary: e)
      case (Cons q d)
      have "dict_set (fst q) (snd q) e = e @ [q]"
        by (cases q, simp, rule dict_set_new) (use Cons.prems in \<open>simp add: wf_dict_def map_of_eq_None_iff\<close>)
      then show ?case using Cons.IH [of "e @ [q]"] Cons.prems by simp
    qed simp
    then show ?thesis using that by (simp add: dict_of_def)
  qed
  ultimately show ?thesis using assms(1) by (simp add: roster_of_def)
qed

section \<open>References are canonical\<close>

primrec show_ref :: "ParsedIdentityRef \<Rightarrow> string" where
  "show_ref (HandleRef h) = ''handle:@'' @ h"
| "show_ref (MailtoRef e) = ''mailto:'' @ e"
| "show_ref (RawRef a i) = ''raw:'' @ a @ '':'' @ i"

primrec ref_ok :: "ParsedIdentityRef \<Rightarrow> bool" where
  "ref_ok (HandleRef h) \<longleftrightarrow> h \<noteq> [] \<and> hd h \<noteq> CHR ''@''"
| "ref_ok (MailtoRef e) \<longleftrightarrow> CHR ''@'' \<in> set e"
| "ref_ok (RawRef a i) \<longleftrightarrow> a \<noteq> [] \<and> i \<noteq> [] \<and> CHR '':'' \<notin> set a"

lemma lstrip_at_hd: "lstrip_at s \<noteq> [] \<Longrightarrow> hd (lstrip_at s) \<noteq> CHR ''@''"
  unfolding lstrip_at_def using hd_dropWhile [of "\<lambda>c. c = CHR ''@''" s] by blast

lemma lstrip_at_id: "h \<noteq> [] \<Longrightarrow> hd h \<noteq> CHR ''@'' \<Longrightarrow> lstrip_at h = h"
  by (cases h) (simp_all add: lstrip_at_def)

lemma part_of_raw:
  "CHR '':'' \<notin> set a \<Longrightarrow> part_before (CHR '':'') (a @ '':'' @ i) = a \<and> part_after (CHR '':'') (a @ '':'' @ i) = i"
  by (induction a) (auto simp: part_before_def part_after_def)

lemma parse_prefixes:
  "parse_identity_ref (''handle:'' @ s) = parse_handle (''handle:'' @ s) s"
  "parse_identity_ref (''mailto:'' @ s) = parse_mailto (''mailto:'' @ s) s"
  "parse_identity_ref (''raw:'' @ s) = parse_raw (''raw:'' @ s) s"
  by (simp_all add: parse_identity_ref_def startswith_def)

lemma parsed_ref_ok: "parse_identity_ref s = Inr r \<Longrightarrow> ref_ok r"
  by (auto simp: parse_identity_ref_def parse_handle_def parse_mailto_def parse_raw_def lstrip_at_hd part_before_def
      dest: set_takeWhileD split: if_splits)

text \<open>Parsing inverts printing on exactly the references it can return: a well-formed reference printed
  in its canonical form is read back, and whatever is read is well-formed (a handle is not empty and has
  no leading at sign, an address has one, a raw reference has an adapter without a colon and an identifier).\<close>

theorem identity_ref_round_trip:
  "(parse_identity_ref (show_ref r) = Inr r \<longleftrightarrow> ref_ok r)
   \<and> ((\<exists>s. parse_identity_ref s = Inr r) \<longleftrightarrow> ref_ok r)"
proof -
  have again: "parse_identity_ref (show_ref r) = Inr r" if "ref_ok r"
  proof (cases r)
    case (HandleRef h)
    then show ?thesis
      using that parse_prefixes(1) [of "CHR ''@'' # h"] lstrip_at_id [of h]
      by (simp add: parse_handle_def) (simp add: lstrip_at_def)
  next
    case (MailtoRef e)
    then show ?thesis using that parse_prefixes(2) [of e] by (simp add: parse_mailto_def)
  next
    case (RawRef a i)
    then show ?thesis
      using that parse_prefixes(3) [of "a @ '':'' @ i"] part_of_raw [of a i] by (simp add: parse_raw_def)
  qed
  then show ?thesis using parsed_ref_ok by blast
qed

text \<open>With a loaded roster a handle resolves to the mapping of the one person who has it.\<close>

lemma handle_resolution:
  assumes "load_people path 0 entries [] = Inr roster" "lstrip_at h \<noteq> []"
  shows "resolve_identity roster (''handle:'' @ h) adapter = Inr x \<longleftrightarrow>
    (\<exists>p \<in> set (roster_people roster). ps_handle p = lstrip_at h \<and> dict_get (ps_adapters p) adapter = Some x)"
proof -
  have keys: "wf_dict roster" "\<And>k p. dict_get roster k = Some p \<Longrightarrow> ps_handle p = k"
    using load_people_keys [OF assms(1)] by simp_all
  have parse: "parse_identity_ref (''handle:'' @ h) = Inr (HandleRef (lstrip_at h))"
    using assms(2) unfolding parse_prefixes by (auto simp: parse_handle_def lstrip_at_def)
  have "dict_get roster k = Some p \<longleftrightarrow> p \<in> set (roster_people roster) \<and> ps_handle p = k" for k p
  proof
    assume "dict_get roster k = Some p"
    then show "p \<in> set (roster_people roster) \<and> ps_handle p = k"
      using keys(2) map_of_SomeD [of roster k p] by (force simp: roster_people_def)
  next
    assume a: "p \<in> set (roster_people roster) \<and> ps_handle p = k"
    then obtain k' where "(k', p) \<in> set roster" by (auto simp: roster_people_def)
    then have "dict_get roster k' = Some p" using dict_get_value [OF keys(1)] by simp
    then show "dict_get roster k = Some p" using keys(2) [of k' p] a by simp
  qed
  moreover have "resolve_identity roster (''handle:'' @ h) adapter = Inr x \<longleftrightarrow>
      (\<exists>p. dict_get roster (lstrip_at h) = Some p \<and> dict_get (ps_adapters p) adapter = Some x)"
    unfolding resolve_identity_def parse by (simp split: option.splits)
  ultimately show ?thesis by blast
qed

end
