(* ===== verification/Actions.thy ===== *)
theory Actions
  imports Dispatch
begin

text \<open>
  What comes back from the adapters: the action router (\<open>ota_connect/binding/actions.py\<close>), the polling
  loop for inbound email (\<open>inbound_email.py\<close>) and the flattening of a paginated verb
  (\<open>pagination.py\<close>).  The router's audit sink is tagged like an enforcer's; a handler and an adapter's
  \<open>poll_inbound\<close> are functions over the state.  The kind and the routine of a dict an adapter yields are texts.
\<close>

section \<open>Action events\<close>

record ActionEvent =
  av_kind :: string
  av_routine_id :: string
  av_adapter_id :: string
  av_integration_id :: string
  av_payload :: payload
  av_correlation_id :: json

definition KIND_TO_EVENT_TYPE :: "(string, string) dict" where
  "KIND_TO_EVENT_TYPE =
     [(''messaging.action_triggered'', ''integration.messaging.action_triggered''),
      (''email.reply_received'', ''integration.email.reply_received''),
      (''email.bounce_received'', ''integration.email.bounce_received''),
      (''email.delivery_confirmed'', ''integration.email.delivery_confirmed''),
      (''email.auto_response_received'', ''integration.email.auto_response_received'')]"

record 's ActionRouter =
  rt_sink :: enforcer
  rt_principal :: Principal
  rt_handlers :: "(string, ActionEvent \<Rightarrow> ('s, exn, unit) py) dict"

definition register_handler ::
  "string \<Rightarrow> (ActionEvent \<Rightarrow> ('s, exn, unit) py) \<Rightarrow> 's ActionRouter \<Rightarrow> 's ActionRouter" where
  "register_handler rid handler r = r\<lparr>rt_handlers := dict_set rid handler (rt_handlers r)\<rparr>"

definition unregister_handler :: "string \<Rightarrow> 's ActionRouter \<Rightarrow> 's ActionRouter" where
  "unregister_handler rid r = r\<lparr>rt_handlers := dict_pop rid (rt_handlers r)\<rparr>"

definition handler_of :: "'s ActionRouter \<Rightarrow> string \<Rightarrow> (ActionEvent \<Rightarrow> ('s, exn, unit) py) option" where
  "handler_of r rid = dict_get (rt_handlers r) rid"

definition action_call :: "'s ActionRouter \<Rightarrow> string \<Rightarrow> string \<Rightarrow> ActionEvent \<Rightarrow> emit_call" where
  "action_call r event_type trace_id ev =
     emit_for_run event_type (if handler_of r (av_routine_id ev) \<noteq> None then SevInfo else SevWarn) (rt_principal r)
       [(''routine_id'', JStr (av_routine_id ev)), (''adapter_id'', JStr (av_adapter_id ev)),
        (''integration_id'', JStr (av_integration_id ev)), (''correlation_id'', av_correlation_id ev),
        (''delivered'', JBool (handler_of r (av_routine_id ev) \<noteq> None)), (''trace_id'', JStr trace_id)] None"

text \<open>\<open>fresh\<close> is the identifier \<open>ensure_trace_id\<close> draws when none is bound.\<close>

definition dispatch_action ::
  "'w policy_world_scheme ActionRouter \<Rightarrow> string \<Rightarrow> ActionEvent \<Rightarrow> ('w policy_world_scheme, exn, bool) py" where
  "dispatch_action r fresh ev w =
     (case dict_get KIND_TO_EVENT_TYPE (av_kind ev) of
        None \<Rightarrow> (Inl (PyError ''KeyError'' (repr_str (av_kind ev))), w)
      | Some event_type \<Rightarrow>
          (let w1 = audit_emit (rt_sink r) (action_call r event_type (ensure_trace_id fresh w) ev) w
           in case handler_of r (av_routine_id ev) of
                None \<Rightarrow> (Inr False, w1)
              | Some handler \<Rightarrow> try_bind (handler ev) (\<lambda>_. py_return True) w1))"

section \<open>The inbound loop\<close>

record RawInboundEvent =
  ri_kind :: string
  ri_routine_id :: string
  ri_payload :: payload
  ri_correlation_id :: json

record raw_dict =
  rw_kind :: "string option"
  rw_routine_id :: "string option"
  rw_payload :: "payload option"
  rw_correlation_id :: "json option"

datatype raw_item = RawEvent RawInboundEvent | RawDict raw_dict | RawOther string

definition raw_of_dict :: "raw_dict \<Rightarrow> exn + RawInboundEvent" where
  "raw_of_dict d =
     (case rw_kind d of
        None \<Rightarrow> Inl (PyError ''KeyError'' (repr_str ''kind''))
      | Some k \<Rightarrow>
          (case rw_routine_id d of
             None \<Rightarrow> Inl (PyError ''KeyError'' (repr_str ''routine_id''))
           | Some rid \<Rightarrow> Inr \<lparr>ri_kind = k, ri_routine_id = rid,
               ri_payload = (case rw_payload d of None \<Rightarrow> [] | Some p \<Rightarrow> p), ri_correlation_id = (case rw_correlation_id d of None \<Rightarrow> JNull | Some j \<Rightarrow> j)\<rparr>))"

fun raw_events :: "string \<Rightarrow> raw_item list \<Rightarrow> exn + RawInboundEvent list" where
  "raw_events aid [] = Inr []"
| "raw_events aid (item # rest) =
     (case (case item of
              RawEvent ev \<Rightarrow> Inr ev
            | RawDict d \<Rightarrow> raw_of_dict d
            | RawOther t \<Rightarrow> Inl (PyError ''TypeError'' (''adapter '' @ repr_str aid @ '' poll_inbound yielded '' @ t @
                ''; expected RawInboundEvent or dict''))) of
        Inl e \<Rightarrow> Inl e
      | Inr ev \<Rightarrow> (case raw_events aid rest of Inl e \<Rightarrow> Inl e | Inr evs \<Rightarrow> Inr (ev # evs)))"

text \<open>\<open>poll\<close> gives the \<open>poll_inbound\<close> of an adapter, when it has one; it may return \<open>None\<close>.\<close>

type_synonym ('i, 's) poller = "'i \<Rightarrow> ('s, exn, raw_item list option) py option"

definition iter_inbound ::
  "('i, 's) poller \<Rightarrow> 'i LoadedAdapter \<Rightarrow> ('s, exn, RawInboundEvent list) py" where
  "iter_inbound poll la w =
     (case poll (la_impl la) of
        None \<Rightarrow> (Inr [], w)
      | Some p \<Rightarrow>
          (case p w of
             (Inl e, w1) \<Rightarrow> (Inl e, w1)
           | (Inr None, w1) \<Rightarrow> (Inr [], w1)
           | (Inr (Some items), w1) \<Rightarrow> (raw_events (bundle_id (la_bundle la)) items, w1)))"

definition action_event :: "'i LoadedAdapter \<Rightarrow> RawInboundEvent \<Rightarrow> ActionEvent" where
  "action_event la raw =
     \<lparr>av_kind = ri_kind raw, av_routine_id = ri_routine_id raw, av_adapter_id = bundle_id (la_bundle la),
      av_integration_id = loaded_integration la, av_payload = ri_payload raw, av_correlation_id = ri_correlation_id raw\<rparr>"

text \<open>The draws of the identifiers are one stream, read by the number of dispatches made.\<close>

fun deliver_all ::
  "'w policy_world_scheme ActionRouter \<Rightarrow> (nat \<Rightarrow> string) \<Rightarrow> nat \<Rightarrow> ActionEvent list \<Rightarrow> ('w policy_world_scheme, exn, nat) py" where
  "deliver_all r fresh n [] w = (Inr 0, w)"
| "deliver_all r fresh n (ev # evs) w =
     (case dispatch_action r (fresh n) ev w of
        (Inl e, w1) \<Rightarrow> (Inl e, w1)
      | (Inr ok, w1) \<Rightarrow>
          (case deliver_all r fresh (Suc n) evs w1 of
             (Inl e, w2) \<Rightarrow> (Inl e, w2)
           | (Inr k, w2) \<Rightarrow> (Inr ((if ok then 1 else 0) + k), w2)))"

record ('i, 'z) InboundEmailLoop =
  il_registry :: nat
  il_router :: "('i, 'z) dispatch_world_scheme ActionRouter"
  il_adapter_ids :: "string list"

definition poll_adapter ::
  "'i importer \<Rightarrow> ('i, ('i, 'z) dispatch_world_scheme) poller \<Rightarrow> ('i, 'z) InboundEmailLoop \<Rightarrow> (nat \<Rightarrow> string) \<Rightarrow> nat \<Rightarrow> string \<Rightarrow>
   (('i, 'z) dispatch_world_scheme, exn, nat \<times> nat) py" where
  "poll_adapter im poll lp fresh n aid =
     try_bind (load_adapter im (il_registry lp) aid ''email'' ''poll_inbound'') (\<lambda>la.
     try_bind (iter_inbound poll la) (\<lambda>raws.
     try_bind (deliver_all (il_router lp) fresh n (map (action_event la) raws)) (\<lambda>k.
     py_return (k, n + length raws))))"

fun tick_adapters ::
  "'i importer \<Rightarrow> ('i, ('i, 'z) dispatch_world_scheme) poller \<Rightarrow> ('i, 'z) InboundEmailLoop \<Rightarrow> (nat \<Rightarrow> string) \<Rightarrow> nat \<Rightarrow> string list \<Rightarrow>
   (('i, 'z) dispatch_world_scheme, exn, nat) py" where
  "tick_adapters im poll lp fresh n [] = py_return 0"
| "tick_adapters im poll lp fresh n (aid # aids) =
     try_bind (poll_adapter im poll lp fresh n aid) (\<lambda>(k, n').
     try_bind (tick_adapters im poll lp fresh n' aids) (\<lambda>k'. py_return (k + k')))"

definition tick_once ::
  "'i importer \<Rightarrow> ('i, ('i, 'z) dispatch_world_scheme) poller \<Rightarrow> ('i, 'z) InboundEmailLoop \<Rightarrow> (nat \<Rightarrow> string) \<Rightarrow>
   (('i, 'z) dispatch_world_scheme, exn, nat) py" where
  "tick_once im poll lp fresh = tick_adapters im poll lp fresh 0 (il_adapter_ids lp)"

text \<open>The loop makes a tick until it is stopped, here after \<open>n\<close> rounds; an exception of a tick is logged
  and swallowed.\<close>

primrec inbound_rounds ::
  "'i importer \<Rightarrow> ('i, ('i, 'z) dispatch_world_scheme) poller \<Rightarrow> ('i, 'z) InboundEmailLoop \<Rightarrow> (nat \<Rightarrow> nat \<Rightarrow> string) \<Rightarrow> nat \<Rightarrow>
   ('i, 'z) dispatch_world_scheme \<Rightarrow> ('i, 'z) dispatch_world_scheme" where
  "inbound_rounds im poll lp fresh 0 w = w"
| "inbound_rounds im poll lp fresh (Suc n) w =
     inbound_rounds im poll lp fresh n (snd (tick_once im poll lp (fresh n) w))"

section \<open>Pages\<close>

record 't Page =
  pg_items :: "'t list"
  pg_next_cursor :: "string option"

text \<open>The generator run to its end: the items it yielded, and the exception that ended it, if any.\<close>

partial_function (option) iter_pages ::
  "(string option \<Rightarrow> ('s, exn, 't Page) py) \<Rightarrow> string option \<Rightarrow> 's \<Rightarrow> (('t list \<times> exn option) \<times> 's) option" where
  "iter_pages verb cursor w =
     (case verb cursor w of
        (Inl e, w1) \<Rightarrow> Some (([], Some e), w1)
      | (Inr page, w1) \<Rightarrow>
          (case pg_next_cursor page of
             None \<Rightarrow> Some ((pg_items page, None), w1)
           | Some c \<Rightarrow>
               Option.bind (iter_pages verb (Some c) w1)
                 (\<lambda>((items, e), w2). Some ((pg_items page @ items, e), w2))))"

definition iter_all ::
  "(string option \<Rightarrow> payload \<Rightarrow> ('s, exn, 't Page) py) \<Rightarrow> payload \<Rightarrow> 's \<Rightarrow> (('t list \<times> exn option) \<times> 's) option" where
  "iter_all verb kwargs w =
     (case dict_get kwargs ''cursor'' of
        Some c \<Rightarrow> Some (([], Some (PyError ''TypeError''
          (''iter_all manages the cursor; do not pass `cursor=` (got '' @ py_repr c @ '')''))), w)
      | None \<Rightarrow> iter_pages (\<lambda>c. verb c kwargs) None w)"

interpretation handlers: keyed_store handler_of register_handler "\<lambda>r. True" unregister_handler
  by unfold_locales (simp_all add: handler_of_def register_handler_def unregister_handler_def dict_simps)

end
