(* ===== verification/Action_Properties.thy ===== *)
theory Action_Properties
  imports Actions
begin

text \<open>
  Pagination returns exactly when the chain of cursors ends, with every item once; an exception of one
  handler drops the events polled after it.
\<close>

section \<open>Pages\<close>

text \<open>A verb whose pages depend on the cursor only, and the cursors its pages lead to from \<open>c\<close>.\<close>

definition paged :: "(string option \<Rightarrow> 't Page) \<Rightarrow> string option \<Rightarrow> payload \<Rightarrow> ('s, exn, 't Page) py" where
  "paged pages c kwargs w = (Inr (pages c), w)"

primrec cursor_at :: "(string option \<Rightarrow> 't Page) \<Rightarrow> string option \<Rightarrow> nat \<Rightarrow> string option option" where
  "cursor_at pages c 0 = Some c"
| "cursor_at pages c (Suc n) =
     (case pg_next_cursor (pages c) of None \<Rightarrow> None | Some d \<Rightarrow> cursor_at pages (Some d) n)"

definition pages_until :: "(string option \<Rightarrow> 't Page) \<Rightarrow> string option \<Rightarrow> nat \<Rightarrow> 't list" where
  "pages_until pages c n = concat (map (\<lambda>k. pg_items (pages (the (cursor_at pages c k)))) [0..<Suc n])"

definition ends_at :: "(string option \<Rightarrow> 't Page) \<Rightarrow> string option \<Rightarrow> nat \<Rightarrow> bool" where
  "ends_at pages c n \<longleftrightarrow> (\<exists>d. cursor_at pages c n = Some d \<and> pg_next_cursor (pages d) = None)"

lemma ends_at_0: "ends_at pages c 0 \<longleftrightarrow> pg_next_cursor (pages c) = None"
  by (simp add: ends_at_def)

lemma ends_at_Suc: "pg_next_cursor (pages c) = Some d \<Longrightarrow> ends_at pages c (Suc n) \<longleftrightarrow> ends_at pages (Some d) n"
  by (simp add: ends_at_def)

lemma pages_until_Suc:
  assumes "pg_next_cursor (pages c) = Some d"
  shows "pages_until pages c (Suc n) = pg_items (pages c) @ pages_until pages (Some d) n"
proof -
  have "[0..<Suc (Suc n)] = 0 # map Suc [0..<Suc n]" by (simp add: upt_conv_Cons map_Suc_upt del: upt_Suc)
  then show ?thesis using assms by (simp add: pages_until_def comp_def del: upt_Suc)
qed

lemma iter_pages_step:
  "iter_pages (\<lambda>c. paged pages c kw) c w =
     (case pg_next_cursor (pages c) of
        None \<Rightarrow> Some ((pg_items (pages c), None), w)
      | Some d \<Rightarrow> Option.bind (iter_pages (\<lambda>c. paged pages c kw) (Some d) w)
          (\<lambda>((items, e), w2). Some ((pg_items (pages c) @ items, e), w2)))"
  by (subst iter_pages.simps) (simp add: paged_def)

lemma iter_pages_ends:
  "ends_at pages c n \<Longrightarrow> iter_pages (\<lambda>c. paged pages c kw) c w = Some ((pages_until pages c n, None), w)"
proof (induction n arbitrary: c)
  case 0
  then show ?case by (subst iter_pages_step) (simp add: ends_at_0 pages_until_def)
next
  case (Suc n)
  show ?case
  proof (cases "pg_next_cursor (pages c)")
    case None
    then show ?thesis using Suc.prems by (simp add: ends_at_def)
  next
    case (Some d)
    then have "iter_pages (\<lambda>c. paged pages c kw) (Some d) w = Some ((pages_until pages (Some d) n, None), w)"
      using Suc by (simp add: ends_at_Suc)
    then show ?thesis using Some by (subst iter_pages_step) (simp add: pages_until_Suc)
  qed
qed

lemma iter_pages_returns:
  fixes w :: 's and pages :: "string option \<Rightarrow> 't Page"
  assumes "iter_pages (\<lambda>c. paged pages c kw) c w = Some out"
  shows "\<exists>n. ends_at pages c n"
proof -
  let ?verb = "\<lambda>c. paged pages c kw :: ('s, exn, 't Page) py"
  have "?verb = ?verb \<longrightarrow> (\<exists>n. ends_at pages c n)"
  proof (rule iter_pages.raw_induct [OF _ assms, where P = "\<lambda>verb c w out. verb = ?verb \<longrightarrow> (\<exists>n. ends_at pages c n)"],
      rule impI, goal_cases)
    case (1 iter verb c w out)
    show ?case
    proof (cases "pg_next_cursor (pages c)")
      case None
      then have "ends_at pages c 0" by (simp add: ends_at_0)
      then show ?thesis ..
    next
      case (Some d)
      then obtain o2 where "iter verb (Some d) w = Some o2"
        using 1(2,3) by (auto simp: paged_def bind_eq_Some_conv)
      then obtain n where "ends_at pages (Some d) n" using 1(1) [of verb "Some d" w o2] 1(3) by blast
      then have "ends_at pages c (Suc n)" using Some by (simp add: ends_at_Suc)
      then show ?thesis ..
    qed
  qed
  then show ?thesis by simp
qed

text \<open>Flattening a paginated verb returns exactly when the chain of its cursors ends, and then with the
  items of every page of the chain, in order, each once; a chain that comes back to an earlier cursor is
  followed for ever.  A caller that passes its own cursor is rejected before the verb is called.\<close>

theorem iter_all_exact:
  assumes "dict_get kwargs ''cursor'' = None"
  shows "(iter_all (paged pages) kwargs w = Some (out, w') \<longleftrightarrow>
      (\<exists>n. ends_at pages None n \<and> out = (pages_until pages None n, None) \<and> w' = w))
    \<and> (iter_all (paged pages) kwargs w = None \<longleftrightarrow> (\<forall>n. cursor_at pages None n \<noteq> None))"
proof -
  have run: "iter_all (paged pages) kwargs w = iter_pages (\<lambda>c. paged pages c kwargs) None w"
    using assms by (simp add: iter_all_def)
  have never: "(\<forall>n. cursor_at pages c n \<noteq> None) \<longleftrightarrow> (\<nexists>n. ends_at pages c n)" for c
  proof
    assume live: "\<forall>n. cursor_at pages c n \<noteq> None"
    have "cursor_at pages c (Suc n) = None" if "ends_at pages c n" for n
      using that
    proof (induction n arbitrary: c)
      case (Suc n)
      then show ?case by (cases "pg_next_cursor (pages c)") (simp_all add: ends_at_def)
    qed (simp add: ends_at_def)
    then show "\<nexists>n. ends_at pages c n" using live by blast
  next
    assume go: "\<nexists>n. ends_at pages c n"
    have "cursor_at pages c n \<noteq> None" if "\<nexists>n. ends_at pages c n" for c n
      using that
    proof (induction n arbitrary: c)
      case (Suc n)
      then obtain d where d: "pg_next_cursor (pages c) = Some d" using ends_at_0 by (metis not_None_eq)
      then have "\<nexists>n. ends_at pages (Some d) n" using Suc.prems ends_at_Suc by blast
      then show ?case using Suc.IH d by simp
    qed simp
    then show "\<forall>n. cursor_at pages c n \<noteq> None" using go by blast
  qed
  show ?thesis
  proof (cases "\<exists>n. ends_at pages None n")
    case True
    then obtain n where "ends_at pages None n" ..
    note n = iter_pages_ends [OF this, of kwargs w]
    have "pages_until pages None m = pages_until pages None n" if "ends_at pages None m" for m
      using iter_pages_ends [OF that, of kwargs w] n by simp
    then show ?thesis using n True unfolding run never by (auto simp: iter_pages_ends)
  next
    case False
    then have "iter_pages (\<lambda>c. paged pages c kwargs) None w = None"
      using iter_pages_returns [of pages kwargs None w] by (metis not_None_eq)
    then show ?thesis using False unfolding run never by simp
  qed
qed

definition ex_pages :: "string option \<Rightarrow> nat Page" where
  "ex_pages c = (if c = None then \<lparr>pg_items = [1, 2], pg_next_cursor = Some ''p2''\<rparr>
     else \<lparr>pg_items = [3], pg_next_cursor = None\<rparr>)"

lemma iter_all_exact_witness: "iter_all (paged ex_pages) [] (0::nat) = Some (([1, 2, 3], None), 0)"
proof -
  have "ends_at ex_pages None 1 \<and> ([1, 2, 3], None) = (pages_until ex_pages None 1, None) \<and> (0::nat) = 0"
    by (simp add: ends_at_def ex_pages_def pages_until_def)
  then show ?thesis using iter_all_exact [of "[]" ex_pages "0::nat" "([1, 2, 3], None)" 0] by (simp del: One_nat_def) blast
qed

section \<open>Inbound events\<close>

lemma deliver_all_append:
  "deliver_all r fresh n (evs @ evs') w =
     (case deliver_all r fresh n evs w of
        (Inl e, w1) \<Rightarrow> (Inl e, w1)
      | (Inr k, w1) \<Rightarrow>
          (case deliver_all r fresh (n + length evs) evs' w1 of
             (Inl e, w2) \<Rightarrow> (Inl e, w2) | (Inr k', w2) \<Rightarrow> (Inr (k + k'), w2)))"
  by (induction r fresh n evs w rule: deliver_all.induct) (auto split: prod.splits sum.splits)

text \<open>The events polled after one whose handler raises are neither audited nor delivered, whatever they are.\<close>

theorem failing_handler_drops_events:
  assumes "deliver_all r fresh n evs w = (Inl e, w1)"
  shows "deliver_all r fresh n (evs @ later) w = (Inl e, w1)"
  using assms by (simp add: deliver_all_append)

text \<open>When every handler returns and leaves the audit trail alone, each event is audited once, in order, and
  the count is the number of events that had a handler.\<close>

lemma deliver_all_audits:
  assumes "\<And>rid h ev w. handler_of r rid = Some h \<Longrightarrow> \<exists>w'. h ev w = (Inr (), w') \<and> pw_audit w' = pw_audit w"
    and "\<forall>ev \<in> set evs. dict_has KIND_TO_EVENT_TYPE (av_kind ev)"
  shows "\<exists>w'. deliver_all r fresh n evs w = (Inr (length (filter (\<lambda>ev. handler_of r (av_routine_id ev) \<noteq> None) evs)), w')
    \<and> map (\<lambda>x. em_event_type (snd (snd x))) (drop (length (pw_audit w)) (pw_audit w'))
        = map (\<lambda>ev. the (dict_get KIND_TO_EVENT_TYPE (av_kind ev))) evs
    \<and> take (length (pw_audit w)) (pw_audit w') = pw_audit w"
  using assms(2)
proof (induction evs arbitrary: n w)
  case (Cons ev evs)
  obtain et where et: "dict_get KIND_TO_EVENT_TYPE (av_kind ev) = Some et" using Cons.prems by auto
  have "\<exists>w1 x. dispatch_action r (fresh n) ev w = (Inr (handler_of r (av_routine_id ev) \<noteq> None), w1)
      \<and> pw_audit w1 = pw_audit w @ [x] \<and> em_event_type (snd (snd x)) = et"
  proof (cases "handler_of r (av_routine_id ev)")
    case None
    then show ?thesis by (simp add: dispatch_action_def et Let_def action_call_def emit_for_run_def)
  next
    case (Some h)
    let ?w1 = "audit_emit (rt_sink r) (action_call r et (ensure_trace_id (fresh n) w) ev) w"
    obtain w2 where "h ev ?w1 = (Inr (), w2)" "pw_audit w2 = pw_audit ?w1" using assms(1) [OF Some] by blast
    then show ?thesis
      using Some by (simp add: dispatch_action_def et Let_def try_bind_def py_return_def action_call_def emit_for_run_def)
  qed
  then obtain w1 x where w1: "dispatch_action r (fresh n) ev w = (Inr (handler_of r (av_routine_id ev) \<noteq> None), w1)"
    "pw_audit w1 = pw_audit w @ [x]" "em_event_type (snd (snd x)) = et" by blast
  obtain w2 where w2: "deliver_all r fresh (Suc n) evs w1 =
      (Inr (length (filter (\<lambda>ev. handler_of r (av_routine_id ev) \<noteq> None) evs)), w2)"
    "map (\<lambda>x. em_event_type (snd (snd x))) (drop (length (pw_audit w1)) (pw_audit w2)) =
       map (\<lambda>ev. the (dict_get KIND_TO_EVENT_TYPE (av_kind ev))) evs"
    "take (length (pw_audit w1)) (pw_audit w2) = pw_audit w1"
    using Cons.IH [of "Suc n" w1] Cons.prems by auto
  obtain ys where "pw_audit w2 = pw_audit w1 @ ys"
    using w2(3) by (metis append_take_drop_id)
  then show ?case using w1 w2 et by simp
qed simp

end
