(* ===== verification/OAuth.thy ===== *)
theory OAuth
  imports Secrets Cron
begin

text \<open>
  OAuth tokens: \<open>ota_core/oauth/client.py\<close> and \<open>token_store.py\<close> over a secrets provider.  The state
  \<open>oauth_world\<close> holds the provider, the forms posted to the token endpoint, oldest first, and the number
  of clock readings made.  The endpoint's answers, the clock, the URL encoding and the drawn state are
  parameters.  A token is the JSON value the endpoint sent (nothing checks its type).  A stored secret
  whose fields have other types than the store writes is outside the model: \<open>outside_model\<close>.  A long
  dash in a message is written as a hyphen.
\<close>

section \<open>Data\<close>

record TokenRecord =
  tk_access_token :: json
  tk_refresh_token :: "json option"
  tk_token_type :: json
  tk_expires_at :: "instant option"
  tk_granted_scopes :: "string list"
  tk_extra :: payload

datatype post_answer = PostFails exn | Answer int string "exn + json"

record oauth_env =
  oe_vault :: vault_env
  oe_clock :: "nat \<Rightarrow> instant"
  oe_endpoint :: "nat \<Rightarrow> (string, json) dict \<Rightarrow> post_answer"
  oe_urlencode :: "(string, string) dict \<Rightarrow> string"
  oe_disk :: "nat \<Rightarrow> disk_failure option"

record oauth_world =
  ow_provider :: provider
  ow_posts :: "(string, json) dict list"
  ow_reads :: nat

record OAuthClient =
  oc_provider :: string
  oc_integration_id :: string
  oc_client_id :: string
  oc_client_secret :: string
  oc_auth_url :: string
  oc_redirect_uri :: string
  oc_scopes :: "string list"
  oc_refresh_grace :: int

definition oauth_now :: "oauth_env \<Rightarrow> oauth_world \<Rightarrow> instant \<times> oauth_world" where
  "oauth_now env w = (oe_clock env (ow_reads w), w\<lparr>ow_reads := ow_reads w + 1\<rparr>)"

definition oauth_error :: "OAuthClient \<Rightarrow> string \<Rightarrow> string \<Rightarrow> exn" where
  "oauth_error c kind msg = PyError ''OAuthError'' (''['' @ oc_provider c @ ''] '' @ kind @ '': '' @ msg)"

definition outside_model :: exn where
  "outside_model = PyError ''OutsideModel'' []"

section \<open>The token store\<close>

text \<open>The order of the fields is that of the dataclass.\<close>

definition token_as_dict :: "vault_env \<Rightarrow> TokenRecord \<Rightarrow> payload" where
  "token_as_dict env t =
     [(''access_token'', tk_access_token t), (''refresh_token'', case tk_refresh_token t of None \<Rightarrow> JNull | Some r \<Rightarrow> r),
      (''token_type'', tk_token_type t),
      (''expires_at'', case tk_expires_at t of None \<Rightarrow> JNull | Some x \<Rightarrow> JStr (ve_iso env x)),
      (''granted_scopes'', JStrs (tk_granted_scopes t)), (''extra'', JObj (tk_extra t))]"

definition or_default :: "json option \<Rightarrow> json \<Rightarrow> json" where
  "or_default j dflt = (case j of None \<Rightarrow> dflt | Some v \<Rightarrow> if falsy v then dflt else v)"

definition token_from_dict :: "vault_env \<Rightarrow> payload \<Rightarrow> exn + TokenRecord" where
  "token_from_dict env raw =
     (case expires_field env (dict_get raw ''expires_at'') of
        Inl msg \<Rightarrow> Inl (PyError ''ValueError'' msg)
      | Inr expires \<Rightarrow>
          (case dict_get raw ''access_token'' of
             None \<Rightarrow> Inl (PyError ''KeyError'' (repr_str ''access_token''))
           | Some access \<Rightarrow>
               (case (or_default (dict_get raw ''granted_scopes'') (JArr []), or_default (dict_get raw ''extra'') (JObj [])) of
                  (JArr xs, JObj extra) \<Rightarrow>
                    (case json_strings xs of
                       None \<Rightarrow> Inl outside_model
                     | Some scopes \<Rightarrow> Inr \<lparr>tk_access_token = access,
                         tk_refresh_token = (case dict_get raw ''refresh_token'' of None \<Rightarrow> None | Some JNull \<Rightarrow> None | Some r \<Rightarrow> Some r),
                         tk_token_type = dict_get_or raw ''token_type'' (JStr ''Bearer''), tk_expires_at = expires,
                         tk_granted_scopes = scopes, tk_extra = extra\<rparr>)
                | _ \<Rightarrow> Inl outside_model)))"

definition is_not_found :: "exn \<Rightarrow> bool" where
  "is_not_found e \<longleftrightarrow> exc_class e = ''CredentialNotFoundError''"

definition token_get :: "oauth_env \<Rightarrow> string \<Rightarrow> string option \<Rightarrow> (oauth_world, exn, TokenRecord option) py" where
  "token_get env iid rid w =
     (case oauth_now env w of (now, w1) \<Rightarrow>
       (case fetch_credential iid rid [] now (ow_provider w) of
          Inl e \<Rightarrow> (if is_not_found e then (Inr None, w) else (Inl e, w1))
        | Inr c \<Rightarrow>
            if cr_style c \<noteq> ''oauth2'' then (Inr None, w1)
            else (case token_from_dict (oe_vault env) (cr_secret c) of
                    Inl e \<Rightarrow> (Inl e, w1) | Inr t \<Rightarrow> (Inr (Some t), w1))))"

definition token_put :: "oauth_env \<Rightarrow> string \<Rightarrow> string option \<Rightarrow> TokenRecord \<Rightarrow> (oauth_world, exn, Credential) py" where
  "token_put env iid rid t w =
     (case oauth_now env w of (now, w1) \<Rightarrow>
       (let c = \<lparr>cr_integration_id = iid, cr_routine_id = rid, cr_style = ''oauth2'',
              cr_granted_scopes = tk_granted_scopes t, cr_secret = token_as_dict (oe_vault env) t,
              cr_rotated_at = now, cr_expires_at = tk_expires_at t\<rparr>
        in case store_credential (oe_vault env) (oe_disk env (ow_reads w1)) c (ow_provider w1) of
             (Inl e, p) \<Rightarrow> (Inl e, w1\<lparr>ow_provider := p\<rparr>)
           | (Inr _, p) \<Rightarrow> (Inr c, w1\<lparr>ow_provider := p\<rparr>)))"

definition token_revoke :: "oauth_env \<Rightarrow> string \<Rightarrow> string option \<Rightarrow> (oauth_world, exn, unit) py" where
  "token_revoke env iid rid w =
     (case revoke_credential (oe_vault env) (oe_disk env (ow_reads w)) iid rid (ow_provider w) of
        (Inl e, p) \<Rightarrow> ((if is_not_found e then Inr () else Inl e), w\<lparr>ow_provider := p\<rparr>)
      | (Inr _, p) \<Rightarrow> (Inr (), w\<lparr>ow_provider := p\<rparr>))"

section \<open>The authorization URL\<close>

record AuthorizationRequest =
  aq_url :: string
  aq_state :: string

definition build_auth_url :: "oauth_env \<Rightarrow> OAuthClient \<Rightarrow> (string, string) dict \<Rightarrow> string \<Rightarrow> AuthorizationRequest" where
  "build_auth_url env c extra_params state =
     (let params = dict_merge
        [(''response_type'', ''code''), (''client_id'', oc_client_id c), (''redirect_uri'', oc_redirect_uri c),
         (''scope'', join '' '' (oc_scopes c)), (''state'', state)] extra_params
      in \<lparr>aq_url = oc_auth_url c @ ''?'' @ oe_urlencode env params, aq_state = state\<rparr>)"

section \<open>The token endpoint\<close>

definition no_attribute :: "json \<Rightarrow> string \<Rightarrow> exn" where
  "no_attribute j name = PyError ''AttributeError''
     (repr_str (json_type_name j) @ '' object has no attribute '' @ repr_str name)"

text \<open>\<open>"error" in data\<close> of a value that is not iterable.\<close>

definition not_iterable :: "json \<Rightarrow> exn" where
  "not_iterable j = PyError ''TypeError'' (''argument of type '' @ repr_str (json_type_name j) @ '' is not iterable'')"

definition iterable :: "json \<Rightarrow> bool" where
  "iterable j = (case j of JStr _ \<Rightarrow> True | JArr _ \<Rightarrow> True | JObj _ \<Rightarrow> True | _ \<Rightarrow> False)"

definition json_text :: "json \<Rightarrow> string" where
  "json_text j = (case j of JStr s \<Rightarrow> s | _ \<Rightarrow> py_repr j)"

text \<open>A body that is JSON but no mapping fails later, at the first \<open>get\<close>.\<close>

definition check_answer :: "OAuthClient \<Rightarrow> post_answer \<Rightarrow> exn + payload" where
  "check_answer c answer =
     (case answer of
        PostFails e \<Rightarrow> Inl e
      | Answer status body parsed \<Rightarrow>
          if status \<noteq> 200
          then Inl (oauth_error c ''http_error'' (''token endpoint returned HTTP '' @ int_str status @ '': '' @ take 500 body))
          else (case parsed of
                  Inl e \<Rightarrow> Inl (oauth_error c ''bad_response'' (''token response was not JSON: '' @ take 200 body))
                | Inr (JObj d) \<Rightarrow>
                    (case dict_get d ''error'' of
                       None \<Rightarrow> Inr d
                     | Some err \<Rightarrow> Inl (oauth_error c ''provider_error''
                         (''provider returned error: '' @ json_text (or_default (dict_get d ''error_description'') err))))
                | Inr j \<Rightarrow> Inl (if iterable j then no_attribute j ''get'' else not_iterable j)))"

definition post_token :: "oauth_env \<Rightarrow> OAuthClient \<Rightarrow> (string, json) dict \<Rightarrow> (oauth_world, exn, payload) py" where
  "post_token env c body w =
     (check_answer c (oe_endpoint env (length (ow_posts w)) body), w\<lparr>ow_posts := ow_posts w @ [body]\<rparr>)"

definition TOKEN_BASE_FIELDS :: "string list" where
  "TOKEN_BASE_FIELDS = [''access_token'', ''refresh_token'', ''token_type'', ''expires_in'', ''scope'']"

text \<open>\<open>int(expires_in)\<close>: a text is read, a float truncated toward zero.\<close>

definition trunc_dec :: "int \<Rightarrow> int \<Rightarrow> int" where
  "trunc_dec cf e = (if e \<ge> 0 then cf * 10 ^ nat e else sgn cf * (\<bar>cf\<bar> div 10 ^ nat (- e)))"

definition int_of_json :: "json \<Rightarrow> exn + int" where
  "int_of_json j =
     (case j of
        JInt i \<Rightarrow> Inr i
      | JBool b \<Rightarrow> Inr (if b then 1 else 0)
      | JNum cf e \<Rightarrow> Inr (trunc_dec cf e)
      | JStr s \<Rightarrow>
          (case py_int s of Some i \<Rightarrow> Inr i
           | None \<Rightarrow> Inl (PyError ''ValueError'' (''invalid literal for int() with base 10: '' @ repr_str s)))
      | _ \<Rightarrow> Inl (PyError ''TypeError'' (''int() argument must be a string, a bytes-like object or a real number, not '' @
          repr_str (json_type_name j))))"

definition access_field :: "payload \<Rightarrow> exn + json option" where
  "access_field d =
     (case dict_get d ''access_token'' of
        Some a \<Rightarrow>
          if \<not> falsy a then Inr (Some a)
          else (case dict_get_or d ''authed_user'' (JObj []) of
                  JObj u \<Rightarrow> Inr (dict_get u ''access_token'') | j \<Rightarrow> Inl (no_attribute j ''get''))
      | None \<Rightarrow> (case dict_get_or d ''authed_user'' (JObj []) of
                  JObj u \<Rightarrow> Inr (dict_get u ''access_token'') | j \<Rightarrow> Inl (no_attribute j ''get'')))"

definition replace_with :: "char \<Rightarrow> char \<Rightarrow> string \<Rightarrow> string" where
  "replace_with a b s = map (\<lambda>x. if x = a then b else x) s"

definition scope_list :: "json \<Rightarrow> exn + string list" where
  "scope_list j =
     (if falsy j then Inr []
      else (case j of JStr s \<Rightarrow> Inr (split_ws (replace_with (CHR '','') (CHR '' '') s)) | _ \<Rightarrow> Inl (no_attribute j ''replace'')))"

text \<open>The clock is read only when the answer carries \<open>expires_in\<close>.\<close>

definition expiry :: "oauth_env \<Rightarrow> json option \<Rightarrow> (oauth_world, exn, instant option) py" where
  "expiry env expires_in w =
     (case expires_in of
        None \<Rightarrow> (Inr None, w)
      | Some JNull \<Rightarrow> (Inr None, w)
      | Some j \<Rightarrow>
          (case oauth_now env w of (now, w1) \<Rightarrow>
            (case int_of_json j of
               Inl e \<Rightarrow> (Inl e, w1)
             | Inr s \<Rightarrow> (Inr (Some (now + s * 1000000)), w1))))"

definition parse_token_response ::
  "oauth_env \<Rightarrow> OAuthClient \<Rightarrow> payload \<Rightarrow> (oauth_world, exn, TokenRecord) py" where
  "parse_token_response env c d w =
     (case access_field d of
        Inl e \<Rightarrow> (Inl e, w)
      | Inr access \<Rightarrow>
          if falsy (case access of None \<Rightarrow> JNull | Some a \<Rightarrow> a)
          then (Inl (oauth_error c ''missing_token'' ''missing access_token in response''), w)
          else try_bind (expiry env (dict_get d ''expires_in''))
            (\<lambda>expires w1.
               (case scope_list (or_default (dict_get d ''scope'') (JStr [])) of
                  Inl e \<Rightarrow> (Inl e, w1)
                | Inr scopes \<Rightarrow>
                    (Inr \<lparr>tk_access_token = (case access of None \<Rightarrow> JNull | Some a \<Rightarrow> a),
                       tk_refresh_token = (case dict_get d ''refresh_token'' of None \<Rightarrow> None
                          | Some r \<Rightarrow> if falsy r then None else Some r),
                       tk_token_type = dict_get_or d ''token_type'' (JStr ''Bearer''), tk_expires_at = expires,
                       tk_granted_scopes = scopes, tk_extra = filter (\<lambda>kv. fst kv \<notin> set TOKEN_BASE_FIELDS) d\<rparr>, w1))) w)"

section \<open>The flow\<close>

definition persist_token :: "oauth_env \<Rightarrow> OAuthClient \<Rightarrow> string option \<Rightarrow> TokenRecord \<Rightarrow> (oauth_world, exn, TokenRecord) py" where
  "persist_token env c rid t = try_bind (token_put env (oc_integration_id c) rid t) (\<lambda>_. py_return t)"

definition exchange_code ::
  "oauth_env \<Rightarrow> OAuthClient \<Rightarrow> string \<Rightarrow> string \<Rightarrow> string \<Rightarrow> string option \<Rightarrow> (oauth_world, exn, TokenRecord) py" where
  "exchange_code env c code received_state expected_state rid =
     (if received_state \<noteq> expected_state
      then py_raise (oauth_error c ''state'' ''state mismatch - possible CSRF or replayed callback'')
      else try_bind (post_token env c
          [(''grant_type'', JStr ''authorization_code''), (''code'', JStr code), (''redirect_uri'', JStr (oc_redirect_uri c)),
           (''client_id'', JStr (oc_client_id c)), (''client_secret'', JStr (oc_client_secret c))])
        (\<lambda>d. try_bind (parse_token_response env c d) (persist_token env c rid)))"

definition carry_over :: "TokenRecord \<Rightarrow> json \<Rightarrow> TokenRecord \<Rightarrow> TokenRecord" where
  "carry_over current old_refresh t =
     (if tk_refresh_token t \<noteq> None then t
      else t\<lparr>tk_refresh_token := Some old_refresh,
             tk_granted_scopes := (if tk_granted_scopes t \<noteq> [] then tk_granted_scopes t else tk_granted_scopes current)\<rparr>)"

definition refresh_token :: "oauth_env \<Rightarrow> OAuthClient \<Rightarrow> string option \<Rightarrow> (oauth_world, exn, TokenRecord) py" where
  "refresh_token env c rid =
     try_bind (token_get env (oc_integration_id c) rid) (\<lambda>current.
       (case current of
          None \<Rightarrow> py_raise (oauth_error c ''no_refresh_token'' ''no refresh_token on file; re-authorize required'')
        | Some cur \<Rightarrow>
            (case tk_refresh_token cur of
               None \<Rightarrow> py_raise (oauth_error c ''no_refresh_token'' ''no refresh_token on file; re-authorize required'')
             | Some r \<Rightarrow>
                 if falsy r
                 then py_raise (oauth_error c ''no_refresh_token'' ''no refresh_token on file; re-authorize required'')
                 else try_bind (post_token env c
                     [(''grant_type'', JStr ''refresh_token''), (''refresh_token'', r),
                      (''client_id'', JStr (oc_client_id c)), (''client_secret'', JStr (oc_client_secret c))])
                   (\<lambda>d. try_bind (parse_token_response env c d)
                     (\<lambda>t. persist_token env c rid (carry_over cur r t))))))"

definition access_token :: "oauth_env \<Rightarrow> OAuthClient \<Rightarrow> string option \<Rightarrow> (oauth_world, exn, json) py" where
  "access_token env c rid =
     try_bind (token_get env (oc_integration_id c) rid) (\<lambda>record.
       (case record of
          None \<Rightarrow> py_raise (oauth_error c ''not_authorized'' (''no token stored - run authorization flow first''))
        | Some t \<Rightarrow>
            (case tk_expires_at t of
               None \<Rightarrow> py_return (tk_access_token t)
             | Some x \<Rightarrow> (\<lambda>w.
                 (case oauth_now env w of (now, w1) \<Rightarrow>
                   if x - now \<le> oc_refresh_grace c * 1000000
                   then try_bind (refresh_token env c rid) (\<lambda>t'. py_return (tk_access_token t')) w1
                   else (Inr (tk_access_token t), w1))))))"

end
