(* ===== verification/OAuth_Properties.thy ===== *)
theory OAuth_Properties
  imports OAuth Secrets_Properties
begin

text \<open>
  A token that is stored is read back as it was until it expires; from then on neither reading nor
  refreshing it is possible, because the provider refuses to hand out an expired credential.
\<close>

lemma scopes_round [simp]: "or_default (Some (JStrs ss)) (JArr []) = JStrs ss"
  by (cases ss) (simp_all add: or_default_def falsy_def JStrs_def)

lemma extra_round [simp]: "or_default (Some (JObj d)) (JObj []) = JObj d"
  by (simp add: or_default_def falsy_def)

text \<open>A token the parser can make: the refresh token is a value, not \<open>None\<close> in a box.\<close>

definition token_ok :: "TokenRecord \<Rightarrow> bool" where
  "token_ok t \<longleftrightarrow> tk_refresh_token t \<noteq> Some JNull"

lemma token_dict_round_trip:
  assumes "vault_laws env" "token_ok t"
  shows "token_from_dict env (token_as_dict env t) = Inr t"
proof -
  have iso: "\<And>x. ve_from_iso env (ve_iso env x) = Inr x" "\<And>x. ve_iso env x \<noteq> []"
    using assms(1) by (simp_all add: vault_laws_def)
  have expires: "expires_field env (Some (case tk_expires_at t of None \<Rightarrow> JNull | Some x \<Rightarrow> JStr (ve_iso env x))) =
      Inr (tk_expires_at t)"
    by (cases "tk_expires_at t") (simp_all add: expires_field_def falsy_def iso_field_def iso)
  show ?thesis
  proof (cases "tk_refresh_token t")
    case None
    then show ?thesis by (simp add: token_from_dict_def token_as_dict_def expires) (simp add: JStrs_def dict_get_or_def)
  next
    case (Some r)
    then show ?thesis
      using assms(2) by (cases r) (simp_all add: token_ok_def token_from_dict_def token_as_dict_def expires, simp_all add: JStrs_def dict_get_or_def)
  qed
qed

section \<open>Reading a stored token\<close>

lemma token_put_stores:
  assumes "token_put env iid rid t w = (Inr c, w1)"
  shows "dict_get (pv_store (ow_provider w1)) (credential_key iid rid) = Some c \<and> cr_style c = ''oauth2'' \<and>
    cr_secret c = token_as_dict (oe_vault env) t \<and> cr_expires_at c = tk_expires_at t \<and> ow_posts w1 = ow_posts w"
  using assms
  by (auto simp: token_put_def oauth_now_def store_credential_def persist_def Let_def key_of_def dict_simps
      split: prod.splits sum.splits option.splits if_splits disk_failure.splits)

text \<open>A token put into the store is read back field by field by the next read of the same integration
  and routine while it has not expired; from its expiry on that read raises.\<close>

theorem stored_token_round_trip:
  assumes "vault_laws (oe_vault env)" "token_ok t" "token_put env iid rid t w = (Inr c, w1)"
  shows "fst (token_get env iid rid w1) =
    (if \<exists>x. tk_expires_at t = Some x \<and> x \<le> oe_clock env (ow_reads w1)
     then Inl (credential_expired (cr_integration_id c) (cr_routine_id c)) else Inr (Some t))"
proof -
  note put = token_put_stores [OF assms(3)]
  have "fetch_credential iid rid [] (oe_clock env (ow_reads w1)) (ow_provider w1) =
      (if \<exists>x. tk_expires_at t = Some x \<and> x \<le> oe_clock env (ow_reads w1)
       then Inl (credential_expired (cr_integration_id c) (cr_routine_id c)) else Inr c)"
    using put by (auto simp: fetch_credential_def find_credential_def validate_not_expired_def virtual_scope_def
        split: option.splits)
  moreover have "\<not> is_not_found (credential_expired a b)" for a b
    by (simp add: is_not_found_def credential_expired_def)
  ultimately show ?thesis
    using put token_dict_round_trip [OF assms(1,2)] by (simp add: token_get_def oauth_now_def)
qed

definition ex_oauth :: oauth_env where
  "ex_oauth = \<lparr>oe_vault = ex_vault, oe_clock = (\<lambda>n. 10 * int n), oe_endpoint = (\<lambda>_ _. PostFails outside_model),
     oe_urlencode = (\<lambda>_. []), oe_disk = (\<lambda>_. None)\<rparr>"

definition ex_token :: TokenRecord where
  "ex_token = \<lparr>tk_access_token = JStr ''a'', tk_refresh_token = Some (JStr ''r''), tk_token_type = JStr ''Bearer'',
     tk_expires_at = Some 15, tk_granted_scopes = [''email:read''], tk_extra = []\<rparr>"

definition ex_oauth_world :: oauth_world where
  "ex_oauth_world = \<lparr>ow_provider = ex_provider, ow_posts = [], ow_reads = 0\<rparr>"

lemma ex_put: "\<exists>c w1. token_put ex_oauth ''gmail'' None ex_token ex_oauth_world = (Inr c, w1) \<and> ow_reads w1 = 1"
  by (simp add: token_put_def oauth_now_def ex_oauth_def ex_oauth_world_def ex_provider_def store_credential_def persist_def Let_def)

lemma stored_token_round_trip_witness:
  "\<exists>w1. fst (token_get ex_oauth ''gmail'' None w1) = Inr (Some ex_token)"
proof -
  obtain c w1 where put: "token_put ex_oauth ''gmail'' None ex_token ex_oauth_world = (Inr c, w1)" "ow_reads w1 = 1"
    using ex_put by blast
  have "vault_laws (oe_vault ex_oauth)" using ex_vault_laws by (simp add: ex_oauth_def)
  moreover have "token_ok ex_token" by (simp add: token_ok_def ex_token_def)
  ultimately have "fst (token_get ex_oauth ''gmail'' None w1) = Inr (Some ex_token)"
    using stored_token_round_trip [OF _ _ put(1)] put(2) by (simp add: ex_oauth_def ex_token_def)
  then show ?thesis ..
qed

section \<open>After the expiry\<close>

text \<open>Once the stored credential has expired, \<open>access_token\<close> and \<open>refresh\<close> both raise and no request is
  ever sent, although a refresh token is on file: the refresh that \<open>access_token\<close> promises can only
  happen in the grace period before the expiry.\<close>

theorem expired_token_cannot_be_refreshed:
  assumes "find_credential (pv_store (ow_provider w)) (oc_integration_id c) rid = Some cred"
    and "cr_expires_at cred = Some x" and "\<forall>n \<ge> ow_reads w. x \<le> oe_clock env n"
  shows "\<exists>w1 w2. access_token env c rid w = (Inl (credential_expired (cr_integration_id cred) (cr_routine_id cred)), w1)
    \<and> refresh_token env c rid w = (Inl (credential_expired (cr_integration_id cred) (cr_routine_id cred)), w2)
    \<and> ow_posts w1 = ow_posts w \<and> ow_posts w2 = ow_posts w
    \<and> ow_provider w1 = ow_provider w \<and> ow_provider w2 = ow_provider w"
proof -
  have "\<not> is_not_found (credential_expired a b)" for a b
    by (simp add: is_not_found_def credential_expired_def)
  then have "token_get env (oc_integration_id c) rid w =
      (Inl (credential_expired (cr_integration_id cred) (cr_routine_id cred)), w\<lparr>ow_reads := ow_reads w + 1\<rparr>)"
    using assms by (simp add: token_get_def oauth_now_def fetch_credential_def validate_not_expired_def)
  then show ?thesis by (simp add: access_token_def refresh_token_def try_bind_def)
qed

definition ex_oauth_client :: OAuthClient where
  "ex_oauth_client = \<lparr>oc_provider = ''gmail'', oc_integration_id = ''gmail'', oc_client_id = ''id'',
     oc_client_secret = ''s'', oc_auth_url = ''https://a'', oc_redirect_uri = ''https://r'', oc_scopes = [],
     oc_refresh_grace = 60\<rparr>"

lemma expired_token_cannot_be_refreshed_witness:
  "\<exists>e w1. access_token ex_oauth ex_oauth_client None
     (ex_oauth_world\<lparr>ow_provider := ex_provider\<lparr>pv_store := [(''gmail::'', ex_credential)]\<rparr>, ow_reads := 10\<rparr>) = (Inl e, w1)
     \<and> ow_posts w1 = []"
proof -
  let ?w = "ex_oauth_world\<lparr>ow_provider := ex_provider\<lparr>pv_store := [(''gmail::'', ex_credential)]\<rparr>, ow_reads := 10\<rparr>"
  have "find_credential (pv_store (ow_provider ?w)) (oc_integration_id ex_oauth_client) None = Some ex_credential"
    by (simp add: find_credential_def credential_key_def ex_oauth_client_def)
  moreover have "cr_expires_at ex_credential = Some 100" by (simp add: ex_credential_def)
  moreover have "\<forall>n \<ge> ow_reads ?w. 100 \<le> oe_clock ex_oauth n" by (simp add: ex_oauth_def)
  ultimately have "\<exists>w1 w2. access_token ex_oauth ex_oauth_client None ?w = (Inl (credential_expired (cr_integration_id ex_credential) (cr_routine_id ex_credential)), w1)
      \<and> refresh_token ex_oauth ex_oauth_client None ?w = (Inl (credential_expired (cr_integration_id ex_credential) (cr_routine_id ex_credential)), w2)
      \<and> ow_posts w1 = ow_posts ?w \<and> ow_posts w2 = ow_posts ?w
      \<and> ow_provider w1 = ow_provider ?w \<and> ow_provider w2 = ow_provider ?w"
    by (rule expired_token_cannot_be_refreshed)
  then show ?thesis by (auto simp: ex_oauth_world_def)
qed

end
