(* ===== verification/Network_Posture.thy ===== *)
theory Network_Posture
  imports Http_Client
begin

text \<open>
  The egress posture: \<open>ota_core/network_posture/posture.py\<close> over the HTTP client.  The patterns are those
  of \<open>fnmatch.fnmatchcase\<close>: a star, a question mark, and bracket expressions, whose meaning is the
  parameter \<open>cls\<close> of the text between the brackets.
\<close>

section \<open>Patterns\<close>

text \<open>The text up to the closing bracket: one that comes first, or after a leading exclamation mark, does
  not close.\<close>

definition bracket_end :: "string \<Rightarrow> nat option" where
  "bracket_end p =
     (let start = (if startswith p ''!]'' then 2 else if startswith p ''!'' then 1 else if startswith p '']'' then 1 else 0);
          rest = drop start p
      in if CHR '']'' \<in> set rest then Some (start + length (takeWhile (\<lambda>c. c \<noteq> CHR '']'') rest)) else None)"

function glob :: "(string \<Rightarrow> char \<Rightarrow> bool) \<Rightarrow> string \<Rightarrow> string \<Rightarrow> bool" where
  "glob cls [] s \<longleftrightarrow> s = []"
| "glob cls (p # ps) [] \<longleftrightarrow> p = CHR ''*'' \<and> glob cls ps []"
| "glob cls (p # ps) (c # cs) \<longleftrightarrow>
     (if p = CHR ''*'' then glob cls ps (c # cs) \<or> glob cls (p # ps) cs
      else if p = CHR ''?'' then glob cls ps cs
      else if p = CHR ''['' then
        (case bracket_end ps of
           None \<Rightarrow> c = p \<and> glob cls ps cs
         | Some n \<Rightarrow> cls (take n ps) c \<and> glob cls (drop (Suc n) ps) cs)
      else c = p \<and> glob cls ps cs)"
  by pat_completeness auto
termination by (relation "measure (\<lambda>(cls, ps, s). length ps + length s)") auto

section \<open>Rules\<close>

record AllowlistRule =
  al_pattern :: string

definition rule_matches :: "(string \<Rightarrow> char \<Rightarrow> bool) \<Rightarrow> AllowlistRule \<Rightarrow> string \<Rightarrow> bool" where
  "rule_matches cls r host \<longleftrightarrow>
     (if al_pattern r = host then True
      else if CHR ''*'' \<in> set (al_pattern r) \<or> CHR ''?'' \<in> set (al_pattern r) \<or> CHR ''['' \<in> set (al_pattern r)
      then glob cls (al_pattern r) host else False)"

definition compile_allowlist :: "(string \<Rightarrow> char \<Rightarrow> bool) \<Rightarrow> string list \<Rightarrow> string \<Rightarrow> bool" where
  "compile_allowlist cls patterns host \<longleftrightarrow> (\<exists>r \<in> set (map (\<lambda>p. \<lparr>al_pattern = p\<rparr>) patterns). rule_matches cls r host)"

section \<open>The posture\<close>

record NetworkPosture =
  np_http :: HttpClient
  np_rules :: "AllowlistRule list"
  np_rate_limits :: "(string, RateLimitPolicy) dict"

definition network_posture :: "HttpClient \<Rightarrow> NetworkPosture" where
  "network_posture http = \<lparr>np_http = http, np_rules = [], np_rate_limits = []\<rparr>"

definition configure_allowlist :: "(string \<Rightarrow> char \<Rightarrow> bool) \<Rightarrow> string list \<Rightarrow> NetworkPosture \<Rightarrow> NetworkPosture" where
  "configure_allowlist cls patterns n =
     (let rules = map (\<lambda>p. \<lparr>al_pattern = p\<rparr>) patterns
      in if rules = [] then n\<lparr>np_rules := rules, np_http := set_allowlist (Some (Hosts [])) (np_http n)\<rparr>
         else n\<lparr>np_rules := rules,
                np_http := set_allowlist (Some (Matcher (\<lambda>host. \<exists>r \<in> set rules. rule_matches cls r host))) (np_http n)\<rparr>)"

definition extend_allowlist :: "(string \<Rightarrow> char \<Rightarrow> bool) \<Rightarrow> string list \<Rightarrow> NetworkPosture \<Rightarrow> NetworkPosture" where
  "extend_allowlist cls patterns n = configure_allowlist cls (map al_pattern (np_rules n) @ patterns) n"

definition remove_allowlist_entries :: "(string \<Rightarrow> char \<Rightarrow> bool) \<Rightarrow> string list \<Rightarrow> NetworkPosture \<Rightarrow> NetworkPosture" where
  "remove_allowlist_entries cls patterns n =
     configure_allowlist cls (filter (\<lambda>p. p \<notin> set patterns) (map al_pattern (np_rules n))) n"

definition is_allowed :: "(string \<Rightarrow> char \<Rightarrow> bool) \<Rightarrow> NetworkPosture \<Rightarrow> string \<Rightarrow> bool" where
  "is_allowed cls n host \<longleftrightarrow> (\<exists>r \<in> set (np_rules n). rule_matches cls r host)"

definition configure_rate_limit :: "string \<Rightarrow> RateLimitPolicy \<Rightarrow> NetworkPosture \<Rightarrow> NetworkPosture" where
  "configure_rate_limit host p n =
     n\<lparr>np_rate_limits := dict_set host p (np_rate_limits n), np_http := set_rate_limit host p (np_http n)\<rparr>"

definition clear_rate_limit :: "string \<Rightarrow> NetworkPosture \<Rightarrow> NetworkPosture" where
  "clear_rate_limit host n = n\<lparr>np_rate_limits := dict_pop host (np_rate_limits n)\<rparr>"

section \<open>The posture governs the client\<close>

datatype posture_op =
    PConfigure "string list"
  | PExtend "string list"
  | PRemove "string list"
  | PLimit string RateLimitPolicy
  | PClear string

primrec posture_step :: "(string \<Rightarrow> char \<Rightarrow> bool) \<Rightarrow> posture_op \<Rightarrow> NetworkPosture \<Rightarrow> NetworkPosture" where
  "posture_step cls (PConfigure ps) n = configure_allowlist cls ps n"
| "posture_step cls (PExtend ps) n = extend_allowlist cls ps n"
| "posture_step cls (PRemove ps) n = remove_allowlist_entries cls ps n"
| "posture_step cls (PLimit h p) n = configure_rate_limit h p n"
| "posture_step cls (PClear h) n = clear_rate_limit h n"

definition posture_run :: "(string \<Rightarrow> char \<Rightarrow> bool) \<Rightarrow> posture_op list \<Rightarrow> NetworkPosture \<Rightarrow> NetworkPosture" where
  "posture_run cls ops n = fold (posture_step cls) ops n"

primrec sets_list :: "posture_op \<Rightarrow> bool" where
  "sets_list (PConfigure ps) = True"
| "sets_list (PExtend ps) = True"
| "sets_list (PRemove ps) = True"
| "sets_list (PLimit h p) = False"
| "sets_list (PClear h) = False"

definition in_step :: "(string \<Rightarrow> char \<Rightarrow> bool) \<Rightarrow> NetworkPosture \<Rightarrow> bool" where
  "in_step cls n \<longleftrightarrow> (\<exists>a. cl_allowlist (np_http n) = Some a \<and> (\<forall>host. host_allowed a host \<longleftrightarrow> is_allowed cls n host))"

lemma configure_in_step: "in_step cls (configure_allowlist cls ps n)"
  by (auto simp: in_step_def configure_allowlist_def Let_def set_allowlist_def is_allowed_def)

lemma step_in_step: "sets_list opn \<or> in_step cls n \<Longrightarrow> in_step cls (posture_step cls opn n)"
proof (cases opn)
  case (PLimit h p)
  then show "sets_list opn \<or> in_step cls n \<Longrightarrow> in_step cls (posture_step cls opn n)"
    by (simp add: in_step_def configure_rate_limit_def set_rate_limit_def is_allowed_def)
next
  case (PClear h)
  then show "sets_list opn \<or> in_step cls n \<Longrightarrow> in_step cls (posture_step cls opn n)"
    by (simp add: in_step_def clear_rate_limit_def is_allowed_def)
qed (simp_all add: configure_in_step extend_allowlist_def remove_allowlist_entries_def)

lemma run_in_step: "in_step cls n \<or> (\<exists>opn \<in> set ops. sets_list opn) \<Longrightarrow> in_step cls (posture_run cls ops n)"
  unfolding posture_run_def by (induction ops arbitrary: n) (auto simp: step_in_step)

text \<open>C32: After any sequence of changes that configured the allow list at least once, the client refuses
  exactly the hosts the posture does not allow, before anything is sent, and makes its attempts for the others.\<close>

theorem posture_governs_egress:
  assumes "\<exists>opn \<in> set ops. sets_list opn" and n: "n = posture_run cls ops (network_posture http)"
  shows "request env meth url (np_http n) =
    (if is_allowed cls n (env_host env url)
     then request_loop env meth url None None 0 (nat (cl_max_retries (np_http n) + 1)) (np_http n)
     else Some (Inl (EgressBlocked (env_host env url) meth url), np_http n))"
proof -
  have "in_step cls n" unfolding n by (rule run_in_step) (use assms(1) in blast)
  then show ?thesis by (auto simp: in_step_def request_def Let_def)
qed

definition ex_posture_client :: HttpClient where
  "ex_posture_client = \<lparr>cl_max_retries = 0, cl_base_backoff = 1, cl_max_backoff = 1, cl_retry_status_codes = [],
     cl_allowlist = None, cl_rate_limits = [], cl_clock = \<lparr>hc_now = 0, hc_late = (\<lambda>_. 0), hc_sleeps = []\<rparr>, cl_sent = []\<rparr>"

lemma posture_governs_egress_witness:
  "\<exists>n. is_allowed (\<lambda>_ _. False) n ''www.test.org'' \<and>
     request \<lparr>env_host = (\<lambda>u. u), env_answer = (\<lambda>_. OtherError NotInRoutineRunError), env_draw = (\<lambda>_. 0),
        env_parse_float = (\<lambda>_. None), env_parse_date = (\<lambda>_. None), env_utc_now = (\<lambda>_. 0)\<rparr> ''GET'' ''test.org'' (np_http n)
       = Some (Inl (EgressBlocked ''test.org'' ''GET'' ''test.org''), np_http n)"
proof -
  let ?ops = "[PConfigure [''a.org''], PExtend [''*.test.org''], PRemove [''a.org'']]"
  let ?n = "posture_run (\<lambda>_ _. False) ?ops (network_posture ex_posture_client)"
  have rules: "np_rules ?n = [\<lparr>al_pattern = ''*.test.org''\<rparr>]"
    by (simp add: posture_run_def configure_allowlist_def extend_allowlist_def remove_allowlist_entries_def Let_def)
  have "is_allowed (\<lambda>_ _. False) ?n ''www.test.org''" "\<not> is_allowed (\<lambda>_ _. False) ?n ''test.org''"
    by (simp_all add: is_allowed_def rules rule_matches_def)
  then show ?thesis
    using posture_governs_egress [where ops = ?ops and n = ?n and http = ex_posture_client and cls = "\<lambda>_ _. False"]
    by (intro exI [of _ ?n]) simp
qed

text \<open>A cleared rate limit stays in force in the client.\<close>

theorem cleared_limit_stays:
  "cl_rate_limits (np_http (clear_rate_limit host (configure_rate_limit host p n))) = cl_rate_limits (np_http (configure_rate_limit host p n))
   \<and> dict_has (cl_rate_limits (np_http (clear_rate_limit host (configure_rate_limit host p n)))) host"
  by (simp add: clear_rate_limit_def configure_rate_limit_def set_rate_limit_def dict_simps)

end
