(* ===== verification/Contracts_Deployment.thy ===== *)
theory Contracts_Deployment
  imports Contracts_Shared Py_Values
begin

text \<open>
  The deployment configuration: \<open>ota_core/contracts/deployment_config.py\<close>.  Each pydantic model is a
  record with a boolean check of its constraints; \<open>deployment_config_ok\<close> is what validation accepts.
  Extra fields, which some models allow, are not kept.
\<close>

section \<open>Vocabulary\<close>

datatype IdentityProviderType = LocalIdentity | OidcSocial | OidcEnterprise | Saml

definition CORE_IDENTITY_TYPES :: "IdentityProviderType list" where
  "CORE_IDENTITY_TYPES = [LocalIdentity, OidcSocial]"

datatype SecretsProviderType = EncryptedFile | EnvSecrets | Vault | AwsSm | AzureKv | GcpSm

definition CORE_SECRETS_TYPES :: "SecretsProviderType list" where
  "CORE_SECRETS_TYPES = [EncryptedFile, EnvSecrets]"

datatype AuditSinkType = JsonlLocal | SplunkHec | Datadog | S3Immutable | Syslog | Kafka

definition CORE_AUDIT_SINKS :: "AuditSinkType list" where
  "CORE_AUDIT_SINKS = [JsonlLocal]"

datatype ObservabilitySinkType = LocalOtel | NoObservability | Otlp

definition CORE_OBSERVABILITY_SINKS :: "ObservabilitySinkType list" where
  "CORE_OBSERVABILITY_SINKS = [LocalOtel, NoObservability]"

datatype LLMProviderType =
  AnthropicDirect | GeminiDirect | OllamaLocal | CustomGateway | Bedrock | AzureOpenai | Vertex

definition CORE_LLM_PROVIDERS :: "LLMProviderType list" where
  "CORE_LLM_PROVIDERS = [AnthropicDirect, GeminiDirect, OllamaLocal]"

datatype RoutineSourceType =
  PrivateChannel | LocalDirectory | MirroredChannel | ApprovalGateSource | PinnedVersionSource

definition CORE_ROUTINE_SOURCES :: "RoutineSourceType list" where
  "CORE_ROUTINE_SOURCES = [PrivateChannel, LocalDirectory]"

datatype LocalInferenceMode = InferenceDisabled | ExternalOllama | EmbeddedSidecar
datatype EgressMode = EgressOpen | EgressAllowlist | EgressNone
datatype BudgetOnExceeded = PauseNonCritical | PauseAll | NotifyOnly
datatype DigestCadence = DigestDaily | DigestWeekly | DigestMonthly
datatype AuditRotation = RotateDaily | RotateWeekly | RotateMonthly | RotateNever
datatype RateLimitOnExceeded = CoalesceIntoSummary | DropEvent | DelayEvent
datatype StormDetectionAction = SuppressEmitSummary | StormDrop
datatype NotificationChannelType = SlackDm | EmailChannel | Pagerduty | Push

section \<open>Operator and providers\<close>

record BootstrapIdentity =
  bs_type :: IdentityProviderType
  bs_principal_id :: string
  bs_display_name :: string
  bs_email :: "string option"

definition bootstrap_ok :: "BootstrapIdentity \<Rightarrow> bool" where
  "bootstrap_ok b \<longleftrightarrow> bs_principal_id b \<noteq> [] \<and> bs_display_name b \<noteq> []"

record OperatorSection =
  os_bootstrap_identity :: BootstrapIdentity

record IdentityProviderConfig =
  ic_type :: IdentityProviderType

record SecretsProviderConfig =
  sc_type :: SecretsProviderType
  sc_master_key_source :: "string option"

record AuditProviderConfig =
  ap_sink :: AuditSinkType
  ap_retention_days :: int
  ap_rotation :: AuditRotation

definition audit_provider_ok :: "AuditProviderConfig \<Rightarrow> bool" where
  "audit_provider_ok a \<longleftrightarrow> ap_retention_days a > 0"

record ObservabilityProviderConfig =
  ob_sink :: ObservabilitySinkType
  ob_endpoint :: "string option"
  ob_sample_rate :: decimal

definition observability_provider_ok :: "ObservabilityProviderConfig \<Rightarrow> bool" where
  "observability_provider_ok o_cfg \<longleftrightarrow> 0 \<le> dec_value (ob_sample_rate o_cfg) \<and> dec_value (ob_sample_rate o_cfg) \<le> 1"

record LLMEndpointConfig =
  le_provider :: LLMProviderType
  le_api_key_ref :: "string option"
  le_default_model :: string
  le_region :: string

definition llm_endpoint_ok :: "LLMEndpointConfig \<Rightarrow> bool" where
  "llm_endpoint_ok e \<longleftrightarrow> le_default_model e \<noteq> []"

record LLMProvidersConfig =
  lp_primary :: LLMEndpointConfig
  lp_fallback :: "LLMEndpointConfig option"

text \<open>\<open>IntegrationRegistrySourceConfig\<close> has the same fields.\<close>

record RoutineSourceConfig =
  rs_type :: RoutineSourceType
  rs_channel_url :: "string option"
  rs_refresh_token_ref :: "string option"
  rs_public_key_pem_ref :: "string option"
  rs_poll_interval :: string
  rs_kill_list_poll_interval :: string
  rs_directory_path :: "string option"

type_synonym IntegrationRegistrySourceConfig = RoutineSourceConfig

record Providers =
  pr_identity :: IdentityProviderConfig
  pr_secrets :: SecretsProviderConfig
  pr_audit :: AuditProviderConfig
  pr_observability :: ObservabilityProviderConfig
  pr_llm :: LLMProvidersConfig
  pr_routine_source :: RoutineSourceConfig
  pr_integration_registry :: IntegrationRegistrySourceConfig

definition providers_ok :: "Providers \<Rightarrow> bool" where
  "providers_ok p \<longleftrightarrow> audit_provider_ok (pr_audit p) \<and> observability_provider_ok (pr_observability p) \<and>
     llm_endpoint_ok (lp_primary (pr_llm p)) \<and> pred_option llm_endpoint_ok (lp_fallback (pr_llm p))"

section \<open>Local inference\<close>

record OllamaConfig =
  ol_url :: string
  ol_model :: string
  ol_timeout :: string

definition ollama_ok :: "OllamaConfig \<Rightarrow> bool" where
  "ollama_ok c \<longleftrightarrow> ol_url c \<noteq> [] \<and> ol_model c \<noteq> []"

record SidecarConfig =
  sd_model_id :: string
  sd_auto_pull_on_first_start :: bool
  sd_gpu_passthrough :: bool
  sd_max_tokens_per_request :: int

definition sidecar_ok :: "SidecarConfig \<Rightarrow> bool" where
  "sidecar_ok c \<longleftrightarrow> sd_model_id c \<noteq> [] \<and> sd_max_tokens_per_request c > 0"

record LocalInferenceConfig =
  li_mode :: LocalInferenceMode
  li_ollama :: "OllamaConfig option"
  li_sidecar :: "SidecarConfig option"

definition local_inference_ok :: "LocalInferenceConfig \<Rightarrow> bool" where
  "local_inference_ok c \<longleftrightarrow> pred_option ollama_ok (li_ollama c) \<and> pred_option sidecar_ok (li_sidecar c) \<and>
     \<not> (li_mode c = ExternalOllama \<and> li_ollama c = None) \<and>
     \<not> (li_mode c = EmbeddedSidecar \<and> li_sidecar c = None)"

section \<open>Network\<close>

record EgressConfig =
  eg_mode :: EgressMode
  eg_additional_allowlist :: "string list"

record ProxyConfig =
  px_http :: "string option"
  px_https :: "string option"
  px_no_proxy :: "string list"

record TLSConfig =
  tls_ca_bundle_path :: "string option"
  tls_client_cert_path :: "string option"
  tls_client_key_ref :: "string option"

record WebhookReceiverConfig =
  wh_bind_address :: string
  wh_port :: int
  wh_tls_cert_path :: "string option"
  wh_tls_key_ref :: "string option"
  wh_public_url :: "string option"

definition webhook_receiver_ok :: "WebhookReceiverConfig \<Rightarrow> bool" where
  "webhook_receiver_ok w \<longleftrightarrow> 0 < wh_port w \<and> wh_port w \<le> 65535"

record NetworkConfig =
  nw_egress :: EgressConfig
  nw_proxy :: ProxyConfig
  nw_tls :: TLSConfig
  nw_user_agent :: string
  nw_webhook_receiver :: "WebhookReceiverConfig option"

definition network_ok :: "NetworkConfig \<Rightarrow> bool" where
  "network_ok n \<longleftrightarrow> nw_user_agent n \<noteq> [] \<and> pred_option webhook_receiver_ok (nw_webhook_receiver n)"

section \<open>Notifications\<close>

record NotificationChannel =
  nc_type :: NotificationChannelType
  nc_user :: "string option"
  nc_address :: "string option"
  nc_token_ref :: "string option"
  nc_service_key_secret :: "string option"

record DigestConfig =
  dg_channel :: string
  dg_cadence :: DigestCadence

record AcknowledgementConfig =
  ak_required :: bool
  ak_timeout :: string
  ak_escalation_chain :: "string list"

record SeverityRouting =
  sr_delivery :: "string list"
  sr_digest :: "DigestConfig option"
  sr_acknowledgement :: "AcknowledgementConfig option"

definition severity_routing_ok :: "SeverityRouting \<Rightarrow> bool" where
  "severity_routing_ok r \<longleftrightarrow> pred_option (\<lambda>d. dg_channel d \<noteq> []) (sr_digest r)"

record PerRoutineRateLimit =
  pl_window :: string
  pl_max_notifications :: int
  pl_on_exceeded :: RateLimitOnExceeded

record StormDetection =
  sm_window :: string
  sm_threshold_events_same_type :: int
  sm_action :: StormDetectionAction

record NotificationRateLimiting =
  nr_per_routine :: PerRoutineRateLimit
  nr_storm_detection :: StormDetection

definition rate_limiting_ok :: "NotificationRateLimiting \<Rightarrow> bool" where
  "rate_limiting_ok r \<longleftrightarrow> pl_max_notifications (nr_per_routine r) \<ge> 1 \<and>
     sm_threshold_events_same_type (nr_storm_detection r) \<ge> 1"

record NotificationsConfig =
  nt_schema_version :: string
  nt_channels :: "(string, NotificationChannel) dict"
  nt_routing :: "(Severity, SeverityRouting) dict"
  nt_rate_limiting :: NotificationRateLimiting

definition REQUIRED_SEVERITIES :: "Severity list" where
  "REQUIRED_SEVERITIES = [SevInfo, SevWarn, SevError, SevCritical]"

definition routing_covers :: "NotificationsConfig \<Rightarrow> bool" where
  "routing_covers n \<longleftrightarrow> list_all (\<lambda>s. dict_has (nt_routing n) s) REQUIRED_SEVERITIES"

definition channel_names :: "NotificationsConfig \<Rightarrow> string list" where
  "channel_names n = dict_keys (nt_channels n) @ [''dashboard'', ''push'', ''pager'']"

definition delivery_exists :: "NotificationsConfig \<Rightarrow> bool" where
  "delivery_exists n \<longleftrightarrow>
     list_all (\<lambda>rule. list_all (\<lambda>ch. ch \<in> set (channel_names n)) (sr_delivery rule)) (dict_values (nt_routing n))"

definition notifications_ok :: "NotificationsConfig \<Rightarrow> bool" where
  "notifications_ok n \<longleftrightarrow> validate_semver (nt_schema_version n) \<and>
     list_all severity_routing_ok (dict_values (nt_routing n)) \<and> rate_limiting_ok (nt_rate_limiting n) \<and>
     routing_covers n \<and> delivery_exists n"

section \<open>Limits, flags and the header\<close>

record GlobalBudget =
  gb_max_usd_per_day :: decimal
  gb_max_input_tokens_per_day :: int
  gb_on_exceeded :: BudgetOnExceeded

record PerRoutineBudgetDefault =
  pb_max_usd_per_run :: decimal
  pb_max_input_tokens_per_run :: int

record ResourceLimits =
  rl_global_budget :: GlobalBudget
  rl_per_routine_budget_default :: PerRoutineBudgetDefault

definition resource_limits_ok :: "ResourceLimits \<Rightarrow> bool" where
  "resource_limits_ok r \<longleftrightarrow>
     dec_value (gb_max_usd_per_day (rl_global_budget r)) > 0 \<and> gb_max_input_tokens_per_day (rl_global_budget r) > 0 \<and>
     dec_value (pb_max_usd_per_run (rl_per_routine_budget_default r)) > 0 \<and>
     pb_max_input_tokens_per_run (rl_per_routine_budget_default r) > 0"

record FeatureFlags =
  ff_enable_local_inference :: bool
  ff_enable_pii_redaction :: bool
  ff_enable_drift_monitoring :: bool
  ff_enable_crash_loop_detection :: bool

record DeploymentHeader =
  dh_schema_version :: string
  dh_id :: string
  dh_mode :: DeploymentMode
  dh_edition :: Edition
  dh_framework_version :: string
  dh_region :: string
  dh_tenant_id :: "string option"

definition header_ok :: "DeploymentHeader \<Rightarrow> bool" where
  "header_ok h \<longleftrightarrow> validate_semver (dh_schema_version h) \<and> dh_id h \<noteq> [] \<and>
     validate_semver (dh_framework_version h) \<and> dh_region h \<noteq> []"

section \<open>The configuration\<close>

record DeploymentConfig =
  dc_deployment :: DeploymentHeader
  dc_operator :: OperatorSection
  dc_providers :: Providers
  dc_local_inference :: LocalInferenceConfig
  dc_network :: NetworkConfig
  dc_notifications :: NotificationsConfig
  dc_resource_limits :: ResourceLimits
  dc_feature_flags :: FeatureFlags

text \<open>The choices an edition gates, with the paths the error names, in the order they are checked.\<close>

definition gated_choices :: "Providers \<Rightarrow> (string \<times> bool) list" where
  "gated_choices p =
     [(''identity.type'', ic_type (pr_identity p) \<in> set CORE_IDENTITY_TYPES),
      (''secrets.type'', sc_type (pr_secrets p) \<in> set CORE_SECRETS_TYPES),
      (''audit.sink'', ap_sink (pr_audit p) \<in> set CORE_AUDIT_SINKS),
      (''observability.sink'', ob_sink (pr_observability p) \<in> set CORE_OBSERVABILITY_SINKS),
      (''llm.primary.provider'', le_provider (lp_primary (pr_llm p)) \<in> set CORE_LLM_PROVIDERS),
      (''routine_source.type'', rs_type (pr_routine_source p) \<in> set CORE_ROUTINE_SOURCES),
      (''integration_registry.type'', rs_type (pr_integration_registry p) \<in> set CORE_ROUTINE_SOURCES)] @
     (case lp_fallback (pr_llm p) of
        None \<Rightarrow> []
      | Some e \<Rightarrow> [(''llm.fallback.provider'', le_provider e \<in> set CORE_LLM_PROVIDERS)])"

text \<open>\<open>Some path\<close>: the first choice the core edition does not allow.\<close>

definition edition_error :: "DeploymentConfig \<Rightarrow> string option" where
  "edition_error c =
     (if dh_edition (dc_deployment c) \<noteq> Core then None
      else map_option fst (find (\<lambda>g. \<not> snd g) (gated_choices (dc_providers c))))"

definition inference_flag_ok :: "DeploymentConfig \<Rightarrow> bool" where
  "inference_flag_ok c \<longleftrightarrow>
     (ff_enable_local_inference (dc_feature_flags c) \<longleftrightarrow> li_mode (dc_local_inference c) \<noteq> InferenceDisabled)"

definition deployment_config_ok :: "DeploymentConfig \<Rightarrow> bool" where
  "deployment_config_ok c \<longleftrightarrow>
     header_ok (dc_deployment c) \<and> bootstrap_ok (os_bootstrap_identity (dc_operator c)) \<and> providers_ok (dc_providers c) \<and>
     local_inference_ok (dc_local_inference c) \<and> network_ok (dc_network c) \<and> notifications_ok (dc_notifications c) \<and>
     resource_limits_ok (dc_resource_limits c) \<and> edition_error c = None \<and> inference_flag_ok c"

section \<open>What a valid configuration has\<close>

lemma core_choices:
  assumes "deployment_config_ok c" "dh_edition (dc_deployment c) = Core" "g \<in> set (gated_choices (dc_providers c))"
  shows "snd g"
  using assms unfolding deployment_config_ok_def edition_error_def
  by (metis find_None_iff option.map_disc_iff)

lemma flag_means_model:
  assumes "deployment_config_ok c"
  shows "ff_enable_local_inference (dc_feature_flags c) \<longleftrightarrow>
    li_mode (dc_local_inference c) = ExternalOllama \<and> li_ollama (dc_local_inference c) \<noteq> None \<or>
    li_mode (dc_local_inference c) = EmbeddedSidecar \<and> li_sidecar (dc_local_inference c) \<noteq> None"
  using assms by (cases "li_mode (dc_local_inference c)")
    (auto simp: deployment_config_ok_def inference_flag_ok_def local_inference_ok_def)

lemma severity_routed:
  assumes "deployment_config_ok c" "s \<noteq> SevDebug"
  shows "\<exists>rule. dict_get (nt_routing (dc_notifications c)) s = Some rule \<and>
    set (sr_delivery rule) \<subseteq> set (channel_names (dc_notifications c))"
proof -
  have "s \<in> set REQUIRED_SEVERITIES" using assms(2) by (cases s) (simp_all add: REQUIRED_SEVERITIES_def)
  then obtain rule where rule: "dict_get (nt_routing (dc_notifications c)) s = Some rule"
    using assms(1) by (auto simp: deployment_config_ok_def notifications_ok_def routing_covers_def list_all_iff)
  then have "rule \<in> set (dict_values (nt_routing (dc_notifications c)))" by (metis map_of_SomeD in_set_zipE zip_map_fst_snd)
  then have "set (sr_delivery rule) \<subseteq> set (channel_names (dc_notifications c))"
    using assms(1) by (auto simp: deployment_config_ok_def notifications_ok_def delivery_exists_def list_all_iff)
  with rule show ?thesis by blast
qed


definition ex_source_config :: RoutineSourceConfig where
  "ex_source_config = \<lparr>rs_type = LocalDirectory, rs_channel_url = None, rs_refresh_token_ref = None,
     rs_public_key_pem_ref = None, rs_poll_interval = ''1h'', rs_kill_list_poll_interval = ''60s'', rs_directory_path = None\<rparr>"

definition ex_providers :: Providers where
  "ex_providers = \<lparr>pr_identity = \<lparr>ic_type = LocalIdentity\<rparr>,
     pr_secrets = \<lparr>sc_type = EncryptedFile, sc_master_key_source = None\<rparr>,
     pr_audit = \<lparr>ap_sink = JsonlLocal, ap_retention_days = 90, ap_rotation = RotateDaily\<rparr>,
     pr_observability = \<lparr>ob_sink = LocalOtel, ob_endpoint = None, ob_sample_rate = \<lparr>dec_coef = 1, dec_exp = 0\<rparr>\<rparr>,
     pr_llm = \<lparr>lp_primary = \<lparr>le_provider = AnthropicDirect, le_api_key_ref = None, le_default_model = ''m'', le_region = ''''\<rparr>,
       lp_fallback = None\<rparr>,
     pr_routine_source = ex_source_config, pr_integration_registry = ex_source_config\<rparr>"

definition ex_notifications :: NotificationsConfig where
  "ex_notifications = \<lparr>nt_schema_version = ''1.0.0'', nt_channels = [],
     nt_routing = map (\<lambda>s. (s, \<lparr>sr_delivery = [''dashboard''], sr_digest = None, sr_acknowledgement = None\<rparr>)) REQUIRED_SEVERITIES,
     nt_rate_limiting =
       \<lparr>nr_per_routine = \<lparr>pl_window = ''10m'', pl_max_notifications = 5, pl_on_exceeded = CoalesceIntoSummary\<rparr>,
        nr_storm_detection = \<lparr>sm_window = ''5m'', sm_threshold_events_same_type = 20, sm_action = SuppressEmitSummary\<rparr>\<rparr>\<rparr>"

definition ex_config :: DeploymentConfig where
  "ex_config =
     \<lparr>dc_deployment = \<lparr>dh_schema_version = ''1.0.0'', dh_id = ''d'', dh_mode = LocalMode, dh_edition = Core,
        dh_framework_version = ''1.0.0'', dh_region = ''eu'', dh_tenant_id = None\<rparr>,
      dc_operator = \<lparr>os_bootstrap_identity =
        \<lparr>bs_type = LocalIdentity, bs_principal_id = ''p'', bs_display_name = ''P'', bs_email = None\<rparr>\<rparr>,
      dc_providers = ex_providers,
      dc_local_inference = \<lparr>li_mode = InferenceDisabled, li_ollama = None, li_sidecar = None\<rparr>,
      dc_network = \<lparr>nw_egress = \<lparr>eg_mode = EgressAllowlist, eg_additional_allowlist = []\<rparr>,
        nw_proxy = \<lparr>px_http = None, px_https = None, px_no_proxy = []\<rparr>,
        nw_tls = \<lparr>tls_ca_bundle_path = None, tls_client_cert_path = None, tls_client_key_ref = None\<rparr>,
        nw_user_agent = ''ota'', nw_webhook_receiver = None\<rparr>,
      dc_notifications = ex_notifications,
      dc_resource_limits =
        \<lparr>rl_global_budget = \<lparr>gb_max_usd_per_day = \<lparr>dec_coef = 5, dec_exp = 0\<rparr>, gb_max_input_tokens_per_day = 1000,
           gb_on_exceeded = PauseNonCritical\<rparr>,
         rl_per_routine_budget_default = \<lparr>pb_max_usd_per_run = \<lparr>dec_coef = 1, dec_exp = 0\<rparr>, pb_max_input_tokens_per_run = 100\<rparr>\<rparr>,
      dc_feature_flags = \<lparr>ff_enable_local_inference = False, ff_enable_pii_redaction = True,
        ff_enable_drift_monitoring = True, ff_enable_crash_loop_detection = True\<rparr>\<rparr>"

lemma ex_semver: "validate_semver ''1.0.0''"
  by code_simp

lemma ex_providers_ok: "providers_ok ex_providers" "edition_error ex_config = None"
  by (simp_all add: providers_ok_def ex_providers_def audit_provider_ok_def observability_provider_ok_def
      llm_endpoint_ok_def ex_source_config_def dec_value_def ten_pow_def edition_error_def ex_config_def gated_choices_def
      CORE_IDENTITY_TYPES_def CORE_SECRETS_TYPES_def CORE_AUDIT_SINKS_def CORE_OBSERVABILITY_SINKS_def
      CORE_LLM_PROVIDERS_def CORE_ROUTINE_SOURCES_def)

lemma ex_notifications_ok: "notifications_ok ex_notifications"
  by (simp add: notifications_ok_def ex_notifications_def ex_semver REQUIRED_SEVERITIES_def severity_routing_ok_def
      rate_limiting_ok_def routing_covers_def delivery_exists_def channel_names_def)

lemma ex_config_ok: "deployment_config_ok ex_config"
  unfolding deployment_config_ok_def
  using ex_providers_ok ex_notifications_ok
  by (simp add: ex_config_def header_ok_def ex_semver bootstrap_ok_def local_inference_ok_def network_ok_def
      resource_limits_ok_def dec_value_def ten_pow_def inference_flag_ok_def)


end
