(* ===== verification/Adapter_Shared.thy ===== *)
theory Adapter_Shared
  imports OAuth Actions
begin

text \<open>
  What the Slack and the Gmail adapter share: the data of the vocabulary (\<open>ota_connect/_types\<close>), an HTTP
  answer as \<open>httpx\<close> gives it, the token both read from the token store, the queue of inbound events both
  keep, and Python's operations on the JSON values a service sends.  A reference keeps the identifier the
  service sent as a JSON value: nothing checks its type.
\<close>

section \<open>The vocabulary's data\<close>

datatype block_kind = BkText | BkSection | BkHeader | BkDivider | BkActions | BkImage | BkCode
datatype action_kind = ButtonAction | SelectAction | LinkAction
datatype action_style = StyleDefault | StylePrimary | StyleDanger

record Action =
  at_kind :: action_kind
  at_label :: string
  at_value :: string
  at_style :: action_style
  at_options :: "string list option"

datatype Block =
  Block (bk_kind: block_kind) (bk_text: "string option") (bk_children: "Block list option")
    (bk_actions: "Action list option") (bk_image_ref: "string option") (bk_language: "string option")

record Attachment =
  ac_file :: string
  ac_display_name :: string
  ac_mime_type :: "string option"
  ac_inline :: bool

datatype channel_kind = ChannelKind | DmKind | GroupDmKind

record ChannelRef =
  ch_id :: string
  ch_kind :: channel_kind
  ch_name :: "string option"
  ch_adapter :: string

record MessageRef =
  mr_id :: json
  mr_channel :: ChannelRef
  mr_sent_at :: instant
  mr_permalink :: json
  mr_adapter :: string

record ThreadRef =
  tr_id :: json
  tr_channel :: ChannelRef
  tr_started_at :: instant
  tr_adapter :: string

record EmailThreadRef =
  et_id :: json
  et_subject :: string
  et_started_at :: instant
  et_adapter :: string

record EmailRef =
  er_id :: json
  er_message_id_header :: "string option"
  er_thread :: "EmailThreadRef option"
  er_sent_at :: instant
  er_adapter :: string

record DraftRef =
  dr_id :: json
  dr_subject :: string
  dr_created_at :: instant
  dr_adapter :: string

text \<open>The content of a message: a text, or a list of blocks.\<close>

datatype content = TextContent string | BlockContent "Block list"

section \<open>JSON as Python reads it\<close>

text \<open>\<open>j[key]\<close>, \<open>j.get(key)\<close> and the iteration over \<open>j\<close>.\<close>

definition json_subscript :: "json \<Rightarrow> string \<Rightarrow> exn + json" where
  "json_subscript j key =
     (case j of
        JObj d \<Rightarrow> (case dict_get d key of Some v \<Rightarrow> Inr v | None \<Rightarrow> Inl (PyError ''KeyError'' (repr_str key)))
      | JStr _ \<Rightarrow> Inl (PyError ''TypeError'' (''string indices must be integers, not '' @ repr_str ''str''))
      | JArr _ \<Rightarrow> Inl (PyError ''TypeError'' ''list indices must be integers or slices, not str'')
      | _ \<Rightarrow> Inl (PyError ''TypeError'' (repr_str (json_type_name j) @ '' object is not subscriptable'')))"

definition json_get :: "json \<Rightarrow> string \<Rightarrow> json \<Rightarrow> exn + json" where
  "json_get j key dflt =
     (case j of JObj d \<Rightarrow> Inr (dict_get_or d key dflt) | _ \<Rightarrow> Inl (no_attribute j ''get''))"

definition json_items :: "json \<Rightarrow> exn + json list" where
  "json_items j =
     (case j of
        JArr xs \<Rightarrow> Inr xs
      | JObj d \<Rightarrow> Inr (map (JStr \<circ> fst) d)
      | JStr s \<Rightarrow> Inr (map (\<lambda>c. JStr [c]) s)
      | _ \<Rightarrow> Inl (PyError ''TypeError'' (repr_str (json_type_name j) @ '' object is not iterable'')))"

text \<open>Sequencing on the error sum alone, and a comprehension whose element may raise.\<close>

definition or_raise :: "(exn + 'a) \<Rightarrow> ('a \<Rightarrow> exn + 'b) \<Rightarrow> exn + 'b" where
  "or_raise m f = (case m of Inl e \<Rightarrow> Inl e | Inr a \<Rightarrow> f a)"

fun map_raise :: "('a \<Rightarrow> exn + 'b) \<Rightarrow> 'a list \<Rightarrow> exn + 'b list" where
  "map_raise f [] = Inr []"
| "map_raise f (x # xs) = or_raise (f x) (\<lambda>y. or_raise (map_raise f xs) (\<lambda>ys. Inr (y # ys)))"

lemma or_raise_simps [simp]: "or_raise (Inl e) f = Inl e" "or_raise (Inr a) f = f a"
  by (simp_all add: or_raise_def)

lemma or_raise_eq_Inr: "or_raise m f = Inr b \<longleftrightarrow> (\<exists>a. m = Inr a \<and> f a = Inr b)"
  by (cases m) simp_all

lemma map_raise_Inr: "map_raise f xs = Inr ys \<longleftrightarrow> list_all2 (\<lambda>x y. f x = Inr y) xs ys"
  by (induction xs arbitrary: ys) (auto simp: or_raise_eq_Inr list_all2_Cons1)

text \<open>Where \<open>str.splitlines\<close> breaks a text.\<close>

definition is_line_break :: "char \<Rightarrow> bool" where
  "is_line_break c \<longleftrightarrow> (let n = (of_char c :: nat) in 10 \<le> n \<and> n \<le> 13 \<or> 28 \<le> n \<and> n \<le> 30)"

section \<open>An answer, a token, an error\<close>

text \<open>\<open>rp_content\<close>: the body is not empty.\<close>

record reply =
  rp_status :: int
  rp_retry_after :: "string option"
  rp_content :: bool
  rp_json :: "exn + json"

text \<open>The instance \<open>make_error\<close> returns is raised; its own \<open>TypeError\<close> never occurs here.\<close>

definition raised :: "connect_class \<Rightarrow> error_fields \<Rightarrow> exn" where
  "raised c flds = (case make_error c flds of Inl e \<Rightarrow> e | Inr e \<Rightarrow> e)"

definition error_at :: "string \<Rightarrow> string \<Rightarrow> string \<Rightarrow> error_fields" where
  "error_at adapter capability verb = [(''adapter'', FStr adapter), (''capability'', FStr capability), (''verb'', FStr verb)]"

text \<open>The header as a \<open>timedelta\<close>, in microseconds; an empty one counts as none.\<close>

definition retry_delta :: "string option \<Rightarrow> exn + field_value" where
  "retry_delta header =
     (case header of
        None \<Rightarrow> Inr FNone
      | Some h \<Rightarrow>
          if h = [] then Inr FNone
          else (case py_int h of
                  None \<Rightarrow> Inl (PyError ''ValueError'' (''invalid literal for int() with base 10: '' @ repr_str h))
                | Some s \<Rightarrow>
                    if \<bar>s div 86400\<bar> > 999999999
                    then Inl (PyError ''OverflowError'' (''days='' @ int_str (s div 86400) @ ''; must have magnitude <= 999999999''))
                    else Inr (FDelta (s * 1000000))))"

definition rate_limited :: "string \<Rightarrow> string \<Rightarrow> string \<Rightarrow> string option \<Rightarrow> exn" where
  "rate_limited adapter capability verb header =
     (case retry_delta header of
        Inl e \<Rightarrow> e
      | Inr d \<Rightarrow> raised RateLimited (error_at adapter capability verb @ [(''retry_after'', d)]))"

definition refused :: "connect_class \<Rightarrow> string \<Rightarrow> string \<Rightarrow> string \<Rightarrow> string \<Rightarrow> exn" where
  "refused c adapter capability verb reason = raised c (error_at adapter capability verb @ [(''reason'', FStr reason)])"

definition unavailable :: "string \<Rightarrow> string \<Rightarrow> string \<Rightarrow> bool \<Rightarrow> exn" where
  "unavailable adapter capability verb retry =
     raised AdapterUnavailable (error_at adapter capability verb @ [(''retryable'', FBool retry)])"

text \<open>The configuration: a fixed token, or the token store the world holds.\<close>

record adapter_config =
  ag_has_store :: bool
  ag_token_override :: "string option"
  ag_integration_id :: string

text \<open>The secrets the token store reads, the requests made, and the queue of inbound events.\<close>

record api_request =
  rq_method :: string
  rq_path :: string
  rq_token :: json
  rq_body :: "payload option"
  rq_params :: "payload option"

record adapter_env =
  ae_oauth :: oauth_env
  ae_answer :: "nat \<Rightarrow> api_request \<Rightarrow> exn + reply"

record adapter_world =
  aw_oauth :: oauth_world
  aw_requests :: "api_request list"
  aw_pending :: "RawInboundEvent list"

definition stored_token :: "adapter_env \<Rightarrow> string \<Rightarrow> string \<Rightarrow> adapter_config \<Rightarrow> ('w adapter_world_scheme, exn, json) py" where
  "stored_token env aid capability cfg w =
     (case ag_token_override cfg of
        Some t \<Rightarrow> (Inr (JStr t), w)
      | None \<Rightarrow>
          if \<not> ag_has_store cfg then (Inl (unavailable aid capability ''<auth>'' False), w)
          else (case token_get (ae_oauth env) (ag_integration_id cfg) None (aw_oauth w) of
                  (res, o1) \<Rightarrow>
                    (case res of Inl e \<Rightarrow> Inl e
                     | Inr None \<Rightarrow> Inl (unavailable aid capability ''<auth>'' False)
                     | Inr (Some t) \<Rightarrow> Inr (tk_access_token t),
                     w\<lparr>aw_oauth := o1\<rparr>)))"

text \<open>\<open>datetime.now\<close>, read from the clock of the world.\<close>

definition adapter_now :: "adapter_env \<Rightarrow> ('w adapter_world_scheme, exn, instant) py" where
  "adapter_now env w = (case oauth_now (ae_oauth env) (aw_oauth w) of (t, o1) \<Rightarrow> (Inr t, w\<lparr>aw_oauth := o1\<rparr>))"

text \<open>One request; the transport may raise.\<close>

definition send_request :: "adapter_env \<Rightarrow> api_request \<Rightarrow> ('w adapter_world_scheme, exn, reply) py" where
  "send_request env rq w = (ae_answer env (length (aw_requests w)) rq, w\<lparr>aw_requests := aw_requests w @ [rq]\<rparr>)"

section \<open>The inbound queue\<close>

text \<open>Both adapters append events and hand all of them over at a poll.\<close>

definition enqueue :: "RawInboundEvent \<Rightarrow> 'w adapter_world_scheme \<Rightarrow> 'w adapter_world_scheme" where
  "enqueue ev w = w\<lparr>aw_pending := aw_pending w @ [ev]\<rparr>"

definition poll_inbound :: "'w adapter_world_scheme \<Rightarrow> RawInboundEvent list \<times> 'w adapter_world_scheme" where
  "poll_inbound w = (aw_pending w, w\<lparr>aw_pending := []\<rparr>)"

text \<open>The contract of such a queue: what is pushed waits in order until a drain hands over everything.\<close>

locale inbound_queue =
  fixes push :: "'e \<Rightarrow> 's \<Rightarrow> 's" and drain :: "'s \<Rightarrow> 'e list \<times> 's" and waiting :: "'s \<Rightarrow> 'e list"
  assumes waiting_push: "waiting (push e s) = waiting s @ [e]"
    and drain_gives: "fst (drain s) = waiting s"
    and drain_empties: "waiting (snd (drain s)) = []"
begin

text \<open>A schedule of pushes (\<open>Some\<close>) and drains (\<open>None\<close>), with everything the drains handed over.\<close>

fun queue_run :: "'e option list \<Rightarrow> 's \<Rightarrow> 'e list \<times> 's" where
  "queue_run [] s = ([], s)"
| "queue_run (Some e # ops) s = queue_run ops (push e s)"
| "queue_run (None # ops) s = (case queue_run ops (snd (drain s)) of (out, s') \<Rightarrow> (fst (drain s) @ out, s'))"

lemma queue_run_exact:
  "fst (queue_run ops s) @ waiting (snd (queue_run ops s)) = waiting s @ List.map_filter id ops"
  by (induction ops s rule: queue_run.induct)
    (auto simp: List.map_filter_simps waiting_push drain_gives drain_empties split: prod.splits)

lemma queue_run_append:
  "queue_run (xs @ ys) s =
     (case queue_run xs s of (out, s1) \<Rightarrow> (case queue_run ys s1 of (out', s2) \<Rightarrow> (out @ out', s2)))"
  by (induction xs s rule: queue_run.induct) (simp_all split: prod.splits)

end

interpretation aq: inbound_queue enqueue poll_inbound aw_pending
  by unfold_locales (simp_all add: enqueue_def poll_inbound_def)

section \<open>Lemmas\<close>

lemmas raised_simps = raised_def make_error_def missing_fields_def error_at_def Let_def is_retryable_def error_field_def
  is_connect_error_def

lemma unavailable_retryable [simp]:
  "is_retryable (unavailable a p v r) \<longleftrightarrow> r" "is_connect_error (unavailable a p v r)"
  by (simp_all add: unavailable_def raised_simps)

lemma refused_retryable [simp]:
  "is_retryable (refused c a p v r) \<longleftrightarrow> class_retryable c" "is_connect_error (refused c a p v r)"
  by (simp_all add: refused_def raised_simps dict_simps)

end
