(* ===== verification/Slack_Adapter.thy ===== *)
theory Slack_Adapter
  imports Adapter_Shared
begin

text \<open>
  The Slack adapter: \<open>ota_connect/adapters/slack_socket/adapter.py\<close>.  The Web API's answers and
  \<open>float\<close> with \<open>datetime.fromtimestamp\<close> on a message's time stamp are parameters; keyword arguments
  arrive typed, in the constructor of the verb they are meant for.
\<close>

section \<open>Payloads\<close>

text \<open>\<open>urllib.parse.quote\<close> of ASCII text: letters, digits, four marks and the slash stay.\<close>

definition quote_safe :: "char \<Rightarrow> bool" where
  "quote_safe c \<longleftrightarrow> is_ascii_upper c \<or> CHR ''a'' \<le> c \<and> c \<le> CHR ''z'' \<or> CHR ''0'' \<le> c \<and> c \<le> CHR ''9'' \<or> c \<in> set ''_.-~/''"

definition hex_upper :: "nat \<Rightarrow> char" where
  "hex_upper n = (if n < 10 then char_of (48 + n) else char_of (55 + n))"

definition quote_char :: "char \<Rightarrow> string" where
  "quote_char c =
     (if quote_safe c then [c]
      else [CHR ''%'', hex_upper ((of_char c :: nat) div 16), hex_upper ((of_char c :: nat) mod 16)])"

definition quote_str :: "string \<Rightarrow> string" where
  "quote_str s = concat (map quote_char s)"

definition action_to_slack :: "Action \<Rightarrow> json" where
  "action_to_slack a =
     JObj [(''type'', JStr ''button''),
       (''text'', JObj [(''type'', JStr ''plain_text''), (''text'', JStr (at_label a))]),
       (''value'', JStr (at_value a)), (''action_id'', JStr (''action_'' @ take 200 (quote_str (at_value a))))]"

definition text_or_empty :: "string option \<Rightarrow> string" where
  "text_or_empty t = (case t of None \<Rightarrow> [] | Some s \<Rightarrow> s)"

definition block_to_slack :: "Block \<Rightarrow> json" where
  "block_to_slack b =
     (let section_of = (\<lambda>kind. JObj [(''type'', JStr kind),
            (''text'', JObj [(''type'', JStr (if kind = ''header'' then ''plain_text'' else ''mrkdwn'')),
               (''text'', JStr (text_or_empty (bk_text b)))])])
      in case bk_kind b of
           BkText \<Rightarrow> section_of ''section''
         | BkSection \<Rightarrow> section_of ''section''
         | BkHeader \<Rightarrow> section_of ''header''
         | BkDivider \<Rightarrow> JObj [(''type'', JStr ''divider'')]
         | BkActions \<Rightarrow> JObj [(''type'', JStr ''actions''),
             (''elements'', JArr (map action_to_slack (case bk_actions b of None \<Rightarrow> [] | Some acts \<Rightarrow> acts)))]
         | BkImage \<Rightarrow> section_of ''section''
         | BkCode \<Rightarrow> section_of ''section'')"

definition attachment_to_slack :: "Attachment \<Rightarrow> json" where
  "attachment_to_slack a =
     JObj [(''fallback'', JStr (ac_display_name a)), (''file_url'', JStr (ac_file a)), (''filename'', JStr (ac_display_name a))]"

definition block_texts :: "Block list \<Rightarrow> string list" where
  "block_texts bs = List.map_filter bk_text bs"

definition content_to_slack :: "content \<Rightarrow> string \<times> json option" where
  "content_to_slack m =
     (case m of
        TextContent t \<Rightarrow> (t, None)
      | BlockContent bs \<Rightarrow>
          (let t = join '' '' (block_texts bs)
           in (if t = [] then '' '' else t, Some (JArr (map block_to_slack bs)))))"

section \<open>Targets\<close>

text \<open>\<open>OtherTarget\<close> is a value of another type, with its name.\<close>

datatype target = ChannelTarget ChannelRef | IdentityTarget string | OtherTarget string

definition SLACK :: string where
  "SLACK = ''slack_socket_adapter''"

definition channel_id_for :: "target \<Rightarrow> exn + string" where
  "channel_id_for t =
     (case t of
        ChannelTarget c \<Rightarrow> Inr (ch_id c)
      | OtherTarget name \<Rightarrow> Inl (PyError ''TypeError'' (''unsupported target type: '' @ name))
      | IdentityTarget s \<Rightarrow>
          if startswith s ''raw:slack:'' then Inr (part_after CHR '':'' (part_after CHR '':'' s))
          else Inl (refused RecipientUnreachable SLACK ''messaging'' ''<resolve>''
            (''identity '' @ repr_str s @ '' cannot be resolved to a Slack channel; '' @
             ''upstream IdentityProvider must translate handle:/mailto: before dispatch'')))"

definition channel_ref :: "string \<Rightarrow> json \<Rightarrow> ChannelRef" where
  "channel_ref cid kind =
     \<lparr>ch_id = cid,
      ch_kind = (if kind \<in> {JStr ''dm'', JStr ''im''} then DmKind
                 else if kind \<in> {JStr ''group_dm'', JStr ''mpim''} then GroupDmKind else ChannelKind),
      ch_name = None, ch_adapter = SLACK\<rparr>"

section \<open>The Web API\<close>

definition UNREACHABLE_CODES :: "string list" where
  "UNREACHABLE_CODES = [''channel_not_found'', ''not_in_channel'', ''user_not_found'', ''im_disabled'', ''is_archived'']"

definition REJECTED_CODES :: "string list" where
  "REJECTED_CODES = [''msg_too_long'', ''no_text'', ''blocks_no_match'', ''message_not_found'']"

definition slack_refusal :: "string \<Rightarrow> json \<Rightarrow> exn" where
  "slack_refusal verb code =
     (case code of
        JStr s \<Rightarrow>
          if s = ''ratelimited'' then rate_limited SLACK ''messaging'' verb None
          else if s \<in> set UNREACHABLE_CODES then refused RecipientUnreachable SLACK ''messaging'' verb s
          else if s \<in> set REJECTED_CODES then refused MessageRejected SLACK ''messaging'' verb s
          else unavailable SLACK ''messaging'' verb False
      | _ \<Rightarrow> unavailable SLACK ''messaging'' verb False)"

definition check_slack_response :: "string \<Rightarrow> reply \<Rightarrow> exn + payload" where
  "check_slack_response verb r =
     (if rp_status r = 429 then Inl (rate_limited SLACK ''messaging'' verb (rp_retry_after r))
      else if rp_status r \<ge> 500 then Inl (unavailable SLACK ''messaging'' verb True)
      else if rp_status r \<ge> 400 then Inl (unavailable SLACK ''messaging'' verb False)
      else (case rp_json r of
              Inl e \<Rightarrow> Inl e
            | Inr (JObj d) \<Rightarrow>
                if falsy (dict_get_or d ''ok'' (JBool False))
                then Inl (slack_refusal verb (dict_get_or d ''error'' (JStr ''unknown'')))
                else Inr d
            | Inr j \<Rightarrow> Inl (no_attribute j ''get'')))"

record slack_env =
  sl_adapter :: adapter_env
  sl_from_ts :: "json \<Rightarrow> exn + instant"

definition post_sync :: "slack_env \<Rightarrow> adapter_config \<Rightarrow> string \<Rightarrow> payload \<Rightarrow> ('w adapter_world_scheme, exn, payload) py" where
  "post_sync env cfg meth body =
     try_bind (stored_token (sl_adapter env) SLACK ''messaging'' cfg) (\<lambda>token.
       try_bind (send_request (sl_adapter env)
           \<lparr>rq_method = ''POST'', rq_path = meth, rq_token = token, rq_body = Some body, rq_params = None\<rparr>)
         (\<lambda>r w. (check_slack_response meth r, w)))"

text \<open>A call and the reading of its answer.\<close>

definition after_post ::
  "slack_env \<Rightarrow> adapter_config \<Rightarrow> string \<Rightarrow> payload \<Rightarrow> (payload \<Rightarrow> exn + 'a) \<Rightarrow> ('w adapter_world_scheme, exn, 'a) py" where
  "after_post env cfg meth body read = try_bind (post_sync env cfg meth body) (\<lambda>d w. (read d, w))"

section \<open>Verbs\<close>

definition sent_ref :: "slack_env \<Rightarrow> string \<Rightarrow> payload \<Rightarrow> exn + MessageRef" where
  "sent_ref env cid d =
     or_raise (json_subscript (JObj d) ''ts'') (\<lambda>ts.
       or_raise (sl_from_ts env ts) (\<lambda>sent.
       or_raise (json_get (dict_get_or d ''message'' (JObj [])) ''permalink'' JNull) (\<lambda>link.
         Inr \<lparr>mr_id = ts, mr_channel = channel_ref cid (dict_get_or d ''channel_type'' (JStr ''channel'')),
              mr_sent_at = sent, mr_permalink = link, mr_adapter = SLACK\<rparr>)))"

definition opt_entry :: "string \<Rightarrow> json option \<Rightarrow> payload" where
  "opt_entry key v = (case v of None \<Rightarrow> [] | Some j \<Rightarrow> [(key, j)])"

definition slack_send_message ::
  "slack_env \<Rightarrow> adapter_config \<Rightarrow> target \<Rightarrow> content \<Rightarrow> ThreadRef option \<Rightarrow> Attachment list option \<Rightarrow> string \<Rightarrow>
   ('w adapter_world_scheme, exn, MessageRef) py" where
  "slack_send_message env cfg target m thread atts importance =
     (case channel_id_for target of
        Inl e \<Rightarrow> py_raise e
      | Inr cid \<Rightarrow>
          after_post env cfg ''chat.postMessage''
            ([(''channel'', JStr cid), (''text'', JStr (fst (content_to_slack m)))] @
             opt_entry ''blocks'' (snd (content_to_slack m)) @
             opt_entry ''thread_ts'' (map_option tr_id thread) @
             (if importance = ''high'' then [(''broadcast'', JBool False)] else []) @
             (case atts of None \<Rightarrow> [] | Some as \<Rightarrow>
                if as = [] then [] else [(''attachments'', JArr (map attachment_to_slack as))]))
            (sent_ref env cid))"

definition slack_edit_message ::
  "slack_env \<Rightarrow> adapter_config \<Rightarrow> MessageRef \<Rightarrow> content \<Rightarrow> ('w adapter_world_scheme, exn, MessageRef) py" where
  "slack_edit_message env cfg ref m =
     after_post env cfg ''chat.update''
       ([(''channel'', JStr (ch_id (mr_channel ref))), (''ts'', mr_id ref), (''text'', JStr (fst (content_to_slack m)))] @
        opt_entry ''blocks'' (snd (content_to_slack m)))
       (\<lambda>d. or_raise (json_subscript (JObj d) ''ts'') (\<lambda>ts.
          or_raise (sl_from_ts env ts) (\<lambda>sent.
            Inr \<lparr>mr_id = ts, mr_channel = mr_channel ref, mr_sent_at = sent,
                 mr_permalink = mr_permalink ref, mr_adapter = SLACK\<rparr>)))"

definition slack_delete_message :: "slack_env \<Rightarrow> adapter_config \<Rightarrow> MessageRef \<Rightarrow> ('w adapter_world_scheme, exn, unit) py" where
  "slack_delete_message env cfg ref =
     after_post env cfg ''chat.delete'' [(''channel'', JStr (ch_id (mr_channel ref))), (''ts'', mr_id ref)] (\<lambda>_. Inr ())"

text \<open>One page of message references, and its cursor.\<close>

definition message_of :: "slack_env \<Rightarrow> ChannelRef \<Rightarrow> json \<Rightarrow> exn + MessageRef" where
  "message_of env c m =
     or_raise (json_subscript m ''ts'') (\<lambda>ts.
       or_raise (sl_from_ts env ts) (\<lambda>sent.
       or_raise (json_get m ''permalink'' JNull) (\<lambda>link.
         Inr \<lparr>mr_id = ts, mr_channel = c, mr_sent_at = sent, mr_permalink = link, mr_adapter = SLACK\<rparr>)))"

definition messages_page :: "slack_env \<Rightarrow> ChannelRef \<Rightarrow> payload \<Rightarrow> exn + MessageRef list \<times> json" where
  "messages_page env c d =
     or_raise (json_items (dict_get_or d ''messages'' (JArr []))) (\<lambda>ms.
       or_raise (map_raise (message_of env c) ms) (\<lambda>items.
       or_raise (json_get (dict_get_or d ''response_metadata'' (JObj [])) ''next_cursor'' JNull) (\<lambda>cur.
         Inr (items, if falsy cur then JNull else cur))))"

definition slack_read_thread ::
  "slack_env \<Rightarrow> adapter_config \<Rightarrow> ThreadRef \<Rightarrow> int \<Rightarrow> json option \<Rightarrow> ('w adapter_world_scheme, exn, MessageRef list \<times> json) py" where
  "slack_read_thread env cfg thread limit cursor =
     after_post env cfg ''conversations.replies''
       ([(''channel'', JStr (ch_id (tr_channel thread))), (''ts'', tr_id thread), (''limit'', JInt limit)] @
        opt_entry ''cursor'' cursor)
       (messages_page env (tr_channel thread))"

text \<open>\<open>f"{t:.6f}"\<close> of a time stamp, exact to the microsecond.\<close>

definition timestamp_text :: "instant \<Rightarrow> string" where
  "timestamp_text t =
     (if t < 0 then ''-'' else []) @ int_str (\<bar>t\<bar> div 1000000) @ ''.'' @ zero_pad 6 (\<bar>t\<bar> mod 1000000)"

definition slack_list_recent_messages ::
  "slack_env \<Rightarrow> adapter_config \<Rightarrow> target \<Rightarrow> instant option \<Rightarrow> int \<Rightarrow> json option \<Rightarrow>
   ('w adapter_world_scheme, exn, MessageRef list \<times> json) py" where
  "slack_list_recent_messages env cfg channel since limit cursor =
     (case channel_id_for channel of
        Inl e \<Rightarrow> py_raise e
      | Inr cid \<Rightarrow>
          after_post env cfg ''conversations.history''
            ([(''channel'', JStr cid), (''limit'', JInt limit)] @ opt_entry ''cursor'' cursor @
             opt_entry ''oldest'' (map_option (JStr \<circ> timestamp_text) since))
            (messages_page env (channel_ref cid (JStr ''channel''))))"

section \<open>\<open>invoke\<close>\<close>

datatype slack_args =
    SendArgs target content "ThreadRef option" "Attachment list option" string
  | EditArgs MessageRef content
  | DeleteArgs MessageRef
  | ReadArgs ThreadRef int "json option"
  | ListArgs target "instant option" int "json option"

datatype slack_result = SentMessage MessageRef | NoResult | MessagePage "MessageRef list" json

primrec slack_verb :: "slack_args \<Rightarrow> string" where
  "slack_verb (SendArgs t m th as i) = ''send_message''"
| "slack_verb (EditArgs r m) = ''edit_message''"
| "slack_verb (DeleteArgs r) = ''delete_message''"
| "slack_verb (ReadArgs t n c) = ''read_thread''"
| "slack_verb (ListArgs t s n c) = ''list_recent_messages''"

primrec slack_handler :: "slack_env \<Rightarrow> adapter_config \<Rightarrow> slack_args \<Rightarrow> ('w adapter_world_scheme, exn, slack_result) py" where
  "slack_handler env cfg (SendArgs t m th as i) =
     try_bind (slack_send_message env cfg t m th as i) (\<lambda>r. py_return (SentMessage r))"
| "slack_handler env cfg (EditArgs r m) = try_bind (slack_edit_message env cfg r m) (\<lambda>r. py_return (SentMessage r))"
| "slack_handler env cfg (DeleteArgs r) = try_bind (slack_delete_message env cfg r) (\<lambda>_. py_return NoResult)"
| "slack_handler env cfg (ReadArgs t n c) =
     try_bind (slack_read_thread env cfg t n c) (\<lambda>p. py_return (MessagePage (fst p) (snd p)))"
| "slack_handler env cfg (ListArgs t s n c) =
     try_bind (slack_list_recent_messages env cfg t s n c) (\<lambda>p. py_return (MessagePage (fst p) (snd p)))"

definition SLACK_VERBS :: "string list" where
  "SLACK_VERBS = [''send_message'', ''edit_message'', ''delete_message'', ''read_thread'', ''list_recent_messages'']"

text \<open>Arguments of another verb do not fit the handler's signature; the text of that error is not Python's.\<close>

definition slack_invoke ::
  "slack_env \<Rightarrow> adapter_config \<Rightarrow> string \<Rightarrow> string \<Rightarrow> slack_args \<Rightarrow> ('w adapter_world_scheme, exn, slack_result) py" where
  "slack_invoke env cfg capability verb args =
     (if capability \<noteq> ''messaging''
      then py_raise (PyError ''NotImplementedError''
        (''slack_socket_adapter only implements messaging.*, got '' @ capability @ ''.'' @ verb))
      else if verb \<notin> set SLACK_VERBS
      then py_raise (PyError ''NotImplementedError'' (''messaging.'' @ verb @ '' not implemented by slack adapter''))
      else if slack_verb args \<noteq> verb
      then py_raise (PyError ''TypeError'' (''unexpected arguments for '' @ verb))
      else slack_handler env cfg args)"

section \<open>Socket Mode\<close>

definition ingest_socket_payload ::
  "string \<Rightarrow> payload \<Rightarrow> string \<Rightarrow> json \<Rightarrow> 'w adapter_world_scheme \<Rightarrow> 'w adapter_world_scheme" where
  "ingest_socket_payload rid p kind corr =
     enqueue \<lparr>ri_kind = kind, ri_routine_id = rid, ri_payload = p, ri_correlation_id = corr\<rparr>"

text \<open>The listener's loop. An item is a payload, with the state of the stop flag when it arrives, or the
  exception the stream ends with; a payload that has no \<open>get\<close> is logged and skipped.\<close>

datatype socket_item = SocketPayload bool json | SocketFails exn

fun listener_run :: "string \<Rightarrow> socket_item list \<Rightarrow> ('w adapter_world_scheme, exn, unit) py" where
  "listener_run rid [] w = (Inr (), w)"
| "listener_run rid (SocketFails e # rest) w = (Inl e, w)"
| "listener_run rid (SocketPayload stopped j # rest) w =
     (if stopped then (Inr (), w)
      else (case j of
              JObj d \<Rightarrow> listener_run rid rest
                (ingest_socket_payload rid d ''messaging.action_triggered'' (dict_get_or d ''trigger_id'' JNull) w)
            | _ \<Rightarrow> listener_run rid rest w))"

end
