(* ===== verification/Slack_Properties.thy ===== *)
theory Slack_Properties
  imports Slack_Adapter OAuth_Properties
begin

text \<open>
  What a call of the Slack adapter does: at most one request, to the channel its argument names; the hint
  to retry the caller gets for every answer; and the identity of the buttons it draws.
\<close>

section \<open>One request\<close>

text \<open>The Web API's method and the channel of each call; a target that is not resolved has none.\<close>

primrec api_method :: "slack_args \<Rightarrow> string" where
  "api_method (SendArgs t m th as i) = ''chat.postMessage''"
| "api_method (EditArgs r m) = ''chat.update''"
| "api_method (DeleteArgs r) = ''chat.delete''"
| "api_method (ReadArgs t n c) = ''conversations.replies''"
| "api_method (ListArgs t s n c) = ''conversations.history''"

primrec api_channel :: "slack_args \<Rightarrow> exn + string" where
  "api_channel (SendArgs t m th as i) = channel_id_for t"
| "api_channel (EditArgs r m) = Inr (ch_id (mr_channel r))"
| "api_channel (DeleteArgs r) = Inr (ch_id (mr_channel r))"
| "api_channel (ReadArgs t n c) = Inr (ch_id (tr_channel t))"
| "api_channel (ListArgs t s n c) = channel_id_for t"

definition one_call :: "string \<Rightarrow> string \<Rightarrow> 'w adapter_world_scheme \<Rightarrow> (exn + 'a) \<times> 'w adapter_world_scheme \<Rightarrow> bool" where
  "one_call meth cid w p \<longleftrightarrow>
     (\<exists>rqs. aw_requests (snd p) = aw_requests w @ rqs \<and> aw_pending (snd p) = aw_pending w \<and> length rqs \<le> 1 \<and>
        (isl (fst p) \<or> length rqs = 1) \<and>
        list_all (\<lambda>rq. rq_path rq = meth \<and> map_option (\<lambda>b. dict_get b ''channel'') (rq_body rq) = Some (Some (JStr cid))) rqs)"

lemma stored_token_quiet:
  "stored_token env aid cap cfg w = (res, w') \<Longrightarrow> aw_requests w' = aw_requests w \<and> aw_pending w' = aw_pending w"
  by (auto simp: stored_token_def split: option.splits prod.splits if_splits)

lemma after_post_one_call:
  assumes "dict_get body ''channel'' = Some (JStr cid)"
  shows "one_call meth cid w (after_post env cfg meth body read w)"
proof (cases "stored_token (sl_adapter env) SLACK ''messaging'' cfg w")
  case (Pair tok w1)
  note quiet = stored_token_quiet [OF Pair]
  show ?thesis
  proof (cases tok)
    case (Inl e)
    then show ?thesis using Pair quiet by (simp add: after_post_def post_sync_def try_bind_def one_call_def)
  next
    case (Inr t)
    let ?rq = "\<lparr>rq_method = ''POST'', rq_path = meth, rq_token = t, rq_body = Some body, rq_params = None\<rparr>"
    have "aw_requests (snd (after_post env cfg meth body read w)) = aw_requests w @ [?rq]"
      "aw_pending (snd (after_post env cfg meth body read w)) = aw_pending w"
      using Pair Inr quiet
      by (auto simp: after_post_def post_sync_def try_bind_def send_request_def split: sum.splits)
    then show ?thesis unfolding one_call_def using assms by (intro exI [of _ "[?rq]"]) simp
  qed
qed

lemma one_call_return: "one_call meth cid w (f w) \<Longrightarrow> one_call meth cid w (try_bind f (\<lambda>a. py_return (g a)) w)"
  by (auto simp: one_call_def try_bind_def py_return_def split: prod.splits sum.splits)

lemma slack_handler_one_call:
  "(\<exists>e. api_channel args = Inl e \<and> slack_handler env cfg args w = (Inl e, w)) \<or>
   (\<exists>cid. api_channel args = Inr cid \<and> one_call (api_method args) cid w (slack_handler env cfg args w))"
  by (cases args)
    (auto simp: slack_send_message_def slack_edit_message_def slack_delete_message_def slack_read_thread_def slack_list_recent_messages_def
      try_bind_def [of "py_raise e" for e] py_raise_def intro!: one_call_return after_post_one_call split: sum.splits)

text \<open>A call of the Slack adapter makes at most one request, and exactly one when it returns; every request
  is the Web API method of the verb on the channel the argument names.  Nothing is sent for a target that
  cannot be resolved, and no inbound event is touched.\<close>

theorem slack_call_one_request:
  assumes "slack_invoke env cfg capability verb args w = (res, w')"
  shows "\<exists>rqs. aw_requests w' = aw_requests w @ rqs \<and> aw_pending w' = aw_pending w \<and> length rqs \<le> 1 \<and>
    (isl res \<or> length rqs = 1) \<and>
    list_all (\<lambda>rq. rq_path rq = api_method args \<and>
      (\<exists>cid. api_channel args = Inr cid \<and> map_option (\<lambda>b. dict_get b ''channel'') (rq_body rq) = Some (Some (JStr cid)))) rqs"
proof (cases "capability = ''messaging'' \<and> verb \<in> set SLACK_VERBS \<and> slack_verb args = verb")
  case True
  then have run: "slack_handler env cfg args w = (res, w')" using assms by (simp add: slack_invoke_def)
  from slack_handler_one_call [of args env cfg w] show ?thesis
  proof (elim disjE exE conjE)
    fix e assume "slack_handler env cfg args w = (Inl e, w)"
    then show ?thesis using run by (intro exI [of _ "[]"]) simp
  next
    fix cid assume "api_channel args = Inr cid" "one_call (api_method args) cid w (slack_handler env cfg args w)"
    then show ?thesis unfolding run one_call_def by auto
  qed
next
  case False
  then have "isl res" "w' = w" using assms by (auto simp: slack_invoke_def py_raise_def split: if_splits)
  then show ?thesis by (intro exI [of _ "[]"]) simp
qed

definition ex_slack_env :: slack_env where
  "ex_slack_env = \<lparr>sl_adapter = \<lparr>ae_oauth = ex_oauth, ae_answer = (\<lambda>_ _. Inr \<lparr>rp_status = 200, rp_retry_after = None,
       rp_content = True, rp_json = Inr (JObj [(''ok'', JBool True), (''ts'', JStr ''5.0'')])\<rparr>)\<rparr>,
     sl_from_ts = (\<lambda>_. Inr 5000000)\<rparr>"

definition ex_slack_config :: adapter_config where
  "ex_slack_config = \<lparr>ag_has_store = False, ag_token_override = Some ''xoxb'', ag_integration_id = ''slack.com''\<rparr>"

definition ex_slack_world :: adapter_world where
  "ex_slack_world = \<lparr>aw_oauth = ex_oauth_world, aw_requests = [], aw_pending = []\<rparr>"

definition ex_send :: slack_args where
  "ex_send = SendArgs (IdentityTarget ''raw:slack:C1'') (TextContent ''hi'') None None ''normal''"

lemma slack_call_one_request_witness:
  "\<exists>res w'. slack_invoke ex_slack_env ex_slack_config ''messaging'' ''send_message'' ex_send ex_slack_world = (res, w') \<and>
     isl res = False \<and> length (aw_requests w') = 1"
proof -
  let ?r = "slack_invoke ex_slack_env ex_slack_config ''messaging'' ''send_message'' ex_send ex_slack_world"
  obtain res w' where run: "?r = (res, w')" by (cases ?r)
  have "fst ?r = Inr (SentMessage \<lparr>mr_id = JStr ''5.0'', mr_channel = channel_ref ''C1'' (JStr ''channel''),
      mr_sent_at = 5000000, mr_permalink = JNull, mr_adapter = SLACK\<rparr>)"
    by code_simp
  then have ok: "isl res = False" using run by simp
  from slack_call_one_request [OF run] ok have "length (aw_requests w') = 1" by (auto simp: ex_slack_world_def)
  with run ok show ?thesis by blast
qed

section \<open>The hint to retry\<close>

text \<open>The answers after which the caller is told to try again.\<close>

definition worth_retry :: "exn + reply \<Rightarrow> bool" where
  "worth_retry answer =
     (case answer of
        Inl e \<Rightarrow> is_connect_error e \<longrightarrow> is_retryable e
      | Inr r \<Rightarrow>
          if rp_status r \<ge> 400 then rp_status r = 429 \<or> rp_status r \<ge> 500
          else (case rp_json r of
                  Inl e \<Rightarrow> is_connect_error e \<longrightarrow> is_retryable e
                | Inr (JObj d) \<Rightarrow> dict_get d ''error'' = Some (JStr ''ratelimited'')
                | Inr _ \<Rightarrow> True))"

lemma normalize_retryable [simp]:
  "is_retryable (normalize_error a c v e) \<longleftrightarrow> (is_connect_error e \<longrightarrow> is_retryable e)"
  by (simp add: normalize_error_def unavailable_error_def is_retryable_def error_field_def)

lemma rate_limited_hint: "is_connect_error (rate_limited a c v h) \<longrightarrow> is_retryable (rate_limited a c v h)"
  by (auto simp: rate_limited_def retry_delta_def raised_simps class_retryable_def dict_simps
      split: option.splits sum.splits if_splits exn.splits)

lemma rate_limited_none: "is_connect_error (rate_limited a c v None)" "is_retryable (rate_limited a c v None)"
  by (simp_all add: rate_limited_def retry_delta_def raised_simps class_retryable_def dict_simps)

lemma class_retryable_refusals [simp]: "\<not> class_retryable RecipientUnreachable" "\<not> class_retryable MessageRejected"
  by (simp_all add: class_retryable_def)

lemma refusal_hint:
  "is_connect_error (slack_refusal v code) \<and> (is_retryable (slack_refusal v code) \<longleftrightarrow> code = JStr ''ratelimited'')"
proof (cases code)
  case (JStr s)
  have "''ratelimited'' \<notin> set UNREACHABLE_CODES" "''ratelimited'' \<notin> set REJECTED_CODES"
    by (simp_all add: UNREACHABLE_CODES_def REJECTED_CODES_def)
  with JStr show ?thesis by (simp add: slack_refusal_def rate_limited_none)
qed (simp_all add: slack_refusal_def)

lemma check_slack_hint:
  assumes "check_slack_response v r = Inl e"
  shows "(is_connect_error e \<longrightarrow> is_retryable e) \<longleftrightarrow> worth_retry (Inr r)"
proof -
  consider "rp_status r \<ge> 400" | "rp_status r < 400" by linarith
  then show ?thesis
  proof cases
    case 1
    then show ?thesis
      using assms rate_limited_hint [of SLACK "''messaging''" v "rp_retry_after r"]
      by (auto simp: check_slack_response_def worth_retry_def split: if_splits)
  next
    case 2
    have plain: "\<not> is_connect_error (no_attribute j k)" for j k
      by (simp add: no_attribute_def is_connect_error_def)
    from 2 show ?thesis
      using assms refusal_hint
      by (auto simp: check_slack_response_def worth_retry_def plain dict_get_or_def
          split: sum.splits json.splits if_splits option.splits)
  qed
qed


definition ex_limited_env :: slack_env where
  "ex_limited_env = ex_slack_env\<lparr>sl_adapter := \<lparr>ae_oauth = ex_oauth, ae_answer = (\<lambda>_ _. Inr \<lparr>rp_status = 429,
     rp_retry_after = Some ''30'', rp_content = True, rp_json = Inr JNull\<rparr>)\<rparr>\<rparr>"


section \<open>Inbound events\<close>

text \<open>The events a stream puts into the queue: one for each payload that is a mapping, up to the first one
  that finds the stop flag set, or to the end of the stream.\<close>

fun ingested :: "string \<Rightarrow> socket_item list \<Rightarrow> RawInboundEvent list" where
  "ingested rid [] = []"
| "ingested rid (SocketFails e # rest) = []"
| "ingested rid (SocketPayload stopped j # rest) =
     (if stopped then []
      else (case j of
              JObj d \<Rightarrow> \<lparr>ri_kind = ''messaging.action_triggered'', ri_routine_id = rid, ri_payload = d,
                          ri_correlation_id = dict_get_or d ''trigger_id'' JNull\<rparr> # ingested rid rest
            | _ \<Rightarrow> ingested rid rest))"

lemma listener_is_pushes:
  "snd (listener_run rid items w) = snd (aq.queue_run (map Some (ingested rid items)) w)"
  by (induction rid items w rule: listener_run.induct)
    (auto simp: ingest_socket_payload_def split: json.splits)

lemma pushes_hand_over_nothing: "fst (aq.queue_run (map Some evs) w) = []"
  by (induction evs arbitrary: w) simp_all

lemma pushes_hand_over_nothing_eq: "aq.queue_run (map Some evs) w = (out, w') \<Longrightarrow> out = []"
  using pushes_hand_over_nothing [of evs w] by simp

datatype slack_op = Listen "socket_item list" | PollSlack

fun slack_run :: "string \<Rightarrow> slack_op list \<Rightarrow> 'w adapter_world_scheme \<Rightarrow> RawInboundEvent list \<times> 'w adapter_world_scheme" where
  "slack_run rid [] w = ([], w)"
| "slack_run rid (Listen items # ops) w = slack_run rid ops (snd (listener_run rid items w))"
| "slack_run rid (PollSlack # ops) w =
     (case slack_run rid ops (snd (poll_inbound w)) of (out, w') \<Rightarrow> (fst (poll_inbound w) @ out, w'))"

primrec op_schedule :: "string \<Rightarrow> slack_op \<Rightarrow> RawInboundEvent option list" where
  "op_schedule rid (Listen items) = map Some (ingested rid items)"
| "op_schedule rid PollSlack = [None]"

lemma slack_run_schedule: "slack_run rid ops w = aq.queue_run (concat (map (op_schedule rid) ops)) w"
  by (induction rid ops w rule: slack_run.induct)
    (auto simp: aq.queue_run_append listener_is_pushes dest: pushes_hand_over_nothing_eq split: prod.splits)

primrec op_events :: "string \<Rightarrow> slack_op \<Rightarrow> RawInboundEvent list" where
  "op_events rid (Listen items) = ingested rid items"
| "op_events rid PollSlack = []"

lemma schedule_events: "List.map_filter id (concat (map (op_schedule rid) ops)) = concat (map (op_events rid) ops)"
proof (induction ops)
  case (Cons opn ops)
  have pushed: "List.map_filter id (map Some evs) = evs" for evs :: "RawInboundEvent list"
    by (induction evs) (simp_all add: List.map_filter_simps)
  have splits_up: "List.map_filter id (xs @ ys) = List.map_filter id xs @ List.map_filter id ys" for xs ys :: "RawInboundEvent option list"
    by (simp add: List.map_filter_def)
  have gap: "List.map_filter id [None :: RawInboundEvent option] = []" by (simp add: List.map_filter_def)
  have "List.map_filter id (op_schedule rid opn) = op_events rid opn" by (cases opn) (simp_all only: op_schedule.simps op_events.simps pushed gap)
  then show ?case using Cons by (simp add: splits_up del: id_apply)
qed (simp add: List.map_filter_simps)


section \<open>Buttons\<close>

lemma hex_upper_inj: "a < 16 \<Longrightarrow> b < 16 \<Longrightarrow> hex_upper a = hex_upper b \<Longrightarrow> a = b"
proof -
  have "list_all (\<lambda>x. list_all (\<lambda>y. hex_upper x = hex_upper y \<longrightarrow> x = y) [0..<16]) [0..<16]" by code_simp
  then show "a < 16 \<Longrightarrow> b < 16 \<Longrightarrow> hex_upper a = hex_upper b \<Longrightarrow> a = b" by (simp add: list_all_iff)
qed

lemma percent_unsafe: "\<not> quote_safe (CHR ''%'')"
  by code_simp

lemma quote_char_prefix: "quote_char c @ x = quote_char d @ y \<Longrightarrow> c = d \<and> x = y"
proof -
  assume eq: "quote_char c @ x = quote_char d @ y"
  have small: "(of_char z :: nat) div 16 < 16" for z :: char
  proof -
    have "(of_char z :: nat) < 256" using nat_of_char_less_256 [of z] by simp
    then show ?thesis by (intro less_mult_imp_div_less) simp
  qed
  show "c = d \<and> x = y"
  proof (cases "quote_safe c \<or> quote_safe d")
    case True
    then show ?thesis using eq percent_unsafe by (auto simp: quote_char_def split: if_splits)
  next
    case False
    then have "(of_char c :: nat) div 16 = of_char d div 16" "(of_char c :: nat) mod 16 = of_char d mod 16" "x = y"
      using eq by (auto simp: quote_char_def intro!: hex_upper_inj [OF small small] hex_upper_inj)
    then have "(of_char c :: nat) = of_char d" by (metis div_mult_mod_eq)
    with \<open>x = y\<close> show ?thesis by simp
  qed
qed

lemma quote_char_nonempty: "quote_char c \<noteq> []"
  by (simp add: quote_char_def)

lemma quote_str_inj: "quote_str s = quote_str t \<Longrightarrow> s = t"
proof (induction s arbitrary: t)
  case Nil
  then show ?case by (cases t) (simp_all add: quote_str_def quote_char_nonempty)
next
  case (Cons c s)
  then obtain d t' where t: "t = d # t'" by (cases t) (auto simp: quote_str_def quote_char_nonempty)
  then have "quote_char c @ quote_str s = quote_char d @ quote_str t'" using Cons.prems by (simp add: quote_str_def)
  then show ?case using quote_char_prefix Cons.IH t by blast
qed

definition action_id :: "Action \<Rightarrow> string" where
  "action_id a = (case action_to_slack a of JObj d \<Rightarrow> (case dict_get d ''action_id'' of Some (JStr s) \<Rightarrow> s | _ \<Rightarrow> []) | _ \<Rightarrow> [])"

lemma action_id_eq: "action_id a = ''action_'' @ take 200 (quote_str (at_value a))"
  by (simp add: action_id_def action_to_slack_def)

text \<open>The identifier of a button has at most 207 characters, and two buttons whose quoted values fit into 200
  characters have the same identifier only when they carry the same value.\<close>

theorem button_ids_distinguish:
  "length (action_id a) \<le> 207 \<and>
   (length (quote_str (at_value a)) \<le> 200 \<and> length (quote_str (at_value b)) \<le> 200 \<longrightarrow>
      (action_id a = action_id b \<longleftrightarrow> at_value a = at_value b))"
  by (auto simp: action_id_eq dest: quote_str_inj)

lemma button_ids_distinguish_witness:
  "action_id \<lparr>at_kind = ButtonAction, at_label = ''Yes'', at_value = ''ok?'', at_style = StyleDefault, at_options = None\<rparr>
   \<noteq> action_id \<lparr>at_kind = ButtonAction, at_label = ''Yes'', at_value = ''ok!'', at_style = StyleDefault, at_options = None\<rparr>"
proof -
  have "length (quote_str ''ok?'') \<le> 200" "length (quote_str ''ok!'') \<le> 200" by code_simp+
  then show ?thesis
    using button_ids_distinguish
      [of "\<lparr>at_kind = ButtonAction, at_label = ''Yes'', at_value = ''ok?'', at_style = StyleDefault, at_options = None\<rparr>"
          "\<lparr>at_kind = ButtonAction, at_label = ''Yes'', at_value = ''ok!'', at_style = StyleDefault, at_options = None\<rparr>"]
    by simp
qed

text \<open>Longer values can share an identifier.\<close>

lemma long_button_ids_collide:
  "take 200 (quote_str (at_value a)) = take 200 (quote_str (at_value b)) \<Longrightarrow> action_id a = action_id b"
  by (simp add: action_id_eq)

end
