(* ===== verification/Gmail_Adapter.thy ===== *)
theory Gmail_Adapter
  imports Adapter_Shared "HOL-Library.Word"
begin

text \<open>
  The Gmail adapter: \<open>ota_connect/adapters/gmail_oauth/adapter.py\<close>.  The state adds the last history
  identifier and the number of messages composed to that of \<open>Adapter_Shared\<close>.  Parameters are the REST
  answers, the bytes \<open>EmailMessage.as_bytes\<close> gives a message, \<open>formatdate\<close>, \<open>make_msgid\<close>, and the error of
  a time stamp \<open>datetime\<close> cannot hold.  The parsing of a header's value is taken not to raise, apart from
  the check for line breaks.  A reason that is no text is kept as its text.
\<close>

section \<open>Base64\<close>

type_synonym byte = "8 word"

definition b64_char :: "nat \<Rightarrow> char" where
  "b64_char n =
     (if n < 26 then char_of (65 + n) else if n < 52 then char_of (71 + n) else if n < 62 then char_of (n - 4)
      else if n = 62 then CHR ''-'' else CHR ''_'')"

text \<open>The URL-safe alphabet, padded to groups of four.\<close>

fun urlsafe_b64encode :: "byte list \<Rightarrow> string" where
  "urlsafe_b64encode [] = []"
| "urlsafe_b64encode [a] =
     [b64_char (unat a div 4), b64_char (unat a mod 4 * 16), CHR ''='', CHR ''='']"
| "urlsafe_b64encode [a, b] =
     [b64_char (unat a div 4), b64_char (unat a mod 4 * 16 + unat b div 16), b64_char (unat b mod 16 * 4), CHR ''='']"
| "urlsafe_b64encode (a # b # c # rest) =
     b64_char (unat a div 4) # b64_char (unat a mod 4 * 16 + unat b div 16) #
     b64_char (unat b mod 16 * 4 + unat c div 64) # b64_char (unat c mod 64) # urlsafe_b64encode rest"

definition rstrip_eq :: "string \<Rightarrow> string" where
  "rstrip_eq s = rev (dropWhile (\<lambda>c. c = CHR ''='') (rev s))"

definition b64url :: "byte list \<Rightarrow> string" where
  "b64url data = rstrip_eq (urlsafe_b64encode data)"

section \<open>Composing a message\<close>

definition GMAIL :: string where
  "GMAIL = ''gmail_oauth_adapter''"

definition identity_to_address :: "string \<Rightarrow> exn + string" where
  "identity_to_address ref =
     (if startswith ref ''mailto:'' then Inr (drop 7 ref)
      else if startswith ref ''handle:''
      then Inl (refused RecipientUnreachable GMAIL ''email'' ''<resolve>''
        (''identity '' @ repr_str ref @ '' not resolved to an email address''))
      else if startswith ref ''raw:gmail:'' then Inr (drop 10 ref)
      else if CHR ''@'' \<in> set ref then Inr ref
      else Inl (refused RecipientUnreachable GMAIL ''email'' ''<resolve>'' (''unrecognized IdentityRef '' @ repr_str ref)))"

text \<open>\<open>len(value.splitlines()) > 1\<close>: there is text after the first line break.\<close>

definition multi_line :: "string \<Rightarrow> bool" where
  "multi_line s =
     (case dropWhile (\<lambda>c. \<not> is_line_break c) s of
        [] \<Rightarrow> False
      | c # rest \<Rightarrow> (if c = CHR 0x0D \<and> take 1 rest = [CHR 0x0A] then drop 1 rest else rest) \<noteq> [])"

record mime =
  mm_headers :: "(string \<times> string) list"
  mm_content :: string
  mm_attachments :: "(byte list \<times> string) list"

definition add_header :: "string \<Rightarrow> string \<Rightarrow> mime \<Rightarrow> exn + mime" where
  "add_header name value m =
     (if multi_line value
      then Inl (PyError ''ValueError'' ''Header values may not contain linefeed or carriage return characters'')
      else Inr (m\<lparr>mm_headers := mm_headers m @ [(name, value)]\<rparr>))"

definition add_recipients :: "string \<Rightarrow> string list \<Rightarrow> mime \<Rightarrow> exn + mime" where
  "add_recipients name refs m =
     or_raise (map_raise identity_to_address refs) (\<lambda>addresses. add_header name (join '', '' addresses) m)"

definition add_optional :: "string \<Rightarrow> string list option \<Rightarrow> mime \<Rightarrow> exn + mime" where
  "add_optional name refs m =
     (case refs of None \<Rightarrow> Inr m | Some rs \<Rightarrow> if rs = [] then Inr m else add_recipients name rs m)"

text \<open>The placeholder of the source: no attachment has any bytes.\<close>

definition attachment_bytes :: "Attachment \<Rightarrow> byte list" where
  "attachment_bytes a = []"

definition plain_text :: "content \<Rightarrow> string" where
  "plain_text body =
     (case body of
        TextContent t \<Rightarrow> t
      | BlockContent bs \<Rightarrow>
          (let plain = join (nl @ nl) (List.map_filter bk_text bs) in if plain = [] then '' '' else plain))"

text \<open>What a draft and a sent message are composed from.\<close>

record draft =
  df_to :: "string list"
  df_subject :: string
  df_body :: content
  df_cc :: "string list option"
  df_bcc :: "string list option"
  df_reply_to :: "EmailRef option"
  df_attachments :: "Attachment list option"
  df_importance :: string

definition add_headers :: "(string \<times> string) list \<Rightarrow> mime \<Rightarrow> exn + mime" where
  "add_headers hs m = foldl (\<lambda>acc h. or_raise acc (add_header (fst h) (snd h))) (Inr m) hs"

definition reply_headers :: "EmailRef option \<Rightarrow> (string \<times> string) list" where
  "reply_headers reply_to =
     (case reply_to of
        None \<Rightarrow> []
      | Some r \<Rightarrow> (case er_message_id_header r of
          None \<Rightarrow> [] | Some h \<Rightarrow> if h = [] then [] else [(''In-Reply-To'', h), (''References'', h)]))"

definition address_headers :: "draft \<Rightarrow> exn + mime" where
  "address_headers d =
     or_raise (add_recipients ''To'' (df_to d) \<lparr>mm_headers = [], mm_content = [], mm_attachments = []\<rparr>) (\<lambda>m1.
     or_raise (add_optional ''Cc'' (df_cc d) m1) (\<lambda>m2.
     or_raise (add_optional ''Bcc'' (df_bcc d) m2) (add_header ''Subject'' (df_subject d))))"

definition finish_mime :: "string \<Rightarrow> string \<Rightarrow> draft \<Rightarrow> mime \<Rightarrow> exn + mime" where
  "finish_mime date msgid d m =
     or_raise (add_headers
         ([(''Date'', date), (''Message-ID'', msgid)] @ reply_headers (df_reply_to d) @
          (if df_importance d = ''high'' then [(''X-Priority'', ''1''), (''Importance'', ''High'')] else [])) m) (\<lambda>m1.
       Inr (m1\<lparr>mm_content := plain_text (df_body d),
               mm_attachments := (case df_attachments d of None \<Rightarrow> []
                 | Some as \<Rightarrow> map (\<lambda>a. (attachment_bytes a, ac_display_name a)) as)\<rparr>))"

section \<open>Answers\<close>

text \<open>\<open>needle in j\<close>.\<close>

definition json_in :: "string \<Rightarrow> json \<Rightarrow> exn + bool" where
  "json_in needle j =
     (case j of
        JStr s \<Rightarrow> Inr (contains_str s needle)
      | JArr xs \<Rightarrow> Inr (JStr needle \<in> set xs)
      | JObj d \<Rightarrow> Inr (dict_has d needle)
      | _ \<Rightarrow> Inl (not_iterable j))"

definition gmail_refusal :: "string \<Rightarrow> int \<Rightarrow> json \<Rightarrow> exn" where
  "gmail_refusal verb status body =
     (let outcome =
        or_raise (json_get body ''error'' (JObj [])) (\<lambda>err.
        or_raise (json_get err ''message'' (JStr (''HTTP '' @ int_str status))) (\<lambda>reason.
        or_raise (json_in ''Requested entity was not found'' reason) (\<lambda>gone.
        or_raise (if gone then Inr True
                  else or_raise (json_get err ''status'' (JStr [])) (\<lambda>st. Inr (contains_str (json_text st) ''notFound'')))
          (\<lambda>unreachable.
             Inr (refused (if unreachable then RecipientUnreachable else MessageRejected) GMAIL ''email'' verb (json_text reason))))))
      in case outcome of Inl e \<Rightarrow> e | Inr e \<Rightarrow> e)"

definition check_gmail_response :: "string \<Rightarrow> reply \<Rightarrow> exn + json" where
  "check_gmail_response verb r =
     (if rp_status r = 429 then Inl (rate_limited GMAIL ''email'' verb (rp_retry_after r))
      else if rp_status r = 400 \<or> rp_status r = 404
      then Inl (gmail_refusal verb (rp_status r) (case rp_json r of Inl _ \<Rightarrow> JObj [] | Inr j \<Rightarrow> j))
      else if rp_status r \<ge> 500 then Inl (unavailable GMAIL ''email'' verb True)
      else if rp_status r \<ge> 400 then Inl (unavailable GMAIL ''email'' verb False)
      else if rp_status r = 204 \<or> \<not> rp_content r then Inr (JObj [])
      else (case rp_json r of Inl _ \<Rightarrow> Inl (unavailable GMAIL ''email'' verb False) | Inr j \<Rightarrow> Inr j))"

section \<open>Requests\<close>

record gmail_env =
  gm_adapter :: adapter_env
  gm_as_bytes :: "mime \<Rightarrow> byte list"
  gm_formatdate :: "instant \<Rightarrow> string"
  gm_msgid :: "nat \<Rightarrow> string"
  gm_out_of_range :: "int \<Rightarrow> exn"

record gmail_world = adapter_world +
  gw_last_history_id :: json
  gw_composed :: nat

definition gmail_access_token :: "gmail_env \<Rightarrow> adapter_config \<Rightarrow> (gmail_world, exn, json) py" where
  "gmail_access_token env cfg = stored_token (gm_adapter env) GMAIL ''email'' cfg"

definition gmail_poll_inbound :: "gmail_world \<Rightarrow> RawInboundEvent list \<times> gmail_world" where
  "gmail_poll_inbound w = poll_inbound w"

definition gmail_request ::
  "gmail_env \<Rightarrow> adapter_config \<Rightarrow> string \<Rightarrow> string \<Rightarrow> payload option \<Rightarrow> payload option \<Rightarrow> (gmail_world, exn, json) py" where
  "gmail_request env cfg meth path body params =
     try_bind (gmail_access_token env cfg) (\<lambda>token.
       try_bind (send_request (gm_adapter env)
           \<lparr>rq_method = meth, rq_path = path, rq_token = token, rq_body = body, rq_params = params\<rparr>)
         (\<lambda>r w. (check_gmail_response (part_before CHR ''/'' path) r, w)))"

definition gmail_post :: "gmail_env \<Rightarrow> adapter_config \<Rightarrow> string \<Rightarrow> payload \<Rightarrow> (gmail_world, exn, json) py" where
  "gmail_post env cfg path body = gmail_request env cfg ''POST'' path (Some body) None"

definition gmail_get :: "gmail_env \<Rightarrow> adapter_config \<Rightarrow> string \<Rightarrow> payload option \<Rightarrow> (gmail_world, exn, json) py" where
  "gmail_get env cfg path params = gmail_request env cfg ''GET'' path None params"

definition gmail_now :: "gmail_env \<Rightarrow> (gmail_world, exn, instant) py" where
  "gmail_now env = adapter_now (gm_adapter env)"

text \<open>A computation that only reads, as a step.\<close>

definition py_lift :: "(exn + 'a) \<Rightarrow> ('s, exn, 'a) py" where
  "py_lift m w = (m, w)"

definition build_mime :: "gmail_env \<Rightarrow> draft \<Rightarrow> (gmail_world, exn, mime) py" where
  "build_mime env d =
     try_bind (py_lift (address_headers d)) (\<lambda>m.
       try_bind (gmail_now env) (\<lambda>t w.
         (finish_mime (gm_formatdate env t) (gm_msgid env (gw_composed w)) d m, w\<lparr>gw_composed := gw_composed w + 1\<rparr>)))"

section \<open>Verbs\<close>

definition thread_of :: "EmailRef option \<Rightarrow> json option" where
  "thread_of reply_to = (case reply_to of None \<Rightarrow> None | Some r \<Rightarrow> map_option et_id (er_thread r))"

text \<open>The \<open>raw\<close> field and the thread of a message to send or to stage.\<close>

definition raw_body :: "gmail_env \<Rightarrow> draft \<Rightarrow> mime \<Rightarrow> payload" where
  "raw_body env d m =
     (''raw'', JStr (b64url (gm_as_bytes env m))) #
     (case thread_of (df_reply_to d) of None \<Rightarrow> [] | Some JNull \<Rightarrow> [] | Some t \<Rightarrow> [(''threadId'', t)])"

definition email_ref_from_data :: "gmail_env \<Rightarrow> string \<Rightarrow> json \<Rightarrow> (gmail_world, exn, EmailRef) py" where
  "email_ref_from_data env subject data =
     (case data of
        JObj d \<Rightarrow>
          try_bind (py_lift (json_subscript data ''id'')) (\<lambda>mid.
          try_bind (gmail_now env) (\<lambda>started.
          try_bind (gmail_now env) (\<lambda>sent.
            py_return \<lparr>er_id = mid, er_message_id_header = None,
              er_thread = Some \<lparr>et_id = dict_get_or d ''threadId'' mid, et_subject = subject, et_started_at = started,
                et_adapter = GMAIL\<rparr>,
              er_sent_at = sent, er_adapter = GMAIL\<rparr>)))
      | _ \<Rightarrow> py_raise (no_attribute data ''get''))"

definition gmail_send_email :: "gmail_env \<Rightarrow> adapter_config \<Rightarrow> draft \<Rightarrow> (gmail_world, exn, EmailRef) py" where
  "gmail_send_email env cfg d =
     try_bind (build_mime env d) (\<lambda>m.
     try_bind (gmail_post env cfg ''messages/send'' (raw_body env d m))
       (email_ref_from_data env (df_subject d)))"

text \<open>A draft has no importance.\<close>

definition gmail_create_draft :: "gmail_env \<Rightarrow> adapter_config \<Rightarrow> draft \<Rightarrow> (gmail_world, exn, DraftRef) py" where
  "gmail_create_draft env cfg d =
     try_bind (build_mime env (d\<lparr>df_importance := ''normal''\<rparr>)) (\<lambda>m.
     try_bind (gmail_post env cfg ''drafts'' [(''message'', JObj (raw_body env d m))]) (\<lambda>data.
     try_bind (py_lift (json_subscript data ''id'')) (\<lambda>did.
     try_bind (gmail_now env) (\<lambda>t.
       py_return \<lparr>dr_id = did, dr_subject = df_subject d, dr_created_at = t, dr_adapter = GMAIL\<rparr>))))"

definition gmail_send_draft :: "gmail_env \<Rightarrow> adapter_config \<Rightarrow> DraftRef \<Rightarrow> (gmail_world, exn, EmailRef) py" where
  "gmail_send_draft env cfg r =
     try_bind (gmail_post env cfg ''drafts/send'' [(''id'', dr_id r)]) (email_ref_from_data env (dr_subject r))"

definition gmail_delete_email :: "gmail_env \<Rightarrow> adapter_config \<Rightarrow> EmailRef \<Rightarrow> bool \<Rightarrow> (gmail_world, exn, unit) py" where
  "gmail_delete_email env cfg r permanent =
     try_bind (gmail_post env cfg
         (''messages/'' @ json_text (er_id r) @ ''/'' @ (if permanent then ''delete'' else ''trash'')) [])
       (\<lambda>_. py_return ())"

definition listed_ref :: "gmail_env \<Rightarrow> json \<Rightarrow> (gmail_world, exn, EmailRef) py" where
  "listed_ref env raw =
     try_bind (py_lift (json_subscript raw ''id'')) (\<lambda>mid.
     try_bind (py_lift (json_get raw ''threadId'' mid)) (\<lambda>tid.
     try_bind (gmail_now env) (\<lambda>started.
     try_bind (gmail_now env) (\<lambda>sent.
       py_return \<lparr>er_id = mid, er_message_id_header = None,
         er_thread = Some \<lparr>et_id = tid, et_subject = [], et_started_at = started, et_adapter = GMAIL\<rparr>,
         er_sent_at = sent, er_adapter = GMAIL\<rparr>))))"

fun map_py :: "('a \<Rightarrow> ('s, exn, 'b) py) \<Rightarrow> 'a list \<Rightarrow> ('s, exn, 'b list) py" where
  "map_py f [] = py_return []"
| "map_py f (x # xs) = try_bind (f x) (\<lambda>y. try_bind (map_py f xs) (\<lambda>ys. py_return (y # ys)))"

definition gmail_list_mailbox ::
  "gmail_env \<Rightarrow> adapter_config \<Rightarrow> string \<Rightarrow> instant option \<Rightarrow> int \<Rightarrow> json option \<Rightarrow> (gmail_world, exn, EmailRef list \<times> json) py" where
  "gmail_list_mailbox env cfg folder since limit cursor =
     try_bind (gmail_get env cfg ''messages'' (Some
         ([(''labelIds'', JStr folder), (''maxResults'', JInt limit)] @
          (case cursor of None \<Rightarrow> [] | Some c \<Rightarrow> [(''pageToken'', c)]) @
          (case since of None \<Rightarrow> []
           | Some t \<Rightarrow> [(''q'', JStr (''after:'' @ int_str (sgn t * (\<bar>t\<bar> div 1000000))))])))) (\<lambda>data.
     try_bind (py_lift (json_get data ''messages'' (JArr []))) (\<lambda>ms.
     try_bind (py_lift (json_items ms)) (\<lambda>raws.
     try_bind (map_py (listed_ref env) raws) (\<lambda>items.
     try_bind (py_lift (json_get data ''nextPageToken'' JNull)) (\<lambda>cur.
       py_return (items, if falsy cur then JNull else cur))))))"

fun find_header :: "string \<Rightarrow> json list \<Rightarrow> exn + string option" where
  "find_header name [] = Inr None"
| "find_header name (h # hs) =
     or_raise (json_get h ''name'' (JStr [])) (\<lambda>n.
       (case n of
          JStr s \<Rightarrow>
            if lower s = lower name
            then or_raise (json_get h ''value'' JNull) (\<lambda>v. Inr (if v = JNull then None else Some (json_text v)))
            else find_header name hs
        | _ \<Rightarrow> Inl (no_attribute n ''lower'')))"

definition extract_header :: "json \<Rightarrow> string \<Rightarrow> exn + string option" where
  "extract_header message name =
     or_raise (json_get message ''payload'' (JObj [])) (\<lambda>p.
     or_raise (json_get p ''headers'' (JArr [])) (\<lambda>hs.
     or_raise (json_items hs) (find_header name)))"

text \<open>Milliseconds since the epoch; years 1 to 9999.\<close>

definition internal_date_to_datetime :: "gmail_env \<Rightarrow> json \<Rightarrow> (gmail_world, exn, instant) py" where
  "internal_date_to_datetime env j =
     (if j = JNull then gmail_now env
      else try_bind (py_lift (int_of_json j)) (\<lambda>ms.
        if -62135596800000 \<le> ms \<and> ms < 253402300800000 then py_return (ms * 1000) else py_raise (gm_out_of_range env ms)))"

definition threaded_ref :: "gmail_env \<Rightarrow> EmailThreadRef \<Rightarrow> json \<Rightarrow> (gmail_world, exn, EmailRef) py" where
  "threaded_ref env thread m =
     try_bind (py_lift (json_subscript m ''id'')) (\<lambda>mid.
     try_bind (py_lift (extract_header m ''Message-ID'')) (\<lambda>header.
     try_bind (py_lift (json_get m ''internalDate'' JNull)) (\<lambda>date.
     try_bind (internal_date_to_datetime env date) (\<lambda>sent.
       py_return \<lparr>er_id = mid, er_message_id_header = header, er_thread = Some thread, er_sent_at = sent, er_adapter = GMAIL\<rparr>))))"

text \<open>\<open>messages[:limit]\<close>; a negative limit counts from the end.\<close>

definition slice_to :: "int \<Rightarrow> 'a list \<Rightarrow> 'a list" where
  "slice_to n xs = (if n \<ge> 0 then take (nat n) xs else take (length xs - nat (- n)) xs)"

definition json_slice :: "int \<Rightarrow> json \<Rightarrow> exn + json list" where
  "json_slice n j =
     (case j of
        JArr xs \<Rightarrow> Inr (slice_to n xs)
      | JStr s \<Rightarrow> Inr (map (\<lambda>c. JStr [c]) (slice_to n s))
      | JObj d \<Rightarrow> Inl (PyError ''KeyError'' (''slice(None, '' @ int_str n @ '', None)''))
      | _ \<Rightarrow> Inl (PyError ''TypeError'' (repr_str (json_type_name j) @ '' object is not subscriptable'')))"

text \<open>The cursor is not used, and no page has a successor.\<close>

definition gmail_read_email_thread ::
  "gmail_env \<Rightarrow> adapter_config \<Rightarrow> EmailThreadRef \<Rightarrow> int \<Rightarrow> json option \<Rightarrow> (gmail_world, exn, EmailRef list \<times> json) py" where
  "gmail_read_email_thread env cfg thread limit cursor =
     try_bind (gmail_get env cfg (''threads/'' @ json_text (et_id thread)) None) (\<lambda>data.
     try_bind (py_lift (json_get data ''messages'' (JArr []))) (\<lambda>ms.
     try_bind (py_lift (json_slice limit ms)) (\<lambda>kept.
     try_bind (map_py (threaded_ref env thread) kept) (\<lambda>items.
       py_return (items, JNull)))))"

definition gmail_modify_email_labels ::
  "gmail_env \<Rightarrow> adapter_config \<Rightarrow> EmailRef \<Rightarrow> string list \<Rightarrow> string list \<Rightarrow> (gmail_world, exn, unit) py" where
  "gmail_modify_email_labels env cfg r add_labels remove_labels =
     try_bind (gmail_post env cfg (''messages/'' @ json_text (er_id r) @ ''/modify'')
         [(''addLabelIds'', JStrs add_labels), (''removeLabelIds'', JStrs remove_labels)])
       (\<lambda>_. py_return ())"

definition gmail_mark_read :: "gmail_env \<Rightarrow> adapter_config \<Rightarrow> EmailRef \<Rightarrow> (gmail_world, exn, unit) py" where
  "gmail_mark_read env cfg r = gmail_modify_email_labels env cfg r [] [''UNREAD'']"

definition gmail_mark_unread :: "gmail_env \<Rightarrow> adapter_config \<Rightarrow> EmailRef \<Rightarrow> (gmail_world, exn, unit) py" where
  "gmail_mark_unread env cfg r = gmail_modify_email_labels env cfg r [''UNREAD''] []"

section \<open>\<open>invoke\<close>\<close>

datatype gmail_args =
    SendEmail draft
  | CreateDraft draft
  | SendDraft DraftRef
  | DeleteEmail EmailRef bool
  | ListMailbox string "instant option" int "json option"
  | ReadEmailThread EmailThreadRef int "json option"
  | ModifyLabels EmailRef "string list" "string list"
  | MarkRead EmailRef
  | MarkUnread EmailRef

datatype gmail_result = EmailResult EmailRef | DraftResult DraftRef | NoEmailResult | EmailPage "EmailRef list" json

primrec gmail_verb :: "gmail_args \<Rightarrow> string" where
  "gmail_verb (SendEmail d) = ''send_email''"
| "gmail_verb (CreateDraft d) = ''create_draft''"
| "gmail_verb (SendDraft r) = ''send_draft''"
| "gmail_verb (DeleteEmail r p) = ''delete_email''"
| "gmail_verb (ListMailbox f s n c) = ''list_mailbox''"
| "gmail_verb (ReadEmailThread t n c) = ''read_email_thread''"
| "gmail_verb (ModifyLabels r a d) = ''modify_email_labels''"
| "gmail_verb (MarkRead r) = ''mark_read''"
| "gmail_verb (MarkUnread r) = ''mark_unread''"

primrec gmail_handler :: "gmail_env \<Rightarrow> adapter_config \<Rightarrow> gmail_args \<Rightarrow> (gmail_world, exn, gmail_result) py" where
  "gmail_handler env cfg (SendEmail d) = try_bind (gmail_send_email env cfg d) (\<lambda>r. py_return (EmailResult r))"
| "gmail_handler env cfg (CreateDraft d) = try_bind (gmail_create_draft env cfg d) (\<lambda>r. py_return (DraftResult r))"
| "gmail_handler env cfg (SendDraft r) = try_bind (gmail_send_draft env cfg r) (\<lambda>r. py_return (EmailResult r))"
| "gmail_handler env cfg (DeleteEmail r p) = try_bind (gmail_delete_email env cfg r p) (\<lambda>_. py_return NoEmailResult)"
| "gmail_handler env cfg (ListMailbox f s n c) =
     try_bind (gmail_list_mailbox env cfg f s n c) (\<lambda>p. py_return (EmailPage (fst p) (snd p)))"
| "gmail_handler env cfg (ReadEmailThread t n c) =
     try_bind (gmail_read_email_thread env cfg t n c) (\<lambda>p. py_return (EmailPage (fst p) (snd p)))"
| "gmail_handler env cfg (ModifyLabels r a d) =
     try_bind (gmail_modify_email_labels env cfg r a d) (\<lambda>_. py_return NoEmailResult)"
| "gmail_handler env cfg (MarkRead r) = try_bind (gmail_mark_read env cfg r) (\<lambda>_. py_return NoEmailResult)"
| "gmail_handler env cfg (MarkUnread r) = try_bind (gmail_mark_unread env cfg r) (\<lambda>_. py_return NoEmailResult)"

definition GMAIL_VERBS :: "string list" where
  "GMAIL_VERBS = [''send_email'', ''create_draft'', ''send_draft'', ''delete_email'', ''list_mailbox'',
     ''read_email_thread'', ''modify_email_labels'', ''mark_read'', ''mark_unread'']"

definition gmail_invoke ::
  "gmail_env \<Rightarrow> adapter_config \<Rightarrow> string \<Rightarrow> string \<Rightarrow> gmail_args \<Rightarrow> (gmail_world, exn, gmail_result) py" where
  "gmail_invoke env cfg capability verb args =
     (if capability \<noteq> ''email''
      then py_raise (PyError ''NotImplementedError''
        (''gmail_oauth_adapter only implements email.*, got '' @ capability @ ''.'' @ verb))
      else if verb \<notin> set GMAIL_VERBS
      then py_raise (PyError ''NotImplementedError'' (''email.'' @ verb @ '' not implemented by gmail adapter''))
      else if gmail_verb args \<noteq> verb
      then py_raise (PyError ''TypeError'' (''unexpected arguments for '' @ verb))
      else gmail_handler env cfg args)"

section \<open>Inbound events\<close>

text \<open>\<open>set(labels)\<close> raises for an element that cannot be hashed.\<close>

definition classify_inbound_label :: "json \<Rightarrow> exn + string" where
  "classify_inbound_label labels =
     or_raise (json_items labels) (\<lambda>ls.
       (case find (\<lambda>j. case j of JArr _ \<Rightarrow> True | JObj _ \<Rightarrow> True | _ \<Rightarrow> False) ls of
          Some j \<Rightarrow> Inl (PyError ''TypeError'' (''unhashable type: '' @ repr_str (json_type_name j)))
        | None \<Rightarrow>
            Inr (if JStr ''INBOX'' \<in> set ls \<and> JStr ''UNREAD'' \<in> set ls then ''email.reply_received''
                 else if JStr ''SPAM'' \<in> set ls then ''email.bounce_received'' else ''email.reply_received'')))"

definition added_event :: "string \<Rightarrow> json \<Rightarrow> exn + RawInboundEvent" where
  "added_event rid added =
     or_raise (json_get added ''message'' (JObj [])) (\<lambda>msg.
     or_raise (json_get msg ''labelIds'' (JArr [])) (\<lambda>labels.
     or_raise (classify_inbound_label labels) (\<lambda>kind.
     or_raise (json_get msg ''id'' JNull) (\<lambda>mid.
     or_raise (json_get msg ''threadId'' JNull) (\<lambda>tid.
       Inr \<lparr>ri_kind = kind, ri_routine_id = rid, ri_payload = [(''message_id'', mid), (''thread_id'', tid)],
            ri_correlation_id = tid\<rparr>)))))"

fun add_messages :: "string \<Rightarrow> json list \<Rightarrow> (gmail_world, exn, nat) py" where
  "add_messages rid [] = py_return 0"
| "add_messages rid (m # ms) =
     try_bind (py_lift (added_event rid m)) (\<lambda>ev.
     try_bind (\<lambda>w. (Inr (), enqueue ev w)) (\<lambda>_.
     try_bind (add_messages rid ms) (\<lambda>n. py_return (Suc n))))"

fun add_entries :: "string \<Rightarrow> json list \<Rightarrow> (gmail_world, exn, nat) py" where
  "add_entries rid [] = py_return 0"
| "add_entries rid (entry # es) =
     try_bind (py_lift (or_raise (json_get entry ''messagesAdded'' (JArr [])) json_items)) (\<lambda>ms.
     try_bind (add_messages rid ms) (\<lambda>n.
     try_bind (add_entries rid es) (\<lambda>k. py_return (n + k))))"

definition set_history :: "json \<Rightarrow> (gmail_world, exn, unit) py" where
  "set_history h w = (Inr (), w\<lparr>gw_last_history_id := h\<rparr>)"

definition is_message_rejected :: "exn \<Rightarrow> bool" where
  "is_message_rejected e \<longleftrightarrow> (case e of ConnectError c _ \<Rightarrow> c = MessageRejected | _ \<Rightarrow> False)"

definition first_tick :: "gmail_env \<Rightarrow> adapter_config \<Rightarrow> (gmail_world, exn, nat) py" where
  "first_tick env cfg =
     try_bind (gmail_get env cfg ''profile'' None) (\<lambda>data.
     try_bind (py_lift (json_get data ''historyId'' (JStr ''1''))) (\<lambda>h.
     try_bind (set_history h) (\<lambda>_. py_return 0)))"

definition later_tick :: "gmail_env \<Rightarrow> adapter_config \<Rightarrow> string \<Rightarrow> (gmail_world, exn, nat) py" where
  "later_tick env cfg rid w =
     (case gmail_get env cfg ''history'' (Some [(''startHistoryId'', gw_last_history_id w)]) w of
        (Inl e, w1) \<Rightarrow> if is_message_rejected e then (Inr 0, w1\<lparr>gw_last_history_id := JNull\<rparr>) else (Inl e, w1)
      | (Inr data, w1) \<Rightarrow>
          try_bind (py_lift (or_raise (json_get data ''history'' (JArr [])) json_items)) (\<lambda>entries.
          try_bind (add_entries rid entries) (\<lambda>n.
          try_bind (py_lift (json_get data ''historyId'' JNull)) (\<lambda>h.
          try_bind (if falsy h then py_return () else set_history (JStr (json_text h))) (\<lambda>_. py_return n)))) w1)"

definition tick_inbound :: "gmail_env \<Rightarrow> adapter_config \<Rightarrow> string \<Rightarrow> (gmail_world, exn, nat) py" where
  "tick_inbound env cfg rid w =
     (if gw_last_history_id w = JNull then first_tick env cfg w else later_tick env cfg rid w)"

end
