(* ===== verification/Gmail_Properties.thy ===== *)
theory Gmail_Properties
  imports Gmail_Adapter OAuth_Properties
begin

text \<open>
  What the Gmail adapter puts on the wire and into its queue: the encoding of a message loses nothing, a
  header is one line, a call makes at most one request, a tick queues the events of one page; and a
  history that has expired is never abandoned.
\<close>

section \<open>Base64\<close>

definition b64_val :: "char \<Rightarrow> nat" where
  "b64_val c =
     (let n = of_char c in if 65 \<le> n \<and> n \<le> 90 then n - 65 else if 97 \<le> n \<and> n \<le> 122 then n - 71
      else if 48 \<le> n \<and> n \<le> 57 then n + 4 else if n = 45 then 62 else 63)"

text \<open>The decoder of unpadded text.\<close>

fun b64_decode :: "string \<Rightarrow> byte list" where
  "b64_decode (p # q # r # s # rest) =
     of_nat (b64_val p * 4 + b64_val q div 16) # of_nat (b64_val q mod 16 * 16 + b64_val r div 4) #
     of_nat (b64_val r mod 4 * 64 + b64_val s) # b64_decode rest"
| "b64_decode [p, q, r] =
     [of_nat (b64_val p * 4 + b64_val q div 16), of_nat (b64_val q mod 16 * 16 + b64_val r div 4)]"
| "b64_decode [p, q] = [of_nat (b64_val p * 4 + b64_val q div 16)]"
| "b64_decode _ = []"

lemma of_char_small: "n < 256 \<Longrightarrow> (of_char (char_of n :: char) :: nat) = n" for n :: nat
  by (simp add: take_bit_eq_mod)

lemma b64_val_char [simp]: "n < 64 \<Longrightarrow> b64_val (b64_char n) = n"
  by (auto simp: b64_char_def b64_val_def Let_def of_char_small)

lemma b64_char_not_eq [simp]: "n < 64 \<Longrightarrow> b64_char n \<noteq> CHR ''=''"
proof
  assume "n < 64" "b64_char n = CHR ''=''"
  then have "(of_char (b64_char n) :: nat) = 61" by simp
  with \<open>n < 64\<close> show False by (auto simp: b64_char_def of_char_small split: if_splits)
qed

lemma join_parts: "y < k \<Longrightarrow> (x * k + y) div k = x" "y < k \<Longrightarrow> (x * k + y) mod k = y" "y < k \<Longrightarrow> x < m \<Longrightarrow> x * k + y < m * k" for x y k m :: nat
proof -
  assume y: "y < k"
  then show "(x * k + y) div k = x" "(x * k + y) mod k = y" by simp_all
  assume "x < m"
  then have "Suc x * k \<le> m * k" by (intro mult_le_mono1) simp
  with y show "x * k + y < m * k" by simp
qed

lemma byte_bound: "unat (a :: byte) < 256"
  by (rule order.strict_trans2 [OF unsigned_less]) simp

lemma byte_parts [simp]: "unat (a :: byte) div 4 < 64" "unat a div 16 < 16" "unat a div 64 < 4"
  using byte_bound [of a] by (auto intro: less_mult_imp_div_less)

lemma sextets [simp]:
  "unat (a :: byte) mod 4 * 16 + unat (b :: byte) div 16 < 64" "unat b mod 16 * 4 + unat (c :: byte) div 64 < 64"
  "unat a mod 4 * 16 < 64" "unat b mod 16 * 4 < 64" "unat c mod 64 < 64"
  using join_parts(3) [of "unat b div 16" 16 "unat a mod 4" 4] join_parts(3) [of "unat c div 64" 4 "unat b mod 16" 16]
    join_parts(3) [of 0 16 "unat a mod 4" 4] join_parts(3) [of 0 4 "unat b mod 16" 16] by simp_all

lemma bytes_again [simp]:
  fixes a b c :: byte
  shows "of_nat (unat a div 4 * 4 + (unat a mod 4 * 16 + unat b div 16) div 16) = a"
    "of_nat (unat a div 4 * 4 + unat a mod 4 * 16 div 16) = a"
    "of_nat ((unat a mod 4 * 16 + unat b div 16) mod 16 * 16 + (unat b mod 16 * 4 + unat c div 64) div 4) = b"
    "of_nat ((unat a mod 4 * 16 + unat b div 16) mod 16 * 16 + unat b mod 16 * 4 div 4) = b"
    "of_nat ((unat b mod 16 * 4 + unat c div 64) mod 4 * 64 + unat c mod 64) = c"
proof -
  note parts = join_parts [of "unat b div 16" 16 "unat a mod 4"] join_parts [of "unat c div 64" 4 "unat b mod 16"]
  show "of_nat (unat a div 4 * 4 + (unat a mod 4 * 16 + unat b div 16) div 16) = a"
    by (simp only: parts byte_parts div_mult_mod_eq) simp
  show "of_nat (unat a div 4 * 4 + unat a mod 4 * 16 div 16) = a"
    by (simp only: nonzero_mult_div_cancel_right div_mult_mod_eq) simp
  show "of_nat ((unat a mod 4 * 16 + unat b div 16) mod 16 * 16 + (unat b mod 16 * 4 + unat c div 64) div 4) = b"
    by (simp only: parts byte_parts div_mult_mod_eq) simp
  show "of_nat ((unat a mod 4 * 16 + unat b div 16) mod 16 * 16 + unat b mod 16 * 4 div 4) = b"
    by (simp only: parts byte_parts div_mult_mod_eq) simp
  show "of_nat ((unat b mod 16 * 4 + unat c div 64) mod 4 * 64 + unat c mod 64) = c"
    by (simp only: parts byte_parts div_mult_mod_eq) simp
qed

text \<open>The encoded text without its padding.\<close>

fun b64_plain :: "byte list \<Rightarrow> string" where
  "b64_plain [] = []"
| "b64_plain [a] = [b64_char (unat a div 4), b64_char (unat a mod 4 * 16)]"
| "b64_plain [a, b] =
     [b64_char (unat a div 4), b64_char (unat a mod 4 * 16 + unat b div 16), b64_char (unat b mod 16 * 4)]"
| "b64_plain (a # b # c # rest) =
     b64_char (unat a div 4) # b64_char (unat a mod 4 * 16 + unat b div 16) #
     b64_char (unat b mod 16 * 4 + unat c div 64) # b64_char (unat c mod 64) # b64_plain rest"

lemma b64_plain_no_pad: "CHR ''='' \<notin> set (b64_plain bs)"
  by (induction bs rule: b64_plain.induct) (auto simp: eq_commute [of "CHR ''=''"])

lemma encode_is_plain: "\<exists>k. urlsafe_b64encode bs = b64_plain bs @ replicate k (CHR ''='')"
proof (induction bs rule: b64_plain.induct)
  case (2 a)
  show ?case by (rule exI [of _ 2]) (simp add: numeral_2_eq_2)
next
  case (3 a b)
  show ?case by (rule exI [of _ 1]) simp
qed simp_all

lemma drop_pad: "c \<notin> set ys \<Longrightarrow> dropWhile (\<lambda>x. x = c) (replicate k c @ ys) = ys"
proof (induction k)
  case 0
  then show ?case by (cases ys) auto
qed simp

lemma b64url_plain: "b64url bs = b64_plain bs"
proof -
  obtain k where enc: "urlsafe_b64encode bs = b64_plain bs @ replicate k (CHR ''='')" using encode_is_plain by blast
  have "CHR ''='' \<notin> set (rev (b64_plain bs))" using b64_plain_no_pad by simp
  from drop_pad [OF this] show ?thesis by (simp add: b64url_def rstrip_eq_def enc)
qed

text \<open>The text a message is sent as decodes to exactly the bytes of the message, although its padding was
  removed, and it contains no padding.\<close>

theorem b64url_round_trip: "b64_decode (b64url bs) = bs \<and> CHR ''='' \<notin> set (b64url bs)"
proof -
  have "b64_decode (b64_plain bs) = bs" by (induction bs rule: b64_plain.induct)
    (simp_all only: b64_plain.simps b64_decode.simps b64_val_char sextets byte_parts bytes_again)
  then show ?thesis by (simp add: b64url_plain b64_plain_no_pad)
qed

section \<open>Headers\<close>

lemma add_header_Inr:
  "add_header name v m = Inr m' \<longleftrightarrow> \<not> multi_line v \<and> m' = m\<lparr>mm_headers := mm_headers m @ [(name, v)]\<rparr>"
  by (auto simp: add_header_def)

lemma add_headers_Inr:
  "add_headers hs m = Inr m' \<longleftrightarrow>
     list_all (\<lambda>h. \<not> multi_line (snd h)) hs \<and> m' = m\<lparr>mm_headers := mm_headers m @ hs\<rparr>"
proof (induction hs arbitrary: m)
  case Nil
  show ?case by (auto simp: add_headers_def)
next
  case (Cons h hs)
  have failed: "foldl (\<lambda>acc h. or_raise acc (add_header (fst h) (snd h))) (Inl e) xs = Inl e" for e xs
    by (induction xs) simp_all
  show ?case
  proof (cases "add_header (fst h) (snd h) m")
    case (Inl e)
    then have "add_headers (h # hs) m = Inl e" by (simp add: add_headers_def failed)
    moreover have "multi_line (snd h)" using Inl by (simp add: add_header_def split: if_splits)
    ultimately show ?thesis by simp
  next
    case (Inr m1)
    then have "add_headers (h # hs) m = add_headers hs m1" by (simp add: add_headers_def)
    then show ?thesis using Inr Cons.IH [of m1] by (auto simp: add_header_Inr)
  qed
qed

text \<open>The recipients of one header: none when the list is missing or empty.\<close>

definition recipient_header :: "string \<Rightarrow> string list option \<Rightarrow> (string \<times> string) list \<Rightarrow> bool" where
  "recipient_header name refs hs \<longleftrightarrow>
     (if refs = None \<or> refs = Some [] then hs = []
      else (\<exists>as. map_raise identity_to_address (the refs) = Inr as \<and> hs = [(name, join '', '' as)] \<and> \<not> multi_line (join '', '' as)))"

lemma add_optional_Inr:
  "add_optional name refs m = Inr m' \<longleftrightarrow>
     (\<exists>hs. recipient_header name refs hs \<and> m' = m\<lparr>mm_headers := mm_headers m @ hs\<rparr>)"
  by (cases refs) (auto simp: add_optional_def recipient_header_def add_recipients_def or_raise_eq_Inr add_header_Inr)

lemma add_recipients_Inr:
  "add_recipients name refs m = Inr m' \<longleftrightarrow>
     (\<exists>as. map_raise identity_to_address refs = Inr as \<and> \<not> multi_line (join '', '' as) \<and>
        m' = m\<lparr>mm_headers := mm_headers m @ [(name, join '', '' as)]\<rparr>)"
  by (auto simp: add_recipients_def or_raise_eq_Inr add_header_Inr)


definition ex_gmail_env :: gmail_env where
  "ex_gmail_env = \<lparr>gm_adapter = \<lparr>ae_oauth = ex_oauth, ae_answer = (\<lambda>_ _. Inr \<lparr>rp_status = 200, rp_retry_after = None,
       rp_content = True, rp_json = Inr (JObj [(''id'', JStr ''m1''), (''historyId'', JInt 7)])\<rparr>)\<rparr>,
     gm_as_bytes = (\<lambda>_. [1, 2]), gm_formatdate = (\<lambda>_. ''Mon, 01 Jan 2024''), gm_msgid = (\<lambda>_. ''<1@host>''),
     gm_out_of_range = (\<lambda>_. outside_model)\<rparr>"

definition ex_gmail_config :: adapter_config where
  "ex_gmail_config = \<lparr>ag_has_store = False, ag_token_override = Some ''tok'', ag_integration_id = ''gmail.com''\<rparr>"

definition ex_gmail_world :: gmail_world where
  "ex_gmail_world = \<lparr>aw_oauth = ex_oauth_world, aw_requests = [], aw_pending = [], gw_last_history_id = JStr ''5'', gw_composed = 0\<rparr>"

definition ex_draft :: draft where
  "ex_draft = \<lparr>df_to = [''mailto:a@b.org''], df_subject = ''Hi'', df_body = TextContent ''Hello'', df_cc = None,
     df_bcc = Some [''c@d.org''], df_reply_to = None, df_attachments = None, df_importance = ''normal''\<rparr>"


section \<open>One request\<close>

definition untouched :: "gmail_world \<Rightarrow> gmail_world \<Rightarrow> bool" where
  "untouched w w' \<longleftrightarrow> aw_pending w' = aw_pending w \<and> gw_last_history_id w' = gw_last_history_id w"

definition quiet_step :: "(gmail_world, exn, 'a) py \<Rightarrow> bool" where
  "quiet_step f \<longleftrightarrow> (\<forall>w. aw_requests (snd (f w)) = aw_requests w \<and> untouched w (snd (f w)))"

definition asked :: "string \<Rightarrow> string \<Rightarrow> gmail_world \<Rightarrow> (exn + 'a) \<times> gmail_world \<Rightarrow> bool" where
  "asked meth path w p \<longleftrightarrow> untouched w (snd p) \<and>
     (\<exists>rqs. aw_requests (snd p) = aw_requests w @ rqs \<and> length rqs \<le> 1 \<and> (isl (fst p) \<or> length rqs = 1) \<and>
        list_all (\<lambda>rq. rq_method rq = meth \<and> rq_path rq = path) rqs)"

definition one_request :: "string \<Rightarrow> string \<Rightarrow> (gmail_world, exn, 'a) py \<Rightarrow> bool" where
  "one_request meth path f \<longleftrightarrow> (\<forall>w. asked meth path w (f w))"

lemma quiet_lift [simp]: "quiet_step (py_lift m)" "quiet_step (py_return a)" "quiet_step (py_raise e)" "quiet_step (gmail_now env)"
  by (simp_all add: quiet_step_def untouched_def py_lift_def py_return_def py_raise_def gmail_now_def adapter_now_def
      split: prod.splits)

lemma quiet_bind: "quiet_step f \<Longrightarrow> (\<And>a. quiet_step (g a)) \<Longrightarrow> quiet_step (try_bind f g)"
  unfolding quiet_step_def try_bind_def untouched_def
  by (auto split: prod.splits sum.splits) (metis snd_conv)+

lemma one_request_then: "one_request meth path f \<Longrightarrow> (\<And>a. quiet_step (g a)) \<Longrightarrow> one_request meth path (try_bind f g)"
  unfolding one_request_def
proof
  fix w
  assume f: "\<forall>w. asked meth path w (f w)" and g: "\<And>a. quiet_step (g a)"
  show "asked meth path w (try_bind f g w)"
  proof (cases "f w")
    case (Pair res w1)
    have "aw_requests (snd (g a w1)) = aw_requests w1" "untouched w1 (snd (g a w1))" for a
      using g [of a] by (simp_all add: quiet_step_def)
    then show ?thesis
      using f [rule_format, of w] Pair by (cases res) (auto simp: try_bind_def untouched_def asked_def)
  qed
qed

lemma one_request_after: "quiet_step f \<Longrightarrow> (\<And>a. one_request meth path (g a)) \<Longrightarrow> one_request meth path (try_bind f g)"
  unfolding one_request_def
proof
  fix w
  assume f: "quiet_step f" and g: "\<And>a. \<forall>w. asked meth path w (g a w)"
  show "asked meth path w (try_bind f g w)"
  proof (cases "f w")
    case (Pair res w1)
    then have "aw_requests w1 = aw_requests w" "untouched w w1" using f by (auto simp: quiet_step_def dest: spec [of _ w])
    then show ?thesis
      using Pair spec [OF g, of w1] by (cases res) (auto simp: try_bind_def untouched_def asked_def)
  qed
qed

lemma quiet_token: "aw_requests (snd (stored_token e a c k w)) = aw_requests w \<and> untouched w (snd (stored_token e a c k w))"
  by (auto simp: stored_token_def untouched_def split: option.splits prod.splits)

lemma gmail_request_one [simp]: "one_request meth path (gmail_request env cfg meth path body params)"
  unfolding one_request_def
proof
  fix w
  show "asked meth path w (gmail_request env cfg meth path body params w)"
  proof (cases "stored_token (gm_adapter env) GMAIL ''email'' cfg w")
    case (Pair tok w1)
    then have quiet: "aw_requests w1 = aw_requests w" "untouched w w1"
      using quiet_token [of "gm_adapter env" GMAIL "''email''" cfg w] by simp_all
    show ?thesis
    proof (cases tok)
      case (Inl e)
      then show ?thesis using Pair quiet by (simp add: gmail_request_def gmail_access_token_def try_bind_def asked_def)
    next
      case (Inr t)
      then show ?thesis
        using Pair quiet by (auto simp: gmail_request_def gmail_access_token_def try_bind_def send_request_def untouched_def asked_def split: sum.splits)
    qed
  qed
qed

lemma map_py_quiet: "(\<And>a. quiet_step (f a)) \<Longrightarrow> quiet_step (map_py f xs)"
  by (induction xs) (simp_all add: quiet_bind)

lemma build_mime_quiet: "quiet_step (build_mime env d)"
proof -
  have "quiet_step (\<lambda>w. (h w, w\<lparr>gw_composed := gw_composed w + 1\<rparr>))" for h :: "gmail_world \<Rightarrow> exn + mime"
    by (simp add: quiet_step_def untouched_def)
  then show ?thesis unfolding build_mime_def by (intro quiet_bind quiet_lift)
qed

lemma refs_quiet: "quiet_step (email_ref_from_data env s data)" "quiet_step (listed_ref env raw)" "quiet_step (threaded_ref env th m)"
  unfolding email_ref_from_data_def listed_ref_def threaded_ref_def internal_date_to_datetime_def
  by (auto intro!: quiet_bind split: json.splits)

text \<open>The method and the path of each verb.\<close>

primrec gmail_route :: "gmail_args \<Rightarrow> string \<times> string" where
  "gmail_route (SendEmail d) = (''POST'', ''messages/send'')"
| "gmail_route (CreateDraft d) = (''POST'', ''drafts'')"
| "gmail_route (SendDraft r) = (''POST'', ''drafts/send'')"
| "gmail_route (DeleteEmail r p) = (''POST'', ''messages/'' @ json_text (er_id r) @ ''/'' @ (if p then ''delete'' else ''trash''))"
| "gmail_route (ListMailbox f s n c) = (''GET'', ''messages'')"
| "gmail_route (ReadEmailThread t n c) = (''GET'', ''threads/'' @ json_text (et_id t))"
| "gmail_route (ModifyLabels r a d) = (''POST'', ''messages/'' @ json_text (er_id r) @ ''/modify'')"
| "gmail_route (MarkRead r) = (''POST'', ''messages/'' @ json_text (er_id r) @ ''/modify'')"
| "gmail_route (MarkUnread r) = (''POST'', ''messages/'' @ json_text (er_id r) @ ''/modify'')"

lemma gmail_handler_one: "one_request (fst (gmail_route args)) (snd (gmail_route args)) (gmail_handler env cfg args)"
  by (cases args)
    (auto simp: gmail_send_email_def gmail_create_draft_def gmail_send_draft_def gmail_delete_email_def gmail_list_mailbox_def gmail_read_email_thread_def
      gmail_modify_email_labels_def gmail_mark_read_def gmail_mark_unread_def gmail_post_def gmail_get_def
      intro!: one_request_then one_request_after [OF build_mime_quiet] map_py_quiet refs_quiet quiet_bind)

text \<open>A call of the Gmail adapter makes at most one request, exactly one when it returns, by the method and on
  the path of its verb; it touches neither the inbound queue nor the history identifier.\<close>

theorem gmail_call_one_request:
  assumes "gmail_invoke env cfg capability verb args w = (res, w')"
  shows "aw_pending w' = aw_pending w \<and> gw_last_history_id w' = gw_last_history_id w \<and>
    (\<exists>rqs. aw_requests w' = aw_requests w @ rqs \<and> length rqs \<le> 1 \<and> (isl res \<or> length rqs = 1) \<and>
       list_all (\<lambda>rq. (rq_method rq, rq_path rq) = gmail_route args) rqs)"
proof (cases "capability = ''email'' \<and> verb \<in> set GMAIL_VERBS \<and> gmail_verb args = verb")
  case True
  then have "gmail_handler env cfg args w = (res, w')" using assms by (simp add: gmail_invoke_def)
  then have "asked (fst (gmail_route args)) (snd (gmail_route args)) w (res, w')"
    using gmail_handler_one [of args env cfg] by (metis one_request_def)
  then show ?thesis by (cases "gmail_route args") (simp add: asked_def untouched_def)
next
  case False
  then have "isl res" "w' = w" using assms by (auto simp: gmail_invoke_def py_raise_def split: if_splits)
  then show ?thesis by simp
qed

lemma gmail_call_one_request_witness:
  "\<exists>res w'. gmail_invoke ex_gmail_env ex_gmail_config ''email'' ''send_email'' (SendEmail ex_draft) ex_gmail_world = (res, w') \<and>
     isl res = False \<and> length (aw_requests w') = 1"
proof -
  let ?r = "gmail_invoke ex_gmail_env ex_gmail_config ''email'' ''send_email'' (SendEmail ex_draft) ex_gmail_world"
  obtain res w' where run: "?r = (res, w')" by (cases ?r)
  have "isl (fst ?r) = False" by code_simp
  then have ok: "isl res = False" using run by simp
  from gmail_call_one_request [OF run] ok have "length (aw_requests w') = 1" by (auto simp: ex_gmail_world_def)
  with run ok show ?thesis by blast
qed

section \<open>Polling the history\<close>

definition messages_added :: "json \<Rightarrow> exn + json list" where
  "messages_added entry = or_raise (json_get entry ''messagesAdded'' (JArr [])) json_items"

lemma py_lift_Inr: "py_lift m w = (Inr a, w') \<longleftrightarrow> m = Inr a \<and> w' = w"
  by (auto simp: py_lift_def)

lemma add_messages_exact:
  "add_messages rid ms w = (Inr n, w') \<longleftrightarrow>
     (\<exists>evs. map_raise (added_event rid) ms = Inr evs \<and> w' = w\<lparr>aw_pending := aw_pending w @ evs\<rparr> \<and> n = length evs)"
proof (induction ms arbitrary: w n w')
  case Nil
  show ?case by (auto simp: py_return_def)
next
  case (Cons m ms)
  show ?case
    by (auto simp: try_bind_eq_Inr py_lift_Inr Cons.IH enqueue_def py_return_def or_raise_eq_Inr)
qed

lemma add_entries_exact:
  "add_entries rid es w = (Inr n, w') \<longleftrightarrow>
     (\<exists>mss evs. map_raise messages_added es = Inr mss \<and> map_raise (added_event rid) (concat mss) = Inr evs \<and>
        w' = w\<lparr>aw_pending := aw_pending w @ evs\<rparr> \<and> n = length evs)"
proof (induction es arbitrary: w n w')
  case Nil
  show ?case by (auto simp: py_return_def)
next
  case (Cons e es)
  have append: "map_raise f (xs @ ys) = or_raise (map_raise f xs) (\<lambda>as. or_raise (map_raise f ys) (\<lambda>bs. Inr (as @ bs)))"
    for f :: "json \<Rightarrow> exn + RawInboundEvent" and xs ys
    by (induction xs) (auto simp: or_raise_def split: sum.splits)
  show ?case
    by (auto simp: try_bind_eq_Inr py_lift_Inr Cons.IH add_messages_exact py_return_def or_raise_eq_Inr
        messages_added_def [symmetric] append)
qed

text \<open>C37: A tick that reads a page of the history queues exactly one event for each added message of the page, in
  order and after those already waiting, returns their number, and moves to the history identifier of the
  page; nothing else of the answer counts, a token for a next page neither.\<close>

theorem history_tick_exact:
  assumes "tick_inbound env cfg rid w = (Inr n, w')" "gw_last_history_id w \<noteq> JNull"
    and "gmail_get env cfg ''history'' (Some [(''startHistoryId'', gw_last_history_id w)]) w = (Inr (JObj d), w1)"
  shows "\<exists>entries mss evs. json_items (dict_get_or d ''history'' (JArr [])) = Inr entries \<and>
    map_raise messages_added entries = Inr mss \<and> map_raise (added_event rid) (concat mss) = Inr evs \<and>
    aw_pending w' = aw_pending w @ evs \<and> n = length evs \<and>
    gw_last_history_id w' = (let h = dict_get_or d ''historyId'' JNull in if falsy h then gw_last_history_id w else JStr (json_text h))"
proof -
  have asked: "aw_pending w1 = aw_pending w" "gw_last_history_id w1 = gw_last_history_id w"
    using gmail_request_one [of "''GET''" "''history''" env cfg None "Some [(''startHistoryId'', gw_last_history_id w)]"] assms(3)
    by (auto simp: one_request_def asked_def untouched_def gmail_get_def dest!: spec [of _ w])
  show ?thesis
    using assms asked
    by (auto simp: tick_inbound_def later_tick_def try_bind_eq_Inr py_lift_Inr add_entries_exact json_get_def
        py_return_def set_history_def Let_def split: if_splits)
qed

definition ex_page :: payload where
  "ex_page = [(''history'', JArr [JObj [(''messagesAdded'', JArr [JObj [(''message'', JObj [(''id'', JStr ''m1''),
     (''threadId'', JStr ''t1''), (''labelIds'', JArr [JStr ''INBOX'', JStr ''UNREAD''])])]])]]), (''historyId'', JInt 9),
     (''nextPageToken'', JStr ''more'')]"

definition ex_page_env :: gmail_env where
  "ex_page_env = ex_gmail_env\<lparr>gm_adapter := \<lparr>ae_oauth = ex_oauth, ae_answer = (\<lambda>_ _. Inr \<lparr>rp_status = 200,
     rp_retry_after = None, rp_content = True, rp_json = Inr (JObj ex_page)\<rparr>)\<rparr>\<rparr>"

lemma history_tick_exact_witness:
  "\<exists>n w'. tick_inbound ex_page_env ex_gmail_config ''r'' ex_gmail_world = (Inr n, w') \<and> gw_last_history_id w' = JStr ''9''"
proof -
  let ?t = "tick_inbound ex_page_env ex_gmail_config ''r'' ex_gmail_world"
  let ?g = "gmail_get ex_page_env ex_gmail_config ''history'' (Some [(''startHistoryId'', gw_last_history_id ex_gmail_world)]) ex_gmail_world"
  have "fst ?t = Inr 1" "fst ?g = Inr (JObj ex_page)" by code_simp+
  then obtain w' w1 where run: "?t = (Inr 1, w')" "?g = (Inr (JObj ex_page), w1)" by (metis prod.collapse)
  have "gw_last_history_id ex_gmail_world \<noteq> JNull" by (simp add: ex_gmail_world_def)
  from history_tick_exact [OF run(1) this run(2)]
  have "gw_last_history_id w' = (let h = dict_get_or ex_page ''historyId'' JNull
      in if falsy h then gw_last_history_id ex_gmail_world else JStr (json_text h))" by blast
  moreover have "dict_get_or ex_page ''historyId'' JNull = JInt 9" "json_text (JInt 9) = ''9''" by code_simp+
  ultimately have "gw_last_history_id w' = JStr ''9''" by (simp add: falsy_def)
  with run show ?thesis by blast
qed

section \<open>A history that has expired\<close>

text \<open>Ticks in a row, each after whatever the last one returned or raised.\<close>

primrec run_ticks :: "gmail_env \<Rightarrow> adapter_config \<Rightarrow> string \<Rightarrow> nat \<Rightarrow> gmail_world \<Rightarrow> (exn + nat) list \<times> gmail_world" where
  "run_ticks env cfg rid 0 w = ([], w)"
| "run_ticks env cfg rid (Suc k) w =
     (case tick_inbound env cfg rid w of (res, w1) \<Rightarrow>
        (case run_ticks env cfg rid k w1 of (rest, w2) \<Rightarrow> (res # rest, w2)))"

definition gone_reply :: "reply \<Rightarrow> bool" where
  "gone_reply r \<longleftrightarrow> rp_status r = 404 \<and> (\<exists>d err reason. rp_json r = Inr (JObj d) \<and> dict_get d ''error'' = Some (JObj err) \<and>
     dict_get err ''message'' = Some (JStr reason) \<and> contains_str reason ''Requested entity was not found'')"

lemma gone_is_unreachable:
  assumes "gone_reply r"
  shows "\<exists>reason. check_gmail_response v r = Inl (refused RecipientUnreachable GMAIL ''email'' v reason)"
  using assms
  by (auto simp: gone_reply_def check_gmail_response_def gmail_refusal_def json_get_def json_in_def dict_get_or_def json_text_def Let_def)

lemma gone_tick:
  assumes "ag_token_override cfg = Some tok" "gw_last_history_id w \<noteq> JNull"
    and "\<forall>n rq. rq_path rq = ''history'' \<longrightarrow> (\<exists>r. ae_answer (gm_adapter env) n rq = Inr r \<and> gone_reply r)"
  shows "\<exists>reason w'. tick_inbound env cfg rid w = (Inl (refused RecipientUnreachable GMAIL ''email'' ''history'' reason), w') \<and>
    gw_last_history_id w' = gw_last_history_id w \<and> aw_pending w' = aw_pending w"
proof -
  let ?rq = "\<lparr>rq_method = ''GET'', rq_path = ''history'', rq_token = JStr tok, rq_body = None,
    rq_params = Some [(''startHistoryId'', gw_last_history_id w)]\<rparr>"
  obtain r where r: "ae_answer (gm_adapter env) (length (aw_requests w)) ?rq = Inr r" "gone_reply r"
    using assms(3) [rule_format, of ?rq "length (aw_requests w)"] by auto
  obtain reason where reason: "check_gmail_response ''history'' r = Inl (refused RecipientUnreachable GMAIL ''email'' ''history'' reason)"
    using gone_is_unreachable [OF r(2)] by blast
  have "part_before CHR ''/'' ''history'' = ''history''" by code_simp
  then have "gmail_get env cfg ''history'' (Some [(''startHistoryId'', gw_last_history_id w)]) w =
      (Inl (refused RecipientUnreachable GMAIL ''email'' ''history'' reason), w\<lparr>aw_requests := aw_requests w @ [?rq]\<rparr>)"
    using assms(1) r(1) reason
    by (simp add: gmail_get_def gmail_request_def gmail_access_token_def try_bind_def stored_token_def send_request_def)
  moreover have "\<not> is_message_rejected (refused RecipientUnreachable GMAIL ''email'' ''history'' reason)"
    by (simp add: is_message_rejected_def refused_def raised_simps)
  ultimately have "tick_inbound env cfg rid w = (Inl (refused RecipientUnreachable GMAIL ''email'' ''history'' reason),
      w\<lparr>aw_requests := aw_requests w @ [?rq]\<rparr>)"
    using assms(2) by (simp add: tick_inbound_def later_tick_def)
  then show ?thesis
    by (intro exI [of _ reason] exI [of _ "w\<lparr>aw_requests := aw_requests w @ [?rq]\<rparr>"] conjI) simp_all
qed

text \<open>Once Gmail answers that the stored history identifier no longer exists, with its usual message, every later
  tick raises and keeps that identifier, however often it is tried: the branch that starts afresh is never
  reached, and no event arrives again.\<close>

theorem expired_history_is_permanent:
  assumes "ag_token_override cfg = Some tok" "gw_last_history_id w \<noteq> JNull"
    and "\<forall>n rq. rq_path rq = ''history'' \<longrightarrow> (\<exists>r. ae_answer (gm_adapter env) n rq = Inr r \<and> gone_reply r)"
  shows "list_all isl (fst (run_ticks env cfg rid k w)) \<and>
    gw_last_history_id (snd (run_ticks env cfg rid k w)) = gw_last_history_id w \<and>
    aw_pending (snd (run_ticks env cfg rid k w)) = aw_pending w"
  using assms(2)
proof (induction k arbitrary: w)
  case 0
  show ?case by simp
next
  case (Suc k)
  from gone_tick [OF assms(1) Suc.prems assms(3), of rid] obtain e w'
    where tick: "tick_inbound env cfg rid w = (Inl e, w')" "gw_last_history_id w' = gw_last_history_id w"
      "aw_pending w' = aw_pending w" by blast
  with Suc.prems Suc.IH [of w'] show ?case by (cases "run_ticks env cfg rid k w'") simp
qed

definition ex_gone_env :: gmail_env where
  "ex_gone_env = ex_gmail_env\<lparr>gm_adapter := \<lparr>ae_oauth = ex_oauth, ae_answer = (\<lambda>_ _. Inr \<lparr>rp_status = 404,
     rp_retry_after = None, rp_content = True,
     rp_json = Inr (JObj [(''error'', JObj [(''message'', JStr ''Requested entity was not found.'')])])\<rparr>)\<rparr>\<rparr>"

lemma expired_history_is_permanent_witness:
  "gw_last_history_id (snd (run_ticks ex_gone_env ex_gmail_config ''r'' 5 ex_gmail_world)) = JStr ''5''"
proof -
  have "contains_str ''Requested entity was not found.'' ''Requested entity was not found''" by code_simp
  then have "\<forall>n rq. rq_path rq = ''history'' \<longrightarrow> (\<exists>r. ae_answer (gm_adapter ex_gone_env) n rq = Inr r \<and> gone_reply r)"
    by (simp add: ex_gone_env_def gone_reply_def)
  moreover have "ag_token_override ex_gmail_config = Some ''tok''" "gw_last_history_id ex_gmail_world = JStr ''5''"
    by (simp_all add: ex_gmail_config_def ex_gmail_world_def)
  ultimately show ?thesis
    using expired_history_is_permanent [of ex_gmail_config "''tok''" ex_gmail_world ex_gone_env "''r''" 5] by simp
qed

section \<open>What a message leaves out\<close>

text \<open>Buttons of a block, its image and its children never reach the message, and attachments have no bytes.\<close>

lemma blocks_keep_text_only:
  "map bk_text bs = map bk_text bs' \<Longrightarrow> plain_text (BlockContent bs) = plain_text (BlockContent bs')"
proof -
  assume "map bk_text bs = map bk_text bs'"
  moreover have "List.map_filter bk_text xs = List.map_filter id (map bk_text xs)" for xs
    by (induction xs) (auto simp: List.map_filter_simps split: option.splits)
  ultimately have "List.map_filter bk_text bs = List.map_filter bk_text bs'" by metis
  then show ?thesis by (simp add: plain_text_def)
qed

end
