(* ===== verification/Dashboard.thy ===== *)
theory Dashboard
  imports Gate_Lemmas Triage_Helpers
begin

text \<open>
  The dashboard's API: \<open>ota_dashboard_api/app.py\<close>, \<open>models.py\<close> and \<open>routes/\<close>.  A route is a function
  on the record \<open>dashboard_state\<close> and returns the response model or the HTTP error it raises; FastAPI's
  parsing of a request is not modelled, its values arrive typed.  Each reading of the clock, the files of
  the audit log, and the texts \<open>isoformat\<close> and the why lookup produce are arguments.
\<close>

section \<open>Models\<close>

record ApprovalQueueItem =
  aq_id :: string
  aq_routine_id :: string
  aq_routine_run_id :: string
  aq_gate_id :: string
  aq_status :: string
  aq_summary :: string
  aq_kind :: "string option"
  aq_payload :: payload
  aq_similarity_key :: "string option"
  aq_expires_at :: "instant option"
  aq_created_at :: instant

datatype decision_action = ActApprove | ActReject | ActEditAndApprove | ActRememberAndApprove

record ApprovalDecisionRequest =
  rq_action :: decision_action
  rq_edits :: "payload option"
  rq_reason :: "string option"

record ApprovalDecisionResponse =
  ar_id :: string
  ar_status :: string
  ar_decided_at :: instant

record AuditEventResponse =
  ev_event_id :: string
  ev_event_type :: string
  ev_severity :: string
  ev_timestamp :: instant
  ev_trace_id :: string
  ev_routine_run_id :: "string option"
  ev_payload :: payload
  ev_principal_id :: string
  ev_principal_type :: PrincipalType

record WhyResponse =
  wr_email_id :: string
  wr_entries :: "WhyEntry list"

record KnobValue =
  kv_name :: string
  kv_type :: string
  kv_value :: json
  kv_default :: json
  kv_description :: string

record RoutineKnobsResponse =
  rk_routine_id :: string
  rk_knobs :: "KnobValue list"

record KnobsUpdateResponse =
  ku_routine_id :: string
  ku_applied :: payload

record FleetEntry =
  fl_deployment_id :: string
  fl_edition :: string
  fl_framework_version :: string
  fl_routines :: "string list"

text \<open>\<open>None\<close>: no banner is active; the raw banner has the same fields.\<close>

datatype BannerSeverity = BannerInfo | BannerWarn | BannerError | BannerCritical

record banner =
  cb_severity :: BannerSeverity
  cb_title :: string
  cb_description :: "string option"
  cb_raised_at :: instant

datatype api_error = HTTPException int string

section \<open>State\<close>

record dashboard_state =
  ds_audit_files :: "(string, string) dict"
  ds_gate_manager :: "gate_manager option"
  ds_triage_state :: "EmailTriageState option"
  ds_framework_version :: string
  ds_deployment_id :: string
  ds_edition :: string
  ds_routines_installed :: "string list"
  ds_critical_banner :: "banner option"
  ds_knobs_by_routine :: "(string, payload) dict option"

section \<open>The approval queue\<close>

definition to_queue_item :: "GateInstance \<Rightarrow> ApprovalQueueItem" where
  "to_queue_item i =
     \<lparr>aq_id = gi_id i, aq_routine_id = gi_routine_id i, aq_routine_run_id = gi_routine_run_id i,
      aq_gate_id = gi_gate_id i, aq_status = status_text (gi_status i), aq_summary = gi_summary i,
      aq_kind = gi_kind i, aq_payload = gi_proposal i, aq_similarity_key = gi_similarity_key i,
      aq_expires_at = gi_expires_at i, aq_created_at = gi_created_at i\<rparr>"

definition list_approvals :: "string option \<Rightarrow> dashboard_state \<Rightarrow> ApprovalQueueItem list" where
  "list_approvals rid ds =
     (case ds_gate_manager ds of None \<Rightarrow> [] | Some m \<Rightarrow> map to_queue_item (list_pending (gm_rows m) rid))"

definition list_recent_approvals :: "int \<Rightarrow> dashboard_state \<Rightarrow> ApprovalQueueItem list" where
  "list_recent_approvals limit ds =
     (case ds_gate_manager ds of None \<Rightarrow> [] | Some m \<Rightarrow> map to_queue_item (list_recent (gm_rows m) limit))"

primrec action_status :: "decision_action \<Rightarrow> GateStatus" where
  "action_status ActApprove = GateStatus.Approved"
| "action_status ActReject = GateStatus.Rejected"
| "action_status ActEditAndApprove = GateStatus.ModifiedAndApproved"
| "action_status ActRememberAndApprove = GateStatus.Approved"

primrec action_mode :: "decision_action \<Rightarrow> ApprovalMode" where
  "action_mode ActApprove = Approve"
| "action_mode ActReject = Approve"
| "action_mode ActEditAndApprove = TuneAndApprove"
| "action_mode ActRememberAndApprove = ApproveAndRemember"

primrec gate_error_text :: "gate_error \<Rightarrow> string" where
  "gate_error_text (GateNotFoundError pk) = pk"
| "gate_error_text (GateAlreadyDecidedError pk st) = ''gate '' @ repr_str pk @ '' already in status='' @ status_text st"
| "gate_error_text (GateError st) =
     ''decide() requires status in approved / rejected / modified_and_approved; got '' @ repr_str st"
| "gate_error_text (IntegrityError pk) = ''UNIQUE constraint failed: gates.id''"

text \<open>\<open>None\<close> in \<open>decided_at\<close> fails the assertion: a server error.\<close>

definition decide_gate ::
  "string \<Rightarrow> ApprovalDecisionRequest \<Rightarrow> instant \<Rightarrow> dashboard_state \<Rightarrow> (api_error + ApprovalDecisionResponse) \<times> dashboard_state" where
  "decide_gate pk rq now ds =
     (case ds_gate_manager ds of
        None \<Rightarrow> (Inl (HTTPException 503 ''gate manager not configured''), ds)
      | Some m \<Rightarrow>
          (case decide pk \<lparr>gd_status = action_status (rq_action rq), gd_result_payload = rq_edits rq, gd_reason = rq_reason rq\<rparr>
                  (Some (action_mode (rq_action rq))) now m of
             (Inl e, m1) \<Rightarrow> (Inl (HTTPException 400 (gate_error_text e)), ds\<lparr>ds_gate_manager := Some m1\<rparr>)
           | (Inr updated, m1) \<Rightarrow>
               (case gi_decided_at updated of
                  None \<Rightarrow> Inl (HTTPException 500 ''Internal Server Error'')
                | Some t \<Rightarrow> Inr \<lparr>ar_id = gi_id updated, ar_status = status_text (gi_status updated), ar_decided_at = t\<rparr>,
                ds\<lparr>ds_gate_manager := Some m1\<rparr>)))"

text \<open>One round of the approvals stream: the identifiers sent, and those seen afterwards. The gates are
  read from the table as it is in that round.\<close>

fun stream_items :: "string list \<Rightarrow> GateInstance list \<Rightarrow> string list \<times> string list" where
  "stream_items seen [] = ([], seen)"
| "stream_items seen (i # rest) =
     (if gi_id i \<in> set seen then stream_items seen rest
      else (case stream_items (gi_id i # seen) rest of (sent, seen') \<Rightarrow> (gi_id i # sent, seen')))"

definition stream_round :: "string list \<Rightarrow> dashboard_state \<Rightarrow> string list \<times> string list" where
  "stream_round seen ds =
     (case ds_gate_manager ds of None \<Rightarrow> ([], seen) | Some m \<Rightarrow> stream_items seen (list_pending (gm_rows m) None))"

fun approvals_stream :: "string list \<Rightarrow> dashboard_state list \<Rightarrow> string list" where
  "approvals_stream seen [] = []"
| "approvals_stream seen (ds # rounds) =
     (case stream_round seen ds of (sent, seen') \<Rightarrow> sent @ approvals_stream seen' rounds)"

section \<open>Audit\<close>

definition to_event_response :: "AuditEvent \<Rightarrow> AuditEventResponse" where
  "to_event_response e =
     \<lparr>ev_event_id = ae_event_id e, ev_event_type = ae_event_type e, ev_severity = severity_str (ae_severity e),
      ev_timestamp = ae_timestamp e, ev_trace_id = ae_trace_id e, ev_routine_run_id = ae_routine_run_id e,
      ev_payload = ae_payload e, ev_principal_id = pr_id (ae_principal e),
      ev_principal_type = pr_type (ae_principal e)\<rparr>"

text \<open>\<open>event_types or ()\<close>: no list is an empty one.\<close>

definition audit_filter ::
  "aware option \<Rightarrow> aware option \<Rightarrow> string list option \<Rightarrow> string option \<Rightarrow> string option \<Rightarrow> string option \<Rightarrow> string option \<Rightarrow> AuditFilter" where
  "audit_filter start stop event_types run trace_id q severity =
     \<lparr>af_start = start, af_end = stop, af_event_types = (case event_types of None \<Rightarrow> [] | Some ts \<Rightarrow> ts),
      af_routine_run_id = run, af_trace_id = trace_id, af_q = q, af_severity_at_least = severity\<rparr>"

text \<open>The loop of \<open>scan_audit\<close> looks at the limit after each event it took.\<close>

fun collect_events :: "int \<Rightarrow> nat \<Rightarrow> AuditEvent list \<Rightarrow> AuditEventResponse list" where
  "collect_events limit n [] = []"
| "collect_events limit n (e # es) =
     to_event_response e # (if int (Suc n) \<ge> limit then [] else collect_events limit (Suc n) es)"

definition scan_audit ::
  "(string \<Rightarrow> AuditEvent option) \<Rightarrow> (AuditEvent \<Rightarrow> string) \<Rightarrow> AuditFilter \<Rightarrow> int \<Rightarrow> dashboard_state \<Rightarrow> AuditEventResponse list" where
  "scan_audit parse blob f limit ds = collect_events limit 0 (audit_scan parse blob f (ds_audit_files ds))"

definition audit_by_trace ::
  "(string \<Rightarrow> AuditEvent option) \<Rightarrow> (AuditEvent \<Rightarrow> string) \<Rightarrow> string \<Rightarrow> dashboard_state \<Rightarrow> AuditEventResponse list" where
  "audit_by_trace parse blob t ds = map to_event_response (events_by_trace parse blob t (ds_audit_files ds))"

definition audit_by_run ::
  "(string \<Rightarrow> AuditEvent option) \<Rightarrow> (AuditEvent \<Rightarrow> string) \<Rightarrow> string \<Rightarrow> dashboard_state \<Rightarrow> AuditEventResponse list" where
  "audit_by_run parse blob r ds = map to_event_response (events_by_run parse blob r (ds_audit_files ds))"

text \<open>\<open>csv.writer\<close> in its default dialect: a field is quoted when it has a comma, a quote or a line
  break, and a lone empty field is.\<close>

definition csv_special :: "char \<Rightarrow> bool" where
  "csv_special c \<longleftrightarrow> c \<in> {CHR '','', CHR 0x22, CHR 0x0D, CHR 0x0A}"

fun double_quotes :: "string \<Rightarrow> string" where
  "double_quotes [] = []"
| "double_quotes (c # cs) = (if c = CHR 0x22 then [c, c] else [c]) @ double_quotes cs"

definition csv_field :: "string \<Rightarrow> string" where
  "csv_field s = (if list_ex csv_special s then [CHR 0x22] @ double_quotes s @ [CHR 0x22] else s)"

definition csv_row :: "string list \<Rightarrow> string" where
  "csv_row row =
     (if row = [[]] then [CHR 0x22, CHR 0x22] else join '','' (map csv_field row)) @ [CHR 0x0D, CHR 0x0A]"

definition CSV_HEADER :: "string list" where
  "CSV_HEADER = [''timestamp'', ''event_type'', ''severity'', ''trace_id'', ''routine_run_id'', ''principal_id'']"

definition csv_event_row :: "(instant \<Rightarrow> string) \<Rightarrow> AuditEvent \<Rightarrow> string list" where
  "csv_event_row isof e =
     [isof (ae_timestamp e), ae_event_type e, severity_str (ae_severity e), ae_trace_id e,
      (case ae_routine_run_id e of None \<Rightarrow> [] | Some r \<Rightarrow> r), pr_id (ae_principal e)]"

definition export_csv ::
  "(instant \<Rightarrow> string) \<Rightarrow> (string \<Rightarrow> AuditEvent option) \<Rightarrow> (AuditEvent \<Rightarrow> string) \<Rightarrow> AuditFilter \<Rightarrow> dashboard_state \<Rightarrow> string" where
  "export_csv isof parse blob f ds =
     concat (map csv_row (CSV_HEADER # map (csv_event_row isof) (audit_scan parse blob f (ds_audit_files ds))))"

section \<open>Why, fleet, health\<close>

definition why ::
  "(string \<Rightarrow> EmailTriageState \<Rightarrow> WhyEntry list) \<Rightarrow> string \<Rightarrow> dashboard_state \<Rightarrow> api_error + WhyResponse" where
  "why lookup email_id ds =
     (case ds_triage_state ds of
        None \<Rightarrow> Inl (HTTPException 503 ''triage state not configured'')
      | Some s \<Rightarrow> Inr \<lparr>wr_email_id = email_id, wr_entries = lookup email_id s\<rparr>)"

definition fleet :: "dashboard_state \<Rightarrow> FleetEntry list" where
  "fleet ds =
     [\<lparr>fl_deployment_id = ds_deployment_id ds, fl_edition = ds_edition ds,
       fl_framework_version = ds_framework_version ds, fl_routines = ds_routines_installed ds\<rparr>]"

definition healthz :: "dashboard_state \<Rightarrow> (string, string) dict" where
  "healthz ds = [(''status'', ''ok''), (''version'', ds_framework_version ds)]"

section \<open>Knobs\<close>

text \<open>The store is made at its first use.\<close>

definition knobs_store :: "dashboard_state \<Rightarrow> (string, payload) dict \<times> dashboard_state" where
  "knobs_store ds =
     (case ds_knobs_by_routine ds of Some st \<Rightarrow> (st, ds) | None \<Rightarrow> ([], ds\<lparr>ds_knobs_by_routine := Some []\<rparr>))"

definition not_installed :: "string \<Rightarrow> api_error" where
  "not_installed rid = HTTPException 404 (''routine '' @ repr_str rid @ '' not installed'')"

definition get_knobs :: "string \<Rightarrow> dashboard_state \<Rightarrow> (api_error + RoutineKnobsResponse) \<times> dashboard_state" where
  "get_knobs rid ds =
     (if rid \<notin> set (ds_routines_installed ds) then (Inl (not_installed rid), ds)
      else (case knobs_store ds of (st, ds1) \<Rightarrow>
        (Inr \<lparr>rk_routine_id = rid,
           rk_knobs = map (\<lambda>(name, v). \<lparr>kv_name = name, kv_type = ''string'', kv_value = v, kv_default = v, kv_description = []\<rparr>)
             (dict_get_or st rid [])\<rparr>, ds1)))"

definition update_knobs ::
  "string \<Rightarrow> payload \<Rightarrow> dashboard_state \<Rightarrow> (api_error + KnobsUpdateResponse) \<times> dashboard_state" where
  "update_knobs rid knobs ds =
     (if rid \<notin> set (ds_routines_installed ds) then (Inl (not_installed rid), ds)
      else (case knobs_store ds of (st, ds1) \<Rightarrow>
        (Inr \<lparr>ku_routine_id = rid, ku_applied = knobs\<rparr>,
         ds1\<lparr>ds_knobs_by_routine := Some (dict_set rid (dict_merge (dict_get_or st rid []) knobs) st)\<rparr>)))"

section \<open>The critical banner\<close>

definition get_banner :: "dashboard_state \<Rightarrow> banner option" where
  "get_banner ds = ds_critical_banner ds"

definition raise_banner ::
  "BannerSeverity \<Rightarrow> string \<Rightarrow> string option \<Rightarrow> instant \<Rightarrow> dashboard_state \<Rightarrow> banner option \<times> dashboard_state" where
  "raise_banner sev title descr now ds =
     (let ds1 = ds\<lparr>ds_critical_banner := Some \<lparr>cb_severity = sev, cb_title = title, cb_description = descr, cb_raised_at = now\<rparr>\<rparr>
      in (get_banner ds1, ds1))"

definition clear_banner :: "dashboard_state \<Rightarrow> banner option \<times> dashboard_state" where
  "clear_banner ds = (None, ds\<lparr>ds_critical_banner := None\<rparr>)"

end
