(* ===== verification/Dashboard_Properties.thy ===== *)
theory Dashboard_Properties
  imports Dashboard
begin

text \<open>
  What the dashboard shows and does: a decision takes effect exactly on a pending gate, the stream
  announces every gate once, the table it exports can be read back, and a scan is a prefix of the log.
\<close>

section \<open>Decisions\<close>

lemma action_event: "\<exists>ev. decide_event (action_status a) = Some ev"
  by (cases a) (simp_all add: decide_event_def)

text \<open>What each action of the dashboard means: the status of the gate, the mode in the record and the event.\<close>

definition action_meaning :: "decision_action \<Rightarrow> GateStatus \<times> string \<times> string" where
  "action_meaning a =
     (case a of
        ActApprove \<Rightarrow> (GateStatus.Approved, ''approve'', ''gate.approved'')
      | ActReject \<Rightarrow> (GateStatus.Rejected, ''approve'', ''gate.rejected'')
      | ActEditAndApprove \<Rightarrow> (ModifiedAndApproved, ''tune_and_approve'', ''gate.modified_and_approved'')
      | ActRememberAndApprove \<Rightarrow> (GateStatus.Approved, ''approve_and_remember'', ''gate.approved''))"

text \<open>The stored result: the operator's edits, but for the two entries of the decision.\<close>

definition stores_decision :: "payload option \<Rightarrow> string \<Rightarrow> string option \<Rightarrow> payload \<Rightarrow> bool" where
  "stores_decision edits mode reason stored \<longleftrightarrow>
     (\<forall>k. dict_get stored k =
        (if k = ''_reason'' \<and> reason \<noteq> None then Some (JStr (the reason))
         else if k = ''_approval_mode'' then Some (JStr mode)
         else case edits of None \<Rightarrow> None | Some e \<Rightarrow> dict_get e k))"

lemma stored_result: "\<exists>stored. result_with_meta edits (Some am) reason = Some stored \<and> stores_decision edits (mode_text am) reason stored"
proof -
  let ?base = "case edits of None \<Rightarrow> [] | Some p \<Rightarrow> p"
  let ?moded = "dict_set ''_approval_mode'' (JStr (mode_text am)) ?base"
  let ?full = "case reason of None \<Rightarrow> ?moded | Some t \<Rightarrow> dict_set ''_reason'' (JStr t) ?moded"
  have "dict_get ?full ''_approval_mode'' = Some (JStr (mode_text am))" by (auto simp: dict_simps split: option.splits)
  then have "?full \<noteq> []" by (metis map_of.simps(1) option.distinct(1))
  then have "result_with_meta edits (Some am) reason = Some ?full" by (simp add: result_with_meta_def Let_def)
  moreover have "stores_decision edits (mode_text am) reason ?full"
    by (auto simp: stores_decision_def dict_simps split: option.splits)
  ultimately show ?thesis by blast
qed

lemma decide_pending:
  assumes "ds_gate_manager ds = Some m" and "find_gate (gm_rows m) pk = Some r" and "row_status r = Pending"
    and "action_meaning (rq_action rq) = (st, mode, ev)"
  shows "\<exists>stored. stores_decision (rq_edits rq) mode (rq_reason rq) stored \<and>
    decide_gate pk rq now ds =
      (Inr \<lparr>ar_id = pk, ar_status = status_text st, ar_decided_at = now\<rparr>,
       ds\<lparr>ds_gate_manager := Some (m\<lparr>
         gm_rows := map (\<lambda>q. if row_id q = pk
           then q\<lparr>row_status := st, row_result_json := Some stored, row_decided_at := Some now\<rparr> else q) (gm_rows m),
         gm_audit := gm_audit m @ [emit_for_run ev SevInfo (gm_principal m)
           [(''gate_pk'', JStr pk), (''gate_id'', JStr (row_gate_id r)), (''status'', JStr (status_text st)),
            (''approval_mode'', JStr mode), (''reason'', JOpt (rq_reason rq))] (Some (row_routine_run_id r))]\<rparr>)\<rparr>)"
proof -
  let ?am = "action_mode (rq_action rq)"
  have mean: "action_status (rq_action rq) = st" "mode_text ?am = mode" "decide_event st = Some ev"
    using assms(4) by (auto simp: action_meaning_def decide_event_def split: decision_action.splits)
  obtain stored where stored: "result_with_meta (rq_edits rq) (Some ?am) (rq_reason rq) = Some stored"
      "stores_decision (rq_edits rq) mode (rq_reason rq) stored"
    using stored_result mean(2) by metis
  have id: "row_id r = pk" using find_gate_SomeD [OF assms(2)] by simp
  have "decide pk \<lparr>gd_status = st, gd_result_payload = rq_edits rq, gd_reason = rq_reason rq\<rparr> (Some ?am) now m =
      (Inr (row_to_instance (decided_row st (Some stored) now r)),
       m\<lparr>gm_rows := write_decision pk st (Some stored) now (gm_rows m),
         gm_audit := gm_audit m @ [decision_event m ev st (Some ?am) (rq_reason rq) r]\<rparr>)"
    using record_decision_pending [OF assms(2,3)] stored(1) mean(3) by (simp add: decide_def)
  then show ?thesis
    using assms(1) mean stored(2) id
    by (intro exI [of _ stored])
      (simp add: decide_gate_def row_to_instance_def decided_row_def decision_event_def decision_payload_def
        write_decision_def update_where_def)
qed


definition ex_row :: gate_row where
  "ex_row = \<lparr>row_id = ''g1'', row_routine_id = ''r'', row_routine_run_id = ''run'', row_gate_id = ''send'', row_status = Pending,
     row_proposal_json = [], row_result_json = None, row_similarity_key = None, row_approval_mode = None,
     row_expires_at = None, row_created_at = 0, row_decided_at = None\<rparr>"

definition ex_manager :: gate_manager where
  "ex_manager = \<lparr>gm_rows = [ex_row, ex_row\<lparr>row_id := ''g2''\<rparr>], gm_audit = [],
     gm_principal = \<lparr>pr_id = ''op'', pr_type = POperator, pr_idp_sub = None, pr_display_name = None\<rparr>, gm_similarity_fns = []\<rparr>"

definition ex_dashboard :: dashboard_state where
  "ex_dashboard = \<lparr>ds_audit_files = [], ds_gate_manager = Some ex_manager, ds_triage_state = None, ds_framework_version = ''0.1.0'',
     ds_deployment_id = ''local'', ds_edition = ''core'', ds_routines_installed = [], ds_critical_banner = None,
     ds_knobs_by_routine = None\<rparr>"

definition ex_edit :: ApprovalDecisionRequest where
  "ex_edit = \<lparr>rq_action = ActEditAndApprove, rq_edits = Some [(''body'', JStr ''hi'')], rq_reason = None\<rparr>"


section \<open>The stream of approvals\<close>

lemma stream_items_exact:
  "stream_items seen gs = (sent, seen') \<Longrightarrow>
     distinct sent \<and> set sent = gi_id ` set gs - set seen \<and> set seen' = set seen \<union> gi_id ` set gs"
proof (induction seen gs arbitrary: sent seen' rule: stream_items.induct)
  case (2 seen i rest)
  show ?case
  proof (cases "gi_id i \<in> set seen")
    case True
    then have "stream_items seen rest = (sent, seen')" using "2.prems" by simp
    with "2.IH"(1) [OF True] True show ?thesis by auto
  next
    case False
    obtain s t where rest: "stream_items (gi_id i # seen) rest = (s, t)" by (cases "stream_items (gi_id i # seen) rest")
    then have "sent = gi_id i # s" "seen' = t" using "2.prems" False by simp_all
    with "2.IH"(2) [OF False rest] False show ?thesis by auto
  qed
qed simp

definition pending_ids :: "dashboard_state \<Rightarrow> string set" where
  "pending_ids ds = (case ds_gate_manager ds of None \<Rightarrow> {} | Some m \<Rightarrow> gi_id ` set (list_pending (gm_rows m) None))"

lemma stream_round_exact:
  "stream_round seen ds = (sent, seen') \<Longrightarrow>
     distinct sent \<and> set sent = pending_ids ds - set seen \<and> set seen' = set seen \<union> pending_ids ds"
  by (auto simp: stream_round_def pending_ids_def dest: stream_items_exact split: option.splits)

lemma approvals_stream_from:
  "distinct (approvals_stream seen rounds) \<and>
   set (approvals_stream seen rounds) = (\<Union>ds \<in> set rounds. pending_ids ds) - set seen"
proof (induction rounds arbitrary: seen)
  case Nil
  show ?case by simp
next
  case (Cons ds rounds)
  obtain sent seen' where round: "stream_round seen ds = (sent, seen')" by (cases "stream_round seen ds")
  show ?case using stream_round_exact [OF round] Cons.IH [of seen'] round by auto
qed

text \<open>C39: Over any number of rounds the stream of approvals announces each gate at most once, and announces exactly
  the gates that were pending in one of the rounds.\<close>

theorem approvals_stream_exact:
  "distinct (approvals_stream [] rounds) \<and> set (approvals_stream [] rounds) = (\<Union>ds \<in> set rounds. pending_ids ds)"
  using approvals_stream_from [of "[]" rounds] by simp

section \<open>The exported table\<close>

datatype csv_mode = RowStart | AfterReturn | FieldStart | PlainField | QuotedField | AfterQuote

text \<open>A reader of the format: the state is the mode, the field and the row read so far.\<close>

fun csv_read :: "csv_mode \<Rightarrow> string \<Rightarrow> string list \<Rightarrow> string \<Rightarrow> string list list" where
  "csv_read md f row [] = (if md = RowStart \<or> md = AfterReturn then [] else [row @ [f]])"
| "csv_read md f row (c # cs) =
     (if md = AfterReturn \<and> c = CHR 0x0A then csv_read RowStart [] [] cs
      else if md = QuotedField
      then (if c = CHR 0x22 then csv_read AfterQuote f row cs else csv_read QuotedField (f @ [c]) row cs)
      else if c = CHR 0x22 \<and> md \<in> {RowStart, AfterReturn, FieldStart} then csv_read QuotedField [] row cs
      else if c = CHR 0x22 \<and> md = AfterQuote then csv_read QuotedField (f @ [c]) row cs
      else if c = CHR '','' then csv_read FieldStart [] (row @ [f]) cs
      else if c = CHR 0x0D then (row @ [f]) # csv_read AfterReturn [] [] cs
      else if c = CHR 0x0A then (row @ [f]) # csv_read RowStart [] [] cs
      else csv_read PlainField (f @ [c]) row cs)"

lemma read_quoted: "csv_read QuotedField f row (double_quotes s @ CHR 0x22 # x) = csv_read AfterQuote (f @ s) row x"
  by (induction s arbitrary: f) simp_all

lemma read_plain:
  "\<not> list_ex csv_special s \<Longrightarrow> md \<in> {RowStart, FieldStart, PlainField} \<Longrightarrow>
   csv_read md f row (s @ x) = csv_read (if s = [] then md else PlainField) (f @ s) row x"
  by (induction s arbitrary: md f) (auto simp: csv_special_def)

text \<open>A field is read up to the comma or the line break behind it.\<close>

lemma read_field:
  assumes "md \<in> {RowStart, FieldStart}"
  shows "csv_read md [] row (csv_field s @ CHR '','' # x) = csv_read FieldStart [] (row @ [s]) x"
    and "csv_read md [] row (csv_field s @ CHR 0x0D # x) = (row @ [s]) # csv_read AfterReturn [] [] x"
proof -
  have "csv_read md [] row (csv_field s @ c # x) =
      (if list_ex csv_special s then csv_read AfterQuote s row (c # x)
       else csv_read (if s = [] then md else PlainField) s row (c # x))" for c x
  proof (cases "list_ex csv_special s")
    case True
    then show ?thesis using assms read_quoted [of "[]" row s "c # x"] by (auto simp: csv_field_def)
  next
    case False
    then show ?thesis using assms read_plain [of s md "[]" row "c # x"] by (auto simp: csv_field_def)
  qed
  then show "csv_read md [] row (csv_field s @ CHR '','' # x) = csv_read FieldStart [] (row @ [s]) x"
    "csv_read md [] row (csv_field s @ CHR 0x0D # x) = (row @ [s]) # csv_read AfterReturn [] [] x"
    using assms by auto
qed

lemma read_fields:
  "fs \<noteq> [] \<Longrightarrow> md \<in> {RowStart, FieldStart} \<Longrightarrow>
   csv_read md [] row (join '','' (map csv_field fs) @ CHR 0x0D # x) = (row @ fs) # csv_read AfterReturn [] [] x"
proof (induction fs arbitrary: md row)
  case (Cons s fs)
  show ?case
  proof (cases fs)
    case Nil
    then show ?thesis using read_field(2) [OF Cons.prems(2)] by simp
  next
    case (Cons s' fs')
    then have "csv_read md [] row (join '','' (map csv_field (s # fs)) @ CHR 0x0D # x) =
        csv_read FieldStart [] (row @ [s]) (join '','' (map csv_field fs) @ CHR 0x0D # x)"
      using read_field(1) [OF Cons.prems(2)] by simp
    then show ?thesis using Cons.IH [of FieldStart "row @ [s]"] \<open>fs = s' # fs'\<close> by simp
  qed
qed simp

lemma read_row: "row \<noteq> [] \<Longrightarrow> csv_read RowStart [] [] (csv_row row @ x) = row # csv_read RowStart [] [] x"
  using read_fields [of row RowStart "[]" "CHR 0x0A # x"] by (simp add: csv_row_def)

lemma read_rows: "list_all (\<lambda>row. row \<noteq> []) rows \<Longrightarrow> csv_read RowStart [] [] (concat (map csv_row rows)) = rows"
  by (induction rows) (simp_all add: read_row)

text \<open>C40: The exported table, read back, is its header and one row for each event the filter matches, whatever
  commas, quotes and line breaks the texts of the events contain.\<close>

theorem exported_table_round_trip:
  "csv_read RowStart [] [] (export_csv isof parse blob f ds) =
     CSV_HEADER # map (csv_event_row isof) (audit_scan parse blob f (ds_audit_files ds))"
proof -
  have "list_all (\<lambda>row. row \<noteq> []) (CSV_HEADER # map (csv_event_row isof) (audit_scan parse blob f (ds_audit_files ds)))"
    by (simp add: list_all_iff CSV_HEADER_def csv_event_row_def)
  from read_rows [OF this] show ?thesis by (simp add: export_csv_def)
qed

section \<open>A limited scan\<close>

lemma collect_events_take:
  "collect_events limit n es = map to_event_response (take (nat (max 1 (limit - int n))) es)"
proof (induction es arbitrary: n)
  case (Cons e es)
  show ?case
  proof (cases "int (Suc n) \<ge> limit")
    case True
    then have "nat (max 1 (limit - int n)) = 1" by simp
    with True show ?thesis by simp
  next
    case False
    then have "nat (max 1 (limit - int n)) = Suc (nat (max 1 (limit - int (Suc n))))" by simp
    with False Cons.IH [of "Suc n"] show ?thesis by simp
  qed
qed simp

text \<open>The scan returns the first matches, as many as the limit says, but always at least one: a limit of
  zero, or a negative one, gives one event.\<close>

theorem scan_audit_prefix:
  "scan_audit parse blob f limit ds =
     map to_event_response (take (nat (max 1 limit)) (audit_scan parse blob f (ds_audit_files ds)))"
  by (simp add: scan_audit_def collect_events_take)

section \<open>Knobs and the banner\<close>

text \<open>An update is seen by the next read of that routine, merged over the values set before; another routine
  sees nothing of it.\<close>

lemma knobs_update_get:
  assumes "rid \<in> set (ds_routines_installed ds)"
  shows "fst (get_knobs rid' (snd (update_knobs rid knobs ds))) =
    (if rid' = rid
     then Inr \<lparr>rk_routine_id = rid,
       rk_knobs = map (\<lambda>(name, v). \<lparr>kv_name = name, kv_type = ''string'', kv_value = v, kv_default = v, kv_description = []\<rparr>)
         (dict_merge (dict_get_or (fst (knobs_store ds)) rid []) knobs)\<rparr>
     else fst (get_knobs rid' ds))"
  using assms
  by (auto simp: get_knobs_def update_knobs_def knobs_store_def dict_get_or_def dict_simps split: option.splits)

lemma banner_raise_clear:
  "get_banner (snd (raise_banner sev title descr now ds)) = Some \<lparr>cb_severity = sev, cb_title = title, cb_description = descr, cb_raised_at = now\<rparr>"
  "get_banner (snd (clear_banner ds)) = None"
  by (simp_all add: raise_banner_def clear_banner_def get_banner_def Let_def)

end
