(* ===== verification/LLM_Provider.thy ===== *)
theory LLM_Provider
  imports OAuth
begin

text \<open>
  The Anthropic provider: \<open>ota_core/llm/types.py\<close> and \<open>anthropic_provider.py\<close>.  The SDK's client is the
  parameter \<open>create\<close>, from the keyword arguments to a response; an object of the SDK is the JSON mapping of
  its attributes, since \<open>_attr\<close> reads both alike.  Fields nothing checks keep their JSON value.
\<close>

section \<open>Types\<close>

datatype Role = UserRole | AssistantRole

primrec role_text :: "Role \<Rightarrow> string" where
  "role_text UserRole = ''user''"
| "role_text AssistantRole = ''assistant''"

datatype ContentBlock =
    TextBlock json
  | ToolUseBlock json json payload
  | ToolResultBlock json string bool

datatype message_content = TextMessage string | BlockMessage "ContentBlock list"

record Message =
  ms_role :: Role
  ms_content :: message_content

record ToolDef =
  tl_name :: string
  tl_description :: string
  tl_input_schema :: payload

record LLMRequest =
  lq_model :: string
  lq_messages :: "Message list"
  lq_max_tokens :: int
  lq_system :: "string option"
  lq_tools :: "ToolDef list option"
  lq_temperature :: "decimal option"

record Usage =
  us_input_tokens :: json
  us_output_tokens :: json
  us_cache_read_input_tokens :: int
  us_cache_creation_input_tokens :: int

record LLMResponse =
  lr_model :: json
  lr_content :: "ContentBlock list"
  lr_usage :: Usage
  lr_stop_reason :: json

record ProviderMetadata =
  pm_name :: string
  pm_region :: string

section \<open>To the SDK\<close>

definition block_to_sdk :: "ContentBlock \<Rightarrow> json" where
  "block_to_sdk b =
     (case b of
        TextBlock t \<Rightarrow> JObj [(''type'', JStr ''text''), (''text'', t)]
      | ToolUseBlock bid name inp \<Rightarrow>
          JObj [(''type'', JStr ''tool_use''), (''id'', bid), (''name'', name), (''input'', JObj inp)]
      | ToolResultBlock bid txt err \<Rightarrow>
          JObj ([(''type'', JStr ''tool_result''), (''tool_use_id'', bid), (''content'', JStr txt)] @
            (if err then [(''is_error'', JBool True)] else [])))"

definition message_to_sdk :: "Message \<Rightarrow> json" where
  "message_to_sdk m =
     JObj [(''role'', JStr (role_text (ms_role m))),
       (''content'', case ms_content m of TextMessage s \<Rightarrow> JStr s | BlockMessage bs \<Rightarrow> JArr (map block_to_sdk bs))]"

definition tool_to_sdk :: "ToolDef \<Rightarrow> json" where
  "tool_to_sdk t =
     JObj [(''name'', JStr (tl_name t)), (''description'', JStr (tl_description t)), (''input_schema'', JObj (tl_input_schema t))]"

section \<open>From the SDK\<close>

definition sdk_attr :: "json \<Rightarrow> string \<Rightarrow> json \<Rightarrow> json" where
  "sdk_attr j name dflt = (case j of JObj d \<Rightarrow> dict_get_or d name dflt | _ \<Rightarrow> dflt)"

text \<open>\<open>dict(value)\<close>; of a non-empty list or text only lists of pairs are accepted, which no tool sends.\<close>

definition dict_of_json :: "json \<Rightarrow> exn + payload" where
  "dict_of_json j =
     (case j of
        JObj d \<Rightarrow> Inr d
      | JArr [] \<Rightarrow> Inr []
      | JStr [] \<Rightarrow> Inr []
      | JArr (_ # _) \<Rightarrow> Inl outside_model
      | JStr (_ # _) \<Rightarrow>
          Inl (PyError ''ValueError'' ''dictionary update sequence element #0 has length 1; 2 is required'')
      | _ \<Rightarrow> Inl (PyError ''TypeError'' (repr_str (json_type_name j) @ '' object is not iterable'')))"

definition block_from_sdk :: "json \<Rightarrow> exn + ContentBlock" where
  "block_from_sdk j =
     (let kind = sdk_attr j ''type'' JNull
      in if kind = JStr ''text'' then Inr (TextBlock (sdk_attr j ''text'' (JStr [])))
         else if kind = JStr ''tool_use''
         then (case dict_of_json (sdk_attr j ''input'' (JObj [])) of
                 Inl e \<Rightarrow> Inl e
               | Inr d \<Rightarrow> Inr (ToolUseBlock (sdk_attr j ''id'' JNull) (sdk_attr j ''name'' JNull) d))
         else if kind = JStr ''tool_result''
         then Inr (ToolResultBlock (sdk_attr j ''tool_use_id'' JNull) (json_text (sdk_attr j ''content'' (JStr [])))
                (\<not> falsy (sdk_attr j ''is_error'' (JBool False))))
         else Inl (PyError ''ValueError'' (''unsupported SDK block type: '' @ py_repr kind)))"

fun blocks_from_sdk :: "json list \<Rightarrow> exn + ContentBlock list" where
  "blocks_from_sdk [] = Inr []"
| "blocks_from_sdk (j # js) =
     (case block_from_sdk j of
        Inl e \<Rightarrow> Inl e
      | Inr b \<Rightarrow> (case blocks_from_sdk js of Inl e \<Rightarrow> Inl e | Inr bs \<Rightarrow> Inr (b # bs)))"

section \<open>The provider\<close>

definition SUPPORTED_FLAGS :: "string list" where
  "SUPPORTED_FLAGS = [''tool_use'', ''parallel_tool_calls'', ''streaming'', ''prompt_caching'', ''extended_thinking'',
     ''computer_use'', ''citations'', ''vision'', ''pdf_input'', ''json_mode'']"

definition MODEL_CONTEXT_LIMITS :: "(string, int) dict" where
  "MODEL_CONTEXT_LIMITS = [(''claude-opus-4-7'', 200000), (''claude-opus-4-7[1m]'', 1000000), (''claude-sonnet-4-6'', 200000),
     (''claude-haiku-4-5'', 200000), (''claude-haiku-4-5-20251001'', 200000)]"

definition DEFAULT_CONTEXT_LIMIT :: int where
  "DEFAULT_CONTEXT_LIMIT = 200000"

definition llm_supports :: "string \<Rightarrow> bool" where
  "llm_supports flag \<longleftrightarrow> flag \<in> set SUPPORTED_FLAGS"

definition max_context_tokens :: "string \<Rightarrow> int" where
  "max_context_tokens model = dict_get_or MODEL_CONTEXT_LIMITS model DEFAULT_CONTEXT_LIMIT"

definition llm_metadata :: "string \<Rightarrow> ProviderMetadata" where
  "llm_metadata region = \<lparr>pm_name = ''anthropic_direct'', pm_region = region\<rparr>"

definition request_kwargs :: "LLMRequest \<Rightarrow> payload" where
  "request_kwargs rq =
     [(''model'', JStr (lq_model rq)), (''max_tokens'', JInt (lq_max_tokens rq)),
      (''messages'', JArr (map message_to_sdk (lq_messages rq)))] @
     (case lq_system rq of None \<Rightarrow> [] | Some s \<Rightarrow> [(''system'', JStr s)]) @
     (case lq_tools rq of None \<Rightarrow> [] | Some ts \<Rightarrow> [(''tools'', JArr (map tool_to_sdk ts))]) @
     (case lq_temperature rq of None \<Rightarrow> [] | Some t \<Rightarrow> [(''temperature'', JNum (dec_coef t) (dec_exp t))])"

text \<open>The attributes of the SDK's response the code reads; \<open>usage\<close> as the mapping of its attributes.\<close>

record sdk_response =
  sk_model :: json
  sk_content :: "json list"
  sk_input_tokens :: json
  sk_output_tokens :: json
  sk_usage :: payload
  sk_stop_reason :: json

definition or_zero :: "payload \<Rightarrow> string \<Rightarrow> exn + int" where
  "or_zero usage name = int_of_json (or_default (dict_get usage name) (JInt 0))"

definition usage_of :: "sdk_response \<Rightarrow> exn + Usage" where
  "usage_of r =
     (case or_zero (sk_usage r) ''cache_read_input_tokens'' of
        Inl e \<Rightarrow> Inl e
      | Inr reads \<Rightarrow>
          (case or_zero (sk_usage r) ''cache_creation_input_tokens'' of
             Inl e \<Rightarrow> Inl e
           | Inr made \<Rightarrow> Inr \<lparr>us_input_tokens = sk_input_tokens r, us_output_tokens = sk_output_tokens r,
               us_cache_read_input_tokens = reads, us_cache_creation_input_tokens = made\<rparr>))"

definition create_message :: "(payload \<Rightarrow> ('s, exn, sdk_response) py) \<Rightarrow> LLMRequest \<Rightarrow> ('s, exn, LLMResponse) py" where
  "create_message create rq =
     try_bind (create (request_kwargs rq)) (\<lambda>r w.
       (case blocks_from_sdk (sk_content r) of
          Inl e \<Rightarrow> Inl e
        | Inr content \<Rightarrow>
            (case usage_of r of
               Inl e \<Rightarrow> Inl e
             | Inr u \<Rightarrow> Inr \<lparr>lr_model = sk_model r, lr_content = content, lr_usage = u, lr_stop_reason = sk_stop_reason r\<rparr>), w))"

section \<open>Properties\<close>

text \<open>A block read back from what it is sent as is the block itself.\<close>

lemma block_round_trip: "block_from_sdk (block_to_sdk b) = Inr b"
  by (cases b) (auto simp: block_to_sdk_def block_from_sdk_def sdk_attr_def dict_get_or_def dict_of_json_def json_text_def falsy_def Let_def)

text \<open>Every list of content blocks sent to the model is read back from the SDK's form unchanged, and a response
  that has a block of another type is refused as a whole.\<close>

theorem sdk_blocks_round_trip:
  "blocks_from_sdk (map block_to_sdk bs) = Inr bs \<and>
   ((\<exists>cs. blocks_from_sdk js = Inr cs) \<longleftrightarrow> list_all (\<lambda>j. \<exists>c. block_from_sdk j = Inr c) js)"
proof
  show "blocks_from_sdk (map block_to_sdk bs) = Inr bs" by (induction bs) (simp_all add: block_round_trip)
  show "(\<exists>cs. blocks_from_sdk js = Inr cs) \<longleftrightarrow> list_all (\<lambda>j. \<exists>c. block_from_sdk j = Inr c) js"
    by (induction js) (auto split: sum.splits)
qed

text \<open>The context of a model is known to be at least the default.\<close>

lemma context_at_least_default: "max_context_tokens model \<ge> DEFAULT_CONTEXT_LIMIT"
  by (simp add: max_context_tokens_def MODEL_CONTEXT_LIMITS_def DEFAULT_CONTEXT_LIMIT_def dict_get_or_def)

end
