(* ===== verification/Vocab_Stubs.thy ===== *)
theory Vocab_Stubs
  imports Storage Adapter_Shared
begin

text \<open>
  \<open>scripts/gen_vocab_stubs.py\<close>: the generator of the typed stubs from the specifications under
  \<open>vocabulary/\<close>.  The searches of its regular expressions are written out as scans: each follows the
  leftmost match with the backtracking the expression allows, on ASCII text.

  YAML is the parameter \<open>load\<close>, the formatter it runs at the end the parameter \<open>ruff\<close>.  The vocabulary is a
  dict from file name to text, the output a dict from the path below the output directory to text;
  \<open>vpath\<close> shows the full path of a specification.  Directories, the errors of the disk, the command line and
  the messages printed are not modelled.
\<close>

section \<open>Scanning text\<close>

definition rstrip :: "string \<Rightarrow> string" where
  "rstrip s = rev (dropWhile is_space (rev s))"

definition endswith :: "string \<Rightarrow> string \<Rightarrow> bool" where
  "endswith s p \<longleftrightarrow> drop (length s - length p) s = p"

text \<open>\<open>\w\<close>\<close>

definition is_word :: "char \<Rightarrow> bool" where
  "is_word c \<longleftrightarrow> is_digit c \<or> is_lower_alpha c \<or> is_upper_alpha c \<or> c = CHR ''_''"

text \<open>\<open>\s*$\<close> with \<open>MULTILINE\<close>: the white space is given back until a line ends; what follows the match.\<close>

definition line_tail :: "string \<Rightarrow> string option" where
  "line_tail s =
     (let ws = takeWhile is_space s; rest = dropWhile is_space s
      in if rest = [] then Some []
         else if CHR 0x0A \<in> set ws
         then Some (CHR 0x0A # rev (takeWhile (\<lambda>c. c \<noteq> CHR 0x0A) (rev ws)) @ rest)
         else None)"

text \<open>The two groups of \<open>_H3_PATTERN\<close>: a text in backticks, or a word; with what follows.\<close>

definition h3_group :: "string \<Rightarrow> (string \<times> string) option" where
  "h3_group s =
     (case s of
        [] \<Rightarrow> None
      | c # t \<Rightarrow>
          if c = CHR 0x60
          then (let name = takeWhile (\<lambda>x. x \<noteq> CHR 0x60) t; rest = dropWhile (\<lambda>x. x \<noteq> CHR 0x60) t
                in if name = [] \<or> rest = [] then None else Some (name, tl rest))
          else (let name = takeWhile is_word s in if name = [] then None else Some (name, dropWhile is_word s)))"

definition h3_at :: "string \<Rightarrow> (string \<times> string) option" where
  "h3_at s =
     (if startswith s ''### ''
      then (case h3_group (drop 4 s) of
              None \<Rightarrow> None
            | Some (name, rest) \<Rightarrow> (case line_tail rest of None \<Rightarrow> None | Some after \<Rightarrow> Some (name, after)))
      else None)"

lemma line_tail_shorter: "line_tail s = Some r \<Longrightarrow> length r \<le> length s"
proof -
  assume tail: "line_tail s = Some r"
  let ?ws = "takeWhile is_space s" and ?nl = "\<lambda>c. c \<noteq> CHR 0x0A"
  have whole: "length s = length ?ws + length (dropWhile is_space s)"
    by (metis length_append takeWhile_dropWhile_id)
  have "length (takeWhile ?nl (rev ?ws)) < length ?ws" if "CHR 0x0A \<in> set ?ws"
  proof -
    have "dropWhile ?nl (rev ?ws) \<noteq> []" using that by auto
    then show ?thesis by (metis length_append length_greater_0_conv length_rev less_add_same_cancel1 takeWhile_dropWhile_id)
  qed
  then show ?thesis using tail whole by (auto simp: line_tail_def Let_def split: if_splits)
qed

lemma h3_group_shorter: "h3_group s = Some (name, r) \<Longrightarrow> length r \<le> length s"
  by (auto simp: h3_group_def Let_def split: list.splits if_splits
      intro: le_SucI [OF order_trans [OF diff_le_self length_dropWhile_le]] le_SucI [OF length_dropWhile_le])

lemma h3_at_shorter: "h3_at s = Some (name, r) \<Longrightarrow> length r < length s"
proof -
  assume "h3_at s = Some (name, r)"
  then obtain rest where parts: "startswith s ''### ''" "h3_group (drop 4 s) = Some (name, rest)" "line_tail rest = Some r"
    by (auto simp: h3_at_def split: if_splits option.splits)
  then have "length r \<le> length (drop 4 s)" using h3_group_shorter line_tail_shorter le_trans by blast
  moreover have "4 \<le> length s" using parts(1) by (auto simp: startswith_iff)
  ultimately show ?thesis by simp
qed

text \<open>The matches of \<open>_H3_PATTERN\<close>, each with the section up to the next match; first the text before all of
  them.  The flag says that a line starts here.\<close>

record h3_section =
  h3_name :: string
  h3_heading :: string
  h3_text :: string

function h3_scan :: "bool \<Rightarrow> string \<Rightarrow> string \<times> h3_section list" where
  "h3_scan bol [] = ([], [])"
| "h3_scan bol (c # cs) =
     (case (if bol then h3_at (c # cs) else None) of
        None \<Rightarrow> (case h3_scan (c = CHR 0x0A) cs of (pre, secs) \<Rightarrow> (c # pre, secs))
      | Some (name, after) \<Rightarrow>
          (case h3_scan False after of
             (sec, secs) \<Rightarrow>
               ([], \<lparr>h3_name = name, h3_heading = take (Suc (length cs) - length after) (c # cs), h3_text = sec\<rparr> # secs)))"
  by pat_completeness auto
termination
  by (relation "measure (\<lambda>(bol, s). length s)") (auto split: if_splits dest: h3_at_shorter)

definition h3_sections :: "string \<Rightarrow> h3_section list" where
  "h3_sections body = snd (h3_scan True body)"

text \<open>\<open>str.splitlines\<close>\<close>

fun splitlines :: "string \<Rightarrow> string list" where
  "splitlines [] = []"
| "splitlines (c # cs) =
     (if is_line_break c
      then [] # (case cs of d # ds \<Rightarrow> if c = CHR 0x0D \<and> d = CHR 0x0A then splitlines ds else splitlines cs | [] \<Rightarrow> [])
      else (case splitlines cs of [] \<Rightarrow> [[c]] | l # ls \<Rightarrow> (c # l) # ls))"

text \<open>Where \<open>^\<close> matches with \<open>MULTILINE\<close>: the rests of the text that begin a line.\<close>

fun later_lines :: "string \<Rightarrow> string list" where
  "later_lines [] = []"
| "later_lines (c # cs) = (if c = CHR 0x0A then cs # later_lines cs else later_lines cs)"

definition line_starts :: "string \<Rightarrow> string list" where
  "line_starts s = s # later_lines s"

text \<open>The maximal runs of word characters.\<close>

fun words_of :: "string \<Rightarrow> string \<Rightarrow> string list" where
  "words_of acc [] = (if acc = [] then [] else [rev acc])"
| "words_of acc (c # cs) =
     (if is_word c then words_of (c # acc) cs
      else (if acc = [] then [] else [rev acc]) @ words_of [] cs)"

section \<open>Reading the specifications\<close>

definition system_exit :: "string \<Rightarrow> exn" where
  "system_exit msg = PyError ''SystemExit'' msg"

definition TYPE_DOMAIN :: "(string, string) dict" where
  "TYPE_DOMAIN =
     [(''IdentityRef'', ''identity''), (''MessageRef'', ''messaging''), (''ThreadRef'', ''messaging''),
      (''ChannelRef'', ''messaging''), (''EmailRef'', ''email''), (''EmailThreadRef'', ''email''),
      (''DraftRef'', ''email''), (''Block'', ''content''), (''Action'', ''content''), (''FileRef'', ''content''),
      (''Attachment'', ''content''), (''DeliveryStatus'', ''enums''), (''Importance'', ''enums''),
      (''Cursor'', ''pagination''), (''Page'', ''pagination''), (''Hierarchy'', ''errors'')]"

definition split_frontmatter :: "string \<Rightarrow> string \<times> string" where
  "split_frontmatter txt =
     (if \<not> startswith txt (''---'' @ nl) then ([], txt)
      else (case find_from txt (nl @ ''---'' @ nl) 4 of
              None \<Rightarrow> ([], txt)
            | Some fin \<Rightarrow> (drop 4 (take fin txt), drop (fin + 5) txt)))"

text \<open>When no line ends after the fence, \<open>find\<close> gives -1 and the block is looked for from the start.\<close>

definition first_fenced_block :: "string \<Rightarrow> string \<Rightarrow> string option" where
  "first_fenced_block txt language =
     (case find_from txt (''```'' @ language) 0 of
        None \<Rightarrow> None
      | Some start \<Rightarrow>
          (let body_start = (case find_from txt nl start of None \<Rightarrow> 0 | Some i \<Rightarrow> i + 1)
           in case find_from txt (nl @ ''```'') body_start of
                None \<Rightarrow> None
              | Some fin \<Rightarrow> Some (drop body_start (take fin txt))))"

definition fenced_block :: "string \<Rightarrow> string \<Rightarrow> string \<Rightarrow> string option" where
  "fenced_block txt after language =
     (case find_from txt after 0 of
        None \<Rightarrow> None
      | Some i \<Rightarrow> first_fenced_block (drop (i + length after) txt) language)"

text \<open>\<open>re.sub(r"\[.*\]$", "", name)\<close>: from the leftmost bracket from which one line reaches a closing bracket
  at the end, which one line break may follow.\<close>

fun drop_generic :: "string \<Rightarrow> string" where
  "drop_generic [] = []"
| "drop_generic (c # cs) =
     (let final_break = cs \<noteq> [] \<and> last cs = CHR 0x0A; body = (if final_break then butlast cs else cs)
      in if c = CHR ''['' \<and> body \<noteq> [] \<and> last body = CHR '']'' \<and> CHR 0x0A \<notin> set body
         then (if final_break then nl else [])
         else c # drop_generic cs)"

definition strip_generic_params :: "string \<Rightarrow> string" where
  "strip_generic_params name = strip (drop_generic name)"

fun add_types :: "string \<Rightarrow> h3_section list \<Rightarrow> (string, string list) dict \<Rightarrow> exn + (string, string list) dict" where
  "add_types path [] by_domain = Inr by_domain"
| "add_types path (h # hs) by_domain =
     (case first_fenced_block (h3_text h) ''python'' of
        None \<Rightarrow> add_types path hs by_domain
      | Some code \<Rightarrow>
          (case dict_get TYPE_DOMAIN (strip_generic_params (h3_name h)) of
             None \<Rightarrow> Inl (system_exit (path @ '': H3 type '' @ repr_str (h3_name h) @
               '' has no TYPE_DOMAIN mapping; update scripts/gen_vocab_stubs.py TYPE_DOMAIN''))
           | Some domain \<Rightarrow> add_types path hs (dict_set domain (dict_get_or by_domain domain [] @ [rstrip code]) by_domain)))"

definition parse_types_md :: "string \<Rightarrow> string \<Rightarrow> exn + (string, string list) dict" where
  "parse_types_md path content =
     add_types path (h3_sections (snd (split_frontmatter (universal_newlines content)))) []"

record verb_spec =
  vs_name :: string
  vs_metadata :: json
  vs_signature :: string

record capability_spec =
  cs_capability :: json
  cs_references :: "json list"
  cs_verbs :: "verb_spec list"

definition or_empty :: "json \<Rightarrow> json" where
  "or_empty j = (if falsy j then JObj [] else j)"

text \<open>The items of a value that may be missing or empty: \<open>list(v or [])\<close>.\<close>

definition items_or_none :: "json \<Rightarrow> exn + json list" where
  "items_or_none j = (if falsy j then Inr [] else json_items j)"

definition verb_of :: "string \<Rightarrow> (string \<Rightarrow> exn + json) \<Rightarrow> h3_section \<Rightarrow> exn + verb_spec" where
  "verb_of path load h =
     (let name = h3_name h; metadata = fenced_block (h3_text h) ''**Metadata:**'' ''yaml'';
          signature = fenced_block (h3_text h) ''**Signature:**'' ''python''
      in if \<not> re_full (r_plus (RSet is_word)) name
         then Inl (system_exit (path @ '': verb heading '' @ repr_str name @ '' must be a Python identifier''))
         else (case metadata of
                 None \<Rightarrow> Inl (system_exit (path @ '': verb '' @ repr_str name @ '' missing **Metadata:** yaml block''))
               | Some yaml \<Rightarrow>
                   (case signature of
                      None \<Rightarrow> Inl (system_exit (path @ '': verb '' @ repr_str name @ '' missing **Signature:** python block''))
                    | Some sig \<Rightarrow> or_raise (load yaml) (\<lambda>j.
                        Inr \<lparr>vs_name = name, vs_metadata = or_empty j, vs_signature = rstrip sig\<rparr>))))"

definition VERBS_MARKER :: string where
  "VERBS_MARKER = nl @ ''## Verbs'' @ nl"

definition parse_capability_md :: "string \<Rightarrow> (string \<Rightarrow> exn + json) \<Rightarrow> string \<Rightarrow> exn + capability_spec" where
  "parse_capability_md path load content =
     (case split_frontmatter (universal_newlines content) of
        (frontmatter, body) \<Rightarrow> or_raise (load frontmatter) (\<lambda>fm.
          case or_empty fm of
            JObj d \<Rightarrow>
              (let capability = dict_get_or d ''capability'' JNull
               in if falsy capability then Inl (system_exit (path @ '': frontmatter missing `capability` field''))
                  else or_raise (items_or_none (dict_get_or d ''references_types'' JNull)) (\<lambda>refs.
                    case find_from body VERBS_MARKER 0 of
                      None \<Rightarrow> Inl (system_exit (path @ '': missing `## Verbs` section''))
                    | Some i \<Rightarrow>
                        or_raise (map_raise (verb_of path load) (h3_sections (drop (i + length VERBS_MARKER) body))) (\<lambda>verbs.
                          Inr \<lparr>cs_capability = capability, cs_references = refs, cs_verbs = verbs\<rparr>)))
          | j \<Rightarrow> Inl (no_attribute j ''get'')))"

section \<open>Generating the types\<close>

definition DOMAIN_IMPORTS :: "(string, string list) dict" where
  "DOMAIN_IMPORTS =
     [(''identity'', []),
      (''messaging'', [''from __future__ import annotations'', [], ''from dataclasses import dataclass'',
         ''from datetime import datetime'', ''from typing import Literal'']),
      (''email'', [''from __future__ import annotations'', [], ''from dataclasses import dataclass'',
         ''from datetime import datetime'']),
      (''content'', [''from __future__ import annotations'', [], ''from dataclasses import dataclass'',
         ''from typing import Literal'']),
      (''enums'', [''from typing import Literal'']),
      (''errors'', [''from __future__ import annotations'', [], ''from datetime import timedelta'']),
      (''pagination'', [''from __future__ import annotations'', [], ''from dataclasses import dataclass'',
         ''from typing import Generic, TypeVar'', [], ''T = TypeVar('' @ [CHR 0x22] @ ''T'' @ [CHR 0x22] @ '')''])]"

definition generated_header :: "string \<Rightarrow> string list" where
  "generated_header source =
     [''# AUTO-GENERATED from vocabulary/'' @ source @ '' -- DO NOT EDIT.'',
      ''# Run `python scripts/gen_vocab_stubs.py` to regenerate.'']"

definition types_header :: "string \<Rightarrow> string list" where
  "types_header source = generated_header source @ [[]]"

fun defining_line :: "string list \<Rightarrow> bool" where
  "defining_line [] \<longleftrightarrow> False"
| "defining_line (line # rest) \<longleftrightarrow>
     (let stripped = dropWhile is_space line
      in if stripped = [] \<or> startswith stripped ''#'' then defining_line rest
         else list_ex (startswith stripped) [''@'', ''def '', ''class '', ''async def ''])"

definition starts_with_definition :: "string \<Rightarrow> bool" where
  "starts_with_definition source = defining_line (splitlines source)"

fun source_lines :: "bool \<Rightarrow> string list \<Rightarrow> string list" where
  "source_lines first [] = []"
| "source_lines first (s # ss) =
     replicate (if first \<and> \<not> starts_with_definition s then 1 else 2) [] @ [s] @ source_lines False ss"

definition generate_types_module :: "string \<Rightarrow> string list \<Rightarrow> string" where
  "generate_types_module domain sources =
     (let imports = dict_get_or DOMAIN_IMPORTS domain []
      in join nl (generated_header ''_types.md'' @ (if imports = [] then [] else [] # imports) @ source_lines True sources) @ nl)"

definition generate_types_modules :: "(string, string list) dict \<Rightarrow> (string, string) dict" where
  "generate_types_modules by_domain = map (\<lambda>(domain, sources). (domain @ ''.py'', generate_types_module domain sources)) by_domain"

text \<open>The two searches \<open>^class (\w+)\b\<close> and \<open>^(\w+)\s*=\<close>, at one beginning of a line.\<close>

definition class_at :: "string \<Rightarrow> string option" where
  "class_at s =
     (let name = takeWhile is_word (drop 6 s) in if startswith s ''class '' \<and> name \<noteq> [] then Some name else None)"

definition alias_at :: "string \<Rightarrow> string option" where
  "alias_at s =
     (let name = takeWhile is_word s
      in if name \<noteq> [] \<and> startswith (dropWhile is_space (dropWhile is_word s)) ''='' then Some name else None)"

definition class_names :: "string \<Rightarrow> string list" where
  "class_names source = List.map_filter class_at (line_starts source)"

definition alias_names :: "string \<Rightarrow> string list" where
  "alias_names source = List.map_filter alias_at (line_starts source)"

definition kept_names :: "string \<Rightarrow> (string, string) dict" where
  "kept_names domain = dict_of (map (\<lambda>(n, d). (strip_generic_params n, n)) (filter (\<lambda>(n, d). d = domain) TYPE_DOMAIN))"

fun first_occurrences :: "string list \<Rightarrow> string list \<Rightarrow> string list" where
  "first_occurrences seen [] = []"
| "first_occurrences seen (x # xs) =
     (if x \<in> set seen then first_occurrences seen xs else x # first_occurrences (x # seen) xs)"

definition public_names :: "string \<Rightarrow> string list \<Rightarrow> string list" where
  "public_names domain sources =
     (if domain = ''errors'' then concat (map class_names sources)
      else first_occurrences []
        (concat (map (\<lambda>source. List.map_filter (dict_get (kept_names domain)) (class_names source) @
           List.map_filter (dict_get (kept_names domain)) (alias_names source)) sources)))"

definition import_lines :: "string \<Rightarrow> string list \<Rightarrow> string list" where
  "import_lines package names =
     (case names of
        [] \<Rightarrow> []
      | [name] \<Rightarrow> [''from '' @ package @ '' import '' @ name]
      | _ \<Rightarrow> [''from '' @ package @ '' import (''] @ map (\<lambda>name. ''    '' @ name @ '','') names @ ['')''])"

definition domain_exports :: "(string, string list) dict \<Rightarrow> (string \<times> string list) list" where
  "domain_exports by_domain =
     map (\<lambda>(domain, sources). (domain, sort (public_names domain sources))) (sort_key fst by_domain)"

definition generate_types_init :: "(string, string list) dict \<Rightarrow> string" where
  "generate_types_init by_domain =
     join nl (types_header ''_types.md'' @
       concat (map (\<lambda>(domain, names). import_lines (''ota_connect._types.'' @ domain) names) (domain_exports by_domain)) @
       [[], ''__all__ = [''] @
       map (\<lambda>name. ''    '' @ [CHR 0x22] @ name @ [CHR 0x22] @ '','') (sort (concat (map snd (domain_exports by_domain)))) @
       ['']'']) @ nl"

section \<open>Generating the verbs\<close>

text \<open>\<open>_RETURN_NONE_PATTERN\<close>, searched: anything may stand before it.\<close>

definition RETURN_NONE :: regex where
  "RETURN_NONE = r_cat [RStar (RSet (\<lambda>_. True)), r_lit ''->'', RStar (RSet is_space), r_lit ''None'',
     RStar (RSet is_space), r_lit '':'']"

definition dispatch_call :: "string \<Rightarrow> string" where
  "dispatch_call verb_name = ''dispatch('' @ [CHR 0x22] @ verb_name @ [CHR 0x22] @ '', **locals())''"

definition signature_to_body :: "string \<Rightarrow> string \<Rightarrow> exn + string" where
  "signature_to_body signature verb_name =
     (let s = rstrip signature; t = rstrip (take (length s - 3) s)
      in if \<not> endswith s ''...''
         then Inl (system_exit (''signature for verb '' @ repr_str verb_name @ '' must end with `: ...`; got:'' @ nl @ signature))
         else if \<not> endswith t '':''
         then Inl (system_exit (''signature for verb '' @ repr_str verb_name @ '' missing trailing colon''))
         else if re_full RETURN_NONE t then Inr (t @ nl @ ''    '' @ dispatch_call verb_name)
         else Inr (t @ nl @ ''    return '' @ dispatch_call verb_name @ ''  # type: ignore[no-any-return]''))"

definition identifiers_in_signatures :: "verb_spec list \<Rightarrow> string list" where
  "identifiers_in_signatures verbs =
     concat (map (\<lambda>v. filter (\<lambda>w. \<not> is_digit (hd w)) (words_of [] (vs_signature v))) verbs)"

text \<open>\<open>t in used\<close>: a list or a mapping has no hash; any other value is no identifier.\<close>

definition used_reference :: "string list \<Rightarrow> json \<Rightarrow> exn + string list" where
  "used_reference used j =
     (case j of
        JStr t \<Rightarrow> Inr (if t \<in> set used then [t] else [])
      | JArr xs \<Rightarrow> Inl (PyError ''TypeError'' (''unhashable type: '' @ repr_str ''list''))
      | JObj d \<Rightarrow> Inl (PyError ''TypeError'' (''unhashable type: '' @ repr_str ''dict''))
      | _ \<Rightarrow> Inr [])"

definition decorator_lines :: "payload \<Rightarrow> exn + string list" where
  "decorator_lines meta =
     or_raise (items_or_none (dict_get_or meta ''required_scopes'' JNull)) (\<lambda>scopes.
       let idempotency = json_text (dict_get_or meta ''idempotency'' (JStr []));
           destructive = \<not> falsy (dict_get_or meta ''destructive'' (JBool False));
           quoted = (\<lambda>t. [CHR 0x22] @ t @ [CHR 0x22])
       in Inr [[], [], ''@verb('',
            ''    idempotency='' @ quoted idempotency @ '','',
            ''    required_scopes=['' @ join '', '' (map (quoted \<circ> json_text) scopes) @ ''],'',
            ''    destructive='' @ (if destructive then ''True'' else ''False'') @ '','',
            '')''])"

definition stub_lines :: "verb_spec \<Rightarrow> exn + string list" where
  "stub_lines v =
     or_raise (signature_to_body (vs_signature v) (vs_name v)) (\<lambda>body.
       case vs_metadata v of
         JObj meta \<Rightarrow> or_raise (decorator_lines meta) (\<lambda>ls. Inr (ls @ [body]))
       | j \<Rightarrow> Inl (no_attribute j ''get''))"

definition verbs_preamble :: "string \<Rightarrow> string list \<Rightarrow> string list \<Rightarrow> string list" where
  "verbs_preamble capability used refs =
     types_header (capability @ ''.md'') @ [''from __future__ import annotations'', []] @
     (if ''datetime'' \<in> set used then [''from datetime import datetime'', []] else []) @
     import_lines ''ota_connect._types'' refs @
     [''from ota_connect.'' @ capability @ ''.dispatch import dispatch'', ''from ota_core.policy import verb'']"

definition generate_verbs_module :: "string \<Rightarrow> json list \<Rightarrow> verb_spec list \<Rightarrow> exn + string" where
  "generate_verbs_module capability references verbs =
     (let used = identifiers_in_signatures verbs
      in or_raise (map_raise (used_reference used) references) (\<lambda>refs.
         or_raise (map_raise stub_lines verbs) (\<lambda>stubs.
           Inr (join nl (verbs_preamble capability used (sort (concat refs)) @ concat stubs) @ nl))))"

section \<open>A run\<close>

definition verbs_file :: "(string \<Rightarrow> exn + json) \<Rightarrow> string \<Rightarrow> string \<Rightarrow> exn + string \<times> string" where
  "verbs_file load path content =
     or_raise (parse_capability_md path load content) (\<lambda>spec.
       case cs_capability spec of
         JStr capability \<Rightarrow>
           or_raise (generate_verbs_module capability (cs_references spec) (cs_verbs spec)) (\<lambda>txt.
             Inr (capability @ ''/verbs.py'', txt))
       | j \<Rightarrow> Inl (PyError ''TypeError'' (''unsupported operand type(s) for /: '' @ repr_str ''PosixPath'' @
           '' and '' @ repr_str (json_type_name j))))"

type_synonym file_tree = "(string, string) dict"

definition types_files :: "(string, string list) dict \<Rightarrow> (string \<times> string) list" where
  "types_files by_domain =
     map (\<lambda>(name, txt). (''_types/'' @ name, txt))
       (generate_types_modules by_domain @ [(''__init__.py'', generate_types_init by_domain)])"

definition capability_specs :: "file_tree \<Rightarrow> (string \<times> string) list" where
  "capability_specs vocab =
     filter (\<lambda>(name, content). \<not> startswith name ''_'') (sort_key fst (filter (\<lambda>(name, content). endswith name ''.md'') vocab))"

fun write_verbs ::
  "(string \<Rightarrow> exn + json) \<Rightarrow> (string \<Rightarrow> string) \<Rightarrow> (string \<times> string) list \<Rightarrow> (file_tree, exn, string list) py" where
  "write_verbs load vpath [] out = (Inr [], out)"
| "write_verbs load vpath ((name, content) # specs) out =
     (case verbs_file load (vpath name) content of
        Inl e \<Rightarrow> (Inl e, out)
      | Inr (target, txt) \<Rightarrow>
          try_bind (write_verbs load vpath specs) (\<lambda>written. py_return (target # written)) (dict_set target txt out))"

definition ruff_format :: "(string list \<Rightarrow> (file_tree, exn, unit) py) \<Rightarrow> string list \<Rightarrow> (file_tree, exn, unit) py" where
  "ruff_format ruff paths out =
     (if paths = [] then (Inr (), out)
      else (case ruff paths out of
              (Inl e, out') \<Rightarrow> if exc_class e = ''FileNotFoundError'' then (Inr (), out') else (Inl e, out')
            | r \<Rightarrow> r))"

definition generate_stubs ::
  "(string \<Rightarrow> exn + json) \<Rightarrow> (string \<Rightarrow> string) \<Rightarrow> (string list \<Rightarrow> (file_tree, exn, unit) py) \<Rightarrow> file_tree \<Rightarrow>
   (file_tree, exn, string list) py" where
  "generate_stubs load vpath ruff vocab out =
     (case dict_get vocab ''_types.md'' of
        None \<Rightarrow> (Inl (system_exit (vpath ''_types.md'' @ '' not found'')), out)
      | Some types_md \<Rightarrow>
          (case parse_types_md (vpath ''_types.md'') types_md of
             Inl e \<Rightarrow> (Inl e, out)
           | Inr by_domain \<Rightarrow>
               (let types = types_files by_domain
                in try_bind (write_verbs load vpath (capability_specs vocab)) (\<lambda>verbs.
                     let written = map fst types @ verbs
                     in try_bind (ruff_format ruff written) (\<lambda>_. py_return written))
                   (dict_merge out types))))"

end
