(* ===== verification/Vocab_Properties.thy ===== *)
theory Vocab_Properties
  imports Vocab_Stubs
begin

text \<open>
  What the generator guarantees: the headings partition a specification, a stub is the declared
  signature with one dispatch, a run writes the types and the verbs of the specifications before the
  first that fails, and generating again gives the same files.
\<close>

section \<open>Headings\<close>

lemma line_tail_suffix: "line_tail s = Some r \<Longrightarrow> suffix r s"
proof -
  assume tail: "line_tail s = Some r"
  let ?ws = "takeWhile is_space s" and ?p = "\<lambda>c. c \<noteq> CHR 0x0A"
  have "suffix (CHR 0x0A # rev (takeWhile ?p (rev ?ws))) ?ws" if "CHR 0x0A \<in> set ?ws"
  proof -
    have some: "dropWhile ?p (rev ?ws) \<noteq> []" using that by auto
    have "rev ?ws = takeWhile ?p (rev ?ws) @ CHR 0x0A # tl (dropWhile ?p (rev ?ws))"
      using hd_dropWhile [OF some] some by (metis list.collapse takeWhile_dropWhile_id)
    then show ?thesis unfolding suffix_def by (metis append.assoc append_Cons append_Nil rev.simps(2) rev_append rev_rev_ident)
  qed
  then have "suffix (CHR 0x0A # rev (takeWhile ?p (rev ?ws)) @ dropWhile is_space s) s" if "CHR 0x0A \<in> set ?ws"
    using that unfolding suffix_def by (metis append.assoc append_Cons takeWhile_dropWhile_id)
  then show ?thesis using tail by (auto simp: line_tail_def Let_def split: if_splits)
qed

lemma h3_group_suffix: "h3_group s = Some (name, r) \<Longrightarrow> suffix r s"
proof (cases s)
  case (Cons c t)
  assume grp: "h3_group s = Some (name, r)"
  show ?thesis
  proof (cases "c = CHR 0x60")
    case True
    then have "suffix r (dropWhile (\<lambda>x. x \<noteq> CHR 0x60) t)"
      using grp Cons by (auto simp: h3_group_def Let_def suffix_tl split: if_splits)
    then show ?thesis using Cons by (metis suffix_ConsI suffix_dropWhile suffix_order.trans)
  next
    case False
    then show ?thesis using grp Cons by (auto simp: h3_group_def Let_def suffix_dropWhile simp del: dropWhile.simps split: if_splits)
  qed
qed (simp add: h3_group_def)

lemma h3_at_suffix: "h3_at s = Some (name, r) \<Longrightarrow> startswith s ''### '' \<and> suffix r (drop 4 s)"
  by (auto simp: h3_at_def split: if_splits option.splits
      dest!: line_tail_suffix h3_group_suffix intro: suffix_order.trans)

lemma cut_suffix: "suffix r s \<Longrightarrow> take (length s - length r) s @ r = s"
  by (auto simp: suffix_def)

lemma kept_prefix: "k \<le> length t \<Longrightarrow> take (length (p @ t) - k) (p @ t) = p @ take (length t - k) t"
  by simp

text \<open>The headings and the sections between them are the whole text, and every heading is a heading line.\<close>

theorem headings_partition:
  "h3_scan bol doc = (pre, secs) \<Longrightarrow>
     pre @ concat (map (\<lambda>h. h3_heading h @ h3_text h) secs) = doc \<and>
     list_all (\<lambda>h. startswith (h3_heading h) ''### '') secs"
proof (induction bol doc arbitrary: pre secs rule: h3_scan.induct)
  case (2 bol c cs)
  show ?case
  proof (cases "if bol then h3_at (c # cs) else None")
    case None
    obtain p more where rest: "h3_scan (c = CHR 0x0A) cs = (p, more)" by (cases "h3_scan (c = CHR 0x0A) cs")
    then have "pre = c # p" "secs = more" using "2.prems" None by simp_all
    with "2.IH"(1) [OF None rest] show ?thesis by simp
  next
    case (Some found)
    obtain name after where f: "found = (name, after)" by (cases found)
    obtain p more where rest: "h3_scan False after = (p, more)" by (cases "h3_scan False after")
    have found_at: "startswith (c # cs) ''### ''" "suffix after (drop 4 (c # cs))"
      using h3_at_suffix [of "c # cs" name after] Some f by (auto split: if_splits)
    have cut: "take (length (c # cs) - length after) (c # cs) @ after = c # cs"
      using found_at(2) suffix_drop [of 4 "c # cs"] by (intro cut_suffix) (metis suffix_order.trans)
    have "startswith (take (length (c # cs) - length after) (c # cs)) ''### ''"
    proof -
      obtain t where t: "c # cs = ''### '' @ t" using found_at(1) startswith_iff by blast
      then have "length after \<le> length t" using suffix_length_le [OF found_at(2)] by simp
      from kept_prefix [OF this, of "''### ''"] t show ?thesis using startswith_append by metis
    qed
    with "2.IH"(2) [OF Some f [symmetric] rest] "2.prems" Some f rest cut show ?thesis by (auto simp: simp del: take_Cons' take_Suc_Cons)
  qed
qed simp

section \<open>Signatures\<close>

lemma endswith_iff: "endswith s p \<longleftrightarrow> (\<exists>t. s = t @ p)"
  unfolding endswith_def by (metis append_eq_conv_conj append_take_drop_id length_append add_diff_cancel_right')

lemma rstrip_spaces: "list_all is_space sp \<Longrightarrow> rstrip (s @ sp) = rstrip s"
  by (simp add: rstrip_def list_all_iff, subst dropWhile_append2) auto

lemma rstrip_ended: "\<not> is_space c \<Longrightarrow> rstrip (s @ [c]) = s @ [c]"
  by (simp add: rstrip_def)

lemma rstrip_split: "\<exists>sp. s = rstrip s @ sp \<and> list_all is_space sp"
proof (intro exI conjI)
  show "s = rstrip s @ rev (takeWhile is_space (rev s))"
    unfolding rstrip_def by (metis rev_append rev_rev_ident takeWhile_dropWhile_id)
  show "list_all is_space (rev (takeWhile is_space (rev s)))" by (auto simp: list_all_iff dest: set_takeWhileD)
qed

lemma ends_in: "rstrip s = t @ p @ [c] \<longleftrightarrow> (\<exists>sp. s = t @ p @ [c] @ sp \<and> list_all is_space sp)" if "\<not> is_space c"
proof
  assume "rstrip s = t @ p @ [c]"
  then show "\<exists>sp. s = t @ p @ [c] @ sp \<and> list_all is_space sp" using rstrip_split [of s] by auto
next
  assume "\<exists>sp. s = t @ p @ [c] @ sp \<and> list_all is_space sp"
  then obtain sp where "s = ((t @ p) @ [c]) @ sp" "list_all is_space sp" by auto
  then show "rstrip s = t @ p @ [c]" using rstrip_ended [OF that, of "t @ p"] rstrip_spaces [of sp "(t @ p) @ [c]"] by simp
qed

text \<open>The annotation the pattern looks for: \<open>-> None\<close> at the end of the head.\<close>

definition returns_none :: "string \<Rightarrow> bool" where
  "returns_none hd_text \<longleftrightarrow> (\<exists>p g h. hd_text = p @ ''->'' @ g @ ''None'' @ h \<and> list_all is_space g \<and> list_all is_space h)"

lemma in_lang_template:
  "in_lang (r_cat [RStar (RSet (\<lambda>_. True)), r_lit a, RStar (RSet P), r_lit b, RStar (RSet P), r_lit c]) (s @ c) \<longleftrightarrow>
     (\<exists>p g h. s = p @ a @ g @ b @ h \<and> list_all P g \<and> list_all P h)"
proof -
  have seq: "in_lang (RSeq r q) w \<longleftrightarrow> (\<exists>u v. w = u @ v \<and> in_lang r u \<and> in_lang q v)" for r q w
    by (auto simp: in_lang_simps)
  have cancel: "s @ c = p @ a @ g @ b @ h @ c \<longleftrightarrow> s = p @ a @ g @ b @ h" for p g h
    by (metis append.assoc append_same_eq)
  have "in_lang (r_cat [RStar (RSet (\<lambda>_. True)), r_lit a, RStar (RSet P), r_lit b, RStar (RSet P), r_lit c]) (s @ c) \<longleftrightarrow>
      (\<exists>p g h. s @ c = p @ a @ g @ b @ h @ c \<and> list_all P g \<and> list_all P h)"
    unfolding r_cat.simps seq in_lang_star_set in_lang_lit by (auto simp: list_all_iff) blast+
  then show ?thesis by (simp only: cancel)
qed

lemma RETURN_NONE_matches: "re_full RETURN_NONE (s @ '':'') \<longleftrightarrow> returns_none s"
  unfolding returns_none_def in_lang_template [of _ _ _ "'':''", symmetric] RETURN_NONE_def [symmetric]
  by (simp add: re_full_def re_matches_iff)

definition stub_body :: "string \<Rightarrow> string \<Rightarrow> string" where
  "stub_body hd_text verb_name = hd_text @ '':'' @ nl @
     (if returns_none hd_text then ''    '' @ dispatch_call verb_name
      else ''    return '' @ dispatch_call verb_name @ ''  # type: ignore[no-any-return]'')"

lemma not_space [simp]: "\<not> is_space (CHR ''.'')" "\<not> is_space (CHR '':'')"
  by (simp_all add: is_space_def)

text \<open>A signature is accepted exactly when it is a head, a colon and three dots, up to white space; the stub is
  then that head, unchanged, with one dispatch of the verb, whose value it returns unless the head is
  annotated to return none.\<close>

theorem signature_to_body_exact:
  "signature_to_body signature name = Inr body \<longleftrightarrow>
     (\<exists>h g t. signature = h @ '':'' @ g @ ''...'' @ t \<and> list_all is_space g \<and> list_all is_space t \<and> body = stub_body h name)"
proof
  assume run: "signature_to_body signature name = Inr body"
  let ?s = "rstrip signature"
  let ?t = "rstrip (take (length ?s - 3) ?s)"
  from run have dots: "endswith ?s ''...''" and colon: "endswith ?t '':''" by (auto simp: signature_to_body_def Let_def split: if_splits)
  obtain x where x: "?s = x @ ''...''" using dots endswith_iff by blast
  then have cut: "?t = rstrip x" by simp
  obtain h where h: "?t = h @ '':''" using colon endswith_iff by blast
  obtain t where t: "signature = x @ ''...'' @ t" "list_all is_space t" using rstrip_split [of signature] x by auto
  obtain g where "x = rstrip x @ g" and space: "list_all is_space g" using rstrip_split [of x] by blast
  with cut h have g: "x = h @ '':'' @ g" by (metis append.assoc)
  have "body = stub_body h name"
    using run dots colon h by (auto simp: signature_to_body_def stub_body_def RETURN_NONE_matches split: if_splits)
  with t g space show "\<exists>h g t. signature = h @ '':'' @ g @ ''...'' @ t \<and> list_all is_space g \<and> list_all is_space t \<and> body = stub_body h name"
    by auto
next
  assume "\<exists>h g t. signature = h @ '':'' @ g @ ''...'' @ t \<and> list_all is_space g \<and> list_all is_space t \<and> body = stub_body h name"
  then obtain h g t where sig: "signature = h @ '':'' @ g @ ''...'' @ t" "list_all is_space g" "list_all is_space t" "body = stub_body h name"
    by blast
  have s: "rstrip signature = (h @ '':'' @ g) @ ''...''"
    using ends_in [of "CHR ''.''" signature "h @ '':'' @ g" "''..''"] sig by simp
  have t: "rstrip (h @ '':'' @ g) = h @ '':''"
    using ends_in [of "CHR '':''" "h @ '':'' @ g" h "[]"] sig by simp
  show "signature_to_body signature name = Inr body"
    using s t sig(4) RETURN_NONE_matches [of h] by (simp add: signature_to_body_def Let_def endswith_iff stub_body_def)
qed

section \<open>Runs\<close>

lemma dict_merge_append: "dict_merge d (xs @ ys) = dict_merge (dict_merge d xs) ys"
  by (induction xs arbitrary: d) simp_all

text \<open>The verbs are written one specification after the other, up to the first that fails.\<close>

lemma write_verbs_prefix:
  "write_verbs load vpath specs out = (res, out') \<Longrightarrow>
     \<exists>handled rest ws. specs = handled @ rest \<and>
       map_raise (\<lambda>(name, content). verbs_file load (vpath name) content) handled = Inr ws \<and> out' = dict_merge out ws \<and>
       (case res of
          Inr written \<Rightarrow> rest = [] \<and> written = map fst ws
        | Inl e \<Rightarrow> \<exists>name content more. rest = (name, content) # more \<and> verbs_file load (vpath name) content = Inl e)"
proof (induction specs arbitrary: out res out')
  case (Cons spec specs)
  obtain name content where spec: "spec = (name, content)" by (cases spec)
  show ?case
  proof (cases "verbs_file load (vpath name) content")
    case (Inl e)
    then show ?thesis using Cons.prems spec by (intro exI [of _ "[]"] exI [of _ "spec # specs"] exI [of _ "[]"]) auto
  next
    case (Inr w)
    obtain target made where w: "w = (target, made)" by (cases w)
    obtain r o' where rest: "write_verbs load vpath specs (dict_set target made out) = (r, o')"
      by (cases "write_verbs load vpath specs (dict_set target made out)")
    from Cons.IH [OF rest] obtain handled more ws where ih: "specs = handled @ more"
        "map_raise (\<lambda>(name, content). verbs_file load (vpath name) content) handled = Inr ws"
        "o' = dict_merge (dict_set target made out) ws"
        "case r of Inr written \<Rightarrow> more = [] \<and> written = map fst ws
         | Inl e \<Rightarrow> \<exists>name content xs. more = (name, content) # xs \<and> verbs_file load (vpath name) content = Inl e" by blast
    show ?thesis
      using Cons.prems spec Inr w rest ih
      by (intro exI [of _ "spec # handled"] exI [of _ more] exI [of _ "w # ws"])
        (auto simp: try_bind_def py_return_def split: sum.splits)
  qed
qed simp

text \<open>Before the formatter runs, the output tree is the old one with the types, then the verbs of the
  specifications up to the first that fails; which of them fails does not depend on the output.\<close>

definition generated :: "(string \<Rightarrow> exn + json) \<Rightarrow> (string \<Rightarrow> string) \<Rightarrow> file_tree \<Rightarrow> exn + (string \<times> string) list" where
  "generated load vpath vocab =
     (case dict_get vocab ''_types.md'' of
        None \<Rightarrow> Inl (system_exit (vpath ''_types.md'' @ '' not found''))
      | Some doc \<Rightarrow> or_raise (parse_types_md (vpath ''_types.md'') doc) (\<lambda>by_domain.
          or_raise (map_raise (\<lambda>(name, content). verbs_file load (vpath name) content) (capability_specs vocab)) (\<lambda>verbs.
            Inr (types_files by_domain @ verbs))))"

lemma map_raise_append_Inl:
  "map_raise f xs = Inr ys \<Longrightarrow> f x = Inl e \<Longrightarrow> map_raise f (xs @ x # zs) = Inl e"
  by (induction xs arbitrary: ys) (auto simp: or_raise_eq_Inr)

lemma types_files_some: "types_files by_domain \<noteq> []"
  by (simp add: types_files_def)

theorem generate_stubs_outcome:
  assumes "\<And>paths out. ruff paths out = (Inr (), fmt paths out)"
  shows "case generated load vpath vocab of
      Inl e \<Rightarrow> fst (generate_stubs load vpath ruff vocab out) = Inl e
    | Inr files \<Rightarrow> generate_stubs load vpath ruff vocab out =
        (Inr (map fst files), fmt (map fst files) (dict_merge out files))"
proof (cases "dict_get vocab ''_types.md''")
  case None
  then show ?thesis by (simp add: generated_def generate_stubs_def)
next
  case (Some doc)
  show ?thesis
  proof (cases "parse_types_md (vpath ''_types.md'') doc")
    case (Inl e)
    with Some show ?thesis by (simp add: generated_def generate_stubs_def)
  next
    case (Inr by_domain)
    obtain r o' where run: "write_verbs load vpath (capability_specs vocab) (dict_merge out (types_files by_domain)) = (r, o')"
      by (cases "write_verbs load vpath (capability_specs vocab) (dict_merge out (types_files by_domain))")
    from write_verbs_prefix [OF run] obtain handled rest ws where parts: "capability_specs vocab = handled @ rest"
        "map_raise (\<lambda>(name, content). verbs_file load (vpath name) content) handled = Inr ws"
        "o' = dict_merge (dict_merge out (types_files by_domain)) ws"
        "case r of Inr written \<Rightarrow> rest = [] \<and> written = map fst ws
         | Inl e \<Rightarrow> \<exists>name content xs. rest = (name, content) # xs \<and> verbs_file load (vpath name) content = Inl e" by blast
    show ?thesis
    proof (cases r)
      case (Inl e)
      then obtain name content xs where "rest = (name, content) # xs" "verbs_file load (vpath name) content = Inl e"
        using parts(4) by auto
      then have "map_raise (\<lambda>(name, content). verbs_file load (vpath name) content) (capability_specs vocab) = Inl e"
        using map_raise_append_Inl [OF parts(2), of "(name, content)"] parts(1) by simp
      then show ?thesis
        using Some Inr Inl run by (simp add: generated_def generate_stubs_def Let_def try_bind_def)
    next
      case (Inr written)
      then show ?thesis
        using Some \<open>parse_types_md _ doc = Inr by_domain\<close> run parts types_files_some [of by_domain] assms
        by (simp add: generated_def generate_stubs_def Let_def try_bind_def ruff_format_def py_return_def dict_merge_append)
    qed
  qed
qed

section \<open>Generating again\<close>

text \<open>What the generator relies on of the formatter: it rewrites each of the files it is given on its own.\<close>

definition format_files :: "(string \<Rightarrow> string) \<Rightarrow> string list \<Rightarrow> file_tree \<Rightarrow> file_tree" where
  "format_files f paths out = map (\<lambda>(p, content). (p, if p \<in> set paths then f content else content)) out"

lemma dict_get_format [dict_simps]:
  "dict_get (format_files f paths out) p = map_option (if p \<in> set paths then f else id) (dict_get out p)"
  by (induction out) (auto simp: format_files_def)

lemma generated_lookup:
  "dict_get (format_files f (map fst files) (dict_merge out files)) p =
     (if p \<in> set (map fst files) then map_option f (map_of (rev files) p) else dict_get out p)"
proof (cases "map_of (rev files) p")
  case None
  then have "p \<notin> set (map fst files)" by (simp add: map_of_eq_None_iff)
  with None show ?thesis by (simp add: dict_simps option.map_id)
next
  case (Some content)
  then have "(p, content) \<in> set files" using map_of_SomeD by fastforce
  then have "p \<in> set (map fst files)" by force
  with Some show ?thesis by (simp add: dict_simps)
qed

text \<open>What a run writes does not depend on the tree it writes into: of two runs over the same specifications both
  succeed or neither does, they write the same files, each of these ends up with the same text whatever was
  there before, an edit by hand or the result of an earlier run, and every other file is left alone.\<close>

theorem generation_reproducible:
  assumes "\<forall>paths out. ruff paths out = (Inr (), format_files f paths out)"
    and "generate_stubs load vpath ruff vocab out = (Inr written, out')"
  shows "fst (generate_stubs load vpath ruff vocab other) = Inr written \<and>
    (\<forall>p. dict_get out' p =
      (if p \<in> set written then dict_get (snd (generate_stubs load vpath ruff vocab other)) p else dict_get out p))"
proof -
  have run: "case generated load vpath vocab of
      Inl e \<Rightarrow> fst (generate_stubs load vpath ruff vocab o') = Inl e
    | Inr files \<Rightarrow> generate_stubs load vpath ruff vocab o' =
        (Inr (map fst files), format_files f (map fst files) (dict_merge o' files))" for o'
    using assms(1) by (intro generate_stubs_outcome) simp
  then obtain files where "generated load vpath vocab = Inr files"
    using assms(2) run [of out] by (cases "generated load vpath vocab") auto
  with run [of out] run [of other] assms(2) show ?thesis
    by (auto simp: generated_lookup simp del: set_map)
qed

definition ex_vocab :: file_tree where
  "ex_vocab =
     [(''_types.md'', ''### Page'' @ nl @ ''```python'' @ nl @ ''Page = 1'' @ nl @ ''```''),
      (''m.md'', nl @ ''## Verbs'' @ nl @ ''### go'' @ nl @ ''**Metadata:**```yaml'' @ nl @ nl @ ''```**Signature:**```python'' @ nl @
         ''def go(): ...'' @ nl @ ''```'')]"

definition ex_generate :: "(file_tree, exn, string list) py" where
  "ex_generate = generate_stubs (\<lambda>_. Inr (JObj [(''capability'', JStr ''m'')])) id
     (\<lambda>paths out. (Inr (), format_files id paths out)) ex_vocab"

lemma generation_reproducible_witness:
  "dict_get (snd (ex_generate [(''m/verbs.py'', ''edited'')])) ''m/verbs.py'' = dict_get (snd (ex_generate [])) ''m/verbs.py''"
proof -
  have "fst (ex_generate [(''m/verbs.py'', ''edited'')]) = Inr [''_types/pagination.py'', ''_types/__init__.py'', ''m/verbs.py'']"
    by code_simp
  then have "ex_generate [(''m/verbs.py'', ''edited'')] =
      (Inr [''_types/pagination.py'', ''_types/__init__.py'', ''m/verbs.py''], snd (ex_generate [(''m/verbs.py'', ''edited'')]))"
    by (metis prod.collapse)
  from generation_reproducible [OF _ this [unfolded ex_generate_def], of id, folded ex_generate_def, of "[]"] show ?thesis by simp
qed

end
