(* ===== verification/Hello_Routine.thy ===== *)
theory Hello_Routine
  imports System_Properties
begin

text \<open>
  The tracer routine \<open>ota_routines/hello/helpers.py\<close>, run by the engine: one call of a capability with the
  resolved target.
\<close>

definition hello_run :: "'s RoutineRuntime \<Rightarrow> ('s, exn, json) py" where
  "hello_run rt =
     (let target = dict_get_or (rt_knobs rt) ''target'' (JStr ''world'')
      in try_bind (runtime_call rt ''say_hello'' [target] []) (\<lambda>greeting.
           py_return (JObj [(''greeted'', target), (''message'', greeting)])))"

text \<open>A run of the routine calls its capability once, inside the run, with the target of its knobs; without the
  capability it fails.  Either way the start and the end of the run are recorded around what the
  capability records.\<close>

theorem hello_through_engine:
  assumes "valid_draws trace_id d" and "rh_helpers h = Some (RunFunction hello_run)"
    and "ctx = run_context (rh_bundle h) who req ten trace_id d" and "target = dict_get_or (rh_knobs h) ''target'' (JStr ''world'')"
  shows "case dict_get caps ''say_hello'' of
      None \<Rightarrow> (\<exists>msg w'. engine_run eng h who caps req ten trace_id d w = (Inl (PyError ''KeyError'' msg), w') \<and>
        pw_audit w' = pw_audit w @ [(en_l0b eng, Some (rc_trace_id ctx), started_call ctx),
          (en_l0b eng, Some (rc_trace_id ctx), failed_call ctx (PyError ''KeyError'' msg))])
    | Some cap \<Rightarrow> (case cp_callable cap [target] [] (run_start eng ctx d w) of
          (Inl e, w2) \<Rightarrow> engine_run eng h who caps req ten trace_id d w = (Inl e, run_end eng (rh_bundle h) ctx d (Inl e) w w2)
        | (Inr greeting, w2) \<Rightarrow>
            (let v = JObj [(''greeted'', target), (''message'', greeting)]
             in engine_run eng h who caps req ten trace_id d w =
               (Inr (run_result (rh_bundle h) v (pw_ctxs w2 (rd_ctx d))), run_end eng (rh_bundle h) ctx d (Inr v) w w2)))"
proof -
  let ?rt = "run_runtime eng h caps d"
  have main: "main_callable h = Inr (Some hello_run)" using assms(2) by (simp add: main_callable_def)
  have body: "hello_run ?rt s =
      try_bind (runtime_call ?rt ''say_hello'' [target] []) (\<lambda>greeting.
        py_return (JObj [(''greeted'', target), (''message'', greeting)])) s" for s
    by (simp add: hello_run_def run_runtime_def assms(4) Let_def)
  note run = engine_run_eq [OF main assms(1) assms(3)]
  show ?thesis
  proof (cases "dict_get caps ''say_hello''")
    case None
    then obtain msg where "hello_run ?rt (run_start eng ctx d w) = (Inl (PyError ''KeyError'' msg), run_start eng ctx d w)"
      unfolding body by (simp add: try_bind_def runtime_call_def run_runtime_def py_raise_def)
    from run [OF this] None show ?thesis by (simp add: end_call_def run_start_trace)
  next
    case (Some cap)
    obtain res w2 where call: "cp_callable cap [target] [] (run_start eng ctx d w) = (res, w2)"
      by (cases "cp_callable cap [target] [] (run_start eng ctx d w)")
    then have "hello_run ?rt (run_start eng ctx d w) =
        (case res of Inl e \<Rightarrow> Inl e | Inr greeting \<Rightarrow> Inr (JObj [(''greeted'', target), (''message'', greeting)]), w2)"
      unfolding body using Some by (auto simp: try_bind_def runtime_call_def run_runtime_def py_return_def split: sum.splits)
    from run [OF this] Some call show ?thesis by (cases res) (simp_all add: Let_def)
  qed
qed

text \<open>With a capability that is code over the operations of the framework, so is the routine: what is proved of
  such code holds of it.\<close>

lemma hello_is_code:
  assumes "dict_get (rt_capabilities rt) ''say_hello'' = Some cap"
    and "cp_callable cap = (\<lambda>args kwargs. run_code im invoke (body args kwargs))"
    and "target = dict_get_or (rt_knobs rt) ''target'' (JStr ''world'')"
  shows "hello_run rt = run_code im invoke (then_code (body [target] [])
    (\<lambda>res. case res of Inl e \<Rightarrow> Fail e | Inr greeting \<Rightarrow> Finish (JObj [(''greeted'', target), (''message'', greeting)])))"
  using assms
  by (auto simp: fun_eq_iff hello_run_def runtime_call_def run_then_code try_bind_def py_return_def py_raise_def Let_def
      split: prod.splits sum.splits)

end
