(* ===== verification/Adapter_Interface.thy ===== *)
theory Adapter_Interface
  imports System_Properties "HOL-Library.Multiset"
begin

text \<open>
  The contract between the dispatch layer and an adapter (\<open>ota_connect/binding/adapter_impl.py\<close>), as a
  locale: one call of an adapter makes at most one request to its service.  The dispatch layer's lemmas
  follow from the contract alone: what the code of a running routine sends is what its manifest permits.
  The adapters' own state is the part of the world the rest of the framework does not look at.
\<close>

section \<open>Registries that tell the truth\<close>

text \<open>What is cached under an identifier comes from the bundle its source has for it, as \<open>load\<close> leaves it.\<close>

definition registry_honest :: "'i AdapterRegistry \<Rightarrow> bool" where
  "registry_honest reg \<longleftrightarrow>
     (\<forall>aid la. cache_lookup aid reg = Some la \<longrightarrow> source_load (ar_parse reg) (ar_roots reg) aid = Inr (la_bundle la))"

lemma get_bundle_source: "get_bundle reg aid c v = Inr b \<Longrightarrow> source_load (ar_parse reg) (ar_roots reg) aid = Inr b"
  by (auto simp: get_bundle_def split: sum.splits if_splits)

lemma registry_load_honest:
  assumes "registry_honest reg" and "registry_load im aid c v reg = (res, reg')"
  shows "registry_honest reg' \<and> ar_parse reg' = ar_parse reg \<and> ar_roots reg' = ar_roots reg \<and>
    (\<forall>la. res = Inr la \<longrightarrow> source_load (ar_parse reg) (ar_roots reg) aid = Inr (la_bundle la))"
  using assms
  by (auto simp: registry_load_def registry_honest_def build_adapter_def cache_lookup_def cache_store_def dict_simps
      split: option.splits sum.splits if_splits) (metis get_bundle_source)+

section \<open>Inside a run\<close>

text \<open>A run is under way with the rights of \<open>ctx\<close>, and the bindings of an honest registry.\<close>

definition in_run ::
  "RoutineRunContext \<Rightarrow> Bindings \<Rightarrow> manifest_parser \<Rightarrow> source_root list \<Rightarrow> ('i, 'z) dispatch_world_scheme \<Rightarrow> bool" where
  "in_run ctx bs parse roots w \<longleftrightarrow>
     (\<exists>g e r. dw_active w = Some (bs, g) \<and> registry_honest (dw_registries w g) \<and> ar_parse (dw_registries w g) = parse \<and>
        ar_roots (dw_registries w g) = roots \<and> pw_active w = Some (e, r) \<and> same_rights (pw_ctxs w r) ctx)"

definition call_allowed ::
  "RoutineRunContext \<Rightarrow> Bindings \<Rightarrow> manifest_parser \<Rightarrow> source_root list \<Rightarrow> string \<Rightarrow> string \<Rightarrow> bool" where
  "call_allowed ctx bs parse roots c v \<longleftrightarrow>
     (\<exists>rs bundle. resolve bs c v = Inr rs \<and> source_load parse roots (rs_adapter_id rs) = Inr bundle \<and>
        permitted ctx (bundle_integration bundle) (verb_required_scopes c v))"

lemma more_frames [simp]:
  "dispatch_world.more (w\<lparr>pw_audit := a\<rparr>) = dispatch_world.more w"
  "dispatch_world.more (w\<lparr>dw_registries := q\<rparr>) = dispatch_world.more w"
  by simp_all

lemma more_of_run [simp]:
  "dispatch_world.more (run_start eng ctx d w) = dispatch_world.more w"
  "dispatch_world.more (run_end eng b ctx d res w w2) = dispatch_world.more w2"
  by (simp_all add: run_start_def run_end_def obs_emit_def)

lemma load_in_context:
  assumes "in_run ctx bs parse roots w" "dw_active w = Some (bs, g)" "load_adapter im g aid c v w = (res, w1)"
  shows "in_run ctx bs parse roots w1 \<and> dispatch_world.more w1 = dispatch_world.more w \<and>
    (\<forall>la. res = Inr la \<longrightarrow> source_load parse roots aid = Inr (la_bundle la))"
  using assms registry_load_honest [of "dw_registries w g" im aid c v]
  by (auto simp: in_run_def load_adapter_def split: prod.splits)

lemma policy_in_context:
  assumes "in_run ctx bs parse roots w" "enforce_policy iid c v w = (res, w1)"
  shows "in_run ctx bs parse roots w1 \<and> dispatch_world.more w1 = dispatch_world.more w \<and>
    (\<not> isl res \<longrightarrow> w1 = w \<and> permitted ctx iid (verb_required_scopes c v))"
proof -
  from assms(1) obtain e r where run: "pw_active w = Some (e, r)" "same_rights (pw_ctxs w r) ctx" by (auto simp: in_run_def)
  show ?thesis
  proof (cases "permitted ctx iid (verb_required_scopes c v)")
    case True
    then show ?thesis using enforce_policy_permitted(1) [OF run(1)] same_rights_permitted [OF run(2)] assms by auto
  next
    case False
    then obtain err entry where "enforce_policy iid c v w = (Inl err, w\<lparr>pw_audit := pw_audit w @ [entry]\<rparr>)"
      using enforce_policy_permitted(2) [OF run(1)] same_rights_permitted [OF run(2)] by blast
    then show ?thesis using assms by (auto simp: in_run_def)
  qed
qed

text \<open>The wrapper around a verb counts and logs the call; the rights and the adapters are not its concern.\<close>

lemma wrapper_in_context:
  assumes "in_run ctx bs parse roots w" and "verb_wrapper invid verb meta keys fn w = (res, w')"
  shows "\<exists>w1 w2. in_run ctx bs parse roots w1 \<and> dispatch_world.more w1 = dispatch_world.more w \<and> fn w1 = (res, w2) \<and>
    dispatch_world.more w' = dispatch_world.more w2 \<and> (in_run ctx bs parse roots w2 \<longrightarrow> in_run ctx bs parse roots w')"
proof -
  from assms(1) obtain e r where run: "pw_active w = Some (e, r)" by (auto simp: in_run_def)
  obtain w1 where rec: "record_verb_invocation e invid verb meta keys w = (Inr r, w1)"
      "in_run ctx bs parse roots w1" "dispatch_world.more w1 = dispatch_world.more w"
    using run assms(1)
    by (auto simp: record_verb_invocation_def require_ctx_def update_ctx_def audit_emit_def Let_def in_run_def same_rights_def)
  obtain out w2 where call: "fn w1 = (out, w2)" by force
  show ?thesis
    using assms(2) run rec call
    by (intro exI [of _ w1] exI [of _ w2])
      (auto simp: verb_wrapper_def complete_def audit_emit_def in_run_def split: sum.splits)
qed

lemma other_steps_in_context:
  assumes "in_run ctx bs parse roots w"
  shows "in_run ctx bs parse roots (snd (reserve_llm_budget e i n u w))"
    "in_run ctx bs parse roots (snd (record_llm_usage e i n u model w))" "in_run ctx bs parse roots (obs_emit sink rec w)"
proof -
  from assms obtain g e0 r where w: "running e0 r ctx (bs, g) w" "registry_honest (dw_registries w g)"
      "ar_parse (dw_registries w g) = parse" "ar_roots (dw_registries w g) = roots"
    by (auto simp: in_run_def running_def)
  have keep: "in_run ctx bs parse roots v" if "running e0 r ctx (bs, g) v" "dw_registries v = dw_registries w" for v
    using w that unfolding in_run_def running_def by auto
  show "in_run ctx bs parse roots (snd (reserve_llm_budget e i n u w))"
    by (rule keep [OF running_bracketed [OF w(1) bracketed_reserve]]) simp_all
  show "in_run ctx bs parse roots (snd (record_llm_usage e i n u model w))"
    by (rule keep [OF running_bracketed [OF w(1) bracketed_record]]) simp_all
  show "in_run ctx bs parse roots (obs_emit sink rec w)"
    by (rule keep [OF running_bracketed [OF w(1) bracketed_obs_emit]]) simp_all
qed

section \<open>The contract\<close>

locale adapter_impl =
  fixes invoke :: "'i \<Rightarrow> string \<Rightarrow> string \<Rightarrow> 'k \<Rightarrow> ('s, exn, 'r) py"
    and sent :: "'s \<Rightarrow> 'q multiset"
    and fits_call :: "'k \<Rightarrow> 'q \<Rightarrow> bool"
  assumes invoke_sends: "invoke i c v k s = (res, s') \<Longrightarrow>
    \<exists>new. sent s' = sent s + new \<and> size new \<le> 1 \<and> (isl res \<or> size new = 1) \<and> (\<forall>q \<in># new. fits_call k q)"
begin

text \<open>At most one request was sent from one state to the other, exactly one if \<open>full\<close>, and it satisfies \<open>P\<close>.\<close>

definition grew :: "bool \<Rightarrow> ('q \<Rightarrow> bool) \<Rightarrow> 's \<Rightarrow> 's \<Rightarrow> bool" where
  "grew full P s s' \<longleftrightarrow>
     (\<exists>new. sent s' = sent s + new \<and> size new \<le> 1 \<and> (full \<longrightarrow> size new = 1) \<and> (\<forall>q \<in># new. P q))"

lemma grew_none [simp]: "grew False P s s"
  by (simp add: grew_def)

lemma grew_mono: "grew full P s t \<Longrightarrow> (\<And>q. P q \<Longrightarrow> Q q) \<Longrightarrow> grew full Q s t"
  by (auto simp: grew_def)

lemma invoke_grows:
  assumes "invoke_adapter (own_state invoke) aid impl c v k w = (res, w')" and "in_run ctx bs parse roots w"
  shows "in_run ctx bs parse roots w' \<and> grew (\<not> isl res) (fits_call k) (dispatch_world.more w) (dispatch_world.more w')"
proof -
  obtain out s where call: "invoke impl c v k (dispatch_world.more w) = (out, s)" by force
  then have w': "w' = dispatch_world.more_update (\<lambda>_. s) w" "isl res \<longleftrightarrow> isl out"
    using assms(1)
    by (auto simp: invoke_adapter_def normalize_adapter_errors_def own_state_def on_more_def split: sum.splits)
  obtain new where "sent s = sent (dispatch_world.more w) + new" "size new \<le> 1" "isl out \<or> size new = 1" "\<forall>q \<in># new. fits_call k q"
    using invoke_sends [OF call] by blast
  then have "grew (\<not> isl res) (fits_call k) (dispatch_world.more w) s"
    unfolding grew_def by (intro exI [of _ new]) (use w'(2) in auto)
  then show ?thesis using w'(1) assms(2) by (simp add: in_run_def)
qed

lemma dispatch_grows:
  assumes "in_run ctx bs parse roots w" and "dispatch_capability im (own_state invoke) c v k w = (res, w')"
  shows "in_run ctx bs parse roots w' \<and>
    grew (\<not> isl res) (\<lambda>q. fits_call k q \<and> call_allowed ctx bs parse roots c v) (dispatch_world.more w) (dispatch_world.more w')"
proof -
  obtain g where g: "dw_active w = Some (bs, g)" using assms(1) by (auto simp: in_run_def)
  show ?thesis
  proof (cases "resolve bs c v")
    case (Inl e)
    then show ?thesis using assms g by (auto simp: dispatch_capability_def)
  next
    case (Inr rs)
    obtain lres w1 where load: "load_adapter im g (rs_adapter_id rs) c v w = (lres, w1)" by force
    note loaded = load_in_context [OF assms(1) g load]
    show ?thesis
    proof (cases lres)
      case (Inl e)
      then show ?thesis using assms(2) g Inr load loaded by (auto simp: dispatch_capability_def try_bind_def)
    next
      case la: (Inr la)
      obtain pres w2 where pol: "enforce_policy (loaded_integration la) c v w1 = (pres, w2)" by force
      note policy = policy_in_context [OF conjunct1 [OF loaded] pol]
      show ?thesis
      proof (cases pres)
        case (Inl e)
        then show ?thesis using assms(2) g Inr load loaded la pol policy by (auto simp: dispatch_capability_def try_bind_def)
      next
        case ok: (Inr u)
        then have same: "w2 = w1" "permitted ctx (loaded_integration la) (verb_required_scopes c v)" using policy by auto
        have run: "invoke_adapter (own_state invoke) (rs_adapter_id rs) (la_impl la) c v k w1 = (res, w')"
          using assms(2) g Inr load la pol ok same(1) by (simp add: dispatch_capability_def try_bind_def)
        have "call_allowed ctx bs parse roots c v"
          unfolding call_allowed_def using Inr loaded la same(2) by (auto simp: loaded_integration_def)
        with invoke_grows [OF run conjunct1 [OF loaded]] loaded show ?thesis by (auto elim: grew_mono)
      qed
    qed
  qed
qed

lemma call_one_grows:
  assumes "in_run ctx bs parse roots w" and "call_one im (own_state invoke) call w = (res, w')"
  shows "in_run ctx bs parse roots w' \<and> grew (\<not> isl res)
      (\<lambda>q. fits_call (vc_args call) q \<and> call_allowed ctx bs parse roots (vc_capability call) (vc_verb call))
      (dispatch_world.more w) (dispatch_world.more w')"
proof (cases "verb_decl_of (vc_capability call) (vc_verb call)")
  case None
  then show ?thesis using assms by (auto simp: call_one_def py_raise_def)
next
  case (Some decl)
  then obtain w1 w2 where "in_run ctx bs parse roots w1" "dispatch_world.more w1 = dispatch_world.more w"
      "dispatch_capability im (own_state invoke) (vc_capability call) (vc_verb call) (vc_args call) w1 = (res, w2)"
      "dispatch_world.more w' = dispatch_world.more w2" "in_run ctx bs parse roots w2 \<longrightarrow> in_run ctx bs parse roots w'"
    using wrapper_in_context [OF assms(1)] assms(2) by (auto simp: call_one_def call_verb_def) blast
  with dispatch_grows show ?thesis by metis
qed

text \<open>The calls of a run of the engine, whose context is the one the engine builds from the manifest: every one of
  them sends at most one request, exactly one when it returns, and only if the context allows the call.\<close>

lemma run_sends:
  assumes "valid_draws trace_id d" and "dw_active w = Some (bs, g)" and "registry_honest (dw_registries w g)"
    and "rh_helpers h = Some (RunFunction (\<lambda>rt. run_code im (own_state invoke) (code rt)))"
    and "ctx = run_context (rh_bundle h) who req ten trace_id d"
    and "steps = call_steps im (own_state invoke) (code (run_runtime eng h caps d)) (run_start eng ctx d w)"
    and "engine_run eng h who caps req ten trace_id d w = (res, w')"
  shows "linked (dispatch_world.more w) steps (dispatch_world.more w')"
    and "(call, u, out, v) \<in> set steps \<Longrightarrow> grew (\<not> isl out)
      (\<lambda>q. fits_call (vc_args call) q \<and>
        call_allowed ctx bs (ar_parse (dw_registries w g)) (ar_roots (dw_registries w g)) (vc_capability call) (vc_verb call))
      (dispatch_world.more u) (dispatch_world.more v)"
proof -
  let ?s = "run_start eng ctx d w" and ?c = "code (run_runtime eng h caps d)"
  let ?in = "in_run ctx bs (ar_parse (dw_registries w g)) (ar_roots (dw_registries w g))"
  have start: "?in ?s" using assms(2,3,5) by (simp add: in_run_def same_rights_def)
  obtain r w2 where run: "run_code im (own_state invoke) ?c ?s = (r, w2)" by force
  then have "w' = run_end eng (rh_bundle h) ctx d r w w2"
    using engine_run_eq [OF _ assms(1,5), of "\<lambda>rt. run_code im (own_state invoke) (code rt)" eng caps w r w2] assms(4,7)
    by (simp add: main_callable_def)
  then show "linked (dispatch_world.more w) steps (dispatch_world.more w')"
    using code_steps_linked [of ?s im "own_state invoke" ?c] run assms(6) by simp
  have one: "?in v' \<and> grew (\<not> isl o') (\<lambda>q. fits_call (vc_args cl) q \<and> call_allowed ctx bs (ar_parse (dw_registries w g))
      (ar_roots (dw_registries w g)) (vc_capability cl) (vc_verb cl)) (dispatch_world.more u') (dispatch_world.more v')"
    if "?in u'" "call_one im (own_state invoke) cl u' = (o', v')" for cl u' o' v'
    by (rule call_one_grows [OF that])
  have "kept_by_code im (own_state invoke) ?in"
    unfolding kept_by_code_def using one other_steps_in_context by (metis prod.collapse)
  note keeps = run_code_keeps [OF this start, of ?c]
  show "grew (\<not> isl out) (\<lambda>q. fits_call (vc_args call) q \<and>
        call_allowed ctx bs (ar_parse (dw_registries w g)) (ar_roots (dw_registries w g)) (vc_capability call) (vc_verb call))
      (dispatch_world.more u) (dispatch_world.more v)" if "(call, u, out, v) \<in> set steps"
    using keeps that one [of u call out v] unfolding assms(6) by blast
qed

end

end
