(* ===== verification/Adapter_Composition.thy ===== *)
theory Adapter_Composition
  imports Adapter_Interface Slack_Properties Gmail_Properties
begin

text \<open>
  The two adapters of the repository behind the dispatch layer: their instances, what the attribute
  \<open>invoke\<close> of each does, and the contract of theory \<open>Adapter_Interface\<close> proved for both.  From it follows
  what a routine can make them send.
\<close>

section \<open>The adapters as one kind of instance\<close>

record adapter_states =
  as_slack :: adapter_world
  as_gmail :: gmail_world

datatype connect_adapter = SlackSocketAdapter slack_env adapter_config | GmailOAuthAdapter gmail_env adapter_config

datatype connect_args = SlackArgs slack_args | GmailArgs gmail_args

datatype connect_result = SlackResult slack_result | GmailResult gmail_result

text \<open>The arguments of the other capability are unexpected, once the verb is one the adapter has.\<close>

definition foreign_arguments :: "string \<Rightarrow> string list \<Rightarrow> string \<Rightarrow> string \<Rightarrow> exn" where
  "foreign_arguments own verbs capability verb =
     (if capability = own \<and> verb \<in> set verbs then PyError ''TypeError'' (''unexpected arguments for '' @ verb)
      else PyError ''NotImplementedError'' (capability @ ''.'' @ verb @ '' not implemented''))"

definition connect_invoke ::
  "connect_adapter \<Rightarrow> string \<Rightarrow> string \<Rightarrow> connect_args \<Rightarrow> (adapter_states, exn, connect_result) py" where
  "connect_invoke impl capability verb args s =
     (case impl of
        SlackSocketAdapter env cfg \<Rightarrow>
          (case args of
             SlackArgs a \<Rightarrow>
               (case slack_invoke env cfg capability verb a (as_slack s) of
                  (res, t) \<Rightarrow> (map_sum id SlackResult res, s\<lparr>as_slack := t\<rparr>))
           | GmailArgs _ \<Rightarrow> (Inl (foreign_arguments ''messaging'' SLACK_VERBS capability verb), s))
      | GmailOAuthAdapter env cfg \<Rightarrow>
          (case args of
             GmailArgs a \<Rightarrow>
               (case gmail_invoke env cfg capability verb a (as_gmail s) of
                  (res, t) \<Rightarrow> (map_sum id GmailResult res, s\<lparr>as_gmail := t\<rparr>))
           | SlackArgs _ \<Rightarrow> (Inl (foreign_arguments ''email'' GMAIL_VERBS capability verb), s)))"

section \<open>The contract holds\<close>

definition requests_sent :: "adapter_states \<Rightarrow> api_request multiset" where
  "requests_sent s = mset (aw_requests (as_slack s)) + mset (aw_requests (as_gmail s))"

definition request_of_call :: "connect_args \<Rightarrow> api_request \<Rightarrow> bool" where
  "request_of_call args rq \<longleftrightarrow>
     (case args of
        SlackArgs a \<Rightarrow> rq_path rq = api_method a \<and>
          (\<exists>cid. api_channel a = Inr cid \<and> map_option (\<lambda>b. dict_get b ''channel'') (rq_body rq) = Some (Some (JStr cid)))
      | GmailArgs a \<Rightarrow> (rq_method rq, rq_path rq) = gmail_route a)"

interpretation connect: adapter_impl connect_invoke requests_sent request_of_call
proof
  fix impl c v args s res s'
  assume run: "connect_invoke impl c v args s = (res, s')"
  have none: "\<exists>new. requests_sent s = requests_sent s + new \<and> size new \<le> 1 \<and> (isl (Inl e) \<or> size new = 1) \<and>
      (\<forall>q \<in># new. request_of_call args q)" for e :: exn
    by (rule exI [of _ "{#}"]) simp
  show "\<exists>new. requests_sent s' = requests_sent s + new \<and> size new \<le> 1 \<and> (isl res \<or> size new = 1) \<and>
      (\<forall>q \<in># new. request_of_call args q)"
  proof (cases impl)
    case (SlackSocketAdapter env cfg)
    show ?thesis
    proof (cases args)
      case (SlackArgs a)
      obtain out t where call: "slack_invoke env cfg c v a (as_slack s) = (out, t)" by force
      then have "s' = s\<lparr>as_slack := t\<rparr>" "isl res \<longleftrightarrow> isl out" using run SlackSocketAdapter SlackArgs by (auto simp: connect_invoke_def isl_map_sum)
      moreover obtain rqs where "aw_requests t = aw_requests (as_slack s) @ rqs" "length rqs \<le> 1" "isl out \<or> length rqs = 1"
        "list_all (request_of_call args) rqs"
        using slack_call_one_request [OF call] unfolding request_of_call_def SlackArgs by auto
      ultimately show ?thesis
        by (intro exI [of _ "mset rqs"]) (auto simp: requests_sent_def list_all_iff)
    next
      case (GmailArgs a)
      then show ?thesis using run SlackSocketAdapter none by (auto simp: connect_invoke_def)
    qed
  next
    case (GmailOAuthAdapter env cfg)
    show ?thesis
    proof (cases args)
      case (GmailArgs a)
      obtain out t where call: "gmail_invoke env cfg c v a (as_gmail s) = (out, t)" by force
      then have "s' = s\<lparr>as_gmail := t\<rparr>" "isl res \<longleftrightarrow> isl out" using run GmailOAuthAdapter GmailArgs by (auto simp: connect_invoke_def isl_map_sum)
      moreover obtain rqs where "aw_requests t = aw_requests (as_gmail s) @ rqs" "length rqs \<le> 1" "isl out \<or> length rqs = 1"
        "list_all (request_of_call args) rqs"
        using gmail_call_one_request [OF call] unfolding request_of_call_def GmailArgs by auto
      ultimately show ?thesis
        by (intro exI [of _ "mset rqs"]) (auto simp: requests_sent_def list_all_iff)
    next
      case (SlackArgs a)
      then show ?thesis using run GmailOAuthAdapter none by (auto simp: connect_invoke_def)
    qed
  qed
qed

section \<open>What a routine can send\<close>


definition ex_states :: adapter_states where
  "ex_states = \<lparr>as_slack = ex_slack_world, as_gmail = ex_gmail_world\<rparr>"

definition ex_connect_registry :: "connect_adapter AdapterRegistry" where
  "ex_connect_registry = \<lparr>ar_parse = ex_yaml, ar_roots = ex_source,
     ar_factories = [(''slack'', (''f'', \<lambda>_. Inr (SlackSocketAdapter ex_slack_env ex_slack_config)))], ar_cache = []\<rparr>"

definition ex_connect_world :: "(connect_adapter, adapter_states) dispatch_world_scheme" where
  "ex_connect_world = \<lparr>tv_trace = None, tv_span = None, pw_active = None, pw_ctxs = (\<lambda>_. ex_run), pw_audit = [],
     ow_records = [], ow_writers = [], gw_modules = [], dw_active = Some (ex_bindings, 0),
     dw_registries = (\<lambda>_. ex_connect_registry), \<dots> = ex_states\<rparr>"

definition ex_connect_engine :: "(connect_adapter, adapter_states) dispatch_world_scheme RoutineEngine" where
  "ex_connect_engine = \<lparr>en_source = ex_bundle_env, en_verify_files = True, en_root = ex_routine_root, en_identity = 0,
     en_secrets = 0, en_audit = 0, en_observability = 0, en_l0b = 0, en_spec = (\<lambda>_. True),
     en_exec_module = (\<lambda>_ w. (Inr NoRun, w))\<rparr>"

definition ex_sender :: RoutineBundle where
  "ex_sender = \<lparr>rbd_manifest = ex_routine [ex_dependency\<lparr>dp_id := ''slack'', dp_scopes := [''messaging:send'']\<rparr>],
     rbd_directory = ''/r/a'', rbd_body = []\<rparr>"

definition ex_call :: "connect_args verb_call" where
  "ex_call = \<lparr>vc_invocation_id = ''v1'', vc_capability = ''messaging'', vc_verb = ''send_message'',
     vc_keys = [], vc_args = SlackArgs ex_send\<rparr>"

text \<open>A routine that lets its first call fail, for its manifest has no right to delete, and then sends a message.\<close>

definition ex_forbidden :: "connect_args verb_call" where
  "ex_forbidden = ex_call\<lparr>vc_verb := ''delete_message''\<rparr>"

definition ex_catching :: "'s RoutineRuntime \<Rightarrow> (connect_args, connect_result) routine_code" where
  "ex_catching rt = CallVerb ex_forbidden (\<lambda>_. CallVerb ex_call (\<lambda>res. case res of Inl e \<Rightarrow> Fail e | Inr _ \<Rightarrow> Finish JNull))"

definition ex_catching_handle :: "(connect_adapter, adapter_states) dispatch_world_scheme RoutineHandle" where
  "ex_catching_handle = \<lparr>rh_bundle = ex_sender,
     rh_helpers = Some (RunFunction (\<lambda>rt. run_code (\<lambda>_ _ _. Inl outside_model) (own_state connect_invoke) (ex_catching rt))),
     rh_knobs = []\<rparr>"


end
