(* ===== verification/Inbound_Composition.thy ===== *)
theory Inbound_Composition
  imports Adapter_Composition Action_Properties
begin

text \<open>
  The way back: from the queue of an adapter, through the polling loop and the action router, to the
  audit trail and the handlers.
\<close>

section \<open>Polling an adapter\<close>

definition connect_poll :: "(connect_adapter, (connect_adapter, adapter_states) dispatch_world_scheme) poller" where
  "connect_poll impl = Some (on_more (\<lambda>s.
     (case impl of
        SlackSocketAdapter env cfg \<Rightarrow>
          (case poll_inbound (as_slack s) of (evs, t) \<Rightarrow> (Inr (Some (map RawEvent evs)), s\<lparr>as_slack := t\<rparr>))
      | GmailOAuthAdapter env cfg \<Rightarrow>
          (case gmail_poll_inbound (as_gmail s) of (evs, t) \<Rightarrow> (Inr (Some (map RawEvent evs)), s\<lparr>as_gmail := t\<rparr>)))))"

definition waiting_events :: "connect_adapter \<Rightarrow> adapter_states \<Rightarrow> RawInboundEvent list" where
  "waiting_events impl s =
     (case impl of
        SlackSocketAdapter env cfg \<Rightarrow> aw_pending (as_slack s)
      | GmailOAuthAdapter env cfg \<Rightarrow> aw_pending (as_gmail s))"

lemma raw_events_own: "raw_events aid (map RawEvent evs) = Inr evs"
  by (induction evs) simp_all

lemma iter_connect:
  "\<exists>w1. iter_inbound connect_poll la w = (Inr (waiting_events (la_impl la) (dispatch_world.more w)), w1) \<and>
     pw_audit w1 = pw_audit w \<and> waiting_events (la_impl la) (dispatch_world.more w1) = []"
  by (cases "la_impl la")
    (auto simp: iter_inbound_def connect_poll_def on_more_def poll_inbound_def gmail_poll_inbound_def raw_events_own waiting_events_def)

section \<open>Delivering the events\<close>

text \<open>What a dispatch of an action and the handlers leave alone, the delivery of all events leaves alone.\<close>

lemma deliver_all_frame:
  assumes "\<And>rid h ev w. handler_of r rid = Some h \<Longrightarrow> Q (snd (h ev w)) = Q w"
    and "\<And>e c w. Q (audit_emit e c w) = Q w"
  shows "Q (snd (deliver_all r fresh n evs w)) = Q w"
proof (induction evs arbitrary: n w)
  case (Cons ev evs)
  have one: "Q (snd (dispatch_action r (fresh n) ev w)) = Q w"
    using assms by (auto simp: dispatch_action_def Let_def try_bind_def py_return_def split: option.splits prod.splits sum.splits)
      (metis snd_conv)+
  obtain res w1 where d: "dispatch_action r (fresh n) ev w = (res, w1)" by force
  then show ?case using one Cons.IH [of "Suc n" w1] by (auto split: sum.splits prod.splits)
qed simp

lemma event_kind [simp]: "av_kind (action_event la ev) = ri_kind ev" "av_routine_id (action_event la ev) = ri_routine_id ev"
  by (simp_all add: action_event_def)

text \<open>A handler that returns, keeps the trail and the adapters.\<close>

definition quiet_handlers :: "('i, 's) dispatch_world_scheme ActionRouter \<Rightarrow> bool" where
  "quiet_handlers r \<longleftrightarrow> (\<forall>rid h ev w. handler_of r rid = Some h \<longrightarrow>
     (\<exists>w'. h ev w = (Inr (), w') \<and> pw_audit w' = pw_audit w \<and> dispatch_world.more w' = dispatch_world.more w))"

text \<open>One cycle of the loop over an adapter empties its queue and turns each event that waited into one audit
  event of its type, in order; the count is the number of events whose routine has a handler.\<close>

theorem inbound_tick_delivers:
  assumes "registry_load im aid ''email'' ''poll_inbound'' (dw_registries w (il_registry lp)) = (Inr la, reg)"
    and "il_adapter_ids lp = [aid]" and "quiet_handlers (il_router lp)"
    and "evs = waiting_events (la_impl la) (dispatch_world.more w)"
    and "\<forall>ev \<in> set evs. dict_has KIND_TO_EVENT_TYPE (ri_kind ev)"
  shows "\<exists>w'. tick_once im connect_poll lp fresh w =
      (Inr (length (filter (\<lambda>ev. handler_of (il_router lp) (ri_routine_id ev) \<noteq> None) evs)), w') \<and>
    waiting_events (la_impl la) (dispatch_world.more w') = [] \<and>
    (\<exists>added. pw_audit w' = pw_audit w @ added \<and>
       map (\<lambda>x. em_event_type (snd (snd x))) added = map (\<lambda>ev. the (dict_get KIND_TO_EVENT_TYPE (ri_kind ev))) evs)"
proof -
  let ?w0 = "w\<lparr>dw_registries := (dw_registries w)(il_registry lp := reg)\<rparr>"
  obtain w1 where polled: "iter_inbound connect_poll la ?w0 = (Inr evs, w1)" "pw_audit w1 = pw_audit w"
      "waiting_events (la_impl la) (dispatch_world.more w1) = []"
    using iter_connect [of la ?w0] assms(4) by auto
  let ?acts = "map (action_event la) evs" and ?r = "il_router lp"
  have handlers: "\<exists>w'. h ev v = (Inr (), w') \<and> pw_audit w' = pw_audit v" if "handler_of ?r rid = Some h" for rid h ev v
    using assms(3) that unfolding quiet_handlers_def by blast
  have kinds: "\<forall>ev \<in> set ?acts. dict_has KIND_TO_EVENT_TYPE (av_kind ev)" using assms(5) by simp
  obtain w2 where delivered: "deliver_all ?r fresh 0 ?acts w1 =
        (Inr (length (filter (\<lambda>ev. handler_of ?r (av_routine_id ev) \<noteq> None) ?acts)), w2)"
      "map (\<lambda>x. em_event_type (snd (snd x))) (drop (length (pw_audit w1)) (pw_audit w2)) =
        map (\<lambda>ev. the (dict_get KIND_TO_EVENT_TYPE (av_kind ev))) ?acts"
      "take (length (pw_audit w1)) (pw_audit w2) = pw_audit w1"
    using deliver_all_audits [where r = ?r and evs = ?acts and fresh = fresh and n = 0 and w = w1] handlers kinds by blast
  have "dispatch_world.more (snd (deliver_all ?r fresh 0 ?acts w1)) = dispatch_world.more w1"
    by (rule deliver_all_frame) (use assms(3) in \<open>auto simp: quiet_handlers_def, metis snd_conv\<close>)
  then have calm: "dispatch_world.more w2 = dispatch_world.more w1" using delivered(1) by simp
  have "tick_once im connect_poll lp fresh w =
      (Inr (length (filter (\<lambda>ev. handler_of ?r (ri_routine_id ev) \<noteq> None) evs)), w2)"
    using assms(1,2) polled(1) delivered(1)
    by (simp add: tick_once_def poll_adapter_def load_adapter_def try_bind_def py_return_def filter_map o_def)
  moreover have "pw_audit w2 = pw_audit w @ drop (length (pw_audit w1)) (pw_audit w2)"
    using delivered(3) polled(2) by (metis append_take_drop_id)
  ultimately show ?thesis using delivered(2) polled(3) calm by (auto simp: o_def)
qed

text \<open>The events both adapters queue have one of the kinds the router knows.\<close>

lemma queued_kinds_known:
  "\<forall>ev \<in> set (ingested rid items). dict_has KIND_TO_EVENT_TYPE (ri_kind ev)"
  "added_event rid j = Inr ev \<Longrightarrow> dict_has KIND_TO_EVENT_TYPE (ri_kind ev)"
proof -
  have known: "dict_has KIND_TO_EVENT_TYPE ''messaging.action_triggered''" "dict_has KIND_TO_EVENT_TYPE ''email.reply_received''"
    "dict_has KIND_TO_EVENT_TYPE ''email.bounce_received''"
    by (simp_all add: KIND_TO_EVENT_TYPE_def)
  show "\<forall>ev \<in> set (ingested rid items). dict_has KIND_TO_EVENT_TYPE (ri_kind ev)"
    by (induction rid items rule: ingested.induct) (auto simp: known simp del: not_None_eq split: json.splits)
  show "dict_has KIND_TO_EVENT_TYPE (ri_kind ev)" if "added_event rid j = Inr ev"
  proof -
    have "ri_kind ev = ''email.reply_received'' \<or> ri_kind ev = ''email.bounce_received''"
      using that by (auto simp: added_event_def or_raise_eq_Inr classify_inbound_label_def split: option.splits if_splits)
    then show ?thesis using known(2,3) by metis
  qed
qed

end
