(* ===== verification/Background_Loops.thy ===== *)
theory Background_Loops
  imports Scheduler Actions Slack_Adapter
begin

text \<open>
  The background tasks: \<open>start\<close>, \<open>stop\<close> and the loops of \<open>Scheduler\<close> (\<open>ota_core/automation/scheduler.py\<close>),
  \<open>InboundEmailLoop\<close> (\<open>ota_connect/binding/inbound_email.py\<close>) and \<open>SocketModeListener\<close>
  (\<open>ota_connect/adapters/slack_socket/adapter.py\<close>).

  The three classes keep a stop flag and the asyncio task of their loop.  One step of the relation
  \<open>loop_step\<close> is what runs between two suspensions: a call of \<open>start\<close>, a call of \<open>stop\<close> up to its
  \<open>await\<close>, the rest of that call once the awaited task is done, or one round of a task that is
  running.  The steps of different callers and tasks interleave in any order.  That a round is one step
  loses nothing here: \<open>start\<close> and \<open>stop\<close> touch the flag and the task only, a round never does.  Nobody
  but the owner cancels a task.
\<close>

section \<open>Tasks and their owners\<close>

datatype task_status = Running | Returned | Raised exn | Cancelled

text \<open>The tasks that were created, by number; the calls of \<open>stop\<close> that wait, by the task they await.\<close>

record 's loop_owner =
  lo_stop :: bool
  lo_task :: "nat option"
  lo_tasks :: "task_status list"
  lo_waiting :: "nat list"
  lo_world :: 's

definition fresh_owner :: "'s \<Rightarrow> 's loop_owner" where
  "fresh_owner w = \<lparr>lo_stop = False, lo_task = None, lo_tasks = [], lo_waiting = [], lo_world = w\<rparr>"

definition create_task :: "'s loop_owner \<Rightarrow> 's loop_owner" where
  "create_task s = s\<lparr>lo_task := Some (length (lo_tasks s)), lo_tasks := lo_tasks s @ [Running]\<rparr>"

text \<open>\<open>lc_resume\<close> is the rest of \<open>stop\<close> after its \<open>await\<close>, with the exception it raises.\<close>

record ('a, 's) loop_class =
  lc_start :: "'s loop_owner \<Rightarrow> 's loop_owner"
  lc_stop :: "'s loop_owner \<Rightarrow> 's loop_owner"
  lc_resume :: "task_status \<Rightarrow> 's loop_owner \<Rightarrow> exn option \<times> 's loop_owner"
  lc_round :: "'a \<Rightarrow> bool \<Rightarrow> 's \<Rightarrow> task_status \<times> 's"

inductive loop_step :: "('a, 's) loop_class \<Rightarrow> 's loop_owner \<Rightarrow> 's loop_owner \<Rightarrow> bool" for cls where
  started: "loop_step cls s (lc_start cls s)"
| stopping: "loop_step cls s (lc_stop cls s)"
| stopped: "i \<in> set (lo_waiting s) \<Longrightarrow> lo_tasks s ! i \<noteq> Running \<Longrightarrow>
    loop_step cls s (snd (lc_resume cls (lo_tasks s ! i) (s\<lparr>lo_waiting := remove1 i (lo_waiting s)\<rparr>)))"
| rounded: "i < length (lo_tasks s) \<Longrightarrow> lo_tasks s ! i = Running \<Longrightarrow>
    lc_round cls a (lo_stop s) (lo_world s) = (st, w) \<Longrightarrow>
    loop_step cls s (s\<lparr>lo_tasks := (lo_tasks s)[i := st], lo_world := w\<rparr>)"

inductive_cases loop_stepE: "loop_step cls s s'"

text \<open>Callers that never let two calls of \<open>stop\<close> overlap.\<close>

definition serial_step :: "('a, 's) loop_class \<Rightarrow> 's loop_owner \<Rightarrow> 's loop_owner \<Rightarrow> bool" where
  "serial_step cls s s' \<longleftrightarrow> loop_step cls s s' \<and> length (lo_waiting s') \<le> 1"

section \<open>The three classes\<close>

definition scheduler_start :: "'s loop_owner \<Rightarrow> 's loop_owner" where
  "scheduler_start s = (if lo_task s \<noteq> None then s else create_task (s\<lparr>lo_stop := False\<rparr>))"

definition scheduler_stop :: "'s loop_owner \<Rightarrow> 's loop_owner" where
  "scheduler_stop s =
     (case lo_task s of
        None \<Rightarrow> s
      | Some i \<Rightarrow> s\<lparr>lo_stop := True, lo_waiting := lo_waiting s @ [i]\<rparr>)"

definition cancelled_error :: exn where
  "cancelled_error = PyError ''CancelledError'' []"

definition scheduler_resume :: "task_status \<Rightarrow> 's loop_owner \<Rightarrow> exn option \<times> 's loop_owner" where
  "scheduler_resume st s =
     (case st of
        Raised e \<Rightarrow> (Some e, s)
      | Cancelled \<Rightarrow> (Some cancelled_error, s)
      | _ \<Rightarrow> (None, s\<lparr>lo_task := None\<rparr>))"

definition scheduler_round :: "sched_env \<Rightarrow> bool \<Rightarrow> scheduler \<Rightarrow> task_status \<times> scheduler" where
  "scheduler_round env stopped s =
     (if stopped then (Returned, s)
      else (case tick env s of (Inl e, s') \<Rightarrow> (Raised e, s') | (Inr _, s') \<Rightarrow> (Running, s')))"

definition scheduler_class :: "(sched_env, scheduler) loop_class" where
  "scheduler_class = \<lparr>lc_start = scheduler_start, lc_stop = scheduler_stop, lc_resume = scheduler_resume,
     lc_round = scheduler_round\<rparr>"

definition inbound_start :: "'s loop_owner \<Rightarrow> 's loop_owner" where
  "inbound_start s = (if lo_task s \<noteq> None then s else create_task (s\<lparr>lo_stop := False\<rparr>))"

definition inbound_stop :: "'s loop_owner \<Rightarrow> 's loop_owner" where
  "inbound_stop s =
     (let s1 = s\<lparr>lo_stop := True, lo_task := None\<rparr>
      in case lo_task s of None \<Rightarrow> s1 | Some i \<Rightarrow> s1\<lparr>lo_waiting := lo_waiting s1 @ [i]\<rparr>)"

definition inbound_resume :: "task_status \<Rightarrow> 's loop_owner \<Rightarrow> exn option \<times> 's loop_owner" where
  "inbound_resume st s = (case st of Raised e \<Rightarrow> (Some e, s) | _ \<Rightarrow> (None, s))"

text \<open>The input of a round is the supply of trace identifiers.\<close>

definition inbound_round ::
  "'i importer \<Rightarrow> ('i, ('i, 'z) dispatch_world_scheme) poller \<Rightarrow> ('i, 'z) InboundEmailLoop \<Rightarrow> (nat \<Rightarrow> string) \<Rightarrow> bool \<Rightarrow>
   ('i, 'z) dispatch_world_scheme \<Rightarrow> task_status \<times> ('i, 'z) dispatch_world_scheme" where
  "inbound_round im poll lp fresh stopped w =
     (if stopped then (Returned, w) else (Running, snd (tick_once im poll lp fresh w)))"

definition inbound_class ::
  "'i importer \<Rightarrow> ('i, ('i, 'z) dispatch_world_scheme) poller \<Rightarrow> ('i, 'z) InboundEmailLoop \<Rightarrow>
   (nat \<Rightarrow> string, ('i, 'z) dispatch_world_scheme) loop_class" where
  "inbound_class im poll lp = \<lparr>lc_start = inbound_start, lc_stop = inbound_stop, lc_resume = inbound_resume,
     lc_round = inbound_round im poll lp\<rparr>"

definition socket_start :: "'s loop_owner \<Rightarrow> 's loop_owner" where
  "socket_start s = (if lo_task s \<noteq> None then s else create_task s)"

definition cancel_task :: "nat \<Rightarrow> task_status list \<Rightarrow> task_status list" where
  "cancel_task i ts = (if ts ! i = Running then ts[i := Cancelled] else ts)"

definition socket_stop :: "'s loop_owner \<Rightarrow> 's loop_owner" where
  "socket_stop s =
     (let s1 = s\<lparr>lo_stop := True\<rparr>
      in case lo_task s of
           None \<Rightarrow> s1
         | Some i \<Rightarrow> s1\<lparr>lo_tasks := cancel_task i (lo_tasks s), lo_waiting := lo_waiting s @ [i]\<rparr>)"

definition socket_resume :: "task_status \<Rightarrow> 's loop_owner \<Rightarrow> exn option \<times> 's loop_owner" where
  "socket_resume st s = (None, s\<lparr>lo_task := None\<rparr>)"

text \<open>The input of a round is what the stream gives: a payload, its end, or an exception.\<close>

datatype stream_next = NextPayload json | StreamEnds | StreamRaises exn

definition socket_round ::
  "string \<Rightarrow> stream_next \<Rightarrow> bool \<Rightarrow> 'w adapter_world_scheme \<Rightarrow> task_status \<times> 'w adapter_world_scheme" where
  "socket_round rid next stopped w =
     (case next of
        StreamEnds \<Rightarrow> (Returned, w)
      | StreamRaises e \<Rightarrow> (Raised e, w)
      | NextPayload j \<Rightarrow>
          (case listener_run rid [SocketPayload stopped j] w of
             (_, w') \<Rightarrow> (if stopped then Returned else Running, w')))"

definition socket_class :: "string \<Rightarrow> (stream_next, 'w adapter_world_scheme) loop_class" where
  "socket_class rid = \<lparr>lc_start = socket_start, lc_stop = socket_stop, lc_resume = socket_resume,
     lc_round = socket_round rid\<rparr>"

lemmas class_simps =
  scheduler_class_def inbound_class_def socket_class_def loop_class.simps
lemmas owner_defs =
  create_task_def scheduler_start_def scheduler_stop_def scheduler_resume_def inbound_start_def inbound_stop_def
  inbound_resume_def socket_start_def cancel_task_def socket_stop_def socket_resume_def Let_def

text \<open>The rounds are the loops of the classes, cut at each suspension.\<close>

lemma run_loop_round:
  "run_loop env (Suc n) s =
     (case scheduler_round env False s of (Raised e, s') \<Rightarrow> (Inl e, s') | (_, s') \<Rightarrow> run_loop env n s')"
  by (auto simp: scheduler_round_def try_bind_def split: prod.splits sum.splits)

lemma inbound_rounds_round:
  "inbound_rounds im poll lp fresh (Suc n) w = inbound_rounds im poll lp fresh n (snd (inbound_round im poll lp (fresh n) False w))"
  by (simp add: inbound_round_def)

lemma listener_run_round:
  "listener_run rid (SocketPayload stopped j # rest) w =
     (case socket_round rid (NextPayload j) stopped w of
        (Running, w') \<Rightarrow> listener_run rid rest w' | (_, w') \<Rightarrow> (Inr (), w'))"
  by (cases j) (simp_all add: socket_round_def)

section \<open>At most one loop\<close>

definition one_loop :: "'s loop_owner \<Rightarrow> bool" where
  "one_loop s \<longleftrightarrow>
     (\<forall>i < length (lo_tasks s). lo_tasks s ! i = Running \<longrightarrow> lo_task s = Some i) \<and>
     (case lo_task s of
        None \<Rightarrow> lo_waiting s = []
      | Some i \<Rightarrow> i < length (lo_tasks s) \<and> lo_waiting s \<in> {[], [i]})"

lemma nth_list_update_if: "xs[i := x] ! j = (if j = i \<and> i < length xs then x else xs ! j)"
  by (cases "i < length xs") (auto simp: nth_list_update list_update_beyond)

lemma one_loop_fresh: "one_loop (fresh_owner w)"
  by (simp add: one_loop_def fresh_owner_def)

text \<open>What a class has to do for its owner to run one loop at a time: create a task only when it owns none, and
  give the task up only after it is done.\<close>

locale single_loop =
  fixes cls :: "('a, 's) loop_class"
  assumes start_owned: "lo_task s \<noteq> None \<Longrightarrow> lc_start cls s = s"
    and start_free: "lo_task s = None \<Longrightarrow> lo_task (lc_start cls s) = Some (length (lo_tasks s)) \<and>
      lo_tasks (lc_start cls s) = lo_tasks s @ [Running] \<and> lo_waiting (lc_start cls s) = lo_waiting s"
    and stop_keeps: "lo_task (lc_stop cls s) = lo_task s \<and> length (lo_tasks (lc_stop cls s)) = length (lo_tasks s) \<and>
      set (lo_waiting (lc_stop cls s)) \<subseteq> set (lo_waiting s) \<union> set_option (lo_task s) \<and>
      (\<forall>i < length (lo_tasks s). lo_tasks (lc_stop cls s) ! i = Running \<longrightarrow> lo_tasks s ! i = Running)"
    and resume_gives_up: "lo_task (snd (lc_resume cls st s)) \<in> {lo_task s, None} \<and>
      lo_tasks (snd (lc_resume cls st s)) = lo_tasks s \<and> lo_waiting (snd (lc_resume cls st s)) = lo_waiting s"
begin

lemma one_loop_started:
  assumes "one_loop s"
  shows "one_loop (lc_start cls s)"
proof (cases "lo_task s")
  case None
  have "\<not> (i < length (lo_tasks s) \<and> lo_tasks s ! i = Running)" for i using assms None by (simp add: one_loop_def)
  then show ?thesis
    using assms None start_free [OF None] by (simp add: one_loop_def nth_append less_Suc_eq all_conj_distrib)
qed (use assms start_owned in simp)

lemma one_loop_stopping:
  assumes "one_loop s" "length (lo_waiting (lc_stop cls s)) \<le> 1"
  shows "one_loop (lc_stop cls s)"
proof -
  let ?s = "lc_stop cls s"
  have task: "lo_task ?s = lo_task s" and len: "length (lo_tasks ?s) = length (lo_tasks s)"
    and wait: "set (lo_waiting ?s) \<subseteq> set (lo_waiting s) \<union> set_option (lo_task s)"
    and run: "\<And>i. i < length (lo_tasks s) \<Longrightarrow> lo_tasks ?s ! i = Running \<Longrightarrow> lo_tasks s ! i = Running"
    using stop_keeps [of s] by blast+
  have "\<forall>i < length (lo_tasks ?s). lo_tasks ?s ! i = Running \<longrightarrow> lo_task ?s = Some i"
    using assms(1) run unfolding one_loop_def task len by blast
  moreover have "case lo_task s of None \<Rightarrow> lo_waiting ?s = [] | Some i \<Rightarrow> lo_waiting ?s \<in> {[], [i]}"
  proof (cases "lo_task s")
    case None
    then show ?thesis using assms(1) wait by (simp add: one_loop_def)
  next
    case (Some i)
    then have "set (lo_waiting ?s) \<subseteq> {i}" using assms(1) wait by (auto simp: one_loop_def)
    then show ?thesis using assms(2) Some by (cases "lo_waiting ?s") simp_all
  qed
  ultimately show ?thesis
    using assms(1) unfolding one_loop_def task len by (simp split: option.splits)
qed

lemma one_loop_rounded: "one_loop s \<Longrightarrow> lo_tasks s ! i = Running \<Longrightarrow> one_loop (s\<lparr>lo_tasks := (lo_tasks s)[i := st], lo_world := w\<rparr>)"
  by (simp add: one_loop_def nth_list_update_if split: option.splits)

lemma one_loop_stopped:
  assumes "one_loop s" "i \<in> set (lo_waiting s)" "lo_tasks s ! i \<noteq> Running"
  shows "one_loop (snd (lc_resume cls (lo_tasks s ! i) (s\<lparr>lo_waiting := remove1 i (lo_waiting s)\<rparr>)))"
proof -
  have i: "lo_task s = Some i" "lo_waiting s = [i]" "i < length (lo_tasks s)"
    using assms(1,2) by (cases "lo_task s"; auto simp: one_loop_def)+
  then have "\<not> (j < length (lo_tasks s) \<and> lo_tasks s ! j = Running)" for j
    using assms(1,3) by (auto simp: one_loop_def)
  then show ?thesis
    using i resume_gives_up [of "lo_tasks s ! i" "s\<lparr>lo_waiting := remove1 i (lo_waiting s)\<rparr>"]
    by (auto simp: one_loop_def)
qed

lemma one_loop_reachable: "(serial_step cls)\<^sup>*\<^sup>* s s' \<Longrightarrow> one_loop s \<Longrightarrow> one_loop s'"
proof (induction rule: rtranclp_induct)
  case (step t u)
  then have "loop_step cls t u" "length (lo_waiting u) \<le> 1" "one_loop t" by (auto simp: serial_step_def)
  then show ?case
    by (cases rule: loop_step.cases)
      (auto intro: one_loop_started one_loop_stopping one_loop_rounded one_loop_stopped)
qed

lemma running_is_owned:
  assumes "(serial_step cls)\<^sup>*\<^sup>* (fresh_owner w) s" "i < length (lo_tasks s)" "lo_tasks s ! i = Running"
  shows "lo_task s = Some i"
  using one_loop_reachable [OF assms(1) one_loop_fresh] assms(2,3) by (simp add: one_loop_def)

end

interpretation sched_loop: single_loop scheduler_class
  by unfold_locales (auto simp: class_simps owner_defs split: option.splits task_status.splits)

interpretation socket_loop: single_loop "socket_class rid"
  by unfold_locales (auto simp: class_simps owner_defs nth_list_update_if split: option.splits if_splits)

end
