(* ===== verification/Loop_Properties.thy ===== *)
theory Loop_Properties
  imports Background_Loops Scheduler_Properties
begin

text \<open>
  What starting and stopping the background tasks guarantees: the scheduler runs one loop at a time when calls
  of \<open>stop\<close> do not overlap, and never again once its loop has ended with an exception; the loop for inbound
  mail survives every failing tick but can be doubled; a stopped Socket Mode listener is stopped for good.
\<close>

section \<open>The scheduler\<close>

text \<open>The owner of a loop that ended with an exception.\<close>

definition crashed :: "nat \<Rightarrow> exn \<Rightarrow> 's loop_owner \<Rightarrow> bool" where
  "crashed i e s \<longleftrightarrow> lo_task s = Some i \<and> lo_tasks s ! i = Raised e \<and> Running \<notin> set (lo_tasks s) \<and> set (lo_waiting s) \<subseteq> {i}"

lemma crashed_step:
  assumes "loop_step scheduler_class s s'" "crashed i e s"
  shows "crashed i e s' \<and> lo_world s' = lo_world s"
  using assms
proof (cases rule: loop_step.cases)
  case (stopped j)
  then have "j = i" using assms(2) by (auto simp: crashed_def)
  then show ?thesis
    using stopped assms(2) by (auto simp: crashed_def class_simps owner_defs dest: in_set_remove1 [THEN iffD1] set_mp [OF set_remove1_subset])
next
  case (rounded j)
  then have "Running \<in> set (lo_tasks s)" by (metis nth_mem)
  then show ?thesis using assms(2) by (simp add: crashed_def)
qed (auto simp: crashed_def class_simps owner_defs)

lemma crashed_for_good:
  "(loop_step scheduler_class)\<^sup>*\<^sup>* s s' \<Longrightarrow> crashed i e s \<Longrightarrow> crashed i e s' \<and> lo_world s' = lo_world s"
  by (induction rule: rtranclp_induct) (use crashed_step in force)+

text \<open>C18: However calls of \<open>start\<close> and \<open>stop\<close> and the rounds of the loop interleave, while no two calls of \<open>stop\<close>
  overlap a scheduler runs at most one loop, the one it would stop.  Once a loop has ended with the exception
  of a callback the scheduler is dead: no \<open>start\<close> makes a new loop and no \<open>stop\<close> clears the old one, so no
  job fires any more.\<close>

theorem scheduler_single_loop:
  assumes "(serial_step scheduler_class)\<^sup>*\<^sup>* (fresh_owner w) s"
  shows "(\<forall>i < length (lo_tasks s). lo_tasks s ! i = Running \<longrightarrow> lo_task s = Some i) \<and>
    (\<forall>i e s'. lo_task s = Some i \<and> lo_tasks s ! i = Raised e \<and> (loop_step scheduler_class)\<^sup>*\<^sup>* s s' \<longrightarrow>
       lo_task s' = Some i \<and> Running \<notin> set (lo_tasks s') \<and> lo_world s' = lo_world s)"
proof -
  have one: "one_loop s" by (rule sched_loop.one_loop_reachable [OF assms one_loop_fresh])
  have dead: "lo_task s' = Some i \<and> Running \<notin> set (lo_tasks s') \<and> lo_world s' = lo_world s"
    if "lo_task s = Some i" "lo_tasks s ! i = Raised e" "(loop_step scheduler_class)\<^sup>*\<^sup>* s s'" for i e s'
  proof -
    have "lo_waiting s = [] \<or> lo_waiting s = [i]"
      and idle: "k < length (lo_tasks s) \<Longrightarrow> lo_tasks s ! k = Running \<Longrightarrow> k = i" for k
      using one that(1) by (simp_all add: one_loop_def)
    moreover have "Running \<notin> set (lo_tasks s)"
    proof
      assume "Running \<in> set (lo_tasks s)"
      then obtain k where "k < length (lo_tasks s)" "lo_tasks s ! k = Running" unfolding in_set_conv_nth by (elim exE conjE)
      with idle [of k] that(2) show False by simp
    qed
    ultimately have "crashed i e s" using that(1,2) unfolding crashed_def by (elim disjE) simp_all
    from crashed_for_good [OF that(3) this] show ?thesis by (simp add: crashed_def)
  qed
  from one have "\<forall>i < length (lo_tasks s). lo_tasks s ! i = Running \<longrightarrow> lo_task s = Some i" by (simp add: one_loop_def)
  with dead show ?thesis by blast
qed

definition ex_error :: exn where
  "ex_error = PyError ''ValueError'' ''x''"

lemma ex_crash:
  "\<exists>s. (serial_step scheduler_class)\<^sup>*\<^sup>* (fresh_owner ex_sched) s \<and> lo_task s = Some 0 \<and> lo_tasks s = [Raised ex_error]"
proof -
  obtain w where w: "tick (ex_env (Some ex_error)) ex_sched = (Inl ex_error, w)"
    using failing_callback_stops_scheduler_witness unfolding ex_error_def by blast
  let ?s0 = "fresh_owner ex_sched"
  let ?s1 = "scheduler_start ?s0"
  have s1: "lo_tasks ?s1 = [Running]" "lo_task ?s1 = Some 0" "lo_waiting ?s1 = []" "lo_stop ?s1 = False" "lo_world ?s1 = ex_sched"
    by (simp_all add: owner_defs fresh_owner_def)
  have "loop_step scheduler_class ?s0 ?s1"
    using loop_step.started [of scheduler_class ?s0] by (simp add: class_simps)
  moreover have "loop_step scheduler_class ?s1 (?s1\<lparr>lo_tasks := [Raised ex_error], lo_world := w\<rparr>)"
    using loop_step.rounded [of 0 ?s1 scheduler_class "ex_env (Some ex_error)" "Raised ex_error" w]
    by (simp add: s1 class_simps scheduler_round_def w)
  ultimately have "(serial_step scheduler_class)\<^sup>*\<^sup>* ?s0 (?s1\<lparr>lo_tasks := [Raised ex_error], lo_world := w\<rparr>)"
    using s1(3) by (intro rtranclp.rtrancl_into_rtrancl [OF r_into_rtranclp]) (simp_all add: serial_step_def)
  then show ?thesis
    using s1(2) by (intro exI [of _ "?s1\<lparr>lo_tasks := [Raised ex_error], lo_world := w\<rparr>"] conjI) simp_all
qed

lemma scheduler_single_loop_witness:
  "\<exists>s. (serial_step scheduler_class)\<^sup>*\<^sup>* (fresh_owner ex_sched) s \<and> lo_tasks s = [Raised ex_error] \<and>
     Running \<notin> set (lo_tasks (scheduler_start s))"
proof -
  obtain s where s: "(serial_step scheduler_class)\<^sup>*\<^sup>* (fresh_owner ex_sched) s" "lo_task s = Some 0" "lo_tasks s = [Raised ex_error]"
    using ex_crash by blast
  have "loop_step scheduler_class s (scheduler_start s)"
    using loop_step.started [of scheduler_class s] by (simp add: class_simps)
  then have "(loop_step scheduler_class)\<^sup>*\<^sup>* s (scheduler_start s)" by blast
  with conjunct2 [OF scheduler_single_loop [OF s(1)], rule_format, of 0 ex_error "scheduler_start s"] s
  have "Running \<notin> set (lo_tasks (scheduler_start s))" by simp
  with s show ?thesis by blast
qed

text \<open>Two calls of \<open>stop\<close> that overlap: the second gives up the loop that was started after the first, so a third
  \<open>start\<close> runs another beside it.\<close>

lemma loop_steps:
  "loop_step cls s (lc_start cls s)" "loop_step cls s (lc_stop cls s)"
  "i \<in> set (lo_waiting s) \<Longrightarrow> lo_tasks s ! i \<noteq> Running \<Longrightarrow>
    snd (lc_resume cls (lo_tasks s ! i) (s\<lparr>lo_waiting := remove1 i (lo_waiting s)\<rparr>)) = s' \<Longrightarrow> loop_step cls s s'"
  "i < length (lo_tasks s) \<Longrightarrow> lo_tasks s ! i = Running \<Longrightarrow> lc_round cls a (lo_stop s) (lo_world s) = (st, w) \<Longrightarrow>
    s\<lparr>lo_tasks := (lo_tasks s)[i := st], lo_world := w\<rparr> = s' \<Longrightarrow> loop_step cls s s'"
  by (auto intro: loop_step.intros)

lemma overlapping_stops_double_the_loop:
  "\<exists>s. (loop_step scheduler_class)\<^sup>*\<^sup>* (fresh_owner w) s \<and> lo_tasks s = [Returned, Running, Running] \<and> \<not> lo_stop s"
proof -
  let ?c = scheduler_class
  define s3 where "s3 = scheduler_stop (scheduler_stop (scheduler_start (fresh_owner w)))"
  define s4 where "s4 = s3\<lparr>lo_tasks := [Returned]\<rparr>"
  define s5 where "s5 = s4\<lparr>lo_task := None, lo_waiting := [0]\<rparr>"
  define s7 where "s7 = (scheduler_start s5)\<lparr>lo_task := None, lo_waiting := []\<rparr>"
  have start: "loop_step ?c s (scheduler_start s)" and stop: "loop_step ?c s (scheduler_stop s)" for s
    using loop_steps(1,2) [of ?c s] by (simp_all add: class_simps)
  have "(loop_step ?c)\<^sup>*\<^sup>* (fresh_owner w) s3"
    unfolding s3_def by (meson start stop rtranclp.rtrancl_into_rtrancl rtranclp.rtrancl_refl)
  moreover have "loop_step ?c s3 s4"
    by (rule loop_steps(4) [where i = 0 and st = Returned])
      (auto simp: s3_def s4_def owner_defs fresh_owner_def class_simps scheduler_round_def)
  moreover have "loop_step ?c s4 s5"
    by (rule loop_steps(3) [where i = 0]) (auto simp: s3_def s4_def s5_def owner_defs fresh_owner_def class_simps)
  moreover have "loop_step ?c (scheduler_start s5) s7"
    by (rule loop_steps(3) [where i = 0]) (auto simp: s3_def s4_def s5_def s7_def owner_defs fresh_owner_def class_simps)
  ultimately have "(loop_step ?c)\<^sup>*\<^sup>* (fresh_owner w) (scheduler_start s7)"
    by (meson start rtranclp.rtrancl_into_rtrancl)
  then show ?thesis
    by (intro exI conjI) (assumption, simp_all add: s3_def s4_def s5_def s7_def owner_defs fresh_owner_def)
qed

section \<open>The loop for inbound mail\<close>

text \<open>No tick ends the loop: a task is running until the flag ends it.\<close>

theorem inbound_loop_survives:
  assumes "(loop_step (inbound_class im poll lp))\<^sup>*\<^sup>* (fresh_owner w) s"
  shows "set (lo_tasks s) \<subseteq> {Running, Returned}"
  using assms
proof (induction rule: rtranclp_induct)
  case base
  then show ?case by (simp add: fresh_owner_def)
next
  case (step s t)
  from step(2) show ?case
  proof (cases rule: loop_step.cases)
    case (rounded i a st v)
    then have "st \<in> {Running, Returned}" by (auto simp: class_simps inbound_round_def split: if_splits)
    then show ?thesis using step.IH rounded(1) by (auto dest: set_update_subset_insert [THEN subsetD])
  qed (use step.IH in \<open>auto simp: class_simps owner_defs split: option.splits task_status.splits\<close>)
qed

text \<open>But \<open>stop\<close> forgets the task before it has ended, and \<open>start\<close> clears the flag: started again in between, two
  loops poll the adapters, and the call of \<open>stop\<close> waits for one that nothing ends.\<close>

lemma restart_doubles_inbound_loop:
  "\<exists>s. (loop_step (inbound_class im poll lp))\<^sup>*\<^sup>* (fresh_owner w) s \<and> lo_tasks s = [Running, Running] \<and>
     \<not> lo_stop s \<and> lo_waiting s = [0] \<and> lo_task s = Some 1"
proof -
  let ?c = "inbound_class im poll lp"
  have start: "loop_step ?c s (inbound_start s)" and stop: "loop_step ?c s (inbound_stop s)" for s
    using loop_steps(1,2) [of ?c s] by (simp_all add: class_simps)
  have "(loop_step ?c)\<^sup>*\<^sup>* (fresh_owner w) (inbound_start (inbound_stop (inbound_start (fresh_owner w))))"
    by (meson start stop rtranclp.rtrancl_into_rtrancl rtranclp.rtrancl_refl)
  then show ?thesis by (intro exI conjI) (assumption, simp_all add: owner_defs fresh_owner_def)
qed

section \<open>The Socket Mode listener\<close>

text \<open>\<open>start\<close> does not clear the flag: once \<open>stop\<close> was called, the loop of every later \<open>start\<close> takes one payload
  from the stream, drops it and ends.\<close>

theorem stopped_listener_ingests_nothing:
  assumes "(loop_step (socket_class rid))\<^sup>*\<^sup>* s s'" and "lo_stop s"
  shows "lo_stop s' \<and> lo_world s' = lo_world s"
  using assms
proof (induction rule: rtranclp_induct)
  case (step t u)
  then have t: "lo_stop t" "lo_world t = lo_world s" by simp_all
  from step(2) show ?case
  proof (cases rule: loop_step.cases)
    case (rounded i a st v)
    then show ?thesis using t by (cases a) (simp_all add: class_simps socket_round_def)
  qed (use t in \<open>auto simp: class_simps owner_defs split: option.splits\<close>)
qed simp

lemma stopped_listener_ingests_nothing_witness:
  "lo_world (socket_start (socket_stop (socket_start (fresh_owner (w :: 'w adapter_world_scheme))))) = w"
proof -
  let ?s = "socket_stop (socket_start (fresh_owner w))"
  have "loop_step (socket_class ''r'') ?s (socket_start ?s)"
    using loop_steps(1) [of "socket_class ''r''" ?s] by (simp add: class_simps)
  then have "(loop_step (socket_class ''r''))\<^sup>*\<^sup>* ?s (socket_start ?s)" by blast
  from stopped_listener_ingests_nothing [OF this] show ?thesis by (simp add: owner_defs fresh_owner_def)
qed

end
