(* ===== verification/Spec2Isabelle.thy ===== *)
theory Spec2Isabelle
  imports Gate_Properties L0b_Properties L0a_Prompt Contracts_LLM Dispatch_Properties Install_Properties Http_Properties Scheduler_Properties Audit_Properties Event_Ids Triage_Properties Storage_Properties System_Properties Knob_Properties Secrets_Properties Identity Action_Properties OAuth_Properties Network_Posture Contracts_Deployment Slack_Properties Gmail_Properties Dashboard_Properties LLM_Provider Vocab_Properties Hello_Routine Inbound_Composition Loop_Properties
begin

text \<open>
  A verification development of OTA, the framework under \<open>ota_core\<close>, \<open>ota_connect\<close>, \<open>ota_routines\<close> and
  \<open>ota_dashboard_api\<close> that installs routines, runs them under a policy and connects them to services.

  \<^bold>\<open>How the program works, and where it is modelled.\<close>  An intent reaches the conductor, which picks a branch and
  dispatches a routine to the engine; the engine loads the bundle, resolves its knobs, builds the run's
  rights from the manifest and runs the routine's code under the hard-rule enforcer.  The code calls
  capability verbs; each verb is resolved to an adapter, checked against the run's rights, and handed to
  the adapter, which sends a request.  Every run and every verb call is audited.  What comes back from the
  services is polled and routed to handlers; decisions of the operator pass through gates and the
  dashboard; the scheduler starts what is due.

  \<^item> Shared: \<open>Ota_Prelude\<close> (dicts in insertion order, the result type of a step, texts; the locales of stores),
    \<open>Py_Values\<close> (\<open>str\<close>, \<open>repr\<close>, floats), \<open>Py_Regex\<close> (the contracts' patterns), \<open>Ota_Errors\<close> (the exceptions).
  \<^item> \<open>ota_core/contracts\<close>: \<open>Contracts_Shared\<close>, \<open>Contracts_LLM\<close>, \<open>Contracts_Integration\<close>, \<open>Contracts_Routine\<close>,
    \<open>Contracts_Deployment\<close>, \<open>Audit_Event\<close>.  Each pydantic model is a record with a predicate for its
    constraints.
  \<^item> \<open>ota_core/trace\<close>, \<open>ota_core/policy\<close>: \<open>Trace_Context\<close>; \<open>Gates\<close>, \<open>Gate_Lemmas\<close>, \<open>Gate_Run\<close>, \<open>Gate_Properties\<close>;
    \<open>L0a_Prompt\<close>; \<open>L0b\<close>, \<open>L0b_Lemmas\<close>, \<open>L0b_Properties\<close>.
  \<^item> \<open>ota_core/integration_source\<close>, \<open>ota_connect/binding\<close>: \<open>Integration_Source\<close>, \<open>Binding\<close> (resolver and adapter
    registry), \<open>Dispatch\<close>, \<open>Dispatch_Properties\<close>, \<open>Install_Validation\<close>, \<open>Install_Properties\<close>, \<open>Actions\<close>,
    \<open>Action_Properties\<close>.
  \<^item> \<open>ota_core/routine_source\<close>, \<open>ota_core/systems\<close>, \<open>ota_core/conductor\<close>, \<open>ota_core/branches\<close>: \<open>Routine_Bundles\<close>,
    \<open>Routine_Properties\<close>, \<open>Knobs\<close>, \<open>Knob_Properties\<close>, \<open>Routine_Engine\<close>, \<open>Conductor\<close>, \<open>System_Properties\<close>.
  \<^item> \<open>ota_core/automation\<close>: \<open>Calendar\<close>, \<open>Calendar_Order\<close> (Python's \<open>datetime\<close>), \<open>Cron\<close>, \<open>Scheduler\<close>,
    \<open>Scheduler_Properties\<close>; \<open>Background_Loops\<close> and \<open>Loop_Properties\<close> for the tasks of the scheduler, of the
    inbound polling and of the Socket Mode listener.
  \<^item> \<open>ota_core/audit\<close>, \<open>ota_core/observability\<close>, \<open>ota_core/storage\<close>: \<open>Audit_Sink\<close>, \<open>Audit_Reader\<close>, \<open>Event_Ids\<close>,
    \<open>Audit_Properties\<close>; \<open>Observability\<close>; \<open>Storage\<close>, \<open>Storage_Properties\<close>.
  \<^item> \<open>ota_core/http\<close>, \<open>ota_core/network_posture\<close>, \<open>ota_core/secrets\<close>, \<open>ota_core/oauth\<close>, \<open>ota_core/identity\<close>,
    \<open>ota_core/llm\<close>: \<open>Http_Client\<close>, \<open>Http_Properties\<close>, \<open>Network_Posture\<close>, \<open>Secrets\<close>, \<open>Secrets_Properties\<close>, \<open>OAuth\<close>,
    \<open>OAuth_Properties\<close>, \<open>Identity\<close>, \<open>LLM_Provider\<close>.
  \<^item> \<open>ota_connect/adapters\<close>, \<open>ota_connect/_types\<close>: \<open>Adapter_Shared\<close>, \<open>Slack_Adapter\<close>, \<open>Slack_Properties\<close>,
    \<open>Gmail_Adapter\<close>, \<open>Gmail_Properties\<close>; \<open>Adapter_Interface\<close>, \<open>Adapter_Composition\<close>, \<open>Inbound_Composition\<close> join them
    to the dispatch layer, the engine and the polling.
  \<^item> \<open>ota_routines\<close>: \<open>Hello_Routine\<close>; \<open>Triage_State\<close>, \<open>Triage_Helpers\<close>, \<open>Triage_Run\<close>, \<open>Triage_Properties\<close>.
  \<^item> \<open>ota_dashboard_api\<close>, \<open>scripts\<close>: \<open>Dashboard\<close>, \<open>Dashboard_Properties\<close>; \<open>Vocab_Stubs\<close>, \<open>Vocab_Properties\<close>.

  \<^bold>\<open>State, errors and order.\<close>  A step of the program is a function from a state to a result and a state
  (the type \<open>py\<close> of \<open>Ota_Prelude\<close>): \<open>Inl\<close> is the exception, with the state at the time it was raised.
  \<open>try_bind\<close> composes steps as statements compose.  The world is a tower of records that grows with the
  components: trace variables, the enforcer's run contexts and audit trail (\<open>L0b\<close>), observability records
  (\<open>Observability\<close>), loaded modules (\<open>Routine_Engine\<close>), the dispatch context and the registries (\<open>Dispatch\<close>); a
  further field holds the state of the adapters (\<open>Adapter_Composition\<close>).  What may happen in any order is a
  step relation: \<open>gate_change\<close> for the gates over time, \<open>thread_step\<close> for two decisions of one gate,
  \<open>loop_step\<close> for callers and background tasks.

  \<^bold>\<open>What the lemmas show.\<close>
  \<^item> Policy: a decision of a gate is final, its audit trail exact, an automatic approval rests on a remembered
    one; runs and calls leave balanced pairs in the trail whatever their bodies do; the allow list, the
    scopes and the reserved budgets hold.
  \<^item> Dispatch: resolution is two lookups, rights are checked before an adapter is touched, only the documented
    classes of errors come out, a validated installation finds its adapter.
  \<^item> System: a run's rights are those of the manifest; a dispatch through the conductor keeps the trail
    balanced; and, with the two adapters in place, the requests a run sends are those of its permitted calls.
  \<^item> Time: the next time of an expression is the earliest that matches, a tick fires each due job once, one
    loop runs at a time when no two stops overlap; a bucket returns and bounds the rate.
  \<^item> Data: round trips of the audit log, of markdown documents, of the vault, of exported tables; migrations
    are applied once; knobs agree with a reference definition; the trust table refines a small machine.
  \<^item> Services: a call makes at most one request, headers are one line, inbound events are delivered once.

  The theorems that name a flaw of the code (\<open>failing_callback_stops_scheduler\<close>, \<open>fenced_body_is_lost\<close>,
  \<open>restart_doubles_inbound_loop\<close> and others) state what it does, in the theory of their component.

  \<^bold>\<open>Interfaces.\<close>  \<open>write_store\<close> and its extension \<open>keyed_store\<close> are the contract of whatever is looked up by a key,
  with instances for dicts, the adapter cache, the gate managers, the branches, the routines and the handlers.
  \<open>inbound_queue\<close> is the queue both adapters keep.  \<open>adapter_impl\<close> is what the dispatch layer relies on in an
  adapter, with the instance \<open>connect\<close> of both adapters, and \<open>single_loop\<close> is what keeps an owner at one
  background loop, with instances for the scheduler and the listener.

  \<^bold>\<open>Bounds and termination.\<close>  Recursion is structural or by a measure wherever the code's loop is bounded.  The
  sweep of a cron expression runs over the code's own bound of \<open>4 * 366\<close> days of minutes; retries run over the
  code's own count.  Two loops may run forever and are partial functions whose value \<open>None\<close> is not returning:
  the wait for tokens, proved to return exactly when the request fits the bucket, and the chain of pages,
  proved to return exactly when it ends.  Regular expressions are matched by derivatives and need no bound.
  The two background loops that end only when they are stopped are given by their number of rounds and, in
  \<open>Background_Loops\<close>, by their steps.

  \<^bold>\<open>Parameters.\<close>  What the source calls and does not contain is an argument: the parsers and printers of YAML
  and JSON texts, SHA-256, Fernet, the transport and the answers of the services, clocks, sleeping, random
  draws, the client of the model provider's SDK, the serialization of an email message, the formatter ruff,
  the code of routines and handlers.  Where a theorem needs more than their type (that a parser reads what
  its printer wrote, that a clock does not run backwards) a named predicate states it, and a witness shows
  it holds of a concrete function.  Texts are lists of characters; the classes of characters the code tests
  are taken in the ASCII range.  Floats are rational numbers, without rounding.

  \<^bold>\<open>Not modelled.\<close>  Package files that only import names; protocol classes without code; the one-line shims
  \<open>email/dispatch.py\<close> and \<open>messaging/dispatch.py\<close>, whose calls \<open>call_verb\<close> makes directly; type aliases the
  generator writes; the scripts that export schemas, which are library calls and one write; the pages of the
  dashboard in TypeScript; tests and documents.  Within modelled parts: the threads' locks (each guarded block
  is one step), SQLite's connections and the texts of its statements (a table is a list of rows), the
  timing of websockets and of asyncio's sleeping, cancellation of the program's tasks by others, the
  registration of routes with FastAPI, and what a file system does beyond the faults the storage and the
  secrets provider handle.
\<close>

end
